(* ===== verification/Prelude.thy ===== *)
theory Prelude
  imports Complex_Main "HOL-Library.AList" "HOL-Library.Log_Nat"
begin

text \<open>
  Vocabulary and generic lemmas shared by the components.

  A \<open>std::unordered_map<std::string, V>\<close> is an association list whose order is the map's
  iteration order (which the language leaves open): \<open>map_of\<close> is \<open>find\<close>, \<open>AList.update\<close> is
  \<open>m[k] = v\<close>, \<open>AList.delete\<close> is \<open>erase(k)\<close>.  A C++ exception that leaves a function is the left
  summand of a sum type.  Bounded histories (\<open>push_back\<close> followed by dropping the oldest
  elements) occur in four components: the locale \<open>capped_log\<close> states that contract once.
\<close>

named_theorems map_simps \<open>lookup and size equations of the string-keyed maps\<close>

type_synonym 'v smap = "(string \<times> 'v) list"

text \<open>Exceptions that the modelled code throws or lets through.\<close>

datatype exn = JsonTypeError | JsonOutOfRange | InvalidArgument | StdOutOfRange | RuntimeError string

subsection \<open>String-keyed maps\<close>

definition wf_map :: "('k \<times> 'v) list \<Rightarrow> bool" where
  "wf_map m \<longleftrightarrow> distinct (map fst m)"

lemma wf_map_Nil [simp]: "wf_map []"
  by (simp add: wf_map_def)

lemma wf_map_update [simp]: "wf_map m \<Longrightarrow> wf_map (AList.update k v m)"
  by (simp add: wf_map_def distinct_update)

lemma wf_map_delete [simp]: "wf_map m \<Longrightarrow> wf_map (AList.delete k m)"
  by (simp add: wf_map_def distinct_delete)

lemma wf_map_filter: "wf_map m \<Longrightarrow> wf_map (filter P m)"
  by (simp add: wf_map_def distinct_map_filter)

lemma map_of_update [map_simps]: "map_of (AList.update k v m) k' = (if k' = k then Some v else map_of m k')"
  by (simp add: update_conv')

lemma map_of_delete [map_simps]: "map_of (AList.delete k m) k' = (if k' = k then None else map_of m k')"
  by (simp add: delete_conv')

lemma length_update [map_simps]:
  "length (AList.update k v m) = (if map_of m k = None then length m + 1 else length m)"
  by (induction m) auto

lemma delete_absent: "map_of m k = None \<Longrightarrow> AList.delete k m = m"
  by (induction m) (auto split: if_splits)

lemma length_delete:
  "wf_map m \<Longrightarrow> length (AList.delete k m) = (if map_of m k = None then length m else length m - 1)"
proof (induction m)
  case (Cons p m)
  then have wf: "wf_map m" and p: "map_of m (fst p) = None"
    by (auto simp: wf_map_def map_of_eq_None_iff)
  show ?case
  proof (cases "fst p = k")
    case True
    with p have "AList.delete k m = m" by (simp add: delete_absent)
    with True show ?thesis by simp
  next
    case False
    have "map_of m k \<noteq> None \<Longrightarrow> 0 < length m" by auto
    with False Cons.IH [OF wf] show ?thesis by auto
  qed
qed simp

lemma wf_map_lookup: "wf_map m \<Longrightarrow> (k, v) \<in> set m \<longleftrightarrow> map_of m k = Some v"
  by (auto simp: wf_map_def dest: map_of_SomeD intro: map_of_is_SomeI)

lemma set_deleteD: "x \<in> set (AList.delete k m) \<Longrightarrow> x \<in> set m \<and> fst x \<noteq> k"
  by (auto simp: AList.delete_eq)

lemma set_delete: "set (AList.delete k m) = {x \<in> set m. fst x \<noteq> k}"
  by (auto simp: AList.delete_eq)

lemma set_update: "wf_map m \<Longrightarrow> set (AList.update k v m) = insert (k, v) {x \<in> set m. fst x \<noteq> k}"
proof (induction m)
  case (Cons p m)
  then have wf: "wf_map m" and p: "fst p \<notin> fst ` set m" by (auto simp: wf_map_def)
  obtain a b where ab: "p = (a, b)" by force
  show ?case
  proof (cases "a = k")
    case True
    have "{x \<in> set (p # m). fst x \<noteq> k} = set m" using p True ab by force
    with True ab show ?thesis by simp
  next
    case False
    with Cons.IH [OF wf] ab show ?thesis by auto
  qed
qed simp

lemma find_Some_mem: "find P xs = Some x \<Longrightarrow> x \<in> set xs \<and> P x"
  by (auto simp: find_Some_iff)

lemma find_None_all: "find P xs = None \<longleftrightarrow> (\<forall>x \<in> set xs. \<not> P x)"
  by (auto simp: find_None_iff)

subsection \<open>Bounded histories\<close>

text \<open>\<open>v.erase(v.begin(), v.begin() + (v.size() - n))\<close> when \<open>v.size() > n\<close>.\<close>

definition last_n :: "nat \<Rightarrow> 'a list \<Rightarrow> 'a list" where
  "last_n n xs = drop (length xs - n) xs"

lemma length_last_n [simp]: "length (last_n n xs) = min n (length xs)"
  by (simp add: last_n_def min_def)

lemma last_n_id: "length xs \<le> n \<Longrightarrow> last_n n xs = xs"
  by (simp add: last_n_def)

lemma last_n_last_n: "last_n n (last_n n xs @ ys) = last_n n (xs @ ys)"
proof (cases "length xs \<le> n")
  case False
  then have "length (drop (length xs - n) xs) = n" by simp
  with False show ?thesis by (simp add: last_n_def drop_drop add.commute)
qed (simp add: last_n_def)

lemma last_n_pop: "length ys = Suc n \<Longrightarrow> last_n n ys = tl ys"
  by (simp add: last_n_def drop_Suc)

lemma last_n_twice: "m \<le> n \<Longrightarrow> last_n m (last_n n xs) = last_n m xs"
  by (cases "length xs \<le> n") (simp_all add: last_n_def min_def)

lemma last_n_0 [simp]: "last_n 0 xs = []"
  by (simp add: last_n_def)

lemma set_last_n: "set (last_n n xs) \<subseteq> set xs"
  by (simp add: last_n_def set_drop_subset)

text \<open>
  The contract of a bounded history: an addition \<open>x\<close> appends its entry and only the newest \<open>bound\<close>
  entries stay.  Any sequence of additions then leaves exactly the newest entries.
\<close>

locale capped_log =
  fixes hist :: "'s \<Rightarrow> 'a list" and entry :: "'x \<Rightarrow> 'a" and add :: "'x \<Rightarrow> 's \<Rightarrow> 's" and bound :: nat
  assumes hist_add: "length (hist s) \<le> bound \<Longrightarrow> hist (add x s) = last_n bound (hist s @ [entry x])"
begin

lemma hist_bounded: "length (hist s) \<le> bound \<Longrightarrow> length (hist (fold add xs s)) \<le> bound"
  by (induction xs arbitrary: s) (simp_all add: hist_add)

lemma hist_fold: "length (hist s) \<le> bound \<Longrightarrow> hist (fold add xs s) = last_n bound (hist s @ map entry xs)"
proof (induction xs arbitrary: s)
  case (Cons x xs)
  then have "hist (fold add (x # xs) s) = last_n bound (last_n bound (hist s @ [entry x]) @ map entry xs)"
    using Cons.IH [of "add x s"] by (simp add: hist_add)
  then show ?case by (simp add: last_n_last_n)
qed (simp add: last_n_id)

lemma hist_newest: "hist s = [] \<Longrightarrow> hist (fold add xs s) = last_n bound (map entry xs)"
  by (simp add: hist_fold)

end

subsection \<open>Strings\<close>

text \<open>Decimal text of integers (\<open>std::to_string\<close>).\<close>

definition digit_char :: "int \<Rightarrow> char" where
  "digit_char d = char_of (48 + d mod 10)"

function show_uint :: "int \<Rightarrow> string" where
  "show_uint n = (if n < 10 then [digit_char n] else show_uint (n div 10) @ [digit_char n])"
  by auto
termination by (relation "measure nat") auto

declare show_uint.simps [simp del]

definition show_int :: "int \<Rightarrow> string" where
  "show_int i = (if i < 0 then CHR ''-'' # show_uint (- i) else show_uint i)"

text \<open>\<open>std::toupper\<close> and \<open>std::tolower\<close> in the C locale.\<close>

definition to_upper_char :: "char \<Rightarrow> char" where
  "to_upper_char c = (let n = of_char c :: int in if 97 \<le> n \<and> n \<le> 122 then char_of (n - 32) else c)"

definition to_lower_char :: "char \<Rightarrow> char" where
  "to_lower_char c = (let n = of_char c :: int in if 65 \<le> n \<and> n \<le> 90 then char_of (n + 32) else c)"

text \<open>\<open>s.substr(s.size() - n) == suf\<close> under the guard \<open>s.size() > n\<close> with \<open>n\<close> the suffix's length.\<close>

definition has_suffix :: "string \<Rightarrow> string \<Rightarrow> bool" where
  "has_suffix suf s \<longleftrightarrow> length s > length suf \<and> drop (length s - length suf) s = suf"

fun is_prefix_of :: "string \<Rightarrow> string \<Rightarrow> bool" where
  "is_prefix_of [] s = True"
| "is_prefix_of (c # cs) [] = False"
| "is_prefix_of (c # cs) (d # ds) = (c = d \<and> is_prefix_of cs ds)"

text \<open>\<open>s.find(pat) != npos\<close>.\<close>

fun contains_str :: "string \<Rightarrow> string \<Rightarrow> bool" where
  "contains_str pat [] = (pat = [])"
| "contains_str pat (c # cs) = (is_prefix_of pat (c # cs) \<or> contains_str pat cs)"

text \<open>\<open>s.find(c, from)\<close>: the first position at or after \<open>from\<close>, \<open>None\<close> for \<open>npos\<close>.\<close>

fun find_char :: "char \<Rightarrow> string \<Rightarrow> nat \<Rightarrow> nat option" where
  "find_char c [] i = None"
| "find_char c (d # ds) i = (if c = d then Some i else find_char c ds (Suc i))"

definition find_from :: "char \<Rightarrow> string \<Rightarrow> nat \<Rightarrow> nat option" where
  "find_from c s i = find_char c (drop i s) i"

lemma find_char_bounds: "find_char c s i = Some j \<Longrightarrow> i \<le> j \<and> j < i + length s"
proof (induction s arbitrary: i)
  case (Cons d ds)
  then show ?case by (fastforce split: if_splits)
qed simp

lemma find_from_bounds: "find_from c s i = Some j \<Longrightarrow> i \<le> j \<and> j < length s"
  using find_char_bounds [of c "drop i s" i j] by (auto simp: find_from_def)

subsection \<open>Grouping\<close>

text \<open>\<open>for (auto& x : xs) m[f(x)].push_back(x)\<close>.\<close>

definition push_group :: "('a \<Rightarrow> 'k) \<Rightarrow> 'a \<Rightarrow> ('k \<times> 'a list) list \<Rightarrow> ('k \<times> 'a list) list" where
  "push_group f x m = AList.update (f x) ((case map_of m (f x) of Some ys \<Rightarrow> ys | None \<Rightarrow> []) @ [x]) m"

definition group_by :: "('a \<Rightarrow> 'k) \<Rightarrow> 'a list \<Rightarrow> ('k \<times> 'a list) list" where
  "group_by f xs = fold (push_group f) xs []"

lemma group_by_snoc: "group_by f (xs @ [x]) = push_group f x (group_by f xs)"
  by (simp add: group_by_def)

lemma wf_group_by [simp]: "wf_map (group_by f xs)"
  by (induction xs rule: rev_induct) (simp_all add: group_by_snoc push_group_def, simp add: group_by_def)

lemma group_by_lookup:
  "map_of (group_by f xs) k = (let ys = filter (\<lambda>x. f x = k) xs in if ys = [] then None else Some ys)"
proof (induction xs rule: rev_induct)
  case (snoc x xs)
  then show ?case by (auto simp: group_by_snoc push_group_def map_of_update Let_def)
qed (simp add: group_by_def)

lemma sum_list_update:
  fixes g :: "'v \<Rightarrow> 'n :: ab_group_add"
  shows "wf_map m \<Longrightarrow> sum_list (map (\<lambda>kv. g (snd kv)) (AList.update k v m)) =
    sum_list (map (\<lambda>kv. g (snd kv)) m) + (case map_of m k of Some w \<Rightarrow> g v - g w | None \<Rightarrow> g v)"
proof (induction m)
  case (Cons p m)
  then have "wf_map m" "map_of m (fst p) = None" by (auto simp: wf_map_def map_of_eq_None_iff)
  with Cons show ?case by (cases p) (auto split: option.splits)
qed simp

lemma sum_list_delete:
  fixes g :: "'v \<Rightarrow> 'n :: ab_group_add"
  shows "wf_map m \<Longrightarrow> map_of m k = Some v \<Longrightarrow>
    sum_list (map (\<lambda>kv. g (snd kv)) (AList.delete k m)) = sum_list (map (\<lambda>kv. g (snd kv)) m) - g v"
proof (induction m)
  case (Cons p m)
  then have wf: "wf_map m" and p: "map_of m (fst p) = None" by (auto simp: wf_map_def map_of_eq_None_iff)
  show ?case
  proof (cases "fst p = k")
    case True
    with Cons.prems p show ?thesis by (cases p) (simp add: delete_absent)
  next
    case False
    with Cons wf show ?thesis by (cases p) (simp add: AList.delete_eq)
  qed
qed simp

text \<open>A quantity that adds up over a list adds up over its groups.\<close>

lemma sum_group_by:
  fixes g :: "'a list \<Rightarrow> 'n :: ab_group_add"
  assumes "g [] = 0" and "\<And>xs x. g (xs @ [x]) = g xs + g [x]"
  shows "sum_list (map (\<lambda>kv. g (snd kv)) (group_by f xs)) = g xs"
proof (induction xs rule: rev_induct)
  case (snoc x xs)
  then show ?case
    by (auto simp: group_by_snoc push_group_def sum_list_update assms split: option.splits)
qed (simp add: group_by_def assms)

end
