(* ===== verification/Doubles.thy ===== *)
theory Doubles
  imports Prelude
begin

text \<open>
  The C++ type \<open>double\<close>: IEEE 754 binary64 with round-to-nearest, ties to even.  A finite value
  is a rational number; every operation computes the exact rational result and rounds it once
  (\<open>rnd\<close>), which is what the standard prescribes when no fused operation is contracted.
  Overflow gives an infinity, invalid operations give \<open>NaN\<close>, and every comparison with \<open>NaN\<close> is
  false, so \<open>v <= 0.0\<close> and \<open>!(v > 0.0)\<close> differ here as they do in the code.  The sign of zero is
  not kept: the code never prints a negative zero that the model's users read, and divides by a zero
  it has not excluded only where the backtester divides by a price (a zero price counts as positive
  zero there).

  The lemmas give what the components need: rounding is monotone and leaves representable numbers
  (in particular integers up to \<open>2 ^ 53\<close>) alone, sums and products of nonnegative values stay
  nonnegative, the comparison order is transitive and total away from \<open>NaN\<close>, and the clamps stay
  inside their bounds.
\<close>

datatype double = Fin rat | PInf | MInf | NaN

subsection \<open>Rounding\<close>

text \<open>Nearest integer, ties to even.\<close>

definition rhe :: "rat \<Rightarrow> int" where
  "rhe x =
     (let f = \<lfloor>x\<rfloor>; d = x - of_int f in
      if d < 1 / 2 then f else if 1 / 2 < d then f + 1 else if even f then f else f + 1)"

definition scale2 :: "rat \<Rightarrow> int \<Rightarrow> rat" where
  "scale2 x k = (if 0 \<le> k then x * 2 ^ nat k else x / 2 ^ nat (- k))"

definition expo :: "rat \<Rightarrow> int" where
  "expo x =
     (case quotient_of x of (a, b) \<Rightarrow>
        let e = bitlen a - bitlen b in if scale2 1 e \<le> x then e else e - 1)"

definition rpos :: "rat \<Rightarrow> rat" where
  "rpos x = (let q = max (expo x - 52) (- 1074) in scale2 (of_int (rhe (scale2 x (- q)))) q)"

definition rnd :: "rat \<Rightarrow> double" where
  "rnd x =
     (if x = 0 then Fin 0
      else if 0 < x then (let r = rpos x in if r < 2 ^ 1024 then Fin r else PInf)
      else (let r = rpos (- x) in if r < 2 ^ 1024 then Fin (- r) else MInf))"

lemma scale2_powi: "scale2 x k = x * 2 powi k"
  by (cases "0 \<le> k") (simp_all only: scale2_def power_int_def if_True if_False divide_inverse power_inverse)

lemma rhe_floor: "\<lfloor>x\<rfloor> \<le> rhe x" "rhe x \<le> \<lfloor>x\<rfloor> + 1"
  by (auto simp: rhe_def Let_def)

lemma rhe_of_int [simp]: "rhe (of_int n) = n"
  by (simp add: rhe_def)

lemma rhe_mono: assumes "x \<le> y" shows "rhe x \<le> rhe y"
proof (cases "\<lfloor>x\<rfloor> = \<lfloor>y\<rfloor>")
  case True
  with assms show ?thesis by (simp add: rhe_def Let_def)
next
  case False
  with floor_mono [OF assms] have "\<lfloor>x\<rfloor> + 1 \<le> \<lfloor>y\<rfloor>" by linarith
  then show ?thesis using rhe_floor(2) [of x] rhe_floor(1) [of y] by linarith
qed

lemma expo_bounds:
  assumes "0 < x"
  shows "2 powi expo x \<le> x" "x < 2 powi (expo x + 1)"
proof -
  obtain a b where ab: "quotient_of x = (a, b)" by force
  have b: "0 < b" using quotient_of_denom_pos [OF ab] .
  have x: "x = of_int a / of_int b" using quotient_of_div [OF ab] .
  with assms b have a: "0 < a" by (simp add: zero_less_divide_iff)
  define e where "e = bitlen a - bitlen b"
  have pa: "bitlen a > 0" "bitlen b > 0"
    using a b floorlog_eq_zero_iff [of 2 "nat a"] floorlog_eq_zero_iff [of 2 "nat b"]
    by (simp_all add: bitlen_def del: floorlog_eq_zero_iff)
  have pw: "(2::rat) powi k = of_int (2 ^ nat k)" if "0 \<le> k" for k :: int
    using that by (simp add: power_int_def)
  have "of_int (2 ^ nat (bitlen a - 1)) \<le> (of_int a :: rat)" "of_int a < (of_int (2 ^ nat (bitlen a)) :: rat)"
    using bitlen_bounds [OF a] by (simp_all only: of_int_le_iff of_int_less_iff)
  then have A: "2 powi (bitlen a - 1) \<le> (of_int a :: rat)" "(of_int a :: rat) < 2 powi bitlen a"
    using pa by (simp_all only: pw)
  have "of_int (2 ^ nat (bitlen b - 1)) \<le> (of_int b :: rat)" "of_int b < (of_int (2 ^ nat (bitlen b)) :: rat)"
    using bitlen_bounds [OF b] by (simp_all only: of_int_le_iff of_int_less_iff)
  then have B: "2 powi (bitlen b - 1) \<le> (of_int b :: rat)" "(of_int b :: rat) < 2 powi bitlen b"
    using pa by (simp_all only: pw)
  have "2 powi (e - 1) * of_int b \<le> 2 powi (e - 1) * (2 powi bitlen b :: rat)"
    using B by (intro mult_left_mono) auto
  also have "\<dots> = 2 powi (bitlen a - 1)" by (simp add: e_def flip: power_int_add)
  finally have lo: "2 powi (e - 1) \<le> x" using A b by (simp add: x field_simps)
  have "(2 powi bitlen a :: rat) = 2 powi (e + 1) * 2 powi (bitlen b - 1)"
    by (simp add: e_def flip: power_int_add)
  also have "\<dots> \<le> 2 powi (e + 1) * of_int b" using B by (intro mult_left_mono) auto
  finally have hi: "x < 2 powi (e + 1)" using A b by (simp add: x field_simps)
  have "expo x = (if 2 powi e \<le> x then e else e - 1)"
    by (simp add: expo_def ab e_def Let_def scale2_powi)
  then show "2 powi expo x \<le> x" "x < 2 powi (expo x + 1)" using lo hi by (auto split: if_splits)
qed

lemma powi_le: "i \<le> j \<Longrightarrow> (2::rat) powi i \<le> 2 powi j"
  by (rule power_int_increasing) auto

lemma powi_le_iff: "(2::rat) powi i \<le> 2 powi j \<longleftrightarrow> i \<le> j"
proof
  assume le: "(2::rat) powi i \<le> 2 powi j"
  show "i \<le> j"
  proof (rule ccontr)
    assume "\<not> i \<le> j"
    then have "(2::rat) powi j < 2 powi i" by (intro power_int_strict_increasing) auto
    with le show False by linarith
  qed
qed (rule powi_le)

lemma powi_less_iff: "(2::rat) powi i < 2 powi j \<longleftrightarrow> i < j"
  using powi_le_iff [of j i] by linarith

lemma expo_mono: assumes "0 < x" "x \<le> y" shows "expo x \<le> expo y"
proof (rule ccontr)
  assume "\<not> expo x \<le> expo y"
  then have "(2::rat) powi (expo y + 1) \<le> 2 powi expo x" by (intro powi_le) linarith
  with expo_bounds [of x] expo_bounds [of y] assms show False by linarith
qed

definition uexp :: "rat \<Rightarrow> int" where "uexp x = max (expo x - 52) (- 1074)"

lemma rpos_uexp: "rpos x = of_int (rhe (x * 2 powi (- uexp x))) * 2 powi uexp x"
  by (simp add: rpos_def uexp_def Let_def scale2_powi)

lemma rpos_mono: assumes "0 < x" "x \<le> y" shows "rpos x \<le> rpos y"
proof (cases "uexp x = uexp y")
  case True
  have "rhe (x * 2 powi (- uexp x)) \<le> rhe (y * 2 powi (- uexp x))"
    using assms by (intro rhe_mono mult_right_mono) auto
  then show ?thesis by (simp add: rpos_uexp True)
next
  case False
  have y: "0 < y" using assms by linarith
  have le: "uexp x < uexp y" using expo_mono [OF assms] False by (auto simp: uexp_def)
  let ?q = "uexp x" and ?p = "uexp y"
  have "x < 2 powi (expo x + 1)" using expo_bounds assms by blast
  also have "\<dots> \<le> 2 powi (?q + 53)" by (rule powi_le) (simp add: uexp_def)
  finally have "x * 2 powi (- ?q) \<le> 2 powi (?q + 53) * 2 powi (- ?q)" by (intro mult_right_mono) auto
  also have "\<dots> = of_int (2 ^ 53)" by (simp flip: power_int_add)
  finally have "rhe (x * 2 powi (- ?q)) \<le> 2 ^ 53" using rhe_mono rhe_of_int by metis
  then have "rpos x \<le> of_int (2 ^ 53) * 2 powi ?q"
    unfolding rpos_uexp by (intro mult_right_mono) (simp_all only: of_int_le_iff, simp)
  also have "\<dots> = 2 powi (?q + 53)" by (simp add: power_int_add)
  also have "\<dots> \<le> 2 powi (?p + 52)" using le by (intro powi_le) linarith
  also have "\<dots> = of_int (2 ^ 52) * 2 powi ?p" by (simp add: power_int_add)
  also have "\<dots> \<le> rpos y"
  proof -
    have p: "?p = expo y - 52" using le by (simp add: uexp_def max_def split: if_splits)
    have "of_int (2 ^ 52) = (2::rat) powi expo y * 2 powi (- ?p)" by (simp add: p flip: power_int_add)
    also have "\<dots> \<le> y * 2 powi (- ?p)" using expo_bounds [OF y] by (intro mult_right_mono) auto
    finally have "2 ^ 52 \<le> rhe (y * 2 powi (- ?p))" using rhe_mono rhe_of_int by metis
    then show ?thesis unfolding rpos_uexp by (intro mult_right_mono) (simp_all only: of_int_le_iff, simp)
  qed
  finally show ?thesis .
qed

lemma rpos_nonneg: "0 < x \<Longrightarrow> 0 \<le> rpos x"
proof -
  assume "0 < x"
  then have "rhe (of_int 0) \<le> rhe (x * 2 powi (- uexp x))" by (intro rhe_mono) auto
  then show ?thesis unfolding rpos_uexp by (simp only: rhe_of_int) simp
qed

lemma rpos_exact:
  assumes m: "0 < m" "m \<le> 2 ^ 53" and q: "- 1074 \<le> q"
  shows "rpos (of_int m * 2 powi q) = of_int m * 2 powi q"
proof -
  let ?x = "of_int m * 2 powi q :: rat"
  have pos: "0 < ?x" using m by simp
  have int: "rpos ?x = ?x" if "?x * 2 powi (- uexp ?x) = of_int n" for n
  proof -
    have "rpos ?x = of_int n * 2 powi uexp ?x" by (simp only: rpos_uexp that rhe_of_int)
    also have "\<dots> = ?x * (2 powi (- uexp ?x) * 2 powi uexp ?x)" by (simp only: that [symmetric] mult.assoc)
    also have "\<dots> = ?x" by (simp flip: power_int_add)
    finally show ?thesis .
  qed
  show ?thesis
  proof (cases "m = 2 ^ 53")
    case True
    then have x: "?x = 2 powi (q + 53)" by (simp add: power_int_add)
    have "expo ?x = q + 53"
    proof (rule order.antisym)
      show "expo ?x \<le> q + 53"
        using expo_bounds(1) [OF pos] unfolding x powi_le_iff .
      show "q + 53 \<le> expo ?x"
        using expo_bounds(2) [OF pos] unfolding x powi_less_iff by linarith
    qed
    with q have "uexp ?x = q + 1" by (simp add: uexp_def)
    then have "?x * 2 powi (- uexp ?x) = of_int (2 ^ 52)" by (simp only: x) (simp flip: power_int_add)
    then show ?thesis by (rule int)
  next
    case False
    with m have "m < 2 ^ 53" by simp
    then have "of_int m < (of_int (2 ^ 53) :: rat)" by (simp only: of_int_less_iff)
    then have "?x < of_int (2 ^ 53) * 2 powi q" by (intro mult_strict_right_mono) auto
    also have "\<dots> = 2 powi (q + 53)" by (simp add: power_int_add)
    finally have "2 powi expo ?x < (2::rat) powi (q + 53)" using expo_bounds(1) [OF pos] by linarith
    then have "expo ?x < q + 53" unfolding powi_less_iff .
    with q have u: "uexp ?x \<le> q" by (simp add: uexp_def)
    define u where "u = uexp ?x"
    have "?x * 2 powi (- u) = of_int m * (2 powi q * 2 powi (- u))" by (simp only: mult.assoc)
    also have "2 powi q * 2 powi (- u) = (2::rat) powi (q - u)" by (simp flip: power_int_add)
    also have "\<dots> = of_int (2 ^ nat (q - u))" using u by (simp add: power_int_def u_def)
    finally have "?x * 2 powi (- uexp ?x) = of_int (m * 2 ^ nat (q - u))" by (simp add: u_def)
    then show ?thesis by (rule int)
  qed
qed


text \<open>Code equations that avoid large rational powers.\<close>

lemma scale2_code [code]:
  "scale2 x k = (if 0 \<le> k then x * of_int (2 ^ nat k) else x / of_int (2 ^ nat (- k)))"
  by (simp add: scale2_def)

lemma expo_less: "0 < x \<Longrightarrow> expo x < k \<longleftrightarrow> x < 2 powi k"
  using expo_bounds [of x] powi_le [of "expo x + 1" k] powi_le [of k "expo x"] by linarith

lemma rpos_in_range: "0 < x \<Longrightarrow> expo (rpos x) < 1024 \<longleftrightarrow> rpos x < 2 ^ 1024"
proof (cases "rpos x = 0")
  case True
  have "expo 0 < 1024" by code_simp
  with True show ?thesis by simp
next
  case False
  assume "0 < x"
  with False rpos_nonneg [of x] show ?thesis by (simp add: expo_less)
qed

lemma rnd_code [code]:
  "rnd x =
     (if x = 0 then Fin 0
      else if 0 < x then (let r = rpos x in if expo r < 1024 then Fin r else PInf)
      else (let r = rpos (- x) in if expo r < 1024 then Fin (- r) else MInf))"
  by (simp add: rnd_def Let_def rpos_in_range)

text \<open>Representable numbers: rounding leaves them alone.\<close>

definition rep :: "rat \<Rightarrow> bool" where
  "rep x \<longleftrightarrow> rnd x = Fin x"

lemma rep_0 [simp]: "rep 0"
  by (simp add: rep_def rnd_def)

lemma rep_scaled:
  assumes "\<bar>m\<bar> \<le> 2 ^ 53" "- 1074 \<le> q" "q \<le> 970"
  shows "rep (of_int m * 2 powi q)"
proof -
  have pos: "rep (of_int k * 2 powi q) \<and> rep (- (of_int k * 2 powi q))" if k: "0 < k" "k \<le> 2 ^ 53" for k :: int
  proof -
    have r: "rpos (of_int k * 2 powi q) = of_int k * 2 powi q" using k assms by (intro rpos_exact)
    have "of_int k * (2::rat) powi q \<le> of_int (2 ^ 53) * 2 powi q"
      using k by (intro mult_right_mono) (simp_all only: of_int_le_iff, simp)
    also have "\<dots> = 2 powi (q + 53)" by (simp add: power_int_add)
    also have "\<dots> < 2 powi 1024" unfolding powi_less_iff using assms by simp
    finally have "of_int k * (2::rat) powi q < 2 ^ 1024" by simp
    moreover have "0 < of_int k * (2::rat) powi q" using k by simp
    ultimately show ?thesis using r by (simp add: rep_def rnd_def Let_def del: mult_pos_pos)
  qed
  consider "m = 0" | "0 < m" | "m < 0" by linarith
  then show ?thesis
  proof cases
    case 3
    with pos [of "- m"] assms show ?thesis by simp
  qed (use pos [of m] assms in simp_all)
qed

lemma rep_int: "\<bar>n\<bar> \<le> 2 ^ 53 \<Longrightarrow> rep (of_int n)"
  using rep_scaled [of n 0] by simp


subsection \<open>Comparison and arithmetic\<close>

text \<open>The comparison operators: every comparison with \<open>NaN\<close> is false.\<close>

fun dle :: "double \<Rightarrow> double \<Rightarrow> bool" where
  "dle (Fin x) (Fin y) = (x \<le> y)"
| "dle NaN y = False"
| "dle x NaN = False"
| "dle MInf y = True"
| "dle x PInf = True"
| "dle PInf y = False"
| "dle x MInf = False"

fun dadd :: "double \<Rightarrow> double \<Rightarrow> double" where
  "dadd (Fin x) (Fin y) = rnd (x + y)"
| "dadd NaN y = NaN"
| "dadd x NaN = NaN"
| "dadd PInf MInf = NaN"
| "dadd MInf PInf = NaN"
| "dadd PInf y = PInf"
| "dadd MInf y = MInf"
| "dadd x PInf = PInf"
| "dadd x MInf = MInf"

fun dneg :: "double \<Rightarrow> double" where
  "dneg (Fin x) = Fin (- x)"
| "dneg PInf = MInf"
| "dneg MInf = PInf"
| "dneg NaN = NaN"

text \<open>The infinity of a product or quotient whose exact value has the sign of \<open>s\<close>.\<close>

definition inf_sign :: "rat \<Rightarrow> double" where
  "inf_sign s = (if 0 < s then PInf else if s < 0 then MInf else NaN)"

fun sgn_of :: "double \<Rightarrow> rat" where
  "sgn_of (Fin x) = (if 0 < x then 1 else if x < 0 then - 1 else 0)"
| "sgn_of PInf = 1"
| "sgn_of MInf = - 1"
| "sgn_of NaN = 0"

fun dmul :: "double \<Rightarrow> double \<Rightarrow> double" where
  "dmul (Fin x) (Fin y) = rnd (x * y)"
| "dmul x y = inf_sign (sgn_of x * sgn_of y)"

fun ddiv :: "double \<Rightarrow> double \<Rightarrow> double" where
  "ddiv (Fin x) (Fin y) = (if y = 0 then inf_sign x else rnd (x / y))"
| "ddiv NaN y = NaN"
| "ddiv x NaN = NaN"
| "ddiv (Fin x) y = Fin 0"
| "ddiv x (Fin y) = (if y < 0 then dneg x else x)"
| "ddiv x y = NaN"

instantiation double :: "{zero, one, plus, minus, uminus, times, inverse, ord, abs}"
begin

definition zero_double_def: "0 = Fin 0"
definition one_double_def: "1 = Fin 1"
definition plus_double_def: "x + y = dadd x y"
definition uminus_double_def: "- x = dneg x"
definition minus_double_def: "x - y = dadd x (dneg y)"
definition times_double_def: "x * y = dmul x y"
definition divide_double_def: "x div y = ddiv x y"
definition inverse_double_def: "inverse x = ddiv (Fin 1) x"
definition less_eq_double_def: "x \<le> y \<longleftrightarrow> dle x y"
definition less_double_def: "x < y \<longleftrightarrow> dle x y \<and> \<not> dle y x"
definition abs_double_def: "\<bar>x\<bar> = (if dle x (Fin 0) then dneg x else x)"

instance ..

end

lemmas double_defs = zero_double_def one_double_def plus_double_def uminus_double_def minus_double_def
  times_double_def divide_double_def inverse_double_def less_eq_double_def less_double_def abs_double_def

text \<open>\<open>x == y\<close>, false on \<open>NaN\<close>.\<close>

definition deq :: "double \<Rightarrow> double \<Rightarrow> bool" where
  "deq x y \<longleftrightarrow> x \<noteq> NaN \<and> x = y"

text \<open>A decimal literal of the source, an \<open>int\<close> converted to \<open>double\<close>, \<open>std::isfinite\<close>.\<close>

definition lit :: "rat \<Rightarrow> double" where
  "lit q = rnd q"

definition dint :: "int \<Rightarrow> double" where
  "dint n = rnd (of_int n)"

fun isfinite :: "double \<Rightarrow> bool" where
  "isfinite (Fin x) = True"
| "isfinite x = False"

text \<open>\<open>std::min\<close>, \<open>std::max\<close> and \<open>std::clamp\<close>, with the comparisons of the standard library.\<close>

definition stdmin :: "double \<Rightarrow> double \<Rightarrow> double" where
  "stdmin a b = (if b < a then b else a)"

definition stdmax :: "double \<Rightarrow> double \<Rightarrow> double" where
  "stdmax a b = (if a < b then b else a)"

definition stdclamp :: "double \<Rightarrow> double \<Rightarrow> double \<Rightarrow> double" where
  "stdclamp v lo hi = (if v < lo then lo else if hi < v then hi else v)"

subsection \<open>Order lemmas\<close>

lemma le_Fin [simp]: "Fin x \<le> Fin y \<longleftrightarrow> x \<le> y" "Fin x < Fin y \<longleftrightarrow> x < y"
  by (auto simp: double_defs)

lemma le_NaN [simp]: "\<not> NaN \<le> y" "\<not> y \<le> NaN" "\<not> NaN < y" "\<not> y < NaN"
  by (cases y; simp add: double_defs)+

lemma d_refl: "x \<noteq> NaN \<Longrightarrow> x \<le> (x :: double)"
  by (cases x) (simp_all add: double_defs)

lemma d_trans: "x \<le> y \<Longrightarrow> y \<le> z \<Longrightarrow> x \<le> (z :: double)"
  by (cases x; cases y; cases z) (simp_all add: double_defs)

lemma d_less_le_trans: "x < y \<Longrightarrow> y \<le> z \<Longrightarrow> x < (z :: double)"
  by (cases x; cases y; cases z) (simp_all add: double_defs)

lemma d_le_less_trans: "x \<le> y \<Longrightarrow> y < z \<Longrightarrow> x < (z :: double)"
  by (cases x; cases y; cases z) (simp_all add: double_defs)

lemma d_less_trans: "x < y \<Longrightarrow> y < z \<Longrightarrow> x < (z :: double)"
  by (cases x; cases y; cases z) (simp_all add: double_defs)

lemma d_less_imp_le: "x < y \<Longrightarrow> x \<le> (y :: double)"
  by (simp add: double_defs)

lemma d_irrefl [simp]: "\<not> x < (x :: double)"
  by (simp add: double_defs)

lemma d_not_less: "x \<noteq> NaN \<Longrightarrow> y \<noteq> NaN \<Longrightarrow> \<not> x < y \<longleftrightarrow> y \<le> (x :: double)"
  by (cases x; cases y) (auto simp: double_defs)

lemma d_not_le: "x \<noteq> NaN \<Longrightarrow> y \<noteq> NaN \<Longrightarrow> \<not> x \<le> y \<longleftrightarrow> y < (x :: double)"
  by (cases x; cases y) (auto simp: double_defs)

lemma d_antisym: "x \<le> y \<Longrightarrow> y \<le> x \<Longrightarrow> x = (y :: double)"
  by (cases x; cases y) (auto simp: double_defs)

lemma d_le_cases: "x \<noteq> NaN \<Longrightarrow> y \<noteq> NaN \<Longrightarrow> x \<le> y \<or> y \<le> (x :: double)"
  by (cases x; cases y) (auto simp: double_defs)

lemma d_not_NaN: "x \<le> y \<Longrightarrow> x \<noteq> NaN \<and> y \<noteq> NaN" "x < y \<Longrightarrow> x \<noteq> NaN \<and> y \<noteq> (NaN :: double)"
  by auto

lemma isfinite_alt: "isfinite x \<longleftrightarrow> (\<exists>r. x = Fin r)"
  by (cases x) auto

lemma isfinite_not_NaN: "isfinite x \<Longrightarrow> x \<noteq> NaN"
  by auto

lemma isfinite_between: "isfinite a \<Longrightarrow> a \<le> x \<Longrightarrow> x \<le> b \<Longrightarrow> isfinite b \<Longrightarrow> isfinite x"
  by (cases a; cases x; cases b) (simp_all add: double_defs)

lemma isfinite_zero [simp]: "isfinite 0" "isfinite 1"
  by (simp_all add: double_defs)

lemma zero_not_NaN [simp]: "(0 :: double) \<noteq> NaN" "(1 :: double) \<noteq> NaN"
  by (simp_all add: double_defs)

lemma d_zero_le_one [simp]: "(0 :: double) \<le> 1" "(0 :: double) < 1" "(0 :: double) \<le> 0" "(1 :: double) \<le> 1"
  by (simp_all add: double_defs)


subsection \<open>Rounding is monotone and idempotent\<close>

lemma rnd_mono:
  assumes "x \<le> y" shows "rnd x \<le> rnd y"
proof -
  have pp: "rnd x \<le> rnd y" if "0 < x" "x \<le> y" for x y
    using rpos_mono [OF that] that by (auto simp: rnd_def Let_def less_eq_double_def)
  have neg: "rnd x = dneg (rnd (- x))" for x
    by (auto simp: rnd_def Let_def)
  have flip: "dneg a \<le> dneg b \<longleftrightarrow> b \<le> a" for a b
    by (cases a; cases b) (simp_all add: less_eq_double_def)
  have nz: "Fin 0 \<le> rnd z" if "0 \<le> z" for z
    using rpos_nonneg [of z] that by (auto simp: rnd_def Let_def less_eq_double_def)
  consider "0 < x" | "x \<le> 0" "0 \<le> y" | "x \<le> 0" "y < 0" by linarith
  then show ?thesis
  proof cases
    case 1
    then show ?thesis using pp assms by blast
  next
    case 2
    then have "dneg (rnd (- x)) \<le> dneg (Fin 0)" using nz [of "- x"] unfolding flip by simp
    then have "rnd x \<le> Fin 0" using neg [of x] by simp
    with nz [of y] 2 show ?thesis by (auto intro: d_trans)
  next
    case 3
    then have "rnd (- y) \<le> rnd (- x)" using pp assms by simp
    then show ?thesis using neg flip by metis
  qed
qed

lemma rnd_not_NaN [simp]: "rnd x \<noteq> NaN"
  by (auto simp: rnd_def Let_def)

lemma rnd_neg: "rnd (- x) = - rnd x"
  by (auto simp: rnd_def Let_def uminus_double_def)

lemma rep_rpos:
  assumes "0 < x" "rpos x < 2 ^ 1024" shows "rep (rpos x)"
proof -
  have "x * 2 powi (- uexp x) \<le> of_int (2 ^ 53)"
  proof -
    have "x < 2 powi (expo x + 1)" using expo_bounds assms by blast
    also have "\<dots> \<le> 2 powi (uexp x + 53)" by (rule powi_le) (simp add: uexp_def)
    finally have "x * 2 powi (- uexp x) \<le> 2 powi (uexp x + 53) * 2 powi (- uexp x)" by (intro mult_right_mono) auto
    then show ?thesis by (simp flip: power_int_add)
  qed
  then have up: "rhe (x * 2 powi (- uexp x)) \<le> 2 ^ 53" using rhe_mono rhe_of_int by metis
  have "rhe (of_int 0) \<le> rhe (x * 2 powi (- uexp x))" using assms by (intro rhe_mono) auto
  then have lo: "0 \<le> rhe (x * 2 powi (- uexp x))" by (simp only: rhe_of_int)
  show ?thesis
  proof (cases "rhe (x * 2 powi (- uexp x)) = 0")
    case False
    then have "rpos (rpos x) = rpos x"
      unfolding rpos_uexp [of x] using up lo by (intro rpos_exact) (auto simp: uexp_def)
    moreover have "0 < rpos x" unfolding rpos_uexp using False lo by simp
    ultimately show ?thesis using assms by (simp add: rep_def rnd_def)
  qed (simp add: rpos_uexp)
qed

lemma rep_rnd: "rnd x = Fin r \<Longrightarrow> rep r"
  using rep_rpos [of x] rep_rpos [of "- x"] rnd_neg [of "rpos (- x)"]
  by (auto simp: rnd_def [of x] Let_def rep_def uminus_double_def rnd_def [of 0] split: if_splits)

text \<open>The values a \<open>double\<close> variable can hold.\<close>

fun is_dbl :: "double \<Rightarrow> bool" where
  "is_dbl (Fin x) = rep x"
| "is_dbl x = True"

lemma is_dbl_rnd [simp]: "is_dbl (rnd x)"
  by (cases "rnd x") (auto dest: rep_rnd)

lemma is_dbl_neg [simp]: "is_dbl x \<Longrightarrow> is_dbl (- x)"
  by (cases x) (auto simp: uminus_double_def rep_def rnd_neg)

lemma is_dbl_inf_sign [simp]: "is_dbl (inf_sign x)"
  by (simp add: inf_sign_def)

lemma is_dbl_zero [simp]: "is_dbl 0" "is_dbl 1"
  using rep_int [of 1] by (simp_all add: double_defs)

lemma is_dbl_add [simp]: "is_dbl (x + y)"
  by (cases x; cases y) (simp_all add: double_defs)

lemma is_dbl_sub [simp]: "is_dbl (x - y)"
  by (cases x; cases y) (simp_all add: double_defs)

lemma is_dbl_mul [simp]: "is_dbl (x * y)"
  by (cases x; cases y) (simp_all add: double_defs)

lemma is_dbl_div [simp]: "is_dbl x \<Longrightarrow> is_dbl (x / y)"
  by (cases x; cases y) (simp_all add: double_defs)

lemma is_dbl_lit [simp]: "is_dbl (lit q)" "is_dbl (dint n)"
  by (simp_all add: lit_def dint_def)

lemma is_dbl_sel [simp]:
  "is_dbl a \<Longrightarrow> is_dbl b \<Longrightarrow> is_dbl (stdmin a b)" "is_dbl a \<Longrightarrow> is_dbl b \<Longrightarrow> is_dbl (stdmax a b)"
  "is_dbl v \<Longrightarrow> is_dbl lo \<Longrightarrow> is_dbl hi \<Longrightarrow> is_dbl (stdclamp v lo hi)"
  by (simp_all add: stdmin_def stdmax_def stdclamp_def)

subsection \<open>Arithmetic of nonnegative values\<close>

lemma lit_mono: "p \<le> q \<Longrightarrow> lit p \<le> lit q"
  by (simp add: lit_def rnd_mono)

lemma lit_not_NaN [simp]: "lit q \<noteq> NaN" "dint n \<noteq> NaN"
  by (simp_all add: lit_def dint_def)

lemma rnd_zero [simp]: "rnd 0 = 0"
  by (simp add: rnd_def double_defs)

lemma rnd_nonneg: "0 \<le> x \<Longrightarrow> 0 \<le> rnd x"
  using rnd_mono [of 0 x] by simp

lemma rnd_nonpos: "x \<le> 0 \<Longrightarrow> rnd x \<le> 0"
  using rnd_mono [of x 0] by simp

lemma dint_Fin: "\<bar>n\<bar> \<le> 2 ^ 53 \<Longrightarrow> dint n = Fin (of_int n)"
  using rep_int by (simp add: dint_def rep_def)

lemma dint_0 [simp]: "dint 0 = 0"
  by (simp add: dint_def)

lemma dint_mono: "m \<le> n \<Longrightarrow> dint m \<le> dint n"
  by (simp add: dint_def rnd_mono)

lemma dint_nonneg [simp]: "0 \<le> n \<Longrightarrow> 0 \<le> dint n"
  using dint_mono [of 0 n] by simp

lemma lit_nonneg [simp]: "0 \<le> q \<Longrightarrow> 0 \<le> lit q"
  using lit_mono [of 0 q] by (simp add: lit_def)

lemma one_le_dint: "1 \<le> n \<Longrightarrow> 1 \<le> dint n"
  using dint_mono [of 1 n] dint_Fin [of 1] by (simp add: double_defs)

lemma dadd_nonneg: "0 \<le> x \<Longrightarrow> 0 \<le> y \<Longrightarrow> 0 \<le> x + (y :: double)"
  by (cases x; cases y) (simp_all add: plus_double_def zero_double_def rnd_nonneg [unfolded zero_double_def]
    less_eq_double_def del: le_Fin, simp_all add: rnd_nonneg [unfolded double_defs])

lemma dmul_nonneg: "0 \<le> x \<Longrightarrow> 0 \<le> y \<Longrightarrow> isfinite x \<Longrightarrow> isfinite y \<Longrightarrow> 0 \<le> x * (y :: double)"
  by (cases x; cases y) (simp_all add: double_defs rnd_nonneg [unfolded double_defs])

lemma ddiv_nonneg: "0 \<le> x \<Longrightarrow> 0 < y \<Longrightarrow> isfinite x \<Longrightarrow> 0 \<le> x / (y :: double)"
  by (cases x; cases y) (auto simp: double_defs intro: rnd_nonneg [unfolded double_defs])

lemma rnd_le_self: "is_dbl (Fin r) \<Longrightarrow> x \<le> r \<Longrightarrow> rnd x \<le> Fin r"
  using rnd_mono [of x r] by (simp add: rep_def)

lemma self_le_rnd: "is_dbl (Fin r) \<Longrightarrow> r \<le> x \<Longrightarrow> Fin r \<le> rnd x"
  using rnd_mono [of r x] by (simp add: rep_def)

lemma dadd_mono: "a \<le> b \<Longrightarrow> isfinite c \<Longrightarrow> a + c \<le> b + (c :: double)"
  by (cases a; cases b; cases c)
    (auto simp: plus_double_def intro: rnd_mono, auto simp: double_defs, (simp add: rnd_def Let_def)+)

lemma dmul_le:
  "0 \<le> x \<Longrightarrow> 0 \<le> c \<Longrightarrow> c \<le> 1 \<Longrightarrow> isfinite x \<Longrightarrow> is_dbl x \<Longrightarrow> x * c \<le> x"
  by (cases x; cases c) (auto simp: double_defs mult_left_le intro!: rnd_le_self [unfolded double_defs])

lemma dadd_ge: "0 \<le> y \<Longrightarrow> is_dbl x \<Longrightarrow> x \<noteq> NaN \<Longrightarrow> x \<noteq> MInf \<Longrightarrow> x \<le> x + (y :: double)"
  by (cases x; cases y) (auto simp: double_defs intro!: self_le_rnd [unfolded double_defs])

lemma stdmin_le: "a \<noteq> NaN \<Longrightarrow> b \<noteq> NaN \<Longrightarrow> stdmin a b \<le> a \<and> stdmin a b \<le> b"
  by (auto simp: stdmin_def d_refl d_less_imp_le d_not_less)

lemma stdmax_ge: "a \<noteq> NaN \<Longrightarrow> b \<noteq> NaN \<Longrightarrow> a \<le> stdmax a b \<and> b \<le> stdmax a b"
  by (auto simp: stdmax_def d_refl d_less_imp_le d_not_less)

lemma stdmax_ge1: "a \<noteq> NaN \<Longrightarrow> a \<le> stdmax a b"
  by (auto simp: stdmax_def d_refl d_less_imp_le)

lemma stdclamp_bounds: "v \<noteq> NaN \<Longrightarrow> lo \<le> hi \<Longrightarrow> lo \<le> stdclamp v lo hi \<and> stdclamp v lo hi \<le> hi"
  by (cases "v < lo"; cases "hi < v") (auto simp: stdclamp_def d_refl d_not_less dest: d_not_NaN)

lemma stdclamp_NaN: "stdclamp NaN lo hi = NaN"
  by (simp add: stdclamp_def)


subsection \<open>Functions of \<open>cmath\<close>\<close>

text \<open>\<open>std::round\<close> (halves away from zero), \<open>std::floor\<close>, \<open>static_cast<int>\<close> (truncation).\<close>

definition round_away :: "rat \<Rightarrow> int" where
  "round_away x = (if 0 \<le> x then \<lfloor>x + 1 / 2\<rfloor> else - \<lfloor>1 / 2 - x\<rfloor>)"

fun dround :: "double \<Rightarrow> double" where
  "dround (Fin x) = Fin (of_int (round_away x))"
| "dround x = x"

fun dfloor :: "double \<Rightarrow> double" where
  "dfloor (Fin x) = Fin (of_int \<lfloor>x\<rfloor>)"
| "dfloor x = x"

fun dtrunc :: "double \<Rightarrow> int" where
  "dtrunc (Fin x) = (if 0 \<le> x then \<lfloor>x\<rfloor> else - \<lfloor>- x\<rfloor>)"
| "dtrunc x = 0"

text \<open>
  \<open>std::round(x * 10^k) / 10^k\<close>, the rounding to \<open>k\<close> decimals that every report of the code uses.
\<close>

definition round_to :: "nat \<Rightarrow> double \<Rightarrow> double" where
  "round_to k x = dround (x * dint (10 ^ k)) / dint (10 ^ k)"

text \<open>
  \<open>std::sqrt\<close>, correctly rounded.  \<open>isqrt n\<close> is the integer square root, found bit by bit from
  \<open>2 ^ k\<close> down; \<open>dsqrt\<close> scales the argument so that the root has at least 60 bits and appends a
  sticky bit when the root is not exact, so the final rounding sees on which side of every
  rounding boundary the exact root lies.
\<close>

fun isqrt_bits :: "nat \<Rightarrow> int \<Rightarrow> int \<Rightarrow> int" where
  "isqrt_bits 0 n r = r"
| "isqrt_bits (Suc k) n r = (let r' = r + 2 ^ k in isqrt_bits k n (if r' * r' \<le> n then r' else r))"

definition isqrt :: "int \<Rightarrow> int" where
  "isqrt n = isqrt_bits (nat (bitlen n) div 2 + 1) n 0"

fun dsqrt :: "double \<Rightarrow> double" where
  "dsqrt (Fin x) =
     (if x < 0 then NaN else if x = 0 then Fin 0
      else let k = (120 - expo x) div 2 + 1; y = scale2 x (2 * k); n = \<lfloor>y\<rfloor>; s = isqrt n
           in if of_int (s * s) = y then rnd (scale2 (of_int s) (- k))
              else rnd (scale2 (of_int (2 * s + 1)) (- k - 1)))"
| "dsqrt PInf = PInf"
| "dsqrt x = NaN"

lemma isqrt_bits_bounds:
  "r * r \<le> n \<Longrightarrow> n < (r + 2 ^ k) * (r + 2 ^ k) \<Longrightarrow> 0 \<le> r \<Longrightarrow>
   (let s = isqrt_bits k n r in 0 \<le> s \<and> s * s \<le> n \<and> n < (s + 1) * (s + 1))"
proof (induction k arbitrary: r)
  case (Suc k)
  have "r + 2 ^ k + 2 ^ k = r + 2 ^ Suc k" by simp
  with Suc.prems Suc.IH [of "r + 2 ^ k"] Suc.IH [of r] show ?case
    by (auto simp: Let_def)
qed (simp add: Let_def)

lemma isqrt_correct:
  assumes "0 < n" shows "0 \<le> isqrt n \<and> isqrt n * isqrt n \<le> n \<and> n < (isqrt n + 1) * (isqrt n + 1)"
proof -
  let ?k = "nat (bitlen n) div 2 + 1"
  have "n < 2 ^ nat (bitlen n)" using bitlen_bounds [OF assms] by simp
  also have "\<dots> \<le> (2::int) ^ (?k + ?k)" by (rule power_increasing) auto
  finally have "n < 2 ^ ?k * 2 ^ ?k" by (simp add: power_add)
  then show ?thesis using isqrt_bits_bounds [of 0 n ?k] assms by (simp add: isqrt_def Let_def)
qed

lemma dround_nonneg: "0 \<le> x \<Longrightarrow> 0 \<le> dround x"
  by (cases x) (auto simp: double_defs round_away_def)

lemma round_away_mono: assumes "x \<le> y" shows "round_away x \<le> round_away y"
proof (cases "x < 0 \<and> 0 \<le> y")
  case True
  then have "0 \<le> \<lfloor>1 / 2 - x\<rfloor>" "0 \<le> \<lfloor>y + 1 / 2\<rfloor>" by (simp_all add: le_floor_iff)
  then have "- \<lfloor>1 / 2 - x\<rfloor> \<le> \<lfloor>y + 1 / 2\<rfloor>" by linarith
  with True show ?thesis by (simp add: round_away_def)
qed (use assms in \<open>auto simp: round_away_def floor_mono\<close>)

lemma dround_mono: "x \<le> y \<Longrightarrow> dround x \<le> dround y"
  by (cases x; cases y) (auto simp: double_defs round_away_mono)

lemma dfloor_le: "x \<noteq> NaN \<Longrightarrow> dfloor x \<le> x"
  by (cases x) (auto simp: double_defs)

lemma inf_sign_simps [simp]: "0 < x \<Longrightarrow> inf_sign x = PInf" "x < 0 \<Longrightarrow> inf_sign x = MInf"
  by (simp_all add: inf_sign_def)

lemma le_extremes: "MInf \<le> x \<longleftrightarrow> x \<noteq> NaN" "x \<le> PInf \<longleftrightarrow> x \<noteq> NaN"
  by (cases x; simp add: less_eq_double_def)+

lemma dmul_mono: "a \<le> b \<Longrightarrow> 0 < c \<Longrightarrow> isfinite c \<Longrightarrow> c * a \<le> c * (b :: double)"
  by (cases a; cases b; cases c)
    (auto simp: zero_double_def times_double_def le_extremes intro: rnd_mono, simp_all add: less_eq_double_def)

lemma ddiv_mono: "a \<le> b \<Longrightarrow> 0 < c \<Longrightarrow> isfinite c \<Longrightarrow> a / c \<le> b / (c :: double)"
  by (cases a; cases b; cases c)
    (auto simp: zero_double_def divide_double_def le_extremes divide_right_mono intro: rnd_mono,
     simp_all add: less_eq_double_def)

subsection \<open>Sorting in descending order\<close>

text \<open>
  \<open>std::sort\<close> with a comparator \<open>a.key > b.key\<close>.  The order of equal keys is unspecified in C++;
  here they keep their order.
\<close>

fun insert_desc :: "('a \<Rightarrow> double) \<Rightarrow> 'a \<Rightarrow> 'a list \<Rightarrow> 'a list" where
  "insert_desc key x [] = [x]"
| "insert_desc key x (y # ys) = (if key y < key x then x # y # ys else y # insert_desc key x ys)"

definition sort_desc :: "('a \<Rightarrow> double) \<Rightarrow> 'a list \<Rightarrow> 'a list" where
  "sort_desc key xs = fold (insert_desc key) xs []"

lemma set_insert_desc [simp]: "set (insert_desc key x ys) = insert x (set ys)"
  by (induction ys) auto

lemma sorted_insert_desc:
  "sorted_wrt (\<lambda>a b. key b \<le> key a) ys \<Longrightarrow> \<forall>y \<in> insert x (set ys). key y \<noteq> NaN \<Longrightarrow>
   sorted_wrt (\<lambda>a b. key b \<le> key a) (insert_desc key x ys)"
proof (induction ys)
  case (Cons y ys)
  then show ?case by (auto simp: d_not_less d_less_imp_le intro: d_trans)
qed simp

lemma sort_desc_snoc: "sort_desc key (xs @ [x]) = insert_desc key x (sort_desc key xs)"
  by (simp add: sort_desc_def)

lemma set_sort_desc [simp]: "set (sort_desc key xs) = set xs"
  by (induction xs rule: rev_induct) (simp_all add: sort_desc_snoc, simp add: sort_desc_def)

lemma sorted_sort_desc:
  "\<forall>x \<in> set xs. key x \<noteq> NaN \<Longrightarrow> sorted_wrt (\<lambda>a b. key b \<le> key a) (sort_desc key xs)"
  by (induction xs rule: rev_induct) (simp_all add: sort_desc_snoc sorted_insert_desc, simp add: sort_desc_def)

subsection \<open>Rounding to decimals\<close>

lemma dmul_commute: "x * y = y * (x :: double)"
  by (cases x; cases y) (simp_all add: times_double_def mult.commute)

lemma dint_pow10: assumes "k \<le> 15" shows "dint (10 ^ k) = Fin (10 ^ k)"
proof -
  have "(10::int) ^ k \<le> 10 ^ 15" using assms by (intro power_increasing) auto
  also have "\<dots> \<le> 2 ^ 53" by simp
  finally show ?thesis using dint_Fin [of "10 ^ k"] by simp
qed

lemma round_to_mono: "k \<le> 15 \<Longrightarrow> x \<le> y \<Longrightarrow> round_to k x \<le> round_to k y"
proof -
  assume "k \<le> 15" "x \<le> y"
  moreover from this have "0 < dint (10 ^ k)" "isfinite (dint (10 ^ k))"
    by (simp_all add: dint_pow10 zero_double_def)
  ultimately show ?thesis
    unfolding round_to_def by (simp add: ddiv_mono dmul_mono dround_mono dmul_commute [of _ "dint (10 ^ k)"])
qed

lemma round_to_NaN [simp]: "k \<le> 15 \<Longrightarrow> round_to k NaN = NaN"
  by (simp add: round_to_def dint_pow10 times_double_def divide_double_def inf_sign_def)

text \<open>Rounding to decimals keeps a value inside bounds that are themselves such decimals.\<close>

lemma round_to_bounds:
  assumes "k \<le> 15" "round_to k lo = lo" "round_to k hi = hi" "\<not> v < lo" "\<not> hi < v" "lo \<noteq> NaN" "hi \<noteq> NaN"
  shows "\<not> round_to k v < lo \<and> \<not> hi < round_to k v"
proof (cases "v = NaN")
  case False
  then have "lo \<le> v" "v \<le> hi" using assms by (simp_all add: d_not_less)
  then have "lo \<le> round_to k v" "round_to k v \<le> hi" using round_to_mono [OF assms(1)] assms(2,3) by metis+
  then show ?thesis using d_irrefl d_le_less_trans d_less_le_trans by blast
qed (use assms in simp)

lemma stdclamp_not_beyond: assumes "lo \<le> hi" shows "\<not> stdclamp v lo hi < lo \<and> \<not> hi < stdclamp v lo hi"
proof (cases "v = NaN")
  case False
  then have "lo \<le> stdclamp v lo hi" "stdclamp v lo hi \<le> hi" using stdclamp_bounds [OF False assms] by auto
  then show ?thesis using d_irrefl d_le_less_trans d_less_le_trans by blast
qed (simp add: stdclamp_NaN)

end
