(* ===== verification/Text_Conv.thy ===== *)
theory Text_Conv
  imports Doubles
begin

text \<open>
  Conversions between numbers and text: \<open>snprintf("%.nf")\<close> and \<open>std::to_string\<close> as the reason
  strings and order bodies use them, and \<open>std::stoi\<close> and \<open>std::stod\<close> with their two exceptions,
  which the signal and exchange parsers rely on.
\<close>

subsection \<open>Printing\<close>

text \<open>\<open>n\<close> digits, most significant first.\<close>

fun digits :: "nat \<Rightarrow> int \<Rightarrow> string" where
  "digits 0 n = []"
| "digits (Suc k) n = digits k (n div 10) @ [digit_char n]"

text \<open>\<open>%.kf\<close> of a nonnegative rational: the exact decimal value rounded to \<open>k\<close> places, ties to even.\<close>

definition fixed_pos :: "nat \<Rightarrow> rat \<Rightarrow> string" where
  "fixed_pos k x =
     (let m = rhe (x * 10 ^ k) in
      show_uint (m div 10 ^ k) @ (if k = 0 then [] else CHR ''.'' # digits k (m mod 10 ^ k)))"

fun fmt_fixed :: "nat \<Rightarrow> double \<Rightarrow> string" where
  "fmt_fixed k (Fin x) = (if x < 0 then CHR ''-'' # fixed_pos k (- x) else fixed_pos k x)"
| "fmt_fixed k PInf = ''inf''"
| "fmt_fixed k MInf = ''-inf''"
| "fmt_fixed k NaN = ''nan''"

text \<open>The local \<open>fmt0\<close>, \<open>fmt1\<close>, \<open>fmt2\<close>: \<open>snprintf\<close> into a 32-byte buffer keeps 31 characters.\<close>

definition fmt_buf :: "nat \<Rightarrow> double \<Rightarrow> string" where
  "fmt_buf k x = take 31 (fmt_fixed k x)"

text \<open>\<open>std::to_string(double)\<close> is \<open>%f\<close>.\<close>

definition show_double :: "double \<Rightarrow> string" where
  "show_double x = fmt_fixed 6 x"

lemma length_digits [simp]: "length (digits k n) = k"
  by (induction k arbitrary: n) auto

subsection \<open>Parsing integers\<close>

definition is_space :: "char \<Rightarrow> bool" where
  "is_space c = (let n = of_char c :: int in n = 32 \<or> (9 \<le> n \<and> n \<le> 13))"

definition digit_val :: "char \<Rightarrow> int option" where
  "digit_val c = (let n = of_char c :: int in if 48 \<le> n \<and> n \<le> 57 then Some (n - 48) else None)"

definition is_digit :: "char \<Rightarrow> bool" where
  "is_digit c = (digit_val c \<noteq> None)"

definition dec_val :: "string \<Rightarrow> int" where
  "dec_val s = fold (\<lambda>c acc. acc * 10 + (case digit_val c of Some d \<Rightarrow> d | None \<Rightarrow> 0)) s 0"

definition skip_space :: "string \<Rightarrow> string" where
  "skip_space s = dropWhile is_space s"

text \<open>An optional sign: whether it is a minus, and the rest.\<close>

definition take_sign :: "string \<Rightarrow> bool \<times> string" where
  "take_sign s =
     (case s of c # cs \<Rightarrow> if c = CHR ''-'' then (True, cs) else if c = CHR ''+'' then (False, cs) else (False, s)
      | [] \<Rightarrow> (False, []))"

text \<open>\<open>std::stoi\<close>: the longest decimal prefix; no digits or a value outside \<open>int\<close> throws.\<close>

definition stoi :: "string \<Rightarrow> exn + int" where
  "stoi s =
     (let (neg, body) = take_sign (skip_space s); ds = takeWhile is_digit body in
      if ds = [] then Inl InvalidArgument
      else let v = (if neg then - dec_val ds else dec_val ds) in
        if - (2 ^ 31) \<le> v \<and> v < 2 ^ 31 then Inr v else Inl StdOutOfRange)"

subsection \<open>Parsing doubles\<close>

definition lower :: "string \<Rightarrow> string" where
  "lower s = map to_lower_char s"

text \<open>The decimal exponent suffix \<open>e[+-]digits\<close>, zero when it is absent or malformed.\<close>

definition take_exp :: "string \<Rightarrow> int" where
  "take_exp s =
     (case s of c # cs \<Rightarrow>
        if to_lower_char c = CHR ''e'' then
          (let (neg, body) = take_sign cs; ds = takeWhile is_digit body in
           if neg then - dec_val ds else dec_val ds)
        else 0
      | [] \<Rightarrow> 0)"

text \<open>Decimal mantissa and exponent: the exact value of the longest numeric prefix, if there is one.\<close>

definition take_decimal :: "string \<Rightarrow> rat option" where
  "take_decimal s =
     (let ip = takeWhile is_digit s; r1 = dropWhile is_digit s;
          (fp, r2) = (case r1 of c # cs \<Rightarrow> if c = CHR ''.'' then (takeWhile is_digit cs, dropWhile is_digit cs) else ([], r1)
                      | [] \<Rightarrow> ([], []))
      in if ip = [] \<and> fp = [] then None
         else let m = of_int (dec_val (ip @ fp)) :: rat; e = take_exp r2 - int (length fp)
              in Some (if 0 \<le> e then m * 10 ^ nat e else m / 10 ^ nat (- e)))"

text \<open>
  \<open>std::stod\<close>: \<open>strtod\<close> on the text, \<open>invalid_argument\<close> when nothing is converted and
  \<open>out_of_range\<close> on overflow or on an inexact subnormal result.  The words \<open>inf\<close>, \<open>infinity\<close> and
  \<open>nan\<close> convert too.  Hexadecimal floats are not modelled: no producer of the payloads emits them.
\<close>

definition stod :: "string \<Rightarrow> exn + double" where
  "stod s =
     (let (neg, body) = take_sign (skip_space s) in
      if is_prefix_of ''inf'' (lower body) then Inr (if neg then MInf else PInf)
      else if is_prefix_of ''nan'' (lower body) then Inr NaN
      else case take_decimal body of
        None \<Rightarrow> Inl InvalidArgument
      | Some v \<Rightarrow>
          (case rnd v of
             Fin r \<Rightarrow> if r \<noteq> v \<and> r < scale2 1 (- 1022) then Inl StdOutOfRange
                      else Inr (if neg then Fin (- r) else Fin r)
           | _ \<Rightarrow> Inl StdOutOfRange))"

lemma stoi_range: "stoi s = Inr v \<Longrightarrow> - (2 ^ 31) \<le> v \<and> v < 2 ^ 31"
  by (auto simp: stoi_def Let_def split: prod.splits if_splits)

lemma stod_is_dbl: "stod s = Inr v \<Longrightarrow> is_dbl v"
  by (auto simp: stod_def Let_def rep_rnd rnd_neg rep_def uminus_double_def
      split: prod.splits if_splits option.splits double.splits dest: rep_rnd [unfolded rep_def])

end
