(* ===== verification/Json_Api.thy ===== *)
theory Json_Api
  imports Text_Conv
begin

text \<open>
  The interface to \<open>nlohmann::json\<close>, a third-party library: a record of the accessors the code
  calls, which every definition that reads JSON takes as an argument.  \<open>j.value(key, default)\<close> and
  \<open>j.get<T>()\<close> can throw, so they give a sum; \<open>j.contains(key)\<close>, the type tests and iteration
  cannot.  Nothing about the accessors is assumed here; the properties that need a documented
  fact of the library name it as a hypothesis.

  \<open>ebind\<close> sequences computations that may throw.  \<open>ecatch\<close> is \<open>try { m } catch (...) { h }\<close>.
\<close>

record 'j json_api =
  js_parse :: "string \<Rightarrow> exn + 'j"
  js_is_object :: "'j \<Rightarrow> bool"
  js_is_array :: "'j \<Rightarrow> bool"
  js_is_string :: "'j \<Rightarrow> bool"
  js_is_number :: "'j \<Rightarrow> bool"
  js_is_number_integer :: "'j \<Rightarrow> bool"
  js_is_null :: "'j \<Rightarrow> bool"
  js_contains :: "'j \<Rightarrow> string \<Rightarrow> bool"
  js_field :: "'j \<Rightarrow> string \<Rightarrow> exn + 'j"
  js_items :: "'j \<Rightarrow> (string \<times> 'j) list"
  js_elems :: "'j \<Rightarrow> 'j list"
  js_size :: "'j \<Rightarrow> nat"
  js_get_string :: "'j \<Rightarrow> exn + string"
  js_get_double :: "'j \<Rightarrow> exn + double"
  js_get_int :: "'j \<Rightarrow> exn + int"
  js_get_bool :: "'j \<Rightarrow> exn + bool"
  js_value_string :: "'j \<Rightarrow> string \<Rightarrow> string \<Rightarrow> exn + string"
  js_value_double :: "'j \<Rightarrow> string \<Rightarrow> double \<Rightarrow> exn + double"
  js_value_int :: "'j \<Rightarrow> string \<Rightarrow> int \<Rightarrow> exn + int"
  js_value_bool :: "'j \<Rightarrow> string \<Rightarrow> bool \<Rightarrow> exn + bool"
  js_value_json :: "'j \<Rightarrow> string \<Rightarrow> 'j \<Rightarrow> exn + 'j"
  js_object :: "'j"

definition ebind :: "'e + 'a \<Rightarrow> ('a \<Rightarrow> 'e + 'b) \<Rightarrow> 'e + 'b" where
  "ebind m f = (case m of Inl e \<Rightarrow> Inl e | Inr x \<Rightarrow> f x)"

definition ecatch :: "'e + 'a \<Rightarrow> 'a \<Rightarrow> 'a" where
  "ecatch m h = (case m of Inl e \<Rightarrow> h | Inr x \<Rightarrow> x)"

fun emap :: "('a \<Rightarrow> 'e + 'b) \<Rightarrow> 'a list \<Rightarrow> 'e + 'b list" where
  "emap f [] = Inr []"
| "emap f (x # xs) = ebind (f x) (\<lambda>y. ebind (emap f xs) (\<lambda>ys. Inr (y # ys)))"

lemma ebind_simps [simp]: "ebind (Inl e) f = Inl e" "ebind (Inr x) f = f x"
  by (simp_all add: ebind_def)

lemma ebind_Inr_iff: "ebind m f = Inr y \<longleftrightarrow> (\<exists>x. m = Inr x \<and> f x = Inr y)"
  by (cases m) auto

lemma ebind_assoc: "ebind (ebind m f) g = ebind m (\<lambda>x. ebind (f x) g)"
  by (cases m) auto

lemma ecatch_simps [simp]: "ecatch (Inl e) h = h" "ecatch (Inr x) h = x"
  by (simp_all add: ecatch_def)

lemma emap_length: "emap f xs = Inr ys \<Longrightarrow> length ys = length xs"
  by (induction xs arbitrary: ys) (auto simp: ebind_Inr_iff)

text \<open>\<open>for (auto& [k, v] : j.items()) m[k] = v.get<T>()\<close>.\<close>

definition items_into :: "'j json_api \<Rightarrow> ('j \<Rightarrow> exn + 'v) \<Rightarrow> 'j \<Rightarrow> exn + 'v smap" where
  "items_into api get j =
     ebind (emap (\<lambda>kv. ebind (get (snd kv)) (\<lambda>v. Inr (fst kv, v))) (js_items api j))
       (\<lambda>kvs. Inr (fold (\<lambda>kv m. AList.update (fst kv) (snd kv) m) kvs []))"

text \<open>An \<open>if (cfg.contains(key)) ... cfg[key] ...\<close> block, empty map otherwise.\<close>

definition field_items :: "'j json_api \<Rightarrow> ('j \<Rightarrow> exn + 'v) \<Rightarrow> 'j \<Rightarrow> string \<Rightarrow> exn + 'v smap" where
  "field_items api get j k =
     (if js_contains api j k then ebind (js_field api j k) (items_into api get) else Inr [])"

lemma wf_map_fold_update:
  "wf_map m \<Longrightarrow> wf_map (fold (\<lambda>kv m. AList.update (fst kv) (snd kv) m) kvs m)"
  by (induction kvs arbitrary: m) auto

lemma items_into_wf: "items_into api get j = Inr m \<Longrightarrow> wf_map m"
  by (auto simp: items_into_def ebind_Inr_iff intro: wf_map_fold_update)

text \<open>
  A sequence of assignments inside \<open>try { ... } catch (...) {}\<close>: the first one that throws ends the
  sequence, and what was assigned before stays.
\<close>

fun try_seq :: "('s \<Rightarrow> exn + 's) list \<Rightarrow> 's \<Rightarrow> 's" where
  "try_seq [] s = s"
| "try_seq (f # fs) s = (case f s of Inl e \<Rightarrow> s | Inr s' \<Rightarrow> try_seq fs s')"

definition set_from :: "exn + 'v \<Rightarrow> ('v \<Rightarrow> 's \<Rightarrow> 's) \<Rightarrow> 's \<Rightarrow> exn + 's" where
  "set_from m upd s = ebind m (\<lambda>v. Inr (upd v s))"

lemma try_seq_inv: "P s \<Longrightarrow> (\<And>f s s'. f \<in> set fs \<Longrightarrow> P s \<Longrightarrow> f s = Inr s' \<Longrightarrow> P s') \<Longrightarrow> P (try_seq fs s)"
proof (induction fs arbitrary: s)
  case (Cons f fs)
  show ?case
  proof (cases "f s")
    case (Inr s')
    with Cons.prems have "P s'" by (meson list.set_intros(1))
    with Inr show ?thesis using Cons.IH [of s'] Cons.prems(2) by (simp, meson)
  qed (use Cons.prems in simp)
qed simp

lemma set_from_Inr [simp]: "set_from (Inr v) upd s = Inr (upd v s)" "set_from (Inl e) upd s = Inl e"
  by (simp_all add: set_from_def)

lemma try_seq_append: "\<forall>f \<in> set fs. \<forall>s. \<exists>s'. f s = Inr s' \<Longrightarrow> try_seq (fs @ gs) s = try_seq gs (try_seq fs s)"
proof (induction fs arbitrary: s)
  case (Cons f fs)
  from Cons.prems obtain s' where "f s = Inr s'" by auto
  with Cons show ?case by simp
qed simp

lemma try_seq_fold: "try_seq (map (\<lambda>x s. Inr (g x s)) xs) s = fold g xs s"
  by (induction xs arbitrary: s) auto

subsection \<open>Building values\<close>

text \<open>The constructors the code uses to build JSON, and \<open>dump\<close>.\<close>

record 'j json_writer =
  jw_obj :: "(string \<times> 'j) list \<Rightarrow> 'j"
  jw_arr :: "'j list \<Rightarrow> 'j"
  jw_str :: "string \<Rightarrow> 'j"
  jw_dbl :: "double \<Rightarrow> 'j"
  jw_int :: "int \<Rightarrow> 'j"
  jw_bool :: "bool \<Rightarrow> 'j"
  jw_null :: "'j"
  jw_dump :: "'j \<Rightarrow> string"

text \<open>
  The documented facts about reading what was built: a key of an object is found with its value, a
  value of the right kind converts, an object's items are its entries (in the order of their keys),
  an array's elements come back in order.
\<close>

definition json_laws :: "'j json_api \<Rightarrow> 'j json_writer \<Rightarrow> bool" where
  "json_laws api w \<longleftrightarrow>
     (\<forall>kvs k. js_contains api (jw_obj w kvs) k = (map_of kvs k \<noteq> None)) \<and>
     (\<forall>kvs k v. map_of kvs k = Some v \<longrightarrow> js_field api (jw_obj w kvs) k = Inr v) \<and>
     (\<forall>kvs k s d. map_of kvs k = Some (jw_str w s) \<longrightarrow> js_value_string api (jw_obj w kvs) k d = Inr s) \<and>
     (\<forall>kvs k x d. map_of kvs k = Some (jw_dbl w x) \<longrightarrow> js_value_double api (jw_obj w kvs) k d = Inr x) \<and>
     (\<forall>kvs k i d. map_of kvs k = Some (jw_int w i) \<longrightarrow> js_value_int api (jw_obj w kvs) k d = Inr i) \<and>
     (\<forall>kvs k b d. map_of kvs k = Some (jw_bool w b) \<longrightarrow> js_value_bool api (jw_obj w kvs) k d = Inr b) \<and>
     (\<forall>kvs k d. map_of kvs k = None \<longrightarrow> js_value_double api (jw_obj w kvs) k d = Inr d) \<and>
     (\<forall>kvs k d. map_of kvs k = None \<longrightarrow> js_value_int api (jw_obj w kvs) k d = Inr d) \<and>
     (\<forall>kvs. distinct (map fst kvs) \<longrightarrow>
        distinct (map fst (js_items api (jw_obj w kvs))) \<and> set (js_items api (jw_obj w kvs)) = set kvs) \<and>
     (\<forall>xs. js_elems api (jw_arr w xs) = xs)"

subsection \<open>A concrete instance\<close>

text \<open>
  A plain value type with the library's behaviour, for applying theorems at concrete inputs.
  Only the texts in a given table parse.
\<close>

datatype jv = JNull | JBool bool | JInt int | JDbl double | JStr string | JArr "jv list" | JObj "(string \<times> jv) list"

fun jv_get_string :: "jv \<Rightarrow> exn + string" where
  "jv_get_string (JStr s) = Inr s" | "jv_get_string _ = Inl JsonTypeError"

fun jv_get_double :: "jv \<Rightarrow> exn + double" where
  "jv_get_double (JDbl x) = Inr x" | "jv_get_double (JInt i) = Inr (dint i)"
| "jv_get_double (JBool b) = Inr (if b then 1 else 0)" | "jv_get_double _ = Inl JsonTypeError"

fun jv_get_int :: "jv \<Rightarrow> exn + int" where
  "jv_get_int (JInt i) = Inr i" | "jv_get_int (JDbl x) = Inr (dtrunc x)"
| "jv_get_int (JBool b) = Inr (if b then 1 else 0)" | "jv_get_int _ = Inl JsonTypeError"

fun jv_get_bool :: "jv \<Rightarrow> exn + bool" where
  "jv_get_bool (JBool b) = Inr b" | "jv_get_bool _ = Inl JsonTypeError"

fun jv_value :: "(jv \<Rightarrow> exn + 'v) \<Rightarrow> jv \<Rightarrow> string \<Rightarrow> 'v \<Rightarrow> exn + 'v" where
  "jv_value get (JObj kvs) k d = (case map_of kvs k of Some v \<Rightarrow> get v | None \<Rightarrow> Inr d)"
| "jv_value get _ k d = Inl JsonTypeError"

definition jv_api :: "(string \<times> jv) list \<Rightarrow> jv json_api" where
  "jv_api texts =
     \<lparr>js_parse = (\<lambda>t. case map_of texts t of Some v \<Rightarrow> Inr v | None \<Rightarrow> Inl JsonTypeError),
      js_is_object = (\<lambda>j. case j of JObj _ \<Rightarrow> True | _ \<Rightarrow> False),
      js_is_array = (\<lambda>j. case j of JArr _ \<Rightarrow> True | _ \<Rightarrow> False),
      js_is_string = (\<lambda>j. case j of JStr _ \<Rightarrow> True | _ \<Rightarrow> False),
      js_is_number = (\<lambda>j. case j of JInt _ \<Rightarrow> True | JDbl _ \<Rightarrow> True | _ \<Rightarrow> False),
      js_is_number_integer = (\<lambda>j. case j of JInt _ \<Rightarrow> True | _ \<Rightarrow> False),
      js_is_null = (\<lambda>j. j = JNull),
      js_contains = (\<lambda>j k. case j of JObj kvs \<Rightarrow> map_of kvs k \<noteq> None | _ \<Rightarrow> False),
      js_field = (\<lambda>j k. case j of JObj kvs \<Rightarrow> (case map_of kvs k of Some v \<Rightarrow> Inr v | None \<Rightarrow> Inr JNull)
                       | _ \<Rightarrow> Inl JsonTypeError),
      js_items = (\<lambda>j. case j of JObj kvs \<Rightarrow> kvs | _ \<Rightarrow> []),
      js_elems = (\<lambda>j. case j of JArr xs \<Rightarrow> xs | JObj kvs \<Rightarrow> map snd kvs | _ \<Rightarrow> []),
      js_size = (\<lambda>j. case j of JNull \<Rightarrow> 0 | JArr xs \<Rightarrow> length xs | JObj kvs \<Rightarrow> length kvs | _ \<Rightarrow> 1),
      js_get_string = jv_get_string, js_get_double = jv_get_double, js_get_int = jv_get_int,
      js_get_bool = jv_get_bool, js_value_string = jv_value jv_get_string, js_value_double = jv_value jv_get_double,
      js_value_int = jv_value jv_get_int, js_value_bool = jv_value jv_get_bool, js_value_json = jv_value Inr,
      js_object = JObj []\<rparr>"

definition jv_writer :: "(jv \<Rightarrow> string) \<Rightarrow> jv json_writer" where
  "jv_writer dump =
     \<lparr>jw_obj = JObj, jw_arr = JArr, jw_str = JStr, jw_dbl = JDbl, jw_int = JInt, jw_bool = JBool, jw_null = JNull, jw_dump = dump\<rparr>"

lemma jv_laws: "json_laws (jv_api texts) (jv_writer dump)"
  by (auto simp: json_laws_def jv_api_def jv_writer_def)

end
