(* ===== verification/Portfolio_Risk.thy ===== *)
theory Portfolio_Risk
  imports Json_Api "HOL-Library.Signed_Division"
begin

text \<open>
  \<open>risk/portfolio_risk.hpp\<close>: the portfolio-level gate in front of every entry.  The class's
  members are the record \<open>risk_state\<close> and its configuration \<open>risk_cfg\<close>; \<open>check_entry\<close>,
  \<open>on_trade_closed\<close> and the setters are functions on the state.  Every operation holds the class's
  mutex from start to end, so it is one step.  The clocks it reads (\<open>steady_clock::now\<close>, in
  nanoseconds, and the day of the year and of the week of the system clock) are arguments,
  read once per operation.
\<close>

subsection \<open>Data\<close>

record managed_position =
  mp_symbol :: string
  mp_timeframe :: string
  mp_side :: string
  mp_entry_price :: double
  mp_quantity :: double
  mp_leverage :: int
  mp_sl_price :: double
  mp_tp1_price :: double
  mp_tier :: string
  mp_strategy :: string
  mp_opened_at :: int
  mp_is_real :: bool
  mp_exchange :: string
  mp_market_type :: string

definition ManagedPosition :: managed_position where
  "ManagedPosition =
     \<lparr>mp_symbol = '''', mp_timeframe = '''', mp_side = '''', mp_entry_price = 0, mp_quantity = 0,
      mp_leverage = 10, mp_sl_price = 0, mp_tp1_price = 0, mp_tier = '''', mp_strategy = ''unknown'',
      mp_opened_at = 0, mp_is_real = False, mp_exchange = ''bitget'', mp_market_type = ''futures''\<rparr>"

record risk_decision =
  allowed :: bool
  rd_reason :: string
  check_failed :: string

record portfolio_state =
  total_positions :: int
  total_notional :: double
  total_margin_used :: double
  margin_used_pct :: double
  positions_by_tf :: "int smap"
  exposure_by_tf :: "double smap"
  correlated_risk :: double
  correlated_risk_pct :: double
  ps_daily_pnl :: double
  ps_weekly_pnl :: double
  current_drawdown_pct :: double
  circuit_breaker_active :: bool

record risk_cfg =
  max_pos_total :: int
  max_concurrent :: int
  max_same_direction :: int
  shadow_max_pos_total :: int
  shadow_max_concurrent :: int
  shadow_max_same_dir :: int
  shadow_max_margin_pct :: double
  live_min_tier :: string
  max_pos_per_tf :: "int smap"
  tf_exposure_pct :: "double smap"
  corr_factor :: double
  max_corr_risk_pct :: double
  max_margin_usage_pct :: double
  rapid_loss_window_min :: int
  rapid_loss_pct :: double
  cb_daily_loss_pct :: double
  cb_weekly_loss_pct :: double
  cb_cooldown_min :: int

record risk_state =
  daily_pnl :: double
  weekly_pnl :: double
  initial_balance :: double
  cb_active :: bool
  cb_activated_at :: int
  last_day :: int
  last_week_day :: int
  recent_losses :: "(int \<times> double) list"
  checks_total :: int
  checks_passed :: int
  checks_blocked :: int
  block_reasons :: "int smap"
  shadow_mode :: bool

record clock =
  steady_ns :: int
  tm_yday :: int
  tm_wday :: int

text \<open>The in-class member initialisers.\<close>

definition risk_init :: risk_state where
  "risk_init =
     \<lparr>daily_pnl = 0, weekly_pnl = 0, initial_balance = lit 1000, cb_active = False, cb_activated_at = 0,
      last_day = - 1, last_week_day = - 1, recent_losses = [], checks_total = 0, checks_passed = 0,
      checks_blocked = 0, block_reasons = [], shadow_mode = False\<rparr>"

text \<open>The constructor: nested sections of the configuration with their defaults.\<close>

definition PortfolioRiskManager :: "'j json_api \<Rightarrow> 'j \<Rightarrow> exn + risk_cfg \<times> risk_state" where
  "PortfolioRiskManager api config =
     ebind (js_value_json api config ''portfolio_risk'' (js_object api)) (\<lambda>cfg.
     ebind (js_value_int api cfg ''max_positions_total'' 50) (\<lambda>mpt.
     ebind (js_value_int api cfg ''max_concurrent_positions'' 15) (\<lambda>mc.
     ebind (js_value_int api cfg ''max_same_direction'' 10) (\<lambda>msd.
     ebind (js_value_json api cfg ''shadow_limits'' (js_object api)) (\<lambda>sh.
     ebind (js_value_int api sh ''max_positions_total'' 500) (\<lambda>smpt.
     ebind (js_value_int api sh ''max_concurrent_positions'' 200) (\<lambda>smc.
     ebind (js_value_int api sh ''max_same_direction'' 100) (\<lambda>smsd.
     ebind (js_value_double api sh ''max_margin_usage_pct'' (lit 500)) (\<lambda>smm.
     ebind (js_value_string api cfg ''live_min_tier'' ''B'') (\<lambda>tier.
     ebind (field_items api (js_get_int api) cfg ''max_positions_per_tf'') (\<lambda>ptf.
     ebind (field_items api (js_get_double api) cfg ''tf_exposure_pct'') (\<lambda>etf.
     ebind (js_value_double api cfg ''correlation_factor'' (lit (7/10))) (\<lambda>cf.
     ebind (js_value_double api cfg ''max_correlated_risk_pct'' (lit 50)) (\<lambda>mcr.
     ebind (js_value_double api cfg ''max_margin_usage_pct'' (lit 90)) (\<lambda>mmu.
     ebind (js_value_int api cfg ''rapid_loss_window_minutes'' 10) (\<lambda>rlw.
     ebind (js_value_double api cfg ''rapid_loss_pct'' (lit 2)) (\<lambda>rlp.
     ebind (js_value_json api cfg ''circuit_breaker'' (js_object api)) (\<lambda>cb.
     ebind (js_value_double api cb ''daily_loss_pct'' (lit 5)) (\<lambda>dl.
     ebind (js_value_double api cb ''weekly_loss_pct'' (lit 10)) (\<lambda>wl.
     ebind (js_value_int api cb ''cooldown_minutes'' 60) (\<lambda>cd.
     Inr (\<lparr>max_pos_total = mpt, max_concurrent = mc, max_same_direction = msd,
           shadow_max_pos_total = smpt, shadow_max_concurrent = smc, shadow_max_same_dir = smsd,
           shadow_max_margin_pct = smm, live_min_tier = tier, max_pos_per_tf = ptf, tf_exposure_pct = etf,
           corr_factor = cf, max_corr_risk_pct = mcr, max_margin_usage_pct = mmu,
           rapid_loss_window_min = rlw, rapid_loss_pct = rlp, cb_daily_loss_pct = dl,
           cb_weekly_loss_pct = wl, cb_cooldown_min = cd\<rparr>, risk_init))))))))))))))))))))))"

subsection \<open>Clock-driven state\<close>

definition check_daily_reset :: "clock \<Rightarrow> risk_state \<Rightarrow> risk_state" where
  "check_daily_reset clk s =
     (if tm_yday clk \<noteq> last_day s then
        let s1 = s\<lparr>daily_pnl := 0, last_day := tm_yday clk\<rparr> in
        if tm_wday clk = 1 \<and> tm_yday clk \<noteq> last_week_day s1
        then s1\<lparr>weekly_pnl := 0, last_week_day := tm_yday clk\<rparr> else s1
      else s)"

definition activate_circuit_breaker :: "clock \<Rightarrow> risk_state \<Rightarrow> risk_state" where
  "activate_circuit_breaker clk s =
     (if cb_active s then s else s\<lparr>cb_active := True, cb_activated_at := steady_ns clk\<rparr>)"

definition ns_per_min :: int where
  "ns_per_min = 60000000000"

definition check_cb_cooldown :: "risk_cfg \<Rightarrow> clock \<Rightarrow> risk_state \<Rightarrow> bool \<times> risk_state" where
  "check_cb_cooldown cfg clk s =
     (let elapsed = (steady_ns clk - cb_activated_at s) sdiv ns_per_min in
      if elapsed \<ge> cb_cooldown_min cfg then (True, s\<lparr>cb_active := False\<rparr>) else (False, s))"

definition prune_recent_losses :: "risk_cfg \<Rightarrow> clock \<Rightarrow> risk_state \<Rightarrow> risk_state" where
  "prune_recent_losses cfg clk s =
     (let cutoff = steady_ns clk - rapid_loss_window_min cfg * ns_per_min in
      s\<lparr>recent_losses := dropWhile (\<lambda>e. fst e < cutoff) (recent_losses s)\<rparr>)"

definition sum_losses :: "(int \<times> double) list \<Rightarrow> double" where
  "sum_losses xs = foldl (\<lambda>acc e. acc + snd e) 0 xs"

subsection \<open>Setters and the outcome of a trade\<close>

definition set_shadow_mode :: "bool \<Rightarrow> risk_state \<Rightarrow> risk_state" where
  "set_shadow_mode b s = s\<lparr>shadow_mode := b\<rparr>"

definition update_balance :: "double \<Rightarrow> risk_state \<Rightarrow> risk_state" where
  "update_balance b s = s\<lparr>initial_balance := b\<rparr>"

definition on_trade_closed :: "risk_cfg \<Rightarrow> clock \<Rightarrow> double \<Rightarrow> risk_state \<Rightarrow> risk_state" where
  "on_trade_closed cfg clk pnl s =
     (let s1 = check_daily_reset clk s;
          s2 = s1\<lparr>daily_pnl := daily_pnl s1 + pnl, weekly_pnl := weekly_pnl s1 + pnl\<rparr>;
          s3 = (if pnl < 0 then
                  let s' = prune_recent_losses cfg clk (s2\<lparr>recent_losses := recent_losses s2 @ [(steady_ns clk, pnl)]\<rparr>);
                      rapid_limit = initial_balance s' * (rapid_loss_pct cfg / lit 100)
                  in if sum_losses (recent_losses s') < - rapid_limit then activate_circuit_breaker clk s' else s'
                else s2);
          daily_limit = initial_balance s3 * (cb_daily_loss_pct cfg / lit 100);
          s4 = (if daily_pnl s3 < - daily_limit then activate_circuit_breaker clk s3 else s3);
          weekly_limit = initial_balance s4 * (cb_weekly_loss_pct cfg / lit 100)
      in if weekly_pnl s4 < - weekly_limit then activate_circuit_breaker clk s4 else s4)"

subsection \<open>The entry gate\<close>

definition block :: "string \<Rightarrow> string \<Rightarrow> risk_state \<Rightarrow> risk_decision \<times> risk_state" where
  "block check reason s =
     (\<lparr>allowed = False, rd_reason = reason, check_failed = check\<rparr>,
      s\<lparr>checks_blocked := checks_blocked s + 1,
        block_reasons := AList.update check ((case map_of (block_reasons s) check of Some n \<Rightarrow> n | None \<Rightarrow> 0) + 1)
                           (block_reasons s)\<rparr>)"

definition is_long_side :: "string \<Rightarrow> bool" where
  "is_long_side side = (side = ''long'' \<or> side = ''buy'')"

definition HARD_MAX_NOTIONAL :: double where
  "HARD_MAX_NOTIONAL = lit 500"

record entry_req =
  er_symbol :: string
  er_timeframe :: string
  er_price :: double
  er_qty :: double
  er_leverage :: int
  er_balance :: double
  er_sl_price :: double
  er_side :: string

text \<open>Check 0b: the stop loss must lie before the estimated liquidation price.\<close>

definition liq_estimate :: "entry_req \<Rightarrow> double" where
  "liq_estimate r =
     (if is_long_side (er_side r) then er_price r * (1 - lit (9/10) / dint (er_leverage r))
      else er_price r * (1 + lit (9/10) / dint (er_leverage r)))"

definition sl_beyond_liquidation :: "entry_req \<Rightarrow> bool" where
  "sl_beyond_liquidation r =
     (er_sl_price r > 0 \<and> er_leverage r > 0 \<and>
      (if is_long_side (er_side r) then er_sl_price r < liq_estimate r else er_sl_price r > liq_estimate r))"

definition sl_reason :: "entry_req \<Rightarrow> string" where
  "sl_reason r =
     (if is_long_side (er_side r)
      then ''SL '' @ fmt_buf 2 (er_sl_price r) @ '' < est liq '' @ fmt_buf 2 (liq_estimate r)
           @ '' (LONG '' @ show_int (er_leverage r) @ ''x)''
      else ''SL '' @ fmt_buf 2 (er_sl_price r) @ '' > est liq '' @ fmt_buf 2 (liq_estimate r)
           @ '' (SHORT '' @ show_int (er_leverage r) @ ''x)'')"

text \<open>The limits that depend on the mode.\<close>

definition eff_max_concurrent :: "risk_cfg \<Rightarrow> bool \<Rightarrow> int" where
  "eff_max_concurrent cfg sh = (if sh then shadow_max_concurrent cfg else max_concurrent cfg)"

definition eff_max_same_dir :: "risk_cfg \<Rightarrow> bool \<Rightarrow> int" where
  "eff_max_same_dir cfg sh = (if sh then shadow_max_same_dir cfg else max_same_direction cfg)"

definition eff_max_total :: "risk_cfg \<Rightarrow> bool \<Rightarrow> int" where
  "eff_max_total cfg sh = (if sh then shadow_max_pos_total cfg else max_pos_total cfg)"

definition eff_margin_pct :: "risk_cfg \<Rightarrow> bool \<Rightarrow> double" where
  "eff_margin_pct cfg sh = (if sh then shadow_max_margin_pct cfg else max_margin_usage_pct cfg)"

text \<open>The quantities the checks compare.\<close>

definition same_dir_count :: "string \<Rightarrow> managed_position smap \<Rightarrow> int" where
  "same_dir_count side ps = int (length (filter (\<lambda>kp. is_long_side (mp_side (snd kp)) = is_long_side side) ps))"

definition tf_count :: "string \<Rightarrow> managed_position smap \<Rightarrow> int" where
  "tf_count tf ps = int (length (filter (\<lambda>kp. mp_timeframe (snd kp) = tf) ps))"

definition pos_margin :: "managed_position \<Rightarrow> double" where
  "pos_margin p = \<bar>mp_entry_price p * mp_quantity p\<bar> / dint (mp_leverage p)"

definition tf_margin :: "string \<Rightarrow> managed_position smap \<Rightarrow> double" where
  "tf_margin tf ps =
     foldl (\<lambda>acc kp. if mp_timeframe (snd kp) = tf then acc + pos_margin (snd kp) else acc) 0 ps"

definition total_margin :: "managed_position smap \<Rightarrow> double" where
  "total_margin ps = foldl (\<lambda>acc kp. acc + pos_margin (snd kp)) 0 ps"

definition new_margin :: "entry_req \<Rightarrow> double" where
  "new_margin r = er_price r * er_qty r / dint (er_leverage r)"

definition tf_name :: "entry_req \<Rightarrow> string" where
  "tf_name r = (if er_timeframe r = [] then ''unknown'' else er_timeframe r)"

definition tf_limit :: "risk_cfg \<Rightarrow> string \<Rightarrow> int" where
  "tf_limit cfg tf = (case map_of (max_pos_per_tf cfg) tf of Some n \<Rightarrow> n | None \<Rightarrow> 10)"

definition tf_max :: "risk_cfg \<Rightarrow> entry_req \<Rightarrow> double" where
  "tf_max cfg r =
     er_balance r * ((case map_of (tf_exposure_pct cfg) (tf_name r) of Some p \<Rightarrow> p | None \<Rightarrow> lit 30) / lit 100)"

definition corr_risk :: "risk_cfg \<Rightarrow> entry_req \<Rightarrow> managed_position smap \<Rightarrow> double" where
  "corr_risk cfg r ps = (total_margin ps + new_margin r) * corr_factor cfg"

definition corr_limit :: "risk_cfg \<Rightarrow> entry_req \<Rightarrow> double" where
  "corr_limit cfg r = er_balance r * (max_corr_risk_pct cfg / lit 100)"

definition margin_limit :: "risk_cfg \<Rightarrow> bool \<Rightarrow> entry_req \<Rightarrow> double" where
  "margin_limit cfg sh r = er_balance r * (eff_margin_pct cfg sh / lit 100)"

text \<open>Checks 2a to 6: the first limit that refuses the entry, with its name and its message.\<close>

definition limit_refusal ::
  "risk_cfg \<Rightarrow> bool \<Rightarrow> entry_req \<Rightarrow> managed_position smap \<Rightarrow> (string \<times> string) option" where
  "limit_refusal cfg sh r ps =
     (let total_pos = int (length ps); tf = tf_name r;
          is_long = is_long_side (er_side r) in
      if total_pos \<ge> eff_max_concurrent cfg sh then
        Some (''max_concurrent_positions'',
          (if sh then ''SHADOW '' else ''HARD '') @ ''LIMIT: '' @ show_int total_pos @ ''/''
          @ show_int (eff_max_concurrent cfg sh) @ '' concurrent positions'')
      else if same_dir_count (er_side r) ps \<ge> eff_max_same_dir cfg sh then
        Some (''max_same_direction'',
          (if is_long then ''long'' else ''short'') @ '' concentration: '' @ show_int (same_dir_count (er_side r) ps)
          @ ''/'' @ show_int (eff_max_same_dir cfg sh))
      else if total_pos \<ge> eff_max_total cfg sh then
        Some (''max_positions'', ''Max positions: '' @ show_int total_pos @ ''/'' @ show_int (eff_max_total cfg sh))
      else if tf_count tf ps \<ge> tf_limit cfg tf then
        Some (''tf_position_limit'',
          ''TF '' @ tf @ ''m limit: '' @ show_int (tf_count tf ps) @ ''/'' @ show_int (tf_limit cfg tf))
      else if tf_margin tf ps + new_margin r > tf_max cfg r then
        Some (''tf_exposure'',
          ''TF '' @ tf @ ''m margin: '' @ fmt_buf 0 (tf_margin tf ps + new_margin r) @ ''/'' @ fmt_buf 0 (tf_max cfg r))
      else if corr_risk cfg r ps > corr_limit cfg r then
        Some (''correlation_risk'',
          ''Correlated risk: '' @ fmt_buf 0 (corr_risk cfg r ps) @ ''/'' @ fmt_buf 0 (corr_limit cfg r))
      else if total_margin ps + new_margin r > margin_limit cfg sh r then
        Some (''margin_limit'',
          ''Margin '' @ fmt_buf 0 (eff_margin_pct cfg sh) @ ''%: '' @ fmt_buf 2 (total_margin ps + new_margin r)
          @ ''/'' @ fmt_buf 2 (margin_limit cfg sh r))
      else None)"

text \<open>\<open>check_entry\<close>: the backstops, the circuit breaker, then the limits.\<close>

definition check_entry ::
  "risk_cfg \<Rightarrow> clock \<Rightarrow> entry_req \<Rightarrow> managed_position smap \<Rightarrow> risk_state \<Rightarrow> risk_decision \<times> risk_state" where
  "check_entry cfg clk r ps s =
     (let s1 = check_daily_reset clk (s\<lparr>checks_total := checks_total s + 1\<rparr>) in
      if er_price r * er_qty r > HARD_MAX_NOTIONAL then
        block ''hard_notional_cap''
          (''Notional '' @ fmt_buf 2 (er_price r * er_qty r) @ '' > hard max '' @ fmt_buf 2 HARD_MAX_NOTIONAL) s1
      else if sl_beyond_liquidation r then block ''sl_beyond_liquidation'' (sl_reason r) s1
      else
        let (released, s2) = (if cb_active s1 then check_cb_cooldown cfg clk s1 else (True, s1)) in
        if \<not> released then
          block ''circuit_breaker'' (''Circuit breaker active (daily PnL: '' @ fmt_buf 2 (daily_pnl s2) @ '')'') s2
        else case limit_refusal cfg (shadow_mode s2) r ps of
          Some (check, reason) \<Rightarrow> block check reason s2
        | None \<Rightarrow> (\<lparr>allowed = True, rd_reason = [], check_failed = []\<rparr>,
                    s2\<lparr>checks_passed := checks_passed s2 + 1\<rparr>))"

subsection \<open>Reports\<close>

definition notional_of :: "managed_position \<Rightarrow> double" where
  "notional_of p = \<bar>mp_entry_price p * mp_quantity p * dint (mp_leverage p)\<bar>"

definition add_position :: "portfolio_state \<Rightarrow> string \<times> managed_position \<Rightarrow> portfolio_state" where
  "add_position st kp =
     (let p = snd kp; tf = (if mp_timeframe p = [] then ''unknown'' else mp_timeframe p) in
      st\<lparr>total_notional := total_notional st + notional_of p,
         total_margin_used := total_margin_used st + pos_margin p,
         positions_by_tf := AList.update tf ((case map_of (positions_by_tf st) tf of Some n \<Rightarrow> n | None \<Rightarrow> 0) + 1)
                              (positions_by_tf st),
         exposure_by_tf := AList.update tf ((case map_of (exposure_by_tf st) tf of Some e \<Rightarrow> e | None \<Rightarrow> 0) + notional_of p)
                              (exposure_by_tf st)\<rparr>)"

definition empty_portfolio :: "nat \<Rightarrow> portfolio_state" where
  "empty_portfolio n =
     \<lparr>total_positions = int n, total_notional = 0, total_margin_used = 0, margin_used_pct = 0,
      positions_by_tf = [], exposure_by_tf = [], correlated_risk = 0, correlated_risk_pct = 0,
      ps_daily_pnl = 0, ps_weekly_pnl = 0, current_drawdown_pct = 0, circuit_breaker_active = False\<rparr>"

definition get_state ::
  "risk_cfg \<Rightarrow> double \<Rightarrow> managed_position smap \<Rightarrow> double \<Rightarrow> risk_state \<Rightarrow> portfolio_state" where
  "get_state cfg balance ps peak s =
     (let st = foldl add_position (empty_portfolio (length ps)) ps;
          corr = total_margin_used st * corr_factor cfg;
          pct = (\<lambda>x. if balance > 0 then dround (x / balance * lit 1000) / lit 10 else 0);
          dd = (if peak > 0 then (peak - balance) / peak * lit 100 else 0)
      in st\<lparr>margin_used_pct := pct (total_margin_used st),
            correlated_risk := corr,
            correlated_risk_pct := pct corr,
            ps_daily_pnl := round_to 4 (daily_pnl s),
            ps_weekly_pnl := round_to 4 (weekly_pnl s),
            current_drawdown_pct := round_to 2 dd,
            circuit_breaker_active := cb_active s,
            exposure_by_tf := map (\<lambda>kv. (fst kv, round_to 2 (snd kv))) (exposure_by_tf st),
            total_notional := round_to 2 (total_notional st),
            total_margin_used := round_to 2 (total_margin_used st)\<rparr>)"

record check_stats =
  cs_total :: int
  cs_passed :: int
  cs_blocked :: int
  cs_pass_rate :: double
  cs_block_reasons :: "int smap"

definition get_check_stats :: "risk_state \<Rightarrow> check_stats" where
  "get_check_stats s =
     \<lparr>cs_total = checks_total s, cs_passed = checks_passed s, cs_blocked = checks_blocked s,
      cs_pass_rate = (if checks_total s > 0
        then dround (dint (checks_passed s) / dint (checks_total s) * lit 1000) / lit 10 else 0),
      cs_block_reasons = block_reasons s\<rparr>"

subsection \<open>Facts shared by the proofs\<close>

lemma reset_simps [simp]:
  "cb_active (check_daily_reset clk s) = cb_active s"
  "cb_activated_at (check_daily_reset clk s) = cb_activated_at s"
  "shadow_mode (check_daily_reset clk s) = shadow_mode s"
  "checks_total (check_daily_reset clk s) = checks_total s"
  "checks_passed (check_daily_reset clk s) = checks_passed s"
  "checks_blocked (check_daily_reset clk s) = checks_blocked s"
  "block_reasons (check_daily_reset clk s) = block_reasons s"
  by (simp_all add: check_daily_reset_def Let_def)

lemma cooldown_simps [simp]:
  "shadow_mode (snd (check_cb_cooldown cfg clk s)) = shadow_mode s"
  "checks_total (snd (check_cb_cooldown cfg clk s)) = checks_total s"
  "checks_passed (snd (check_cb_cooldown cfg clk s)) = checks_passed s"
  "checks_blocked (snd (check_cb_cooldown cfg clk s)) = checks_blocked s"
  "block_reasons (snd (check_cb_cooldown cfg clk s)) = block_reasons s"
  "cb_activated_at (snd (check_cb_cooldown cfg clk s)) = cb_activated_at s"
  by (simp_all add: check_cb_cooldown_def Let_def)

lemma activate_simps [simp]:
  "cb_active (activate_circuit_breaker clk s)"
  "checks_total (activate_circuit_breaker clk s) = checks_total s"
  "checks_passed (activate_circuit_breaker clk s) = checks_passed s"
  "checks_blocked (activate_circuit_breaker clk s) = checks_blocked s"
  "block_reasons (activate_circuit_breaker clk s) = block_reasons s"
  "daily_pnl (activate_circuit_breaker clk s) = daily_pnl s"
  "weekly_pnl (activate_circuit_breaker clk s) = weekly_pnl s"
  "initial_balance (activate_circuit_breaker clk s) = initial_balance s"
  by (simp_all add: activate_circuit_breaker_def)

lemma activate_idle [simp]: "cb_active s \<Longrightarrow> activate_circuit_breaker clk s = s"
  by (simp add: activate_circuit_breaker_def)

lemma prune_simps [simp]:
  "cb_active (prune_recent_losses cfg clk s) = cb_active s"
  "cb_activated_at (prune_recent_losses cfg clk s) = cb_activated_at s"
  "checks_total (prune_recent_losses cfg clk s) = checks_total s"
  "checks_passed (prune_recent_losses cfg clk s) = checks_passed s"
  "checks_blocked (prune_recent_losses cfg clk s) = checks_blocked s"
  "block_reasons (prune_recent_losses cfg clk s) = block_reasons s"
  "daily_pnl (prune_recent_losses cfg clk s) = daily_pnl s"
  "weekly_pnl (prune_recent_losses cfg clk s) = weekly_pnl s"
  "initial_balance (prune_recent_losses cfg clk s) = initial_balance s"
  by (simp_all add: prune_recent_losses_def Let_def)

lemma block_simps [simp]:
  "allowed (fst (block c r s)) = False" "checks_total (snd (block c r s)) = checks_total s"
  "checks_passed (snd (block c r s)) = checks_passed s"
  "checks_blocked (snd (block c r s)) = checks_blocked s + 1"
  "cb_active (snd (block c r s)) = cb_active s" "cb_activated_at (snd (block c r s)) = cb_activated_at s"
  by (simp_all add: block_def)

lemma on_trade_closed_stats [simp]:
  "checks_total (on_trade_closed cfg clk pnl s) = checks_total s"
  "checks_passed (on_trade_closed cfg clk pnl s) = checks_passed s"
  "checks_blocked (on_trade_closed cfg clk pnl s) = checks_blocked s"
  "block_reasons (on_trade_closed cfg clk pnl s) = block_reasons s"
  by (simp_all add: on_trade_closed_def Let_def)

text \<open>What an accepted entry tells: every gate was open.\<close>

definition breaker_open :: "risk_cfg \<Rightarrow> clock \<Rightarrow> risk_state \<Rightarrow> bool" where
  "breaker_open cfg clk s =
     (if cb_active s then cb_cooldown_min cfg \<le> (steady_ns clk - cb_activated_at s) sdiv ns_per_min else True)"

lemma check_entry_allowed_iff:
  "allowed (fst (check_entry cfg clk r ps s)) \<longleftrightarrow>
     \<not> er_price r * er_qty r > HARD_MAX_NOTIONAL \<and> \<not> sl_beyond_liquidation r \<and> breaker_open cfg clk s \<and>
     limit_refusal cfg (shadow_mode s) r ps = None"
  by (auto simp: check_entry_def Let_def breaker_open_def check_cb_cooldown_def split: option.splits)

lemma limit_refusal_None:
  "limit_refusal cfg sh r ps = None \<longleftrightarrow>
     int (length ps) < eff_max_concurrent cfg sh \<and> same_dir_count (er_side r) ps < eff_max_same_dir cfg sh \<and>
     int (length ps) < eff_max_total cfg sh \<and> tf_count (tf_name r) ps < tf_limit cfg (tf_name r) \<and>
     \<not> tf_margin (tf_name r) ps + new_margin r > tf_max cfg r \<and> \<not> corr_risk cfg r ps > corr_limit cfg r \<and>
     \<not> total_margin ps + new_margin r > margin_limit cfg sh r"
  by (auto simp: limit_refusal_def Let_def)

text \<open>Counting over a map in which one key is set.\<close>

lemma count_update_le:
  "length (filter (\<lambda>kp. P (snd kp)) (AList.update k v m)) \<le> length (filter (\<lambda>kp. P (snd kp)) m) + 1"
  by (induction m) auto

lemma count_update_not:
  "\<not> P v \<Longrightarrow> length (filter (\<lambda>kp. P (snd kp)) (AList.update k v m)) \<le> length (filter (\<lambda>kp. P (snd kp)) m)"
  by (induction m) auto

subsection \<open>The book stays inside its limits\<close>

text \<open>The count limits of the code, as an invariant of the map of open positions.\<close>

definition within_counts :: "risk_cfg \<Rightarrow> bool \<Rightarrow> managed_position smap \<Rightarrow> bool" where
  "within_counts cfg sh ps \<longleftrightarrow>
     int (length ps) \<le> eff_max_concurrent cfg sh \<and> int (length ps) \<le> eff_max_total cfg sh \<and>
     (\<forall>side. same_dir_count side ps \<le> eff_max_same_dir cfg sh) \<and>
     (\<forall>tf. tf_count tf ps \<le> tf_limit cfg tf)"

lemma length_update_le: "length (AList.update k v m) \<le> length m + 1"
  by (simp add: length_update)

text \<open>Room for one more position of a side and a timeframe, and what it is good for.\<close>

definition room :: "risk_cfg \<Rightarrow> bool \<Rightarrow> string \<Rightarrow> string \<Rightarrow> managed_position smap \<Rightarrow> bool" where
  "room cfg sh side tf ps \<longleftrightarrow>
     int (length ps) < eff_max_concurrent cfg sh \<and> int (length ps) < eff_max_total cfg sh \<and>
     same_dir_count side ps < eff_max_same_dir cfg sh \<and> tf_count tf ps < tf_limit cfg tf"

lemma allowed_room: "allowed (fst (check_entry cfg clk r ps s)) \<Longrightarrow> room cfg (shadow_mode s) (er_side r) (tf_name r) ps"
  by (simp add: check_entry_allowed_iff limit_refusal_None room_def)

lemma room_keeps_counts:
  assumes "within_counts cfg sh ps" "room cfg sh side0 tf0 ps"
    and "is_long_side (mp_side p) = is_long_side side0" "mp_timeframe p = tf0"
  shows "within_counts cfg sh (AList.update nm p ps)"
proof -
  have dir: "same_dir_count side (AList.update nm p ps) \<le> eff_max_same_dir cfg sh" for side
  proof (cases "is_long_side side = is_long_side side0")
    case True
    then have "same_dir_count side ps < eff_max_same_dir cfg sh"
      using assms(2) by (simp add: same_dir_count_def room_def)
    then show ?thesis
      using count_update_le [of "\<lambda>q. is_long_side (mp_side q) = is_long_side side" nm p ps]
      by (simp add: same_dir_count_def)
  next
    case False
    have "same_dir_count side ps \<le> eff_max_same_dir cfg sh" using assms(1) by (simp add: within_counts_def)
    then show ?thesis
      using count_update_not [of "\<lambda>q. is_long_side (mp_side q) = is_long_side side" p nm ps] False assms(3)
      by (auto simp: same_dir_count_def)
  qed
  have tf: "tf_count tf (AList.update nm p ps) \<le> tf_limit cfg tf" for tf
  proof (cases "tf = tf0")
    case True
    then show ?thesis
      using assms(2) count_update_le [of "\<lambda>q. mp_timeframe q = tf" nm p ps] by (simp add: tf_count_def room_def)
  next
    case False
    have "tf_count tf ps \<le> tf_limit cfg tf" using assms(1) by (simp add: within_counts_def)
    then show ?thesis
      using count_update_not [of "\<lambda>q. mp_timeframe q = tf" p nm ps] False assms(4) by (auto simp: tf_count_def)
  qed
  show ?thesis
    using assms(2) length_update_le [of nm p ps] dir tf by (simp add: within_counts_def room_def)
qed

text \<open>Admission keeps the book inside its limits: when \<open>check_entry\<close> lets an entry pass and
  the position it announced (same side, same named timeframe) is then stored under any symbol, the
  numbers of positions in total, per direction and per timeframe are still within the limits of the
  mode.\<close>

theorem admission_keeps_counts:
  assumes "within_counts cfg (shadow_mode s) ps"
    and "allowed (fst (check_entry cfg clk r ps s))"
    and "is_long_side (mp_side p) = is_long_side (er_side r)" and "mp_timeframe p = tf_name r"
  shows "within_counts cfg (shadow_mode s) (AList.update nm p ps)"
  by (rule room_keeps_counts [OF assms(1) allowed_room [OF assms(2)] assms(3,4)])

text \<open>A check changes neither the mode nor, unless it is on, the breaker.\<close>

lemma check_entry_mode: "shadow_mode (snd (check_entry cfg clk r ps s)) = shadow_mode s"
  by (auto simp: check_entry_def Let_def check_cb_cooldown_def block_def split: option.splits)

lemma check_entry_breaker: "\<not> cb_active s \<Longrightarrow> \<not> cb_active (snd (check_entry cfg clk r ps s))"
  by (auto simp: check_entry_def Let_def check_cb_cooldown_def block_def split: option.splits)

text \<open>A configuration with the constructor's defaults and a request, for concrete instances.\<close>

definition default_cfg :: risk_cfg where
  "default_cfg =
     \<lparr>max_pos_total = 50, max_concurrent = 15, max_same_direction = 10, shadow_max_pos_total = 500,
      shadow_max_concurrent = 200, shadow_max_same_dir = 100, shadow_max_margin_pct = lit 500,
      live_min_tier = ''B'', max_pos_per_tf = [(''15'', 5)], tf_exposure_pct = [], corr_factor = lit (7/10),
      max_corr_risk_pct = lit 50, max_margin_usage_pct = lit 90, rapid_loss_window_min = 10,
      rapid_loss_pct = lit 2, cb_daily_loss_pct = lit 5, cb_weekly_loss_pct = lit 10, cb_cooldown_min = 60\<rparr>"

definition sample_clock :: clock where
  "sample_clock = \<lparr>steady_ns = 1000, tm_yday = 71, tm_wday = 4\<rparr>"

definition sample_entry :: entry_req where
  "sample_entry =
     \<lparr>er_symbol = ''BTCUSDT'', er_timeframe = ''15'', er_price = lit 100, er_qty = lit 2, er_leverage = 10,
      er_balance = lit 1000, er_sl_price = lit 95, er_side = ''long''\<rparr>"

definition sample_position :: managed_position where
  "sample_position = ManagedPosition\<lparr>mp_symbol := ''BTCUSDT'', mp_timeframe := ''15'', mp_side := ''long'',
     mp_entry_price := lit 100, mp_quantity := lit 2\<rparr>"

lemma sample_entry_allowed: "allowed (fst (check_entry default_cfg sample_clock sample_entry [] risk_init))"
  by code_simp

theorem admission_keeps_counts_witness:
  "within_counts default_cfg False (AList.update ''BTCUSDT'' sample_position [])"
proof -
  have "within_counts default_cfg (shadow_mode risk_init) []"
    by (simp add: within_counts_def default_cfg_def eff_max_concurrent_def eff_max_total_def
        eff_max_same_dir_def same_dir_count_def tf_count_def tf_limit_def risk_init_def)
  from admission_keeps_counts [OF this sample_entry_allowed, of sample_position "''BTCUSDT''"]
  show ?thesis
    by (simp add: sample_position_def ManagedPosition_def sample_entry_def tf_name_def risk_init_def)
qed

subsection \<open>Live limits imply shadow limits\<close>

text \<open>A configuration whose shadow mode only relaxes: no shadow limit is below its live counterpart.\<close>

definition shadow_relaxes :: "risk_cfg \<Rightarrow> bool" where
  "shadow_relaxes cfg \<longleftrightarrow>
     max_concurrent cfg \<le> shadow_max_concurrent cfg \<and> max_same_direction cfg \<le> shadow_max_same_dir cfg \<and>
     max_pos_total cfg \<le> shadow_max_pos_total cfg \<and> max_margin_usage_pct cfg \<le> shadow_max_margin_pct cfg"

lemma margin_limit_relaxed:
  assumes "shadow_relaxes cfg" "0 < er_balance r" "isfinite (er_balance r)"
  shows "margin_limit cfg False r \<le> margin_limit cfg True r"
proof -
  have "0 < lit 100" "isfinite (lit 100)" by code_simp+
  then show ?thesis
    using assms by (simp add: margin_limit_def eff_margin_pct_def shadow_relaxes_def dmul_mono ddiv_mono)
qed

text \<open>Shadow mode only relaxes: with limits whose shadow values are not below the live ones and a
  positive balance, an entry that live mode accepts is accepted, by the same clock and with the same
  open positions, once shadow mode is set.\<close>

theorem live_accepts_then_shadow_accepts:
  assumes "shadow_relaxes cfg" "0 < er_balance r" "isfinite (er_balance r)"
    and "allowed (fst (check_entry cfg clk r ps (set_shadow_mode False s)))"
  shows "allowed (fst (check_entry cfg clk r ps (set_shadow_mode True s)))"
proof -
  have "\<not> margin_limit cfg True r < x" if "\<not> margin_limit cfg False r < x" for x
    using that margin_limit_relaxed [OF assms(1-3)] d_le_less_trans by blast
  with assms show ?thesis
    by (auto simp: check_entry_allowed_iff limit_refusal_None set_shadow_mode_def breaker_open_def
        eff_max_concurrent_def eff_max_same_dir_def eff_max_total_def shadow_relaxes_def split: if_splits)
qed

theorem live_accepts_then_shadow_accepts_witness:
  "allowed (fst (check_entry default_cfg sample_clock sample_entry [] (set_shadow_mode True risk_init)))"
proof -
  have "shadow_relaxes default_cfg" by code_simp
  moreover have "0 < er_balance sample_entry" "isfinite (er_balance sample_entry)" by code_simp+
  moreover have "allowed (fst (check_entry default_cfg sample_clock sample_entry [] (set_shadow_mode False risk_init)))"
    by code_simp
  ultimately show ?thesis by (rule live_accepts_then_shadow_accepts)
qed

subsection \<open>Sequences of operations\<close>

lemma sdiv_ns_less: assumes "t < c * ns_per_min" "0 < c" shows "t sdiv ns_per_min < c"
proof (cases "0 \<le> t")
  case True
  then show ?thesis using assms by (auto simp: signed_divide_int_def ns_per_min_def div_less_iff_less_mult sgn_if)
next
  case False
  then have "t sdiv ns_per_min = - (\<bar>t\<bar> div ns_per_min)"
    by (simp add: signed_divide_int_def ns_per_min_def)
  moreover have "0 \<le> \<bar>t\<bar> div ns_per_min" by (simp add: ns_per_min_def pos_imp_zdiv_nonneg_iff)
  ultimately show ?thesis using assms(2) by linarith
qed

text \<open>The public operations, and what one call does: the decision, if it makes one, and the new state.\<close>

datatype risk_op =
  CheckEntry clock entry_req "managed_position smap"
| TradeClosed clock double
| UpdateBalance double
| SetShadowMode bool

fun op_clock :: "risk_op \<Rightarrow> clock option" where
  "op_clock (CheckEntry clk r ps) = Some clk"
| "op_clock (TradeClosed clk pnl) = Some clk"
| "op_clock _ = None"

fun risk_exec :: "risk_cfg \<Rightarrow> risk_op \<Rightarrow> risk_state \<Rightarrow> risk_decision option \<times> risk_state" where
  "risk_exec cfg (CheckEntry clk r ps) s = (let (d, s') = check_entry cfg clk r ps s in (Some d, s'))"
| "risk_exec cfg (TradeClosed clk pnl) s = (None, on_trade_closed cfg clk pnl s)"
| "risk_exec cfg (UpdateBalance b) s = (None, update_balance b s)"
| "risk_exec cfg (SetShadowMode b) s = (None, set_shadow_mode b s)"

fun risk_run :: "risk_cfg \<Rightarrow> risk_op list \<Rightarrow> risk_state \<Rightarrow> risk_decision list \<times> risk_state" where
  "risk_run cfg [] s = ([], s)"
| "risk_run cfg (x # xs) s =
     (let (d, s') = risk_exec cfg x s; (ds, s'') = risk_run cfg xs s'
      in ((case d of Some d \<Rightarrow> d # ds | None \<Rightarrow> ds), s''))"

text \<open>The statistics balance: every check passed or was blocked, and every block has its reason.\<close>

definition stats_ok :: "risk_state \<Rightarrow> bool" where
  "stats_ok s \<longleftrightarrow>
     checks_total s = checks_passed s + checks_blocked s \<and> wf_map (block_reasons s) \<and>
     sum_list (map snd (block_reasons s)) = checks_blocked s"

lemma sum_update_int:
  "wf_map m \<Longrightarrow> sum_list (map snd (AList.update k ((case map_of m k of Some n \<Rightarrow> n | None \<Rightarrow> 0) + 1) m))
     = sum_list (map snd m) + (1 :: int)"
proof (induction m)
  case (Cons p m)
  then have "wf_map m" "map_of m (fst p) = None" by (auto simp: wf_map_def map_of_eq_None_iff)
  with Cons show ?case by (cases p) auto
qed simp

lemma stats_block: "stats_ok (s\<lparr>checks_total := checks_total s - 1\<rparr>) \<Longrightarrow> stats_ok (snd (block c r s))"
  by (simp add: stats_ok_def block_def sum_update_int)

lemma stats_transfer:
  "checks_total s' = checks_total s \<Longrightarrow> checks_passed s' = checks_passed s \<Longrightarrow> checks_blocked s' = checks_blocked s \<Longrightarrow>
   block_reasons s' = block_reasons s \<Longrightarrow> stats_ok s' = stats_ok s"
  by (simp add: stats_ok_def)

lemma stats_check_entry:
  assumes "stats_ok s" shows "stats_ok (snd (check_entry cfg clk r ps s))"
proof -
  let ?s1 = "check_daily_reset clk (s\<lparr>checks_total := checks_total s + 1\<rparr>)"
  have blk: "stats_ok (snd (block c m t))"
    if "checks_total t = checks_total s + 1" "checks_passed t = checks_passed s"
      "checks_blocked t = checks_blocked s" "block_reasons t = block_reasons s" for c m t
    using assms that by (intro stats_block) (simp add: stats_ok_def)
  have pass: "stats_ok (t\<lparr>checks_passed := checks_passed s + 1\<rparr>)"
    if "checks_total t = checks_total s + 1" "checks_blocked t = checks_blocked s" "block_reasons t = block_reasons s" for t
    using assms that by (simp add: stats_ok_def)
  show ?thesis
    by (auto simp: check_entry_def Let_def check_cb_cooldown_def blk pass split: option.splits prod.splits)
qed

lemma stats_exec: "stats_ok s \<Longrightarrow> stats_ok (snd (risk_exec cfg x s))"
proof (cases x)
  case (CheckEntry clk r ps)
  then show "stats_ok s \<Longrightarrow> ?thesis" using stats_check_entry by (simp add: Let_def split_beta)
qed (simp_all add: stats_ok_def update_balance_def set_shadow_mode_def)

text \<open>Whatever sequence of calls the manager serves from its initial state, the number of checks is
  the number passed plus the number blocked, and the per-reason counters add up to the blocked ones:
  \<open>get_check_stats\<close> never reports figures that disagree.\<close>

theorem check_stats_balance:
  "let st = get_check_stats (snd (risk_run cfg ops risk_init))
   in cs_total st = cs_passed st + cs_blocked st \<and> sum_list (map snd (cs_block_reasons st)) = cs_blocked st"
proof -
  have "stats_ok s \<Longrightarrow> stats_ok (snd (risk_run cfg ops s))" for s
  proof (induction ops arbitrary: s)
    case (Cons x ops)
    show ?case using Cons.IH [OF stats_exec [OF Cons.prems]] by (simp add: Let_def split_beta)
  qed simp
  moreover have "stats_ok risk_init" by (simp add: stats_ok_def risk_init_def)
  ultimately have "stats_ok (snd (risk_run cfg ops risk_init))" by blast
  then show ?thesis by (simp add: stats_ok_def get_check_stats_def Let_def)
qed

text \<open>C10.  The breaker holds: while it is active and its cooldown has not run out at any instant a call
  reads, no sequence of calls gets an entry accepted, and neither its activity nor its activation time
  changes, whatever balances, modes and trade results arrive in between.\<close>

theorem breaker_holds_until_cooldown:
  assumes "cb_active s"
    and "\<forall>x \<in> set ops. \<forall>clk. op_clock x = Some clk \<longrightarrow>
           steady_ns clk - cb_activated_at s < cb_cooldown_min cfg * ns_per_min"
    and "0 < cb_cooldown_min cfg"
  shows "(\<forall>d \<in> set (fst (risk_run cfg ops s)). \<not> allowed d) \<and> cb_active (snd (risk_run cfg ops s)) \<and>
         cb_activated_at (snd (risk_run cfg ops s)) = cb_activated_at s"
  using assms(1,2)
proof (induction ops arbitrary: s)
  case (Cons x ops)
  obtain d s' where x: "risk_exec cfg x s = (d, s')" by force
  have "(\<forall>e. d = Some e \<longrightarrow> \<not> allowed e) \<and> cb_active s' \<and> cb_activated_at s' = cb_activated_at s"
  proof (cases x)
    case (CheckEntry clk r ps)
    then have "steady_ns clk - cb_activated_at s < cb_cooldown_min cfg * ns_per_min" using Cons.prems(2) by simp
    then have "(steady_ns clk - cb_activated_at s) sdiv ns_per_min < cb_cooldown_min cfg"
      by (rule sdiv_ns_less [OF _ assms(3)])
    then show ?thesis using x Cons.prems(1) CheckEntry
      by (auto simp: check_entry_def Let_def check_cb_cooldown_def split: if_splits)
        (auto simp: block_def)
  next
    case (TradeClosed clk pnl)
    then show ?thesis using x Cons.prems(1) by (auto simp: on_trade_closed_def Let_def)
  qed (use x Cons.prems(1) in \<open>auto simp: update_balance_def set_shadow_mode_def\<close>)
  moreover obtain ds s'' where "risk_run cfg ops s' = (ds, s'')" by force
  ultimately show ?case using Cons.IH [of s'] Cons.prems x by (auto simp: Let_def split: option.splits)
qed simp

theorem breaker_holds_until_cooldown_witness:
  "\<not> allowed (hd (fst (risk_run default_cfg [CheckEntry sample_clock sample_entry []]
      (on_trade_closed default_cfg sample_clock (lit (- 60)) risk_init))))"
proof -
  let ?s = "on_trade_closed default_cfg sample_clock (lit (- 60)) risk_init"
  let ?ops = "[CheckEntry sample_clock sample_entry []]"
  have act: "cb_active ?s" "cb_activated_at ?s = 1000" by code_simp+
  have "steady_ns sample_clock - cb_activated_at ?s < cb_cooldown_min default_cfg * ns_per_min"
    unfolding act(2) by code_simp
  then have "\<forall>x \<in> set ?ops. \<forall>clk. op_clock x = Some clk \<longrightarrow>
      steady_ns clk - cb_activated_at ?s < cb_cooldown_min default_cfg * ns_per_min" by simp
  moreover have "0 < cb_cooldown_min default_cfg" by (simp add: default_cfg_def)
  ultimately have "\<forall>d \<in> set (fst (risk_run default_cfg ?ops ?s)). \<not> allowed d"
    using breaker_holds_until_cooldown [OF act(1), of ?ops default_cfg] by blast
  then show ?thesis by (simp add: Let_def split_beta)
qed

text \<open>A trade that leaves the day's result below the negative daily limit leaves the breaker active,
  so the very next check within the cooldown is refused.\<close>

theorem daily_loss_trips_breaker:
  assumes "daily_pnl (check_daily_reset clk s) + pnl < - (initial_balance s * (cb_daily_loss_pct cfg / lit 100))"
    and "0 < cb_cooldown_min cfg"
    and "\<not> cb_active s" and "steady_ns clk \<le> steady_ns clk'"
    and "steady_ns clk' - steady_ns clk < cb_cooldown_min cfg * ns_per_min"
  shows "\<not> allowed (fst (check_entry cfg clk' r ps (on_trade_closed cfg clk pnl s)))"
proof -
  have ib: "initial_balance (check_daily_reset clk s) = initial_balance s"
    by (simp add: check_daily_reset_def Let_def)
  have "cb_active (on_trade_closed cfg clk pnl s) \<and> cb_activated_at (on_trade_closed cfg clk pnl s) = steady_ns clk"
    using assms(1,3) by (auto simp: on_trade_closed_def Let_def activate_circuit_breaker_def ib)
  moreover have "(steady_ns clk' - steady_ns clk) sdiv ns_per_min < cb_cooldown_min cfg"
    by (rule sdiv_ns_less [OF assms(5,2)])
  ultimately show ?thesis by (simp add: check_entry_allowed_iff breaker_open_def)
qed

theorem daily_loss_trips_breaker_witness:
  "\<not> allowed (fst (check_entry default_cfg sample_clock sample_entry []
      (on_trade_closed default_cfg sample_clock (lit (- 60)) risk_init)))"
  by (rule daily_loss_trips_breaker) code_simp+

end
