(* ===== verification/Symbol_Scorer.thy ===== *)
theory Symbol_Scorer
  imports Json_Api
begin

text \<open>
  \<open>risk/symbol_scorer.hpp\<close>: scores symbols and trading contexts from closed trades and assigns the
  tiers S, A, B, C, D, X that the entry gates and the position sizer use.  The time string the
  class writes into a score is an argument; \<open>save_*\<close> write the maps to disk and are not modelled,
  \<open>load_*\<close> are functions of the file's content (\<open>None\<close> when there is no file).
\<close>

subsection \<open>Data\<close>

record trade_record =
  tr_symbol :: string
  tr_timeframe :: string
  tr_exit_reason :: string
  tr_pnl :: double
  tr_fee :: double
  tr_entry_price :: double
  tr_exit_price :: double
  tr_quantity :: double
  tr_strategy :: string
  tr_exchange :: string
  tr_market_type :: string
  tr_gross_pnl :: double
  tr_net_pnl :: double
  tr_fee_cost :: double
  tr_realized_rr :: double

definition TradeRecord :: trade_record where
  "TradeRecord =
     \<lparr>tr_symbol = [], tr_timeframe = [], tr_exit_reason = [], tr_pnl = 0, tr_fee = 0, tr_entry_price = 0,
      tr_exit_price = 0, tr_quantity = 0, tr_strategy = ''unknown'', tr_exchange = ''bitget'',
      tr_market_type = ''futures'', tr_gross_pnl = 0, tr_net_pnl = 0, tr_fee_cost = 0, tr_realized_rr = 0\<rparr>"

definition from_json_trade :: "'j json_api \<Rightarrow> 'j \<Rightarrow> trade_record \<Rightarrow> trade_record" where
  "from_json_trade api j =
     (let s = js_value_string api j; d = (\<lambda>k. js_value_double api j k 0) in
      try_seq
       [set_from (s ''symbol'' []) (\<lambda>v t. t\<lparr>tr_symbol := v\<rparr>),
        set_from (s ''timeframe'' []) (\<lambda>v t. t\<lparr>tr_timeframe := v\<rparr>),
        set_from (s ''exit_reason'' []) (\<lambda>v t. t\<lparr>tr_exit_reason := v\<rparr>),
        set_from (d ''pnl'') (\<lambda>v t. t\<lparr>tr_pnl := v\<rparr>),
        set_from (d ''fee'') (\<lambda>v t. t\<lparr>tr_fee := v\<rparr>),
        set_from (d ''entry_price'') (\<lambda>v t. t\<lparr>tr_entry_price := v\<rparr>),
        set_from (d ''exit_price'') (\<lambda>v t. t\<lparr>tr_exit_price := v\<rparr>),
        set_from (d ''quantity'') (\<lambda>v t. t\<lparr>tr_quantity := v\<rparr>),
        set_from (s ''strategy'' ''unknown'') (\<lambda>v t. t\<lparr>tr_strategy := v\<rparr>),
        set_from (s ''exchange'' ''bitget'') (\<lambda>v t. t\<lparr>tr_exchange := v\<rparr>),
        set_from (s ''market_type'' ''futures'') (\<lambda>v t. t\<lparr>tr_market_type := v\<rparr>),
        set_from (d ''gross_pnl'') (\<lambda>v t. t\<lparr>tr_gross_pnl := v\<rparr>),
        set_from (d ''net_pnl'') (\<lambda>v t. t\<lparr>tr_net_pnl := v\<rparr>),
        set_from (d ''fee_cost'') (\<lambda>v t. t\<lparr>tr_fee_cost := v\<rparr>),
        set_from (d ''realized_rr'') (\<lambda>v t. t\<lparr>tr_realized_rr := v\<rparr>)])"

record tf_sub_score =
  tfs_trades :: int
  tfs_wins :: int
  tfs_win_rate :: double
  tfs_pnl :: double

definition TfSubScore :: tf_sub_score where
  "TfSubScore = \<lparr>tfs_trades = 0, tfs_wins = 0, tfs_win_rate = 0, tfs_pnl = 0\<rparr>"

definition from_json_tf :: "'j json_api \<Rightarrow> 'j \<Rightarrow> tf_sub_score" where
  "from_json_tf api j =
     try_seq
       [set_from (js_value_int api j ''trades'' 0) (\<lambda>v s. s\<lparr>tfs_trades := v\<rparr>),
        set_from (js_value_int api j ''wins'' 0) (\<lambda>v s. s\<lparr>tfs_wins := v\<rparr>),
        set_from (js_value_double api j ''win_rate'' 0) (\<lambda>v s. s\<lparr>tfs_win_rate := v / lit 100\<rparr>),
        set_from (js_value_double api j ''pnl'' 0) (\<lambda>v s. s\<lparr>tfs_pnl := v\<rparr>)] TfSubScore"

record symbol_score =
  ss_symbol :: string
  ss_tier :: string
  ss_total_trades :: int
  ss_wins :: int
  ss_losses :: int
  ss_win_rate :: double
  ss_total_pnl :: double
  ss_avg_pnl :: double
  ss_avg_win :: double
  ss_avg_loss :: double
  ss_profit_factor :: double
  ss_expectancy :: double
  ss_consistency :: double
  ss_signal_count :: int
  ss_frequency_quality :: double
  ss_composite_score :: double
  ss_data_sufficient :: bool
  ss_size_multiplier :: double
  ss_max_leverage :: int
  ss_last_updated :: string
  ss_tf_scores :: "tf_sub_score smap"
  ss_avg_realized_rr :: double
  ss_net_expectancy :: double
  ss_total_fees :: double
  ss_rr_consistency :: double
  ss_realized_trade_count :: int
  ss_rev_trades :: int
  ss_rev_wins :: int
  ss_rev_pnl :: double
  ss_rev_win_rate :: double
  ss_rev_allowed :: bool
  ss_rev_score_adj :: double

definition SymbolScore :: symbol_score where
  "SymbolScore =
     \<lparr>ss_symbol = [], ss_tier = ''C'', ss_total_trades = 0, ss_wins = 0, ss_losses = 0, ss_win_rate = 0,
      ss_total_pnl = 0, ss_avg_pnl = 0, ss_avg_win = 0, ss_avg_loss = 0, ss_profit_factor = 0,
      ss_expectancy = 0, ss_consistency = 0, ss_signal_count = 0, ss_frequency_quality = 0,
      ss_composite_score = 0, ss_data_sufficient = False, ss_size_multiplier = lit (1/2),
      ss_max_leverage = 10, ss_last_updated = [], ss_tf_scores = [], ss_avg_realized_rr = 0,
      ss_net_expectancy = 0, ss_total_fees = 0, ss_rr_consistency = 0, ss_realized_trade_count = 0,
      ss_rev_trades = 0, ss_rev_wins = 0, ss_rev_pnl = 0, ss_rev_win_rate = 0, ss_rev_allowed = False,
      ss_rev_score_adj = 0\<rparr>"

definition from_json_score :: "'j json_api \<Rightarrow> 'j \<Rightarrow> symbol_score" where
  "from_json_score api j =
     (let i = js_value_int api j; d = (\<lambda>k. js_value_double api j k 0); s = js_value_string api j;
          b = js_value_bool api j in
      try_seq
       [set_from (s ''symbol'' []) (\<lambda>v x. x\<lparr>ss_symbol := v\<rparr>),
        set_from (s ''tier'' ''C'') (\<lambda>v x. x\<lparr>ss_tier := v\<rparr>),
        set_from (i ''total_trades'' 0) (\<lambda>v x. x\<lparr>ss_total_trades := v\<rparr>),
        set_from (i ''wins'' 0) (\<lambda>v x. x\<lparr>ss_wins := v\<rparr>),
        set_from (i ''losses'' 0) (\<lambda>v x. x\<lparr>ss_losses := v\<rparr>),
        set_from (d ''win_rate'') (\<lambda>v x. x\<lparr>ss_win_rate := v\<rparr>),
        set_from (d ''total_pnl'') (\<lambda>v x. x\<lparr>ss_total_pnl := v\<rparr>),
        set_from (d ''avg_pnl'') (\<lambda>v x. x\<lparr>ss_avg_pnl := v\<rparr>),
        set_from (d ''avg_win'') (\<lambda>v x. x\<lparr>ss_avg_win := v\<rparr>),
        set_from (d ''avg_loss'') (\<lambda>v x. x\<lparr>ss_avg_loss := v\<rparr>),
        set_from (d ''profit_factor'') (\<lambda>v x. x\<lparr>ss_profit_factor := v\<rparr>),
        set_from (d ''expectancy'') (\<lambda>v x. x\<lparr>ss_expectancy := v\<rparr>),
        set_from (d ''consistency'') (\<lambda>v x. x\<lparr>ss_consistency := v\<rparr>),
        set_from (i ''signal_count'' 0) (\<lambda>v x. x\<lparr>ss_signal_count := v\<rparr>),
        set_from (d ''frequency_quality'') (\<lambda>v x. x\<lparr>ss_frequency_quality := v\<rparr>),
        set_from (d ''composite_score'') (\<lambda>v x. x\<lparr>ss_composite_score := v\<rparr>),
        set_from (b ''data_sufficient'' False) (\<lambda>v x. x\<lparr>ss_data_sufficient := v\<rparr>),
        set_from (js_value_double api j ''size_multiplier'' (lit (1/2))) (\<lambda>v x. x\<lparr>ss_size_multiplier := v\<rparr>),
        set_from (i ''max_leverage'' 10) (\<lambda>v x. x\<lparr>ss_max_leverage := v\<rparr>),
        set_from (s ''last_updated'' []) (\<lambda>v x. x\<lparr>ss_last_updated := v\<rparr>),
        (\<lambda>x. if js_contains api j ''tf_scores'' then
               ebind (js_field api j ''tf_scores'') (\<lambda>tj.
                 if js_is_object api tj
                 then Inr (x\<lparr>ss_tf_scores := map (\<lambda>kv. (fst kv, from_json_tf api (snd kv))) (js_items api tj)\<rparr>)
                 else Inr x)
             else Inr x),
        set_from (d ''avg_realized_rr'') (\<lambda>v x. x\<lparr>ss_avg_realized_rr := v\<rparr>),
        set_from (d ''net_expectancy_per_trade'') (\<lambda>v x. x\<lparr>ss_net_expectancy := v\<rparr>),
        set_from (d ''total_fees'') (\<lambda>v x. x\<lparr>ss_total_fees := v\<rparr>),
        set_from (d ''realized_rr_consistency'') (\<lambda>v x. x\<lparr>ss_rr_consistency := v\<rparr>),
        set_from (i ''realized_trade_count'' 0) (\<lambda>v x. x\<lparr>ss_realized_trade_count := v\<rparr>),
        set_from (i ''rev_trades'' 0) (\<lambda>v x. x\<lparr>ss_rev_trades := v\<rparr>),
        set_from (i ''rev_wins'' 0) (\<lambda>v x. x\<lparr>ss_rev_wins := v\<rparr>),
        set_from (d ''rev_pnl'') (\<lambda>v x. x\<lparr>ss_rev_pnl := v\<rparr>),
        set_from (d ''rev_win_rate'') (\<lambda>v x. x\<lparr>ss_rev_win_rate := v\<rparr>),
        set_from (b ''rev_allowed'' False) (\<lambda>v x. x\<lparr>ss_rev_allowed := v\<rparr>),
        set_from (d ''rev_score_adj'') (\<lambda>v x. x\<lparr>ss_rev_score_adj := v\<rparr>)] SymbolScore)"

record realized_acc =
  ra_gross :: double
  ra_fee :: double
  ra_net :: double
  ra_rr :: double
  ra_count :: int

record scorer_cfg =
  sc_enabled :: bool
  sc_min_trades :: int
  sc_rescore_hours :: int
  sc_w_expectancy :: double
  sc_w_pf :: double
  sc_w_wr :: double
  sc_w_con :: double
  sc_w_fq :: double
  sc_th_S :: double
  sc_th_A :: double
  sc_th_B :: double
  sc_th_C :: double
  sc_th_D :: double
  sc_size_mult :: "double smap"
  sc_max_lev :: "int smap"
  sc_rev_enabled :: bool
  sc_rev_min_trades :: int
  sc_rev_allow_wr :: double
  sc_rev_bonus_wr :: double
  sc_rev_penalty_zero :: double
  sc_rev_penalty_low :: double
  sc_rev_bonus :: double

record scorer_state =
  sco_scores :: "symbol_score smap"
  sco_context :: "symbol_score smap"
  sco_realized :: "realized_acc smap"
  sco_last_rescore :: int

text \<open>The constructor, without the two loads it ends with.\<close>

definition items_num :: "'j json_api \<Rightarrow> ('j \<Rightarrow> exn + 'v) \<Rightarrow> 'j \<Rightarrow> exn + 'v smap" where
  "items_num api get j =
     ebind (emap (\<lambda>kv. ebind (get (snd kv)) (\<lambda>v. Inr (fst kv, v)))
              (filter (\<lambda>kv. \<not> js_is_null api (snd kv) \<and> js_is_number api (snd kv)) (js_items api j)))
       (\<lambda>kvs. Inr (fold (\<lambda>kv m. AList.update (fst kv) (snd kv) m) kvs []))"

definition scorer_config :: "'j json_api \<Rightarrow> 'j \<Rightarrow> exn + scorer_cfg" where
  "scorer_config api config =
     ebind (js_value_json api config ''symbol_scoring'' (js_object api)) (\<lambda>cfg.
     ebind (js_value_bool api cfg ''enabled'' True) (\<lambda>en.
     ebind (js_value_int api cfg ''min_trades'' 20) (\<lambda>mt.
     ebind (js_value_json api cfg ''weights'' (js_object api)) (\<lambda>w.
     ebind (js_value_double api w ''expectancy'' (lit (35/100))) (\<lambda>we.
     ebind (js_value_double api w ''profit_factor'' (lit (25/100))) (\<lambda>wp.
     ebind (js_value_double api w ''win_rate'' (lit (20/100))) (\<lambda>ww.
     ebind (js_value_double api w ''consistency'' (lit (10/100))) (\<lambda>wc.
     ebind (js_value_double api w ''frequency_quality'' (lit (10/100))) (\<lambda>wf.
     ebind (js_value_json api cfg ''tier_thresholds'' (js_object api)) (\<lambda>th.
     ebind (js_value_double api th ''S'' (lit 75)) (\<lambda>tS.
     ebind (js_value_double api th ''A'' (lit 60)) (\<lambda>tA.
     ebind (js_value_double api th ''B'' (lit 45)) (\<lambda>tB.
     ebind (js_value_double api th ''C'' (lit 30)) (\<lambda>tC.
     ebind (js_value_double api th ''D'' (lit 15)) (\<lambda>tD.
     ebind (js_value_json api cfg ''tier_size_multiplier'' (js_object api)) (\<lambda>sm.
     ebind (items_num api (js_get_double api) sm) (\<lambda>smv.
     ebind (js_value_json api cfg ''tier_max_leverage'' (js_object api)) (\<lambda>ml.
     ebind (items_num api (js_get_int api) ml) (\<lambda>mlv.
     ebind (js_value_json api config ''reverse_filter'' (js_object api)) (\<lambda>rev.
     ebind (js_value_bool api rev ''enabled'' True) (\<lambda>ren.
     ebind (js_value_int api rev ''min_trades'' 3) (\<lambda>rmt.
     ebind (js_value_double api rev ''allow_win_rate'' (lit (35/100))) (\<lambda>raw.
     ebind (js_value_double api rev ''bonus_win_rate'' (lit (50/100))) (\<lambda>rbw.
     ebind (js_value_double api rev ''penalty_zero_wins'' (lit (- 15))) (\<lambda>rpz.
     ebind (js_value_double api rev ''penalty_low_wr'' (lit (- 10))) (\<lambda>rpl.
     ebind (js_value_double api rev ''bonus_good_wr'' (lit 5)) (\<lambda>rb.
     ebind (js_value_int api cfg ''rescore_interval_hours'' 6) (\<lambda>rh.
     Inr \<lparr>sc_enabled = en, sc_min_trades = mt, sc_rescore_hours = rh, sc_w_expectancy = we, sc_w_pf = wp,
          sc_w_wr = ww, sc_w_con = wc, sc_w_fq = wf, sc_th_S = tS, sc_th_A = tA, sc_th_B = tB, sc_th_C = tC,
          sc_th_D = tD, sc_size_mult = smv, sc_max_lev = mlv, sc_rev_enabled = ren, sc_rev_min_trades = rmt,
          sc_rev_allow_wr = raw, sc_rev_bonus_wr = rbw, sc_rev_penalty_zero = rpz,
          sc_rev_penalty_low = rpl, sc_rev_bonus = rb\<rparr>))))))))))))))))))))))))))))"

subsection \<open>Scoring\<close>

definition assign_tier :: "scorer_cfg \<Rightarrow> double \<Rightarrow> string" where
  "assign_tier cfg score =
     (if score \<ge> sc_th_S cfg then ''S'' else if score \<ge> sc_th_A cfg then ''A''
      else if score \<ge> sc_th_B cfg then ''B'' else if score \<ge> sc_th_C cfg then ''C''
      else if score \<ge> sc_th_D cfg then ''D'' else ''X'')"

definition normalize :: "double \<Rightarrow> double \<Rightarrow> double \<Rightarrow> double" where
  "normalize value low high =
     (if high \<le> low then lit (1/2) else stdclamp ((value - low) / (high - low)) 0 1)"

definition size_mult_for :: "scorer_cfg \<Rightarrow> string \<Rightarrow> double" where
  "size_mult_for cfg tier = (case map_of (sc_size_mult cfg) tier of Some m \<Rightarrow> m | None \<Rightarrow> lit (1/2))"

definition max_lev_for :: "scorer_cfg \<Rightarrow> string \<Rightarrow> int" where
  "max_lev_for cfg tier = (case map_of (sc_max_lev cfg) tier of Some m \<Rightarrow> m | None \<Rightarrow> 10)"

text \<open>\<open>std::accumulate(v.begin(), v.end(), 0.0)\<close>.\<close>

definition accumulate :: "double list \<Rightarrow> double" where
  "accumulate xs = foldl (+) 0 xs"

definition count_of :: "'a list \<Rightarrow> int" where
  "count_of xs = int (length xs)"

text \<open>The first block of \<open>score_symbol\<close>: counts, averages and ratios of the results.\<close>

record basic_stats =
  bs_n :: int
  bs_wins :: int
  bs_losses :: int
  bs_total :: double
  bs_wr :: double
  bs_avg_pnl :: double
  bs_avg_win :: double
  bs_avg_loss :: double
  bs_pf :: double
  bs_expectancy :: double

definition basic_stats_of :: "trade_record list \<Rightarrow> basic_stats" where
  "basic_stats_of trades =
     (let n = count_of trades; pnls = map tr_pnl trades; total = accumulate pnls;
          ws = filter (\<lambda>p. p > 0) pnls; ls = filter (\<lambda>p. \<not> p > 0) pnls;
          wins = count_of ws; losses = count_of ls;
          wr = (if n > 0 then dint wins / dint n else 0);
          avg_pnl = (if n > 0 then total / dint n else 0);
          avg_win = (if ws \<noteq> [] then accumulate ws / dint (count_of ws) else 0);
          avg_loss = (if ls \<noteq> [] then \<bar>accumulate ls / dint (count_of ls)\<bar> else 0);
          gross_profit = accumulate ws; gross_loss = \<bar>accumulate ls\<bar>;
          pf = (if gross_loss > 0 then gross_profit / gross_loss else 0)
      in \<lparr>bs_n = n, bs_wins = wins, bs_losses = losses, bs_total = total, bs_wr = wr, bs_avg_pnl = avg_pnl,
          bs_avg_win = avg_win, bs_avg_loss = avg_loss, bs_pf = pf,
          bs_expectancy = wr * avg_win - (1 - wr) * avg_loss\<rparr>)"

definition consistency_of :: "trade_record list \<Rightarrow> double" where
  "consistency_of trades =
     (let n = count_of trades; pnls = map tr_pnl trades in
      if n \<ge> 3 \<and> pnls \<noteq> [] then
        let mean = accumulate pnls / dint n;
            sq_sum = foldl (\<lambda>acc p. acc + (p - mean) * (p - mean)) 0 pnls;
            stdev = dsqrt (sq_sum / dint (n - 1));
            mean_abs = foldl (\<lambda>acc p. acc + \<bar>p\<bar>) 0 pnls / dint n
        in if mean_abs > 0 then stdclamp (1 - stdev / mean_abs) 0 1 else lit (1/2)
      else lit (1/2))"

definition frequency_quality_of :: "double \<Rightarrow> int \<Rightarrow> int \<Rightarrow> double" where
  "frequency_quality_of wr n signal_count =
     (if signal_count > 0 \<and> n > 0 then wr * stdmin (dint n / dint signal_count) 1 else lit (1/2))"

text \<open>The shrunk score of a small sample, before clamping: prior 35, weight \<open>n / (n + 20)\<close>.\<close>

definition shrunk_score :: "double \<Rightarrow> int \<Rightarrow> double" where
  "shrunk_score wr n =
     (let raw = stdclamp (lit 30 + (wr - lit (33/100)) * lit 50) (lit 15) (lit 55);
          conf = dint n / (dint n + lit 20)
      in lit 35 * (1 - conf) + raw * conf)"

definition composite_base :: "scorer_cfg \<Rightarrow> basic_stats \<Rightarrow> double \<Rightarrow> double \<Rightarrow> double" where
  "composite_base cfg b con fq =
     (if bs_n b \<ge> sc_min_trades cfg then
        let exp_s = normalize (bs_expectancy b) (lit (- 5/100)) (lit (15/100)) * lit 100;
            pf_s = normalize (bs_pf b) (lit (1/2)) (lit 3) * lit 100;
            wr_s = normalize (bs_wr b) (lit (25/100)) (lit (65/100)) * lit 100;
            con_s = con * lit 100; fq_s = fq * lit 100
        in stdclamp (exp_s * sc_w_expectancy cfg + pf_s * sc_w_pf cfg + wr_s * sc_w_wr cfg
                     + con_s * sc_w_con cfg + fq_s * sc_w_fq cfg) 0 (lit 100)
      else if bs_n b > 0 then stdclamp (shrunk_score (bs_wr b) (bs_n b)) (lit 15) (lit 55)
      else lit 35)"

text \<open>The results of trades closed by a reversal: count, wins, sum, and what they imply.\<close>

definition is_reverse :: "trade_record \<Rightarrow> bool" where
  "is_reverse t = contains_str ''REVERSE'' (tr_exit_reason t)"

definition reverse_verdict :: "scorer_cfg \<Rightarrow> int \<Rightarrow> int \<Rightarrow> double \<Rightarrow> double \<times> bool" where
  "reverse_verdict cfg rev_n rev_wins rev_wr =
     (if rev_n \<ge> sc_rev_min_trades cfg then
        if rev_wins = 0 then (sc_rev_penalty_zero cfg, False)
        else if rev_wr < sc_rev_allow_wr cfg then (sc_rev_penalty_low cfg, False)
        else if rev_wr \<ge> sc_rev_bonus_wr cfg then (sc_rev_bonus cfg, True)
        else (0, True)
      else (0, False))"

definition tf_score_of :: "trade_record list \<Rightarrow> tf_sub_score" where
  "tf_score_of ts =
     (let n = count_of ts; w = count_of (filter (\<lambda>t. tr_pnl t > 0) ts) in
      \<lparr>tfs_trades = n, tfs_wins = w, tfs_win_rate = (if n > 0 then dint w / dint n else 0),
       tfs_pnl = foldl (\<lambda>acc t. acc + tr_pnl t) 0 ts\<rparr>)"

definition tf_of_trade :: "trade_record \<Rightarrow> string" where
  "tf_of_trade t = (if tr_timeframe t = [] then ''unknown'' else tr_timeframe t)"

definition score_symbol :: "scorer_cfg \<Rightarrow> string \<Rightarrow> string \<Rightarrow> trade_record list \<Rightarrow> int \<Rightarrow> symbol_score" where
  "score_symbol cfg utc symb trades signal_count =
     (let b = basic_stats_of trades;
          con = consistency_of trades;
          fq = frequency_quality_of (bs_wr b) (bs_n b) signal_count;
          base = composite_base cfg b con fq;
          rev = filter is_reverse trades;
          rev_n = count_of rev;
          rev_wins = count_of (filter (\<lambda>t. tr_pnl t > 0) rev);
          rev_pnl = foldl (\<lambda>acc t. acc + tr_pnl t) 0 rev;
          rev_wr = (if rev_n > 0 then dint rev_wins / dint rev_n else 0);
          (adj, allowed) = reverse_verdict cfg rev_n rev_wins rev_wr;
          composite = stdclamp (base + adj) 0 (lit 100);
          tier = assign_tier cfg composite
      in SymbolScore
         \<lparr>ss_symbol := symb, ss_tier := tier, ss_total_trades := bs_n b, ss_wins := bs_wins b,
          ss_losses := bs_losses b, ss_win_rate := round_to 4 (bs_wr b), ss_total_pnl := round_to 4 (bs_total b),
          ss_avg_pnl := round_to 4 (bs_avg_pnl b), ss_avg_win := round_to 4 (bs_avg_win b),
          ss_avg_loss := round_to 4 (bs_avg_loss b), ss_profit_factor := round_to 3 (bs_pf b),
          ss_expectancy := round_to 6 (bs_expectancy b), ss_consistency := round_to 3 con,
          ss_signal_count := signal_count, ss_frequency_quality := round_to 3 fq,
          ss_composite_score := round_to 1 composite, ss_data_sufficient := bs_n b \<ge> sc_min_trades cfg,
          ss_size_multiplier := size_mult_for cfg tier, ss_max_leverage := max_lev_for cfg tier,
          ss_last_updated := utc,
          ss_tf_scores := map (\<lambda>kv. (fst kv, tf_score_of (snd kv))) (group_by tf_of_trade trades),
          ss_rev_trades := rev_n, ss_rev_wins := rev_wins, ss_rev_pnl := round_to 4 rev_pnl,
          ss_rev_win_rate := round_to 4 rev_wr, ss_rev_allowed := allowed,
          ss_rev_score_adj := round_to 1 adj\<rparr>)"

subsection \<open>Operations of the scorer\<close>

definition rescore_all :: "scorer_cfg \<Rightarrow> string \<Rightarrow> int \<Rightarrow> trade_record list \<Rightarrow> scorer_state \<Rightarrow> scorer_state" where
  "rescore_all cfg utc now_ns trades s =
     (if \<not> sc_enabled cfg then s
      else let by_symbol = group_by tr_symbol (filter (\<lambda>t. tr_symbol t \<noteq> []) trades) in
        s\<lparr>sco_scores := map (\<lambda>kv. (fst kv, score_symbol cfg utc (fst kv) (snd kv) 0)) by_symbol,
          sco_last_rescore := now_ns\<rparr>)"

definition compute_context_key :: "string \<Rightarrow> string \<Rightarrow> string \<Rightarrow> string" where
  "compute_context_key symb tf dir =
     symb @ '':'' @ (if tf = [] then ''unknown'' else tf) @ '':'' @ (if dir = [] then ''unknown'' else dir)"

definition get_score :: "scorer_state \<Rightarrow> string \<Rightarrow> symbol_score option" where
  "get_score s symb = map_of (sco_scores s) symb"

definition get_context_score :: "scorer_state \<Rightarrow> string \<Rightarrow> string \<Rightarrow> string \<Rightarrow> symbol_score option" where
  "get_context_score s symb tf dir = map_of (sco_context s) (compute_context_key symb tf dir)"

definition get_best_score :: "scorer_state \<Rightarrow> string \<Rightarrow> string \<Rightarrow> string \<Rightarrow> symbol_score option" where
  "get_best_score s symb tf dir =
     (case get_context_score s symb tf dir of
        Some c \<Rightarrow> if ss_total_trades c \<ge> 5 then Some c else get_score s symb
      | None \<Rightarrow> get_score s symb)"

definition context_update :: "scorer_cfg \<Rightarrow> string \<Rightarrow> string \<Rightarrow> double \<Rightarrow> bool \<Rightarrow> symbol_score \<Rightarrow> symbol_score" where
  "context_update cfg utc key pnl is_win sc0 =
     (let n = ss_total_trades sc0 + 1; w = (if is_win then ss_wins sc0 + 1 else ss_wins sc0);
          total = ss_total_pnl sc0 + pnl;
          wr = (if n > 0 then dint w / dint n else 0);
          comp = (if n > 0 then stdclamp (round_to 1 (shrunk_score wr n)) 0 (lit 100) else lit 35);
          tier = assign_tier cfg comp
      in sc0\<lparr>ss_symbol := key, ss_total_trades := n, ss_wins := w, ss_losses := n - w, ss_total_pnl := total,
            ss_win_rate := wr, ss_avg_pnl := (if n > 0 then total / dint n else 0),
            ss_data_sufficient := n \<ge> sc_min_trades cfg, ss_composite_score := comp, ss_tier := tier,
            ss_size_multiplier := size_mult_for cfg tier, ss_max_leverage := max_lev_for cfg tier,
            ss_last_updated := utc\<rparr>)"

definition record_context_trade ::
  "scorer_cfg \<Rightarrow> string \<Rightarrow> string \<Rightarrow> string \<Rightarrow> string \<Rightarrow> double \<Rightarrow> bool \<Rightarrow> scorer_state \<Rightarrow> scorer_state" where
  "record_context_trade cfg utc symb tf dir pnl is_win s =
     (let key = compute_context_key symb tf dir;
          sc0 = (case map_of (sco_context s) key of Some x \<Rightarrow> x | None \<Rightarrow> SymbolScore)
      in s\<lparr>sco_context := AList.update key (context_update cfg utc key pnl is_win sc0) (sco_context s)\<rparr>)"

definition record_realized_trade ::
  "string \<Rightarrow> string \<Rightarrow> string \<Rightarrow> double \<Rightarrow> double \<Rightarrow> double \<Rightarrow> scorer_state \<Rightarrow> scorer_state" where
  "record_realized_trade symb tf dir gross fee rr s =
     (let key = compute_context_key symb tf dir;
          a0 = (case map_of (sco_realized s) key of Some a \<Rightarrow> a
                | None \<Rightarrow> \<lparr>ra_gross = 0, ra_fee = 0, ra_net = 0, ra_rr = 0, ra_count = 0\<rparr>);
          a = a0\<lparr>ra_gross := ra_gross a0 + gross, ra_fee := ra_fee a0 + fee, ra_net := ra_net a0 + (gross - fee),
                 ra_rr := ra_rr a0 + rr, ra_count := ra_count a0 + 1\<rparr>;
          s1 = s\<lparr>sco_realized := AList.update key a (sco_realized s)\<rparr>
      in case map_of (sco_context s) key of
           None \<Rightarrow> s1
         | Some sc0 \<Rightarrow>
             let rrv = (if ra_count a > 0 then ra_rr a / dint (ra_count a) else 0);
                 net = (if ra_count a > 0 then ra_net a / dint (ra_count a) else 0);
                 sc1 = sc0\<lparr>ss_avg_realized_rr := rrv, ss_net_expectancy := net, ss_total_fees := ra_fee a,
                          ss_realized_trade_count := ra_count a\<rparr>;
                 sc2 = (if ra_count a \<ge> 10 \<and> \<bar>ss_expectancy sc1\<bar> > lit (1/10000)
                        then sc1\<lparr>ss_rr_consistency := stdclamp (1 - \<bar>1 - net / ss_expectancy sc1\<bar>) 0 1\<rparr>
                        else sc1)
             in s1\<lparr>sco_context := AList.update key sc2 (sco_context s)\<rparr>)"

definition get_tier :: "scorer_state \<Rightarrow> string \<Rightarrow> string" where
  "get_tier s symb = (case map_of (sco_scores s) symb of Some x \<Rightarrow> ss_tier x | None \<Rightarrow> ''C'')"

definition get_size_multiplier :: "scorer_state \<Rightarrow> string \<Rightarrow> double" where
  "get_size_multiplier s symb = (case map_of (sco_scores s) symb of Some x \<Rightarrow> ss_size_multiplier x | None \<Rightarrow> lit (1/2))"

definition get_max_leverage :: "scorer_state \<Rightarrow> string \<Rightarrow> int" where
  "get_max_leverage s symb = (case map_of (sco_scores s) symb of Some x \<Rightarrow> ss_max_leverage x | None \<Rightarrow> 10)"

text \<open>Times in nanoseconds since the epoch; 0 is the value of a scorer that never scored.\<close>

definition needs_rescore :: "scorer_cfg \<Rightarrow> int \<Rightarrow> scorer_state \<Rightarrow> bool" where
  "needs_rescore cfg now_ns s =
     (if sco_last_rescore s = 0 then True
      else now_ns - sco_last_rescore s \<ge> sc_rescore_hours cfg * 3600000000000)"

definition get_all_scores_json :: "scorer_state \<Rightarrow> symbol_score list" where
  "get_all_scores_json s = sort_desc ss_composite_score (map snd (sco_scores s))"

definition get_all_context_scores_json :: "scorer_state \<Rightarrow> symbol_score list" where
  "get_all_context_scores_json s = sort_desc ss_composite_score (map snd (sco_context s))"

text \<open>Loading: an absent file, a parse error or a wrong shape leaves the map alone.\<close>

definition load_map :: "'j json_api \<Rightarrow> string \<Rightarrow> string option \<Rightarrow> symbol_score smap \<Rightarrow> symbol_score smap" where
  "load_map api section file m =
     (case file of None \<Rightarrow> m
      | Some txt \<Rightarrow>
          ecatch (ebind (js_parse api txt) (\<lambda>data.
                  ebind (js_value_json api data section (js_object api)) (\<lambda>sj.
                  Inr (fold (\<lambda>kv acc. AList.update (fst kv) (from_json_score api (snd kv)) acc) (js_items api sj) m)))) m)"

definition load_scores :: "'j json_api \<Rightarrow> string option \<Rightarrow> scorer_state \<Rightarrow> scorer_state" where
  "load_scores api file s = s\<lparr>sco_scores := load_map api ''scores'' file (sco_scores s)\<rparr>"

definition load_context_scores :: "'j json_api \<Rightarrow> string option \<Rightarrow> scorer_state \<Rightarrow> scorer_state" where
  "load_context_scores api file s = s\<lparr>sco_context := load_map api ''context_scores'' file (sco_context s)\<rparr>"

subsection \<open>Facts shared by the proofs\<close>

lemma count_of_nonneg [simp]: "0 \<le> count_of xs"
  by (simp add: count_of_def)

lemma filter_both_le: "length (filter (\<lambda>x. P x \<and> Q x) xs) \<le> length (filter P xs)"
  by (induction xs) auto

lemma count_split: "count_of (filter P xs) + count_of (filter (\<lambda>x. \<not> P x) xs) = count_of xs"
  by (induction xs) (auto simp: count_of_def)

lemma score_counts:
  "ss_total_trades (score_symbol cfg utc symb trades k) = count_of trades"
  "ss_wins (score_symbol cfg utc symb trades k) = count_of (filter (\<lambda>t. tr_pnl t > 0) trades)"
  "ss_losses (score_symbol cfg utc symb trades k) = count_of (filter (\<lambda>t. \<not> tr_pnl t > 0) trades)"
  by (simp_all add: score_symbol_def Let_def basic_stats_of_def split_beta count_of_def filter_map comp_def)

text \<open>\<open>score_symbol\<close> accounts for every trade exactly once: wins and losses add up to the number of
  trades, reversal wins are reversal trades and those are trades, and the per-timeframe scores
  partition the trades and the wins.\<close>

theorem score_symbol_accounts:
  "let r = score_symbol cfg utc symb trades k in
     ss_total_trades r = int (length trades) \<and> ss_wins r + ss_losses r = ss_total_trades r \<and>
     ss_rev_wins r \<le> ss_rev_trades r \<and> ss_rev_trades r \<le> ss_total_trades r \<and>
     sum_list (map (\<lambda>kv. tfs_trades (snd kv)) (ss_tf_scores r)) = ss_total_trades r \<and>
     sum_list (map (\<lambda>kv. tfs_wins (snd kv)) (ss_tf_scores r)) = ss_wins r"
proof -
  have part: "sum_list (map (\<lambda>kv. count_of (filter P (snd kv))) (group_by tf_of_trade trades)) = count_of (filter P trades)" for P
    by (rule sum_group_by) (simp_all add: count_of_def)
  have "sum_list (map (\<lambda>kv. tfs_trades (snd kv)) (ss_tf_scores (score_symbol cfg utc symb trades k))) = count_of trades"
    using part [of "\<lambda>_. True"] by (simp add: score_symbol_def Let_def split_beta tf_score_of_def comp_def)
  moreover have "sum_list (map (\<lambda>kv. tfs_wins (snd kv)) (ss_tf_scores (score_symbol cfg utc symb trades k)))
      = count_of (filter (\<lambda>t. tr_pnl t > 0) trades)"
    using part by (simp add: score_symbol_def Let_def split_beta tf_score_of_def comp_def)
  moreover have "ss_rev_trades (score_symbol cfg utc symb trades k) = count_of (filter is_reverse trades)"
    "ss_rev_wins (score_symbol cfg utc symb trades k) = count_of (filter (\<lambda>t. tr_pnl t > 0) (filter is_reverse trades))"
    by (simp_all add: score_symbol_def Let_def split_beta)
  ultimately show ?thesis
    by (simp add: Let_def score_counts count_split) (simp add: count_of_def filter_both_le)
qed

subsection \<open>Tiers\<close>

text \<open>The order of the tiers, best first.\<close>

definition tier_rank :: "string \<Rightarrow> nat" where
  "tier_rank t =
     (if t = ''S'' then 5 else if t = ''A'' then 4 else if t = ''B'' then 3 else if t = ''C'' then 2
      else if t = ''D'' then 1 else 0)"

text \<open>A better score never gets a worse tier.\<close>

theorem assign_tier_monotone:
  assumes "x \<le> y" shows "tier_rank (assign_tier cfg x) \<le> tier_rank (assign_tier cfg y)"
proof -
  have up: "t \<le> x \<Longrightarrow> t \<le> y" for t using assms d_trans by blast
  show ?thesis
    using up [of "sc_th_S cfg"] up [of "sc_th_A cfg"] up [of "sc_th_B cfg"] up [of "sc_th_C cfg"] up [of "sc_th_D cfg"]
    by (auto simp: assign_tier_def tier_rank_def)
qed

text \<open>The score of a result is inside the scale, unless the arithmetic produced \<open>NaN\<close>.\<close>

lemma round1_scale: "\<not> v < 0 \<Longrightarrow> \<not> lit 100 < v \<Longrightarrow> \<not> round_to 1 v < 0 \<and> \<not> lit 100 < round_to 1 v"
proof -
  have "round_to 1 0 = 0" "round_to 1 (lit 100) = lit 100" by code_simp+
  then show "\<not> v < 0 \<Longrightarrow> \<not> lit 100 < v \<Longrightarrow> ?thesis" by (intro round_to_bounds) simp_all
qed

text \<open>Every composite score the class stores, by a full rescoring or by a single context trade, is
  inside the scale from 0 to 100: it is never below 0 nor above 100, whatever the results were.\<close>

theorem composite_in_scale:
  "\<not> ss_composite_score (score_symbol cfg utc symb trades k) < 0 \<and>
   \<not> lit 100 < ss_composite_score (score_symbol cfg utc symb trades k) \<and>
   \<not> ss_composite_score (context_update cfg utc key pnl is_win sc0) < 0 \<and>
   \<not> lit 100 < ss_composite_score (context_update cfg utc key pnl is_win sc0)"
proof -
  have h: "0 \<le> lit 100" by simp
  have "\<not> lit 35 < 0" "\<not> lit 100 < lit 35" by code_simp+
  then show ?thesis
    using stdclamp_not_beyond [OF h] round1_scale
    by (simp add: score_symbol_def context_update_def Let_def split_beta)
qed

subsection \<open>Rescoring and recording\<close>

lemma map_of_map_key: "map_of (map (\<lambda>kv. (fst kv, f (fst kv) (snd kv))) m) k = map_option (f k) (map_of m k)"
  by (induction m) auto

text \<open>\<open>rescore_all\<close> is scoring per symbol: afterwards the score of a symbol is \<open>score_symbol\<close> of exactly
  that symbol's trades in their order, symbols without trades and the empty symbol have none, and a
  disabled scorer keeps what it had.\<close>

theorem rescore_is_per_symbol:
  "get_score (rescore_all cfg utc now_ns trades s) symb =
     (if \<not> sc_enabled cfg then get_score s symb
      else let ts = filter (\<lambda>t. tr_symbol t = symb) trades in
        if symb = [] \<or> ts = [] then None else Some (score_symbol cfg utc symb ts 0))"
proof -
  have "filter (\<lambda>t. tr_symbol t = symb) (filter (\<lambda>t. tr_symbol t \<noteq> []) trades) =
      (if symb = [] then [] else filter (\<lambda>t. tr_symbol t = symb) trades)"
    by (auto simp: filter_empty_conv intro!: filter_cong)
  then show ?thesis
    by (simp add: rescore_all_def get_score_def Let_def group_by_lookup
        map_of_map_key [where f = "\<lambda>k ts. score_symbol cfg utc k ts 0"])
qed

record ctx_trade =
  ct_symbol :: string
  ct_tf :: string
  ct_dir :: string
  ct_pnl :: double
  ct_win :: bool

definition ctx_key :: "ctx_trade \<Rightarrow> string" where
  "ctx_key t = compute_context_key (ct_symbol t) (ct_tf t) (ct_dir t)"

definition record_all :: "scorer_cfg \<Rightarrow> string \<Rightarrow> ctx_trade list \<Rightarrow> scorer_state \<Rightarrow> scorer_state" where
  "record_all cfg utc ts s =
     fold (\<lambda>t. record_context_trade cfg utc (ct_symbol t) (ct_tf t) (ct_dir t) (ct_pnl t) (ct_win t)) ts s"

definition counts_match :: "scorer_cfg \<Rightarrow> ctx_trade list \<Rightarrow> symbol_score option \<Rightarrow> bool" where
  "counts_match cfg mine so =
     (case so of None \<Rightarrow> mine = []
      | Some sc \<Rightarrow> mine \<noteq> [] \<and> ss_total_trades sc = int (length mine) \<and>
          ss_wins sc = int (length (filter ct_win mine)) \<and>
          ss_losses sc = ss_total_trades sc - ss_wins sc \<and> ss_tier sc = assign_tier cfg (ss_composite_score sc))"

lemma counts_match_step:
  "counts_match cfg mine so \<Longrightarrow>
   counts_match cfg (mine @ [t])
     (Some (context_update cfg utc key (ct_pnl t) (ct_win t) (case so of Some x \<Rightarrow> x | None \<Rightarrow> SymbolScore)))"
  by (cases so) (simp_all add: counts_match_def context_update_def Let_def SymbolScore_def)

text \<open>The context scores count what was recorded: after any sequence of context trades from an empty
  context map, the score under a key exists exactly when a trade had that key, its totals are the
  numbers of those trades and of their wins, its losses are the rest, and the tier follows from its
  composite score.\<close>

theorem context_scores_count:
  "counts_match cfg (filter (\<lambda>t. ctx_key t = key) ts)
     (map_of (sco_context (record_all cfg utc ts (s\<lparr>sco_context := []\<rparr>))) key)"
proof (induction ts rule: rev_induct)
  case (snoc t ts)
  show ?case
  proof (cases "ctx_key t = key")
    case True
    then have "compute_context_key (ct_symbol t) (ct_tf t) (ct_dir t) = key" by (simp add: ctx_key_def)
    with True show ?thesis
      using counts_match_step [OF snoc.IH, of t utc key]
      by (simp add: record_all_def record_context_trade_def Let_def map_of_update)
  next
    case False
    with snoc.IH show ?thesis
      by (simp add: record_all_def record_context_trade_def Let_def map_of_update ctx_key_def)
  qed
qed (simp add: record_all_def counts_match_def)

text \<open>A scorer configuration with the constructor's defaults, for concrete instances.\<close>

definition default_scorer :: scorer_cfg where
  "default_scorer =
     \<lparr>sc_enabled = True, sc_min_trades = 20, sc_rescore_hours = 6, sc_w_expectancy = lit (35/100),
      sc_w_pf = lit (25/100), sc_w_wr = lit (20/100), sc_w_con = lit (10/100), sc_w_fq = lit (10/100),
      sc_th_S = lit 75, sc_th_A = lit 60, sc_th_B = lit 45, sc_th_C = lit 30, sc_th_D = lit 15,
      sc_size_mult = [(''S'', lit (3/2)), (''A'', 1), (''X'', 0)], sc_max_lev = [(''S'', 20), (''X'', 0)],
      sc_rev_enabled = True, sc_rev_min_trades = 3, sc_rev_allow_wr = lit (35/100), sc_rev_bonus_wr = lit (1/2),
      sc_rev_penalty_zero = lit (- 15), sc_rev_penalty_low = lit (- 10), sc_rev_bonus = lit 5\<rparr>"

theorem assign_tier_monotone_witness:
  "tier_rank (assign_tier default_scorer (lit 40)) \<le> tier_rank (assign_tier default_scorer (lit 70))"
  by (rule assign_tier_monotone) code_simp

end
