(* ===== verification/Position_Sizer.thy ===== *)
theory Position_Sizer
  imports Symbol_Scorer
begin

text \<open>
  \<open>risk/position_sizer.hpp\<close>: the amount an entry gets, from the available balance, the symbol's
  score, the stop distance and the drawdown.  \<open>calc_size\<close> is a pure function of its arguments and
  of the configuration.
\<close>

record size_result =
  sr_qty :: double
  sr_usdt :: double
  sr_leverage :: int
  sr_method :: string
  sr_kelly_fraction :: double
  sr_kelly_usdt :: double
  sr_risk_usdt :: double
  sr_tier_mult :: double
  sr_dd_mult :: double
  sr_conf_boost :: double
  sr_final_mult :: double
  sr_reason :: string

record sizer_cfg =
  sz_kelly_frac :: double
  sz_max_risk_pct :: double
  sz_min_usdt :: double
  sz_max_pct :: double
  sz_base_pct :: double
  sz_max_usdt_hard :: double
  sz_dd_levels :: "(double \<times> double) list"

definition default_dd_levels :: "(double \<times> double) list" where
  "default_dd_levels =
     [(lit 10, 1), (lit 20, lit (75/100)), (lit 30, lit (1/2)), (lit 50, lit (25/100)), (lit 100, 0)]"

definition PositionSizer :: "'j json_api \<Rightarrow> 'j \<Rightarrow> exn + sizer_cfg" where
  "PositionSizer api config =
     ebind (js_value_json api config ''position_sizing'' (js_object api)) (\<lambda>cfg.
     ebind (js_value_double api cfg ''kelly_fraction'' (lit (25/100))) (\<lambda>kf.
     ebind (js_value_double api cfg ''max_risk_per_trade_pct'' (lit 5)) (\<lambda>mr.
     ebind (js_value_double api cfg ''min_trade_usdt'' (lit 5)) (\<lambda>mu.
     ebind (js_value_double api cfg ''max_trade_pct'' (lit 50)) (\<lambda>mp.
     ebind (js_value_double api cfg ''base_trade_pct'' (lit 30)) (\<lambda>bp.
     ebind (js_value_double api cfg ''max_trade_usdt'' (lit 100)) (\<lambda>mh.
     ebind (if js_contains api cfg ''drawdown_levels'' then
              ebind (js_field api cfg ''drawdown_levels'') (\<lambda>lv.
                emap (\<lambda>l. ebind (js_value_double api l ''threshold'' (lit 100)) (\<lambda>t.
                           ebind (js_value_double api l ''multiplier'' 0) (\<lambda>m. Inr (t, m)))) (js_elems api lv))
            else Inr []) (\<lambda>dd.
     Inr \<lparr>sz_kelly_frac = kf, sz_max_risk_pct = mr / lit 100, sz_min_usdt = mu, sz_max_pct = mp / lit 100,
          sz_base_pct = bp / lit 100, sz_max_usdt_hard = mh,
          sz_dd_levels = (if dd = [] then default_dd_levels else dd)\<rparr>))))))))"

definition kelly_fraction :: "sizer_cfg \<Rightarrow> double \<Rightarrow> double \<Rightarrow> double \<Rightarrow> double" where
  "kelly_fraction cfg wr avg_w avg_l =
     (if avg_l \<le> 0 \<or> avg_w \<le> 0 then 0
      else let R = avg_w / avg_l; f = wr - (1 - wr) / R in
        if f \<le> 0 then 0 else stdmin (f * sz_kelly_frac cfg) (sz_max_risk_pct cfg))"

fun dd_lookup :: "(double \<times> double) list \<Rightarrow> double \<Rightarrow> double" where
  "dd_lookup [] dd = 0"
| "dd_lookup ((threshold, mult) # ls) dd = (if dd \<le> threshold then mult else dd_lookup ls dd)"

definition drawdown_multiplier :: "sizer_cfg \<Rightarrow> double \<Rightarrow> double" where
  "drawdown_multiplier cfg dd = dd_lookup (sz_dd_levels cfg) dd"

definition fmt_pct :: "double \<Rightarrow> string" where
  "fmt_pct v = take 31 (fmt_fixed 2 (v * lit 100) @ ''%'')"

record size_req =
  sq_balance :: double
  sq_symbol :: string
  sq_price :: double
  sq_sl_price :: double
  sq_leverage :: int
  sq_score :: "symbol_score option"
  sq_dd_pct :: double
  sq_used_margin :: double
  sq_conf :: double

definition available_of :: "size_req \<Rightarrow> double" where
  "available_of q = stdmax (sq_balance q - sq_used_margin q) 0"

text \<open>Steps 1 and 2: the parameters that come from the score, with their defaults.\<close>

definition tier_mult_of :: "size_req \<Rightarrow> double" where
  "tier_mult_of q = (case sq_score q of Some s \<Rightarrow> ss_size_multiplier s | None \<Rightarrow> 1)"

definition capped_leverage :: "size_req \<Rightarrow> int" where
  "capped_leverage q = min (sq_leverage q) (case sq_score q of Some s \<Rightarrow> ss_max_leverage s | None \<Rightarrow> 10)"

definition data_ok_of :: "size_req \<Rightarrow> bool" where
  "data_ok_of q = (case sq_score q of Some s \<Rightarrow> ss_data_sufficient s | None \<Rightarrow> False)"

text \<open>Step 4: Kelly fraction and amount.\<close>

definition kelly_of :: "sizer_cfg \<Rightarrow> size_req \<Rightarrow> double \<times> double" where
  "kelly_of cfg q =
     (let base = available_of q * sz_base_pct cfg;
          (wr, aw, al) = (case sq_score q of Some s \<Rightarrow> (ss_win_rate s, ss_avg_win s, ss_avg_loss s) | None \<Rightarrow> (0, 0, 0))
      in if data_ok_of q \<and> wr > 0 \<and> al > 0 then
           let kf = kelly_fraction cfg wr aw al in (kf, stdmax (sq_balance q * kf) (sz_min_usdt cfg))
         else (0, base))"

text \<open>Step 5: the amount that loses the allowed risk at the stop.\<close>

definition risk_of :: "sizer_cfg \<Rightarrow> size_req \<Rightarrow> double" where
  "risk_of cfg q =
     (let base = available_of q * sz_base_pct cfg in
      if sq_sl_price q > 0 \<and> sq_price q > 0 then
        let sl_dist = \<bar>sq_price q - sq_sl_price q\<bar> / sq_price q in
        if sl_dist > 0
        then stdmax (sq_balance q * sz_max_risk_pct cfg / (sl_dist * dint (capped_leverage q))) (sz_min_usdt cfg)
        else base
      else base)"

text \<open>Step 6: the base amount and the name of the method.\<close>

definition base_of :: "sizer_cfg \<Rightarrow> size_req \<Rightarrow> double \<times> string" where
  "base_of cfg q =
     (let base = available_of q * sz_base_pct cfg; mx = available_of q * sz_max_pct cfg;
          (kf, ku) = kelly_of cfg q; ru = risk_of cfg q in
      if data_ok_of q \<and> kf > 0 then (stdmin (stdmin ku ru) mx, ''kelly_risk_hybrid'')
      else if sq_sl_price q > 0 \<and> sq_price q > 0 then (stdmin ru mx, ''risk_per_trade'')
      else (stdmin base mx, ''balance_pct''))"

text \<open>Step 7: the multipliers and the upper bound.\<close>

definition final_mult_of :: "sizer_cfg \<Rightarrow> size_req \<Rightarrow> double" where
  "final_mult_of cfg q = tier_mult_of q * drawdown_multiplier cfg (sq_dd_pct q) * sq_conf q"

definition cap_of :: "sizer_cfg \<Rightarrow> size_req \<Rightarrow> double" where
  "cap_of cfg q = stdmin (available_of q * sz_max_pct cfg) (sz_max_usdt_hard cfg)"

definition final_usdt_of :: "sizer_cfg \<Rightarrow> size_req \<Rightarrow> double" where
  "final_usdt_of cfg q = stdmin (fst (base_of cfg q) * final_mult_of cfg q) (cap_of cfg q)"

definition size_reason :: "sizer_cfg \<Rightarrow> size_req \<Rightarrow> string" where
  "size_reason cfg q =
     (let tier_str = (case sq_score q of Some s \<Rightarrow> ss_tier s | None \<Rightarrow> ''C'');
          dd_mult = drawdown_multiplier cfg (sq_dd_pct q) in
      ''Avail='' @ fmt_buf 1 (available_of q) @ ''USDT'' @
      ''('' @ fmt_buf 1 (sz_base_pct cfg * lit 100) @ ''%->'' @ fmt_buf 1 (fst (base_of cfg q)) @ '')'' @
      (if data_ok_of q then '' | Kelly='' @ fmt_pct (fst (kelly_of cfg q)) else []) @
      (if sq_sl_price q > 0
       then '' | SL='' @ fmt_buf 2 (\<bar>sq_price q - sq_sl_price q\<bar> / sq_price q * lit 100) @ ''%'' else []) @
      '' | Tier='' @ tier_str @ ''('' @ fmt_buf 2 (tier_mult_of q) @ ''x)'' @
      (if sq_dd_pct q > 0 then '' | DD='' @ fmt_buf 1 (sq_dd_pct q) @ ''%('' @ fmt_buf 2 dd_mult @ ''x)'' else []) @
      (if \<not> deq (sq_conf q) 1 then '' | Conf='' @ fmt_buf 2 (sq_conf q) @ ''x'' else []) @
      '' -> '' @ fmt_buf 1 (final_usdt_of cfg q) @ ''USDT'')"

definition calc_size :: "sizer_cfg \<Rightarrow> size_req \<Rightarrow> size_result" where
  "calc_size cfg q =
     (let tier_mult = tier_mult_of q; lev = capped_leverage q; dd_mult = drawdown_multiplier cfg (sq_dd_pct q);
          final_usdt = final_usdt_of cfg q; fm = final_mult_of cfg q; price = sq_price q in
      if (case sq_score q of Some s \<Rightarrow> ss_tier s = ''X'' | None \<Rightarrow> False) then
        \<lparr>sr_qty = 0, sr_usdt = 0, sr_leverage = 0, sr_method = ''blocked'', sr_kelly_fraction = 0,
         sr_kelly_usdt = 0, sr_risk_usdt = 0, sr_tier_mult = 0, sr_dd_mult = 0, sr_conf_boost = 1, sr_final_mult = 0,
         sr_reason = ''X-tier blacklisted (score: '' @
           (case sq_score q of Some s \<Rightarrow> show_double (ss_composite_score s) | None \<Rightarrow> []) @ '')''\<rparr>
      else if dd_mult \<le> 0 then
        \<lparr>sr_qty = 0, sr_usdt = 0, sr_leverage = lev, sr_method = ''dd_stop'', sr_kelly_fraction = 0,
         sr_kelly_usdt = 0, sr_risk_usdt = 0, sr_tier_mult = tier_mult, sr_dd_mult = 0, sr_conf_boost = 1,
         sr_final_mult = 0, sr_reason = ''Drawdown '' @ show_double (sq_dd_pct q) @ ''% -> trading halted''\<rparr>
      else if final_usdt < sz_min_usdt cfg \<or> available_of q < sz_min_usdt cfg then
        \<lparr>sr_qty = 0, sr_usdt = 0, sr_leverage = lev, sr_method = ''below_minimum'', sr_kelly_fraction = 0,
         sr_kelly_usdt = 0, sr_risk_usdt = 0, sr_tier_mult = tier_mult, sr_dd_mult = dd_mult,
         sr_conf_boost = sq_conf q, sr_final_mult = fm,
         sr_reason = ''Size '' @ fmt_buf 1 final_usdt @ '' < min '' @ fmt_buf 1 (sz_min_usdt cfg)
           @ '' USDT (skip, not floor-up)''\<rparr>
      else
        \<lparr>sr_qty = (if price > 0 then final_usdt / price else 0), sr_usdt = round_to 2 final_usdt,
         sr_leverage = lev, sr_method = snd (base_of cfg q),
         sr_kelly_fraction = round_to 6 (fst (kelly_of cfg q)), sr_kelly_usdt = round_to 2 (snd (kelly_of cfg q)),
         sr_risk_usdt = round_to 2 (risk_of cfg q), sr_tier_mult = tier_mult, sr_dd_mult = dd_mult,
         sr_conf_boost = sq_conf q, sr_final_mult = round_to 4 fm, sr_reason = size_reason cfg q\<rparr>)"

subsection \<open>Bounds\<close>

lemma stdmin_not_above: "\<not> b < stdmin a b" "b \<noteq> NaN \<Longrightarrow> a \<noteq> NaN \<Longrightarrow> stdmin a b \<noteq> NaN"
  by (simp_all add: stdmin_def)

lemma available_ge_0: "isfinite (available_of q) \<Longrightarrow> 0 \<le> available_of q"
proof -
  assume "isfinite (available_of q)"
  then have "sq_balance q - sq_used_margin q \<noteq> NaN" by (auto simp: available_of_def stdmax_def)
  then show ?thesis using stdmax_ge [of "sq_balance q - sq_used_margin q" 0] by (simp add: available_of_def)
qed

lemma cap_bounds:
  assumes "isfinite (available_of q)" "0 \<le> sz_max_pct cfg" "sz_max_pct cfg \<le> 1" "sz_max_usdt_hard cfg \<noteq> NaN"
  shows "cap_of cfg q \<le> available_of q" "cap_of cfg q \<le> sz_max_usdt_hard cfg"
proof -
  have "is_dbl (available_of q)" by (simp add: available_of_def)
  then have le: "available_of q * sz_max_pct cfg \<le> available_of q"
    using assms available_ge_0 by (simp add: dmul_le)
  have "cap_of cfg q \<le> available_of q * sz_max_pct cfg \<and> cap_of cfg q \<le> sz_max_usdt_hard cfg"
    unfolding cap_of_def using le assms(4) by (intro stdmin_le) auto
  then show "cap_of cfg q \<le> available_of q" "cap_of cfg q \<le> sz_max_usdt_hard cfg" using le d_trans by blast+
qed


definition default_sizer :: sizer_cfg where
  "default_sizer =
     \<lparr>sz_kelly_frac = lit (25/100), sz_max_risk_pct = lit (5/100), sz_min_usdt = lit 5, sz_max_pct = lit (1/2),
      sz_base_pct = lit (30/100), sz_max_usdt_hard = lit 100, sz_dd_levels = default_dd_levels\<rparr>"

definition sample_size_req :: size_req where
  "sample_size_req =
     \<lparr>sq_balance = lit 200, sq_symbol = ''ETHUSDT'', sq_price = lit 8, sq_sl_price = 0, sq_leverage = 10,
      sq_score = None, sq_dd_pct = lit 5, sq_used_margin = lit 40, sq_conf = 1\<rparr>"


subsection \<open>Refusals\<close>

text \<open>A blacklisted symbol and a halting drawdown never get a size, whatever the balance and the
  confidence, and no result has a leverage above the requested one or above the symbol's limit
  unless it is the zero of a refusal.\<close>

theorem calc_size_refusals:
  "(if (\<exists>s. sq_score q = Some s \<and> ss_tier s = ''X'') \<or> drawdown_multiplier cfg (sq_dd_pct q) \<le> 0
    then sr_qty (calc_size cfg q) = 0 \<and> sr_usdt (calc_size cfg q) = 0 else True) \<and>
   sr_leverage (calc_size cfg q) \<in> {0, capped_leverage q} \<and> capped_leverage q \<le> sq_leverage q \<and>
   (case sq_score q of Some s \<Rightarrow> capped_leverage q \<le> ss_max_leverage s | None \<Rightarrow> capped_leverage q \<le> 10)"
  by (auto simp: calc_size_def Let_def capped_leverage_def split: option.splits)

subsection \<open>Drawdown\<close>

text \<open>A table whose multipliers do not rise with the threshold and end at or above zero.\<close>

fun levels_ok :: "(double \<times> double) list \<Rightarrow> bool" where
  "levels_ok [] = True"
| "levels_ok [(t, m)] = (0 \<le> m)"
| "levels_ok ((t, m) # (t', m') # ls) = (m' \<le> m \<and> levels_ok ((t', m') # ls))"

lemma levels_ok_nonneg: "levels_ok ((t, m) # ls) \<Longrightarrow> 0 \<le> m"
  by (induction ls arbitrary: t m) (auto, meson d_trans)

lemma dd_lookup_bounds: "levels_ok ((t, m) # ls) \<Longrightarrow> 0 \<le> dd_lookup ls dd \<and> dd_lookup ls dd \<le> m"
proof (induction ls arbitrary: t m)
  case (Cons l ls)
  obtain t' m' where l: "l = (t', m')" by force
  with Cons.prems have le: "m' \<le> m" and ok: "levels_ok ((t', m') # ls)" by auto
  from Cons.IH [OF ok] le levels_ok_nonneg [OF ok] show ?case by (auto simp: l intro: d_trans)
qed simp

text \<open>The size multiplier never grows with the drawdown: for a table of levels with falling
  multipliers, a larger drawdown gets a multiplier that is at most the smaller one's.\<close>

theorem drawdown_multiplier_antimono:
  assumes "levels_ok (sz_dd_levels cfg)" "x \<le> y"
  shows "drawdown_multiplier cfg y \<le> drawdown_multiplier cfg x"
  using assms(1) unfolding drawdown_multiplier_def
proof (induction "sz_dd_levels cfg" arbitrary: cfg)
  case Nil
  then show ?case by (metis dd_lookup.simps(1) d_zero_le_one(3))
next
  case (Cons l ls)
  obtain t m where l: "l = (t, m)" by force
  have ok: "levels_ok ((t, m) # ls)" using Cons.hyps(2) Cons.prems l by simp
  then have tail: "levels_ok ls" by (cases ls) auto
  have IH: "dd_lookup ls y \<le> dd_lookup ls x"
    using Cons.hyps(1) [of "cfg\<lparr>sz_dd_levels := ls\<rparr>"] tail by simp
  have "y \<le> t \<Longrightarrow> x \<le> t" using assms(2) d_trans by blast
  then show ?case
    using IH dd_lookup_bounds [OF ok] levels_ok_nonneg [OF ok] d_refl [of m]
    by (auto simp flip: Cons.hyps(2) simp: l dest: d_not_NaN)
qed

theorem drawdown_multiplier_antimono_witness:
  "drawdown_multiplier default_sizer (lit 25) \<le> drawdown_multiplier default_sizer (lit 15)"
  by (rule drawdown_multiplier_antimono) code_simp+

end
