(* ===== verification/Fee_Analyzer.thy ===== *)
theory Fee_Analyzer
  imports Json_Api
begin

text \<open>
  \<open>risk/fee_analyzer.hpp\<close>: trading costs and the check that a take-profit target pays for them.
  All methods are pure functions of the configuration and their arguments.
\<close>

record cost_analysis =
  ca_symbol :: string
  ca_slippage_tier :: string
  ca_taker_fee_pct :: double
  ca_maker_fee_pct :: double
  ca_slippage_pct :: double
  ca_round_trip_cost_pct :: double
  ca_break_even_pct :: double
  ca_break_even_price :: double
  ca_effective_cost_pct :: double
  ca_funding_rate_8h_pct :: double
  ca_funding_per_day_pct :: double

record fee_cfg =
  fa_taker_fee :: double
  fa_maker_fee :: double
  fa_funding_default :: double
  fa_min_tp_ratio :: double
  fa_major_symbols :: "string list"
  fa_slip_major :: double
  fa_slip_mid :: double
  fa_slip_alt :: double

definition default_majors :: "string list" where
  "default_majors = [''BTCUSDT'', ''ETHUSDT'', ''SOLUSDT'', ''BNBUSDT'', ''XRPUSDT'']"

definition FeeAnalyzer :: "'j json_api \<Rightarrow> 'j \<Rightarrow> exn + fee_cfg" where
  "FeeAnalyzer api config =
     ebind (js_value_json api config ''fee_analysis'' (js_object api)) (\<lambda>cfg.
     ebind (js_value_double api cfg ''taker_fee_pct'' (lit (6/100))) (\<lambda>tf.
     ebind (js_value_double api cfg ''maker_fee_pct'' (lit (2/100))) (\<lambda>mf.
     ebind (js_value_double api cfg ''funding_rate_default_pct'' (lit (1/100))) (\<lambda>fr.
     ebind (js_value_double api cfg ''min_tp_to_cost_ratio'' (lit 2)) (\<lambda>mr.
     ebind (js_value_json api cfg ''slippage_tiers'' (js_object api)) (\<lambda>slip.
     ebind (js_value_json api slip ''major'' (js_object api)) (\<lambda>major.
     ebind (if js_contains api major ''symbols''
            then ebind (js_field api major ''symbols'') (\<lambda>a. emap (js_get_string api) (js_elems api a))
            else Inr default_majors) (\<lambda>syms.
     ebind (js_value_double api major ''base_bps'' (lit (5/10))) (\<lambda>sm.
     ebind (js_value_json api slip ''mid'' (js_object api)) (\<lambda>mid.
     ebind (js_value_double api mid ''base_bps'' (lit (15/10))) (\<lambda>smid.
     ebind (js_value_json api slip ''altcoin'' (js_object api)) (\<lambda>alt.
     ebind (js_value_double api alt ''base_bps'' (lit 3)) (\<lambda>salt.
     Inr \<lparr>fa_taker_fee = tf / lit 100, fa_maker_fee = mf / lit 100, fa_funding_default = fr / lit 100,
          fa_min_tp_ratio = mr, fa_major_symbols = syms, fa_slip_major = sm / lit 10000,
          fa_slip_mid = smid / lit 10000, fa_slip_alt = salt / lit 10000\<rparr>)))))))))))))"

definition get_slippage_tier :: "fee_cfg \<Rightarrow> string \<Rightarrow> string" where
  "get_slippage_tier c symb = (if symb \<in> set (fa_major_symbols c) then ''major'' else ''altcoin'')"

definition get_slippage :: "fee_cfg \<Rightarrow> string \<Rightarrow> double" where
  "get_slippage c symb =
     (let tier = get_slippage_tier c symb in
      if tier = ''major'' then fa_slip_major c else if tier = ''mid'' then fa_slip_mid c else fa_slip_alt c)"

definition round_trip_cost_pct :: "fee_cfg \<Rightarrow> string \<Rightarrow> double" where
  "round_trip_cost_pct c symb = lit 2 * (fa_taker_fee c + get_slippage c symb) * lit 100"

record break_even =
  be_pct :: double
  be_price_move :: double

definition break_even_move :: "fee_cfg \<Rightarrow> string \<Rightarrow> double \<Rightarrow> break_even" where
  "break_even_move c symb price =
     (let rt_cost = lit 2 * (fa_taker_fee c + get_slippage c symb) in
      \<lparr>be_pct = rt_cost * lit 100, be_price_move = price * rt_cost\<rparr>)"

record tp_check =
  tc_profitable :: bool
  tc_tp_distance_pct :: double
  tc_break_even_pct :: double
  tc_ratio :: double
  tc_min_ratio :: double

definition is_tp_profitable :: "fee_cfg \<Rightarrow> string \<Rightarrow> double \<Rightarrow> double \<Rightarrow> double \<Rightarrow> tp_check" where
  "is_tp_profitable c symb entry tp custom =
     (let tp_dist = \<bar>tp - entry\<bar> / entry * lit 100;
          be = break_even_move c symb entry;
          ratio = (if be_pct be > 0 then tp_dist / be_pct be else lit 999);
          min_r = (if custom > 0 then custom else fa_min_tp_ratio c)
      in \<lparr>tc_profitable = ratio \<ge> min_r, tc_tp_distance_pct = tp_dist, tc_break_even_pct = be_pct be,
          tc_ratio = ratio, tc_min_ratio = min_r\<rparr>)"

record net_expectancy =
  ne_positive :: bool
  ne_gross :: double
  ne_total_cost_pct :: double
  ne_net :: double
  ne_min_win_rate :: double

definition check_net_expectancy :: "fee_cfg \<Rightarrow> string \<Rightarrow> double \<Rightarrow> double \<Rightarrow> double \<Rightarrow> double \<Rightarrow> net_expectancy" where
  "check_net_expectancy c symb wr avg_win avg_loss hold_hours =
     (let rt_cost = lit 2 * (fa_taker_fee c + get_slippage c symb) * lit 100;
          funding = fa_funding_default c * lit 100 * (hold_hours / lit 8);
          total = rt_cost + funding;
          gross = wr * avg_win - (1 - wr) * avg_loss;
          net = gross - total;
          min_wr = (if avg_win + avg_loss > 0 then (avg_loss + total) / (avg_win + avg_loss) else 0)
      in \<lparr>ne_positive = net > 0, ne_gross = gross, ne_total_cost_pct = total, ne_net = net,
          ne_min_win_rate = min_wr\<rparr>)"

definition analyze :: "fee_cfg \<Rightarrow> string \<Rightarrow> double \<Rightarrow> int \<Rightarrow> cost_analysis" where
  "analyze c symb price leverage =
     (let slip = get_slippage c symb; rt_cost = lit 2 * (fa_taker_fee c + slip) * lit 100 in
      \<lparr>ca_symbol = symb, ca_slippage_tier = get_slippage_tier c symb, ca_taker_fee_pct = fa_taker_fee c * lit 100,
       ca_maker_fee_pct = fa_maker_fee c * lit 100, ca_slippage_pct = slip * lit 100,
       ca_round_trip_cost_pct = rt_cost, ca_break_even_pct = rt_cost,
       ca_break_even_price = price * (rt_cost / lit 100), ca_effective_cost_pct = rt_cost * dint leverage,
       ca_funding_rate_8h_pct = fa_funding_default c * lit 100,
       ca_funding_per_day_pct = fa_funding_default c * lit 100 * lit 3\<rparr>)"

text \<open>The constructor's defaults, for concrete instances.\<close>

definition default_fees :: fee_cfg where
  "default_fees =
     \<lparr>fa_taker_fee = lit (6/100) / lit 100, fa_maker_fee = lit (2/100) / lit 100,
      fa_funding_default = lit (1/100) / lit 100, fa_min_tp_ratio = lit 2, fa_major_symbols = default_majors,
      fa_slip_major = lit (5/10) / lit 10000, fa_slip_mid = lit (15/10) / lit 10000,
      fa_slip_alt = lit 3 / lit 10000\<rparr>"

subsection \<open>Properties\<close>

text \<open>The middle slippage tier of the configuration is never used: no symbol is classified as \<open>mid\<close>.\<close>

lemma mid_slippage_unused: "get_slippage (c\<lparr>fa_slip_mid := x\<rparr>) symb = get_slippage c symb"
  by (simp add: get_slippage_def get_slippage_tier_def Let_def)

text \<open>A farther target stays profitable: if the cost check passes for a take-profit price, it passes for
  every price at least as far from the entry, on either side, with the same ratio setting.\<close>

theorem farther_tp_stays_profitable:
  assumes "0 < entry" "isfinite entry" "isfinite (be_pct (break_even_move c symb entry))"
    and "\<bar>tp - entry\<bar> \<le> \<bar>tp' - entry\<bar>"
    and "tc_profitable (is_tp_profitable c symb entry tp custom)"
  shows "tc_profitable (is_tp_profitable c symb entry tp' custom)"
proof -
  have "0 < lit 100" "isfinite (lit 100)" by code_simp+
  then have "\<bar>tp - entry\<bar> / entry * lit 100 \<le> \<bar>tp' - entry\<bar> / entry * lit 100"
    using assms by (simp add: ddiv_mono dmul_mono dmul_commute [of _ "lit 100"])
  then show ?thesis
    using assms(3,5) by (auto simp: is_tp_profitable_def Let_def dest: ddiv_mono [of _ _ "be_pct (break_even_move c symb entry)"]
        intro: d_trans)
qed

theorem farther_tp_stays_profitable_witness:
  "tc_profitable (is_tp_profitable default_fees ''BTCUSDT'' (lit 100) (lit 98) 0)"
  by (rule farther_tp_stays_profitable [where tp = "lit 101"]) code_simp+

end
