(* ===== verification/Core_Types.thy ===== *)
theory Core_Types
  imports Doubles
begin

text \<open>
  \<open>core/types.hpp\<close>: symbols of bounded length, the order enumerations and the order request and
  response that the risk manager checks and the exchange client sends.  The two clocks of the file
  are arguments wherever the model needs them.
\<close>

text \<open>\<open>Symbol\<close> keeps at most 23 characters of the text it is built from.\<close>

datatype symb = Symb (symb_str: string)

definition mk_symbol :: "string \<Rightarrow> symb" where
  "mk_symbol sv = Symb (take 23 sv)"

datatype side = Buy | Sell
datatype trade_side = OpenTrade | CloseTrade
datatype order_type = Market | Limit | PostOnly
datatype time_in_force = GTC | IOC | FOK
datatype order_status = New | PartiallyFilled | Filled | Cancelled | Rejected

record order_request =
  or_symbol :: symb
  or_side :: side
  or_trade_side :: trade_side
  or_order_type :: order_type
  or_tif :: time_in_force
  or_price :: double
  or_quantity :: double
  or_client_order_id :: int
  or_created_at :: int
  or_leverage :: int
  or_take_profit :: double
  or_stop_loss :: double
  or_product_type :: string
  or_margin_coin :: string
  or_comment :: string

record order_response =
  rs_client_order_id :: int
  rs_exchange_order_id :: int
  rs_status :: order_status
  rs_filled_price :: double
  rs_filled_qty :: double
  rs_updated_at :: int
  rs_error_code :: int
  rs_error_msg :: string

lemma mk_symbol_str: "symb_str (mk_symbol s) = take 23 s"
  by (simp add: mk_symbol_def)

lemma mk_symbol_short [simp]: "length s \<le> 23 \<Longrightarrow> symb_str (mk_symbol s) = s"
  by (simp add: mk_symbol_def)

lemma mk_symbol_idem [simp]: "mk_symbol (symb_str (mk_symbol s)) = mk_symbol s"
  by (simp add: mk_symbol_def)

end
