(* ===== verification/Risk_Manager.thy ===== *)
theory Risk_Manager
  imports Core_Types
begin

text \<open>
  \<open>risk/risk_manager.hpp\<close>: the last check in front of every order, with its circuit breaker on the
  day's loss and its per-symbol position counts.  \<open>validate\<close> reads the two atomics without the
  mutex; the model takes the check as one step.
\<close>

record risk_limits =
  lim_max_position_per_symbol :: double
  lim_max_daily_loss :: double
  lim_max_order_size :: double
  lim_max_open_orders :: int
  lim_circuit_breaker_loss :: double
  lim_max_drawdown_pct :: double

definition RiskLimits :: risk_limits where
  "RiskLimits =
     \<lparr>lim_max_position_per_symbol = 1, lim_max_daily_loss = lit 500, lim_max_order_size = lit 1000000000,
      lim_max_open_orders = 10, lim_circuit_breaker_loss = lit 1000, lim_max_drawdown_pct = lit 5\<rparr>"

record position_info =
  pi_count :: int
  pi_total_qty :: double
  pi_side :: string

record risk_manager =
  rm_limits :: risk_limits
  rm_daily_pnl :: double
  rm_daily_loss :: double
  rm_open_orders :: int
  rm_circuit_breaker :: bool
  rm_positions :: "position_info smap"
  rm_allowed_symbols :: "string list"
  rm_last_reset :: int

definition RiskManager :: "risk_limits \<Rightarrow> int \<Rightarrow> risk_manager" where
  "RiskManager limits now =
     \<lparr>rm_limits = limits, rm_daily_pnl = 0, rm_daily_loss = 0, rm_open_orders = 0, rm_circuit_breaker = False,
      rm_positions = [], rm_allowed_symbols = [], rm_last_reset = now\<rparr>"

definition set_allowed_symbols :: "string list \<Rightarrow> risk_manager \<Rightarrow> risk_manager" where
  "set_allowed_symbols symbols s = s\<lparr>rm_allowed_symbols := symbols\<rparr>"

definition validate :: "order_request \<Rightarrow> risk_manager \<Rightarrow> bool" where
  "validate req s =
     (if rm_circuit_breaker s then False
      else if or_quantity req \<le> 0 then False
      else if or_quantity req > lim_max_order_size (rm_limits s) then False
      else if rm_open_orders s \<ge> lim_max_open_orders (rm_limits s) then False
      else let symb = symb_str (or_symbol req) in
        if rm_allowed_symbols s \<noteq> [] \<and> symb \<notin> set (rm_allowed_symbols s) then False
        else if (case map_of (rm_positions s) symb of None \<Rightarrow> False
                 | Some p \<Rightarrow> or_trade_side req = OpenTrade \<and>
                     dint (pi_count p) \<ge> lim_max_position_per_symbol (rm_limits s)) then False
        else if rm_daily_loss s > lim_max_daily_loss (rm_limits s) then False
        else True)"

definition on_order_placed :: "risk_manager \<Rightarrow> risk_manager" where
  "on_order_placed s = s\<lparr>rm_open_orders := rm_open_orders s + 1\<rparr>"

definition on_order_done :: "risk_manager \<Rightarrow> risk_manager" where
  "on_order_done s = s\<lparr>rm_open_orders := rm_open_orders s - 1\<rparr>"

definition on_position_opened :: "string \<Rightarrow> double \<Rightarrow> string \<Rightarrow> risk_manager \<Rightarrow> risk_manager" where
  "on_position_opened symb qty side s =
     (let p = (case map_of (rm_positions s) symb of Some p \<Rightarrow> p
               | None \<Rightarrow> \<lparr>pi_count = 0, pi_total_qty = 0, pi_side = []\<rparr>) in
      s\<lparr>rm_positions := AList.update symb
          \<lparr>pi_count = pi_count p + 1, pi_total_qty = pi_total_qty p + qty, pi_side = side\<rparr> (rm_positions s)\<rparr>)"

definition update_pnl_locked :: "double \<Rightarrow> risk_manager \<Rightarrow> risk_manager" where
  "update_pnl_locked pnl s =
     (let s1 = s\<lparr>rm_daily_pnl := rm_daily_pnl s + pnl,
                rm_daily_loss := (if pnl < 0 then rm_daily_loss s - pnl else rm_daily_loss s)\<rparr> in
      if rm_daily_loss s1 \<ge> lim_circuit_breaker_loss (rm_limits s) then s1\<lparr>rm_circuit_breaker := True\<rparr> else s1)"

definition update_pnl :: "double \<Rightarrow> risk_manager \<Rightarrow> risk_manager" where
  "update_pnl pnl s = update_pnl_locked pnl s"

definition on_position_closed :: "string \<Rightarrow> double \<Rightarrow> risk_manager \<Rightarrow> risk_manager" where
  "on_position_closed symb pnl s =
     update_pnl_locked pnl
       (case map_of (rm_positions s) symb of None \<Rightarrow> s
        | Some p \<Rightarrow>
            let p' = p\<lparr>pi_count := pi_count p - 1\<rparr> in
            if pi_count p' \<le> 0 then s\<lparr>rm_positions := AList.delete symb (rm_positions s)\<rparr>
            else s\<lparr>rm_positions := AList.update symb p' (rm_positions s)\<rparr>)"

definition reset_daily :: "int \<Rightarrow> risk_manager \<Rightarrow> risk_manager" where
  "reset_daily now s =
     s\<lparr>rm_daily_pnl := 0, rm_daily_loss := 0, rm_circuit_breaker := False, rm_last_reset := now\<rparr>"

definition needs_daily_reset :: "int \<Rightarrow> risk_manager \<Rightarrow> bool" where
  "needs_daily_reset now s = (now - rm_last_reset s \<ge> 24 * 3600000000000)"

definition open_positions_count :: "risk_manager \<Rightarrow> int" where
  "open_positions_count s = sum_list (map (\<lambda>kp. pi_count (snd kp)) (rm_positions s))"

subsection \<open>Sequences of calls\<close>

datatype rm_op =
  AllowSymbols "string list"
| OrderPlaced | OrderDone
| PositionOpened string double string
| PositionClosed string double
| UpdatePnl double
| ResetDaily int

fun rm_exec :: "rm_op \<Rightarrow> risk_manager \<Rightarrow> risk_manager" where
  "rm_exec (AllowSymbols xs) s = set_allowed_symbols xs s"
| "rm_exec OrderPlaced s = on_order_placed s"
| "rm_exec OrderDone s = on_order_done s"
| "rm_exec (PositionOpened symb qty side) s = on_position_opened symb qty side s"
| "rm_exec (PositionClosed symb pnl) s = on_position_closed symb pnl s"
| "rm_exec (UpdatePnl pnl) s = update_pnl pnl s"
| "rm_exec (ResetDaily now) s = reset_daily now s"

definition is_reset :: "rm_op \<Rightarrow> bool" where
  "is_reset x = (case x of ResetDaily _ \<Rightarrow> True | _ \<Rightarrow> False)"

text \<open>C29.  The daily breaker latches: once it is on, no sequence of calls without a daily reset gets any order
  validated, whatever profits or closed positions arrive.\<close>

theorem breaker_latched_until_reset:
  assumes "rm_circuit_breaker s" "\<forall>x \<in> set ops. \<not> is_reset x"
  shows "\<not> validate req (fold rm_exec ops s)"
proof -
  have step: "rm_circuit_breaker (rm_exec x t)" if "rm_circuit_breaker t" "\<not> is_reset x" for x t
    using that
    by (cases x) (auto simp: is_reset_def set_allowed_symbols_def on_order_placed_def on_order_done_def
        on_position_opened_def on_position_closed_def update_pnl_def update_pnl_locked_def Let_def split: option.splits)
  from assms have "rm_circuit_breaker (fold rm_exec ops s)"
    by (induction ops arbitrary: s) (auto simp: step)
  then show ?thesis by (simp add: validate_def)
qed

definition sample_order :: order_request where
  "sample_order =
     \<lparr>or_symbol = mk_symbol ''BTCUSDT'', or_side = Buy, or_trade_side = OpenTrade, or_order_type = Market,
      or_tif = GTC, or_price = lit 100, or_quantity = lit 2, or_client_order_id = 1, or_created_at = 0,
      or_leverage = 10, or_take_profit = 0, or_stop_loss = 0, or_product_type = ''USDT-FUTURES'',
      or_margin_coin = ''USDT'', or_comment = []\<rparr>"

theorem breaker_latched_until_reset_witness:
  "\<not> validate sample_order (fold rm_exec [PositionClosed ''BTCUSDT'' (lit 2000), OrderDone]
      (update_pnl (lit (- 1000)) (RiskManager RiskLimits 0)))"
proof -
  have "rm_circuit_breaker (update_pnl (lit (- 1000)) (RiskManager RiskLimits 0))" by code_simp
  moreover have "\<forall>x \<in> set [PositionClosed ''BTCUSDT'' (lit 2000), OrderDone]. \<not> is_reset x"
    by (simp add: is_reset_def)
  ultimately show ?thesis by (rule breaker_latched_until_reset)
qed

subsection \<open>Positions per symbol\<close>

text \<open>The net number of positions of a symbol after a sequence of openings and closings.\<close>

fun net_open :: "string \<Rightarrow> rm_op list \<Rightarrow> int" where
  "net_open symb [] = 0"
| "net_open symb (PositionOpened s q d # xs) = (if s = symb then net_open symb xs + 1 else net_open symb xs)"
| "net_open symb (PositionClosed s p # xs) =
     (if s = symb then max 0 (net_open symb xs - 1) else net_open symb xs)"
| "net_open symb (_ # xs) = net_open symb xs"

definition count_for :: "risk_manager \<Rightarrow> string \<Rightarrow> int" where
  "count_for s symb = (case map_of (rm_positions s) symb of Some p \<Rightarrow> pi_count p | None \<Rightarrow> 0)"

definition counts_ok :: "risk_manager \<Rightarrow> bool" where
  "counts_ok s \<longleftrightarrow> (\<forall>symb p. map_of (rm_positions s) symb = Some p \<longrightarrow> 0 < pi_count p)"

lemma update_pnl_positions [simp]: "rm_positions (update_pnl_locked pnl s) = rm_positions s"
  "rm_limits (update_pnl_locked pnl s) = rm_limits s"
  by (simp_all add: update_pnl_locked_def Let_def)

lemma counts_ok_exec: "counts_ok s \<Longrightarrow> counts_ok (rm_exec x s)"
proof (cases x)
  case (PositionOpened symb qty side)
  then show "counts_ok s \<Longrightarrow> ?thesis"
    by (auto simp: counts_ok_def on_position_opened_def Let_def map_of_update split: option.splits intro: less_imp_le)
next
  case (PositionClosed symb pnl)
  then show "counts_ok s \<Longrightarrow> ?thesis"
    by (auto simp: counts_ok_def on_position_closed_def Let_def map_of_update map_of_delete split: option.splits)
qed (auto simp: counts_ok_def set_allowed_symbols_def on_order_placed_def on_order_done_def reset_daily_def update_pnl_def)

lemma count_for_exec:
  assumes "counts_ok s"
  shows "count_for (rm_exec x s) symb =
    (case x of PositionOpened t q d \<Rightarrow> if t = symb then count_for s symb + 1 else count_for s symb
     | PositionClosed t p \<Rightarrow> if t = symb then max 0 (count_for s symb - 1) else count_for s symb
     | _ \<Rightarrow> count_for s symb)"
proof (cases x)
  case (PositionClosed t pnl)
  then show ?thesis using assms
    by (fastforce simp: count_for_def counts_ok_def on_position_closed_def Let_def map_of_update map_of_delete
        split: option.splits)
qed (auto simp: count_for_def set_allowed_symbols_def on_order_placed_def on_order_done_def reset_daily_def update_pnl_def
      on_position_opened_def Let_def map_of_update split: option.splits)

text \<open>The per-symbol counter is the number of positions that are open: after any sequence of calls on a
  new manager it counts openings minus closings of the symbol (a closing without an opening does not
  make it negative), and an opening order for a symbol at its limit is refused.\<close>

theorem position_counter_is_net_open:
  "count_for (fold rm_exec ops (RiskManager limits now)) symb = net_open symb (rev ops) \<and>
   (let s = fold rm_exec ops (RiskManager limits now) in
    if 0 < net_open symb (rev ops) \<and> dint (net_open symb (rev ops)) \<ge> lim_max_position_per_symbol limits \<and>
       symb_str (or_symbol req) = symb \<and> or_trade_side req = OpenTrade
    then \<not> validate req s else True)"
proof -
  have all: "counts_ok (fold rm_exec ops (RiskManager limits now)) \<and>
      count_for (fold rm_exec ops (RiskManager limits now)) symb = net_open symb (rev ops) \<and>
      rm_limits (fold rm_exec ops (RiskManager limits now)) = limits"
  proof (induction ops rule: rev_induct)
    case (snoc x ops)
    have "rm_limits (rm_exec x s) = rm_limits s" for s
      by (cases x) (auto simp: set_allowed_symbols_def on_order_placed_def on_order_done_def reset_daily_def update_pnl_def
          on_position_opened_def on_position_closed_def Let_def split: option.splits)
    moreover have "net_open symb (rev (ops @ [x])) = count_for (rm_exec x (fold rm_exec ops (RiskManager limits now))) symb"
      using snoc.IH count_for_exec [of "fold rm_exec ops (RiskManager limits now)" x symb] by (cases x) simp_all
    ultimately show ?case using snoc.IH counts_ok_exec by simp
  qed (simp add: counts_ok_def count_for_def RiskManager_def)
  then show ?thesis
    by (auto simp: Let_def validate_def count_for_def split: option.splits)
qed

end
