(* ===== verification/Symbol_Learner.thy ===== *)
theory Symbol_Learner
  imports Symbol_Scorer
begin

text \<open>
  \<open>risk/symbol_learner.hpp\<close>: per symbol and timeframe, what past trades say about the next one:
  blacklists and cooldowns, learned take-profit and stop distances, a signal quality, a Kelly
  fraction and a window of the last ten results.  The hour of the day and the epoch second that
  \<open>record_trade\<close> and \<open>evaluate\<close> read from the system clock are arguments.
\<close>

subsection \<open>Sessions\<close>

datatype market_session = ASIA | EUROPE | US | OVERLAP_EU_US

definition get_session :: "int \<Rightarrow> market_session" where
  "get_session hour =
     (if hour \<ge> 0 \<and> hour < 8 then ASIA else if hour \<ge> 8 \<and> hour < 13 then EUROPE
      else if hour \<ge> 13 \<and> hour < 17 then OVERLAP_EU_US else US)"

text \<open>The enumerator's value, which indexes the session statistics.\<close>

definition session_index :: "market_session \<Rightarrow> nat" where
  "session_index s = (case s of ASIA \<Rightarrow> 0 | EUROPE \<Rightarrow> 1 | US \<Rightarrow> 2 | OVERLAP_EU_US \<Rightarrow> 3)"

definition session_name :: "market_session \<Rightarrow> string" where
  "session_name s = (case s of ASIA \<Rightarrow> ''ASIA'' | EUROPE \<Rightarrow> ''EU'' | OVERLAP_EU_US \<Rightarrow> ''EU_US'' | US \<Rightarrow> ''US'')"

subsection \<open>Data\<close>

record learn_data =
  ld_total_trades :: int
  ld_wins :: int
  ld_losses :: int
  ld_consecutive_losses :: int
  ld_max_consecutive_losses :: int
  ld_total_pnl :: double
  ld_ema_pnl :: double
  ld_cooldown_until :: int
  ld_blacklisted :: bool
  ld_sum_win_pct :: double
  ld_sum_loss_pct :: double
  ld_win_count_pct :: int
  ld_loss_count_pct :: int
  ld_optimal_tp_pct :: double
  ld_optimal_sl_pct :: double
  ld_hour_stats :: "(int \<times> int) list"
  ld_session_stats :: "(int \<times> int) list"
  ld_avg_win_pct :: double
  ld_avg_loss_pct :: double
  ld_kelly_fraction :: double
  ld_recent_pnls :: "double list"
  ld_recent_idx :: nat
  ld_recent_count :: nat

definition RECENT_WINDOW :: nat where
  "RECENT_WINDOW = 10"

definition SymbolLearnData :: learn_data where
  "SymbolLearnData =
     \<lparr>ld_total_trades = 0, ld_wins = 0, ld_losses = 0, ld_consecutive_losses = 0, ld_max_consecutive_losses = 0,
      ld_total_pnl = 0, ld_ema_pnl = 0, ld_cooldown_until = 0, ld_blacklisted = False, ld_sum_win_pct = 0,
      ld_sum_loss_pct = 0, ld_win_count_pct = 0, ld_loss_count_pct = 0, ld_optimal_tp_pct = lit (15/1000),
      ld_optimal_sl_pct = lit (10/1000), ld_hour_stats = replicate 24 (0, 0), ld_session_stats = replicate 4 (0, 0),
      ld_avg_win_pct = 0, ld_avg_loss_pct = 0, ld_kelly_fraction = 0, ld_recent_pnls = replicate 10 0,
      ld_recent_idx = 0, ld_recent_count = 0\<rparr>"

definition recent_avg_pnl :: "learn_data \<Rightarrow> double" where
  "recent_avg_pnl d =
     (if ld_recent_count d = 0 then 0
      else let n = min (ld_recent_count d) RECENT_WINDOW in
        foldl (+) 0 (take n (ld_recent_pnls d)) / dint (int n))"

definition recent_win_rate :: "learn_data \<Rightarrow> double" where
  "recent_win_rate d =
     (if ld_recent_count d = 0 then lit (1/2)
      else let n = min (ld_recent_count d) RECENT_WINDOW in
        dint (int (length (filter (\<lambda>p. p > 0) (take n (ld_recent_pnls d))))) / dint (int n))"

record learn_decision =
  dec_allowed :: bool
  dec_signal_quality :: double
  dec_size_multiplier :: double
  dec_tp_pct :: double
  dec_sl_pct :: double
  dec_skip_reason :: string

definition LearnDecision :: learn_decision where
  "LearnDecision =
     \<lparr>dec_allowed = True, dec_signal_quality = lit (1/2), dec_size_multiplier = 1, dec_tp_pct = lit (15/1000),
      dec_sl_pct = lit (10/1000), dec_skip_reason = []\<rparr>"

record learner_cfg =
  lc_enabled :: bool
  lc_min_trades_filter :: int
  lc_blacklist_min :: int
  lc_blacklist_wr :: double
  lc_cooldown_streak :: int
  lc_cooldown_minutes :: int
  lc_ema_alpha :: double
  lc_min_trades_tpsl :: int
  lc_default_tp_pct :: double
  lc_default_sl_pct :: double
  lc_tp_safety_margin :: double
  lc_sl_safety_margin :: double
  lc_min_trades_quality :: int
  lc_quality_threshold :: double
  lc_kelly_fraction_cap :: double
  lc_kelly_min_trades :: int

record learner =
  ln_data :: "learn_data smap"
  ln_trade_count_since_save :: int

text \<open>The constructor, without the load it ends with.\<close>

definition learner_config :: "'j json_api \<Rightarrow> 'j \<Rightarrow> exn + learner_cfg" where
  "learner_config api config =
     ebind (js_value_json api config ''learner'' (js_object api)) (\<lambda>cfg.
     ebind (js_value_bool api cfg ''enabled'' True) (\<lambda>en.
     ebind (js_value_int api cfg ''min_trades_filter'' 8) (\<lambda>mtf.
     ebind (js_value_int api cfg ''blacklist_min_trades'' 10) (\<lambda>bm.
     ebind (js_value_double api cfg ''blacklist_win_rate'' (lit (25/100))) (\<lambda>bw.
     ebind (js_value_int api cfg ''cooldown_consecutive_losses'' 3) (\<lambda>cs.
     ebind (js_value_int api cfg ''cooldown_minutes'' 30) (\<lambda>cm.
     ebind (js_value_double api cfg ''ema_alpha'' (lit (15/100))) (\<lambda>ea.
     ebind (js_value_int api cfg ''min_trades_tpsl'' 15) (\<lambda>mtt.
     ebind (js_value_double api cfg ''default_tp_pct'' (lit (15/1000))) (\<lambda>dtp.
     ebind (js_value_double api cfg ''default_sl_pct'' (lit (10/1000))) (\<lambda>dsl.
     ebind (js_value_double api cfg ''tp_safety_margin'' (lit (85/100))) (\<lambda>tsm.
     ebind (js_value_double api cfg ''sl_safety_margin'' (lit (115/100))) (\<lambda>ssm.
     ebind (js_value_int api cfg ''min_trades_quality'' 5) (\<lambda>mtq.
     ebind (js_value_double api cfg ''quality_skip_threshold'' (lit (20/100))) (\<lambda>qt.
     ebind (js_value_double api cfg ''kelly_fraction_cap'' (lit (25/100))) (\<lambda>kc.
     ebind (js_value_int api cfg ''kelly_min_trades'' 20) (\<lambda>km.
     Inr \<lparr>lc_enabled = en, lc_min_trades_filter = mtf, lc_blacklist_min = bm, lc_blacklist_wr = bw,
          lc_cooldown_streak = cs, lc_cooldown_minutes = cm, lc_ema_alpha = ea, lc_min_trades_tpsl = mtt,
          lc_default_tp_pct = dtp, lc_default_sl_pct = dsl, lc_tp_safety_margin = tsm, lc_sl_safety_margin = ssm,
          lc_min_trades_quality = mtq, lc_quality_threshold = qt, lc_kelly_fraction_cap = kc,
          lc_kelly_min_trades = km\<rparr>)))))))))))))))))"

subsection \<open>Keys\<close>

definition make_key :: "string \<Rightarrow> string \<Rightarrow> string" where
  "make_key symb tf = (if tf = [] then symb @ '':all'' else symb @ '':'' @ tf)"

text \<open>\<open>key.rfind(':')\<close> splits at the last colon.\<close>

definition parse_key :: "string \<Rightarrow> string \<times> string" where
  "parse_key key =
     (let tail = takeWhile (\<lambda>c. c \<noteq> CHR '':'') (rev key) in
      if length tail = length key then (key, ''all'')
      else (take (length key - length tail - 1) key, rev tail))"

lemma parse_make_key: "CHR '':'' \<notin> set tf \<Longrightarrow> parse_key (make_key symb tf) = (symb, if tf = [] then ''all'' else tf)"
  by (auto simp: parse_key_def make_key_def takeWhile_append)

subsection \<open>Learning from a trade\<close>

definition recalc_optimal_tpsl :: "learner_cfg \<Rightarrow> learn_data \<Rightarrow> learn_data" where
  "recalc_optimal_tpsl c d =
     (let d1 = (if ld_win_count_pct d \<ge> 5 then
                  let avg = ld_sum_win_pct d / dint (ld_win_count_pct d) in
                  d\<lparr>ld_optimal_tp_pct := stdclamp (avg * lc_tp_safety_margin c) (lit (3/1000)) (lit (5/100)),
                    ld_avg_win_pct := avg\<rparr>
                else d)
      in if ld_loss_count_pct d1 \<ge> 5 then
           let avg = ld_sum_loss_pct d1 / dint (ld_loss_count_pct d1) in
           d1\<lparr>ld_optimal_sl_pct := stdclamp (avg * lc_sl_safety_margin c) (lit (2/1000)) (lit (3/100)),
              ld_avg_loss_pct := avg\<rparr>
         else d1)"

definition recalc_kelly :: "learner_cfg \<Rightarrow> learn_data \<Rightarrow> learn_data" where
  "recalc_kelly c d =
     (if ld_total_trades d < lc_kelly_min_trades c then d\<lparr>ld_kelly_fraction := 0\<rparr>
      else let wr = dint (ld_wins d) / dint (ld_total_trades d); lr = 1 - wr in
        if ld_avg_loss_pct d > 0 \<and> ld_avg_win_pct d > 0 then
          let R = ld_avg_win_pct d / ld_avg_loss_pct d; kelly = wr - lr / R in
          d\<lparr>ld_kelly_fraction := stdclamp (kelly * lit (1/2)) 0 (lc_kelly_fraction_cap c)\<rparr>
        else if ld_total_pnl d > 0 \<and> ld_avg_loss_pct d > 0 then
          d\<lparr>ld_kelly_fraction :=
              stdclamp (ld_total_pnl d / dint (ld_total_trades d) * lit 10) 0 (lc_kelly_fraction_cap c)\<rparr>
        else d\<lparr>ld_kelly_fraction := 0\<rparr>)"

definition update_filters :: "learner_cfg \<Rightarrow> int \<Rightarrow> learn_data \<Rightarrow> learn_data" where
  "update_filters c now_epoch d =
     (let d1 = (if ld_consecutive_losses d \<ge> lc_cooldown_streak c then
                  let extra = min (ld_consecutive_losses d - lc_cooldown_streak c) 3;
                      minutes = lc_cooldown_minutes c * 2 ^ nat extra in
                  d\<lparr>ld_cooldown_until := now_epoch + minutes * 60\<rparr>
                else d)
      in if ld_total_trades d1 \<ge> lc_blacklist_min c then
           let wr = dint (ld_wins d1) / dint (ld_total_trades d1) in
           if wr < lc_blacklist_wr c then d1\<lparr>ld_blacklisted := True\<rparr>
           else if ld_blacklisted d1 \<and> wr \<ge> lc_blacklist_wr c + lit (5/100) then d1\<lparr>ld_blacklisted := False\<rparr>
           else d1
         else d1)"

definition bump :: "nat \<Rightarrow> bool \<Rightarrow> (int \<times> int) list \<Rightarrow> (int \<times> int) list" where
  "bump i is_win xs =
     (let (w, t) = xs ! i in xs[i := (if is_win then w + 1 else w, t + 1)])"

text \<open>The update of one entry by one trade, in the order of \<open>record_trade\<close>.\<close>

definition learn_trade :: "learner_cfg \<Rightarrow> int \<Rightarrow> int \<Rightarrow> trade_record \<Rightarrow> learn_data \<Rightarrow> learn_data" where
  "learn_trade c hour now_epoch tr d =
     (let pnl = tr_pnl tr; is_win = pnl > 0;
          d1 = d\<lparr>ld_total_trades := ld_total_trades d + 1, ld_total_pnl := ld_total_pnl d + pnl\<rparr>;
          d2 = (if is_win then d1\<lparr>ld_wins := ld_wins d1 + 1, ld_consecutive_losses := 0\<rparr>
                else d1\<lparr>ld_losses := ld_losses d1 + 1, ld_consecutive_losses := ld_consecutive_losses d1 + 1,
                       ld_max_consecutive_losses := max (ld_max_consecutive_losses d1) (ld_consecutive_losses d1 + 1)\<rparr>);
          d3 = d2\<lparr>ld_ema_pnl := (if ld_total_trades d2 = 1 then pnl
                     else lc_ema_alpha c * pnl + (1 - lc_ema_alpha c) * ld_ema_pnl d2)\<rparr>;
          d4 = (if tr_entry_price tr > 0 \<and> tr_exit_price tr > 0 then
                  let move = \<bar>tr_exit_price tr - tr_entry_price tr\<bar> / tr_entry_price tr in
                  recalc_optimal_tpsl c
                    (if is_win then d3\<lparr>ld_sum_win_pct := ld_sum_win_pct d3 + move, ld_win_count_pct := ld_win_count_pct d3 + 1\<rparr>
                     else d3\<lparr>ld_sum_loss_pct := ld_sum_loss_pct d3 + move, ld_loss_count_pct := ld_loss_count_pct d3 + 1\<rparr>)
                else d3);
          d5 = d4\<lparr>ld_hour_stats := bump (nat hour) is_win (ld_hour_stats d4),
                  ld_session_stats := bump (session_index (get_session hour)) is_win (ld_session_stats d4)\<rparr>;
          d6 = d5\<lparr>ld_recent_pnls := (ld_recent_pnls d5)[ld_recent_idx d5 := pnl],
                  ld_recent_idx := (ld_recent_idx d5 + 1) mod RECENT_WINDOW,
                  ld_recent_count := min (ld_recent_count d5 + 1) RECENT_WINDOW\<rparr>
      in update_filters c now_epoch (recalc_kelly c d6))"

text \<open>\<open>record_trade\<close>; the periodic save every ten trades is a write and only resets the counter here.\<close>

definition record_trade :: "learner_cfg \<Rightarrow> int \<Rightarrow> int \<Rightarrow> trade_record \<Rightarrow> learner \<Rightarrow> learner" where
  "record_trade c hour now_epoch tr s =
     (if \<not> lc_enabled c \<or> tr_symbol tr = [] then s
      else let key = make_key (tr_symbol tr) (tr_timeframe tr);
               d = (case map_of (ln_data s) key of Some d \<Rightarrow> d | None \<Rightarrow> SymbolLearnData);
               n = ln_trade_count_since_save s + 1
        in \<lparr>ln_data = AList.update key (learn_trade c hour now_epoch tr d) (ln_data s),
            ln_trade_count_since_save = (if n \<ge> 10 then 0 else n)\<rparr>)"

subsection \<open>Judging an entry\<close>

definition ratio_or :: "int \<Rightarrow> int \<times> int \<Rightarrow> double \<Rightarrow> double" where
  "ratio_or least wt dflt = (if snd wt \<ge> least then dint (fst wt) / dint (snd wt) else dflt)"

definition calc_signal_quality :: "learn_data \<Rightarrow> int \<Rightarrow> double" where
  "calc_signal_quality d hour =
     (let base_wr = (if ld_total_trades d > 0 then dint (ld_wins d) / dint (ld_total_trades d) else lit (1/2));
          hour_q = (if hour \<ge> 0 \<and> hour < 24 then ratio_or 3 (ld_hour_stats d ! nat hour) base_wr else base_wr);
          session_q = (if hour \<ge> 0
                       then ratio_or 3 (ld_session_stats d ! session_index (get_session hour)) base_wr else base_wr);
          trend_q = (if ld_total_trades d \<ge> 5 then stdclamp (lit (1/2) + ld_ema_pnl d * lit 50) 0 1 else lit (1/2));
          recent_q = (if ld_recent_count d \<ge> 3 then recent_win_rate d else lit (1/2));
          streak_q = (if ld_consecutive_losses d \<ge> 2
                      then stdmax (lit (1/10)) (1 - dint (ld_consecutive_losses d) * lit (15/100)) else 1)
      in stdclamp (hour_q * lit (20/100) + session_q * lit (15/100) + trend_q * lit (25/100)
                   + recent_q * lit (20/100) + streak_q * lit (20/100)) 0 1)"

text \<open>The size multiplier before the session filter: Kelly, quality, streak and recent results.\<close>

definition streak_mult :: "int \<Rightarrow> double" where
  "streak_mult n = stdmax (lit (3/10)) (1 - dint n * lit (2/10))"

definition raw_multiplier :: "learner_cfg \<Rightarrow> learn_data \<Rightarrow> double \<Rightarrow> double" where
  "raw_multiplier c d quality =
     (let m0 = (if ld_total_trades d \<ge> lc_kelly_min_trades c \<and> ld_kelly_fraction d > 0
                then stdclamp (lit (1/2) + ld_kelly_fraction d * lit 4) (lit (1/2)) (lit (15/10)) else 1);
          m1 = (if ld_total_trades d \<ge> lc_min_trades_quality c
                then m0 * stdclamp (quality * lit (15/10)) (lit (1/2)) (lit (12/10)) else m0);
          m2 = (if ld_consecutive_losses d \<ge> 2 then m1 * streak_mult (ld_consecutive_losses d) else m1)
      in if ld_recent_count d \<ge> 5 then
           (if recent_win_rate d < lit (3/10) then m2 * lit (1/2)
            else if recent_win_rate d > lit (6/10) then m2 * lit (12/10) else m2)
         else m2)"

definition evaluate :: "learner_cfg \<Rightarrow> int \<Rightarrow> learner \<Rightarrow> string \<Rightarrow> string \<Rightarrow> int \<Rightarrow> learn_decision" where
  "evaluate c now_epoch s symb tf hour =
     (if \<not> lc_enabled c then LearnDecision
      else let key = make_key symb tf in
        case map_of (ln_data s) key of
          None \<Rightarrow> LearnDecision\<lparr>dec_tp_pct := lc_default_tp_pct c, dec_sl_pct := lc_default_sl_pct c\<rparr>
        | Some d \<Rightarrow>
            if ld_blacklisted d \<and> ld_total_trades d \<ge> lc_blacklist_min c then
              LearnDecision\<lparr>dec_allowed := False,
                dec_skip_reason := ''BLACKLISTED('' @ key @ '' wr='' @
                  take 5 (show_double (if ld_total_trades d > 0
                    then dint (ld_wins d) / dint (ld_total_trades d) * lit 100 else 0)) @ ''%)''\<rparr>
            else if ld_cooldown_until d > 0 \<and> now_epoch < ld_cooldown_until d then
              LearnDecision\<lparr>dec_allowed := False,
                dec_skip_reason := ''COOLDOWN('' @ key @ '' '' @ show_int (ld_cooldown_until d - now_epoch) @
                  ''s, streak='' @ show_int (ld_consecutive_losses d) @ '')''\<rparr>
            else let q = calc_signal_quality d hour; dec = LearnDecision\<lparr>dec_signal_quality := q\<rparr> in
              if ld_total_trades d \<ge> lc_min_trades_quality c \<and> q < lc_quality_threshold c then
                dec\<lparr>dec_allowed := False,
                    dec_skip_reason := ''LOW_QUALITY('' @ key @ '' q='' @ take 5 (show_double q) @ '')''\<rparr>
              else
                let dec = (if ld_total_trades d \<ge> lc_min_trades_tpsl c
                           then dec\<lparr>dec_tp_pct := ld_optimal_tp_pct d, dec_sl_pct := ld_optimal_sl_pct d\<rparr>
                           else dec\<lparr>dec_tp_pct := lc_default_tp_pct c, dec_sl_pct := lc_default_sl_pct c\<rparr>);
                    m = raw_multiplier c d q;
                    (sw, st) = ld_session_stats d ! session_index (get_session hour);
                    swr = dint sw / dint st
                in if hour \<ge> 0 \<and> st \<ge> 5 \<and> swr < lit (2/10) then
                     dec\<lparr>dec_size_multiplier := m, dec_allowed := False,
                         dec_skip_reason := ''BAD_SESSION('' @ session_name (get_session hour) @ '' wr='' @
                           take 5 (show_double (swr * lit 100)) @ ''%)''\<rparr>
                   else
                     let m' = (if hour \<ge> 0 \<and> st \<ge> 5 \<and> swr < lit (35/100) then m * lit (6/10) else m) in
                     dec\<lparr>dec_size_multiplier := stdclamp m' (lit (2/10)) (lit 2)\<rparr>)"

subsection \<open>Reports\<close>

definition is_in_cooldown :: "int \<Rightarrow> learn_data \<Rightarrow> bool" where
  "is_in_cooldown now_epoch d = (if ld_cooldown_until d \<le> 0 then False else now_epoch < ld_cooldown_until d)"

record session_row =
  srow_name :: string
  srow_wins :: int
  srow_total :: int
  srow_win_rate :: double

record learner_row =
  lr_key :: string
  lr_symbol :: string
  lr_timeframe :: string
  lr_total_trades :: int
  lr_wins :: int
  lr_losses :: int
  lr_win_rate :: double
  lr_total_pnl :: double
  lr_ema_pnl :: double
  lr_consecutive_losses :: int
  lr_blacklisted :: bool
  lr_cooldown_active :: bool
  lr_optimal_tp_pct :: double
  lr_optimal_sl_pct :: double
  lr_kelly_fraction :: double
  lr_sessions :: "session_row list"
  lr_recent_win_rate :: double
  lr_recent_avg_pnl :: double

definition session_rows :: "learn_data \<Rightarrow> session_row list" where
  "session_rows d =
     map (\<lambda>(name, sw, st). \<lparr>srow_name = name, srow_wins = sw, srow_total = st,
                             srow_win_rate = dround (dint sw / dint st * lit 1000) / lit 10\<rparr>)
       (filter (\<lambda>(name, sw, st). st > 0) (zip [''ASIA'', ''EU'', ''EU_US'', ''US''] (ld_session_stats d)))"

definition learner_row_of :: "int \<Rightarrow> string \<times> learn_data \<Rightarrow> learner_row" where
  "learner_row_of now_epoch kd =
     (let (key, d) = kd; (symb, tf) = parse_key key;
          wr = (if ld_total_trades d > 0 then dint (ld_wins d) / dint (ld_total_trades d) else 0) in
      \<lparr>lr_key = key, lr_symbol = symb, lr_timeframe = tf, lr_total_trades = ld_total_trades d, lr_wins = ld_wins d,
       lr_losses = ld_losses d, lr_win_rate = dround (wr * lit 1000) / lit 10, lr_total_pnl = round_to 4 (ld_total_pnl d),
       lr_ema_pnl = round_to 4 (ld_ema_pnl d), lr_consecutive_losses = ld_consecutive_losses d,
       lr_blacklisted = ld_blacklisted d, lr_cooldown_active = is_in_cooldown now_epoch d,
       lr_optimal_tp_pct = dround (ld_optimal_tp_pct d * lit 10000) / lit 100,
       lr_optimal_sl_pct = dround (ld_optimal_sl_pct d * lit 10000) / lit 100,
       lr_kelly_fraction = round_to 3 (ld_kelly_fraction d), lr_sessions = session_rows d,
       lr_recent_win_rate = dround (recent_win_rate d * lit 1000) / lit 10,
       lr_recent_avg_pnl = round_to 4 (recent_avg_pnl d)\<rparr>)"

definition get_learner_json :: "int \<Rightarrow> learner \<Rightarrow> learner_row list" where
  "get_learner_json now_epoch s =
     map (learner_row_of now_epoch) (sort_key (\<lambda>kd. - ld_total_trades (snd kd)) (ln_data s))"

record learner_summary =
  lsum_enabled :: bool
  lsum_total_entries :: int
  lsum_total_symbols :: int
  lsum_blacklisted :: int
  lsum_cooling_down :: int
  lsum_learned_tpsl :: int
  lsum_min_trades_filter :: int
  lsum_min_trades_tpsl :: int

definition get_summary_json :: "learner_cfg \<Rightarrow> int \<Rightarrow> learner \<Rightarrow> learner_summary" where
  "get_summary_json c now_epoch s =
     (let ds = map snd (ln_data s) in
      \<lparr>lsum_enabled = lc_enabled c, lsum_total_entries = int (length (ln_data s)),
       lsum_total_symbols = int (length (remdups (map (\<lambda>kd. fst (parse_key (fst kd))) (ln_data s)))),
       lsum_blacklisted = count_of (filter ld_blacklisted ds),
       lsum_cooling_down = count_of (filter (is_in_cooldown now_epoch) ds),
       lsum_learned_tpsl = count_of (filter (\<lambda>d. ld_total_trades d \<ge> lc_min_trades_tpsl c) ds),
       lsum_min_trades_filter = lc_min_trades_filter c, lsum_min_trades_tpsl = lc_min_trades_tpsl c\<rparr>)"

subsection \<open>Loading the saved state\<close>

definition set_pair :: "'j json_api \<Rightarrow> 'j \<Rightarrow> (int \<times> int \<Rightarrow> learn_data \<Rightarrow> learn_data) \<Rightarrow> learn_data \<Rightarrow> exn + learn_data" where
  "set_pair api st upd d =
     ebind (js_value_int api st ''w'' 0) (\<lambda>w. ebind (js_value_int api st ''t'' 0) (\<lambda>t. Inr (upd (w, t) d)))"

fun eseq :: "('s \<Rightarrow> 'e + 's) list \<Rightarrow> 's \<Rightarrow> 'e + 's" where
  "eseq [] s = Inr s"
| "eseq (f # fs) s = ebind (f s) (eseq fs)"

definition load_entry :: "'j json_api \<Rightarrow> 'j \<Rightarrow> exn + learn_data" where
  "load_entry api s =
     (let i = (\<lambda>k. js_value_int api s k 0); f = (\<lambda>k. js_value_double api s k 0) in
      eseq
       ([set_from (i ''total_trades'') (\<lambda>v d. d\<lparr>ld_total_trades := v\<rparr>),
         set_from (i ''wins'') (\<lambda>v d. d\<lparr>ld_wins := v\<rparr>),
         set_from (i ''losses'') (\<lambda>v d. d\<lparr>ld_losses := v\<rparr>),
         set_from (i ''consecutive_losses'') (\<lambda>v d. d\<lparr>ld_consecutive_losses := v\<rparr>),
         set_from (i ''max_consecutive_losses'') (\<lambda>v d. d\<lparr>ld_max_consecutive_losses := v\<rparr>),
         set_from (f ''total_pnl'') (\<lambda>v d. d\<lparr>ld_total_pnl := v\<rparr>),
         set_from (f ''ema_pnl'') (\<lambda>v d. d\<lparr>ld_ema_pnl := v\<rparr>),
         set_from (i ''cooldown_until'') (\<lambda>v d. d\<lparr>ld_cooldown_until := v\<rparr>),
         set_from (js_value_bool api s ''blacklisted'' False) (\<lambda>v d. d\<lparr>ld_blacklisted := v\<rparr>),
         set_from (f ''sum_win_pct'') (\<lambda>v d. d\<lparr>ld_sum_win_pct := v\<rparr>),
         set_from (f ''sum_loss_pct'') (\<lambda>v d. d\<lparr>ld_sum_loss_pct := v\<rparr>),
         set_from (i ''win_count_pct'') (\<lambda>v d. d\<lparr>ld_win_count_pct := v\<rparr>),
         set_from (i ''loss_count_pct'') (\<lambda>v d. d\<lparr>ld_loss_count_pct := v\<rparr>),
         set_from (js_value_double api s ''optimal_tp_pct'' (lit (15/1000))) (\<lambda>v d. d\<lparr>ld_optimal_tp_pct := v\<rparr>),
         set_from (js_value_double api s ''optimal_sl_pct'' (lit (10/1000))) (\<lambda>v d. d\<lparr>ld_optimal_sl_pct := v\<rparr>),
         set_from (f ''avg_win_pct'') (\<lambda>v d. d\<lparr>ld_avg_win_pct := v\<rparr>),
         set_from (f ''avg_loss_pct'') (\<lambda>v d. d\<lparr>ld_avg_loss_pct := v\<rparr>),
         set_from (f ''kelly_fraction'') (\<lambda>v d. d\<lparr>ld_kelly_fraction := v\<rparr>),
         (\<lambda>d. if js_contains api s ''hour_stats'' then
                ebind (js_field api s ''hour_stats'') (\<lambda>hs.
                  eseq (map (\<lambda>(h, st) d. ebind (stoi h) (\<lambda>hour.
                          if hour \<ge> 0 \<and> hour < 24
                          then set_pair api st (\<lambda>p d. d\<lparr>ld_hour_stats := (ld_hour_stats d)[nat hour := p]\<rparr>) d
                          else Inr d)) (js_items api hs)) d)
              else Inr d),
         (\<lambda>d. if js_contains api s ''session_stats'' then
                ebind (js_field api s ''session_stats'') (\<lambda>ss.
                  eseq (map (\<lambda>(name, idx) d.
                          if js_contains api ss name then ebind (js_field api ss name) (\<lambda>st.
                            set_pair api st (\<lambda>p d. d\<lparr>ld_session_stats := (ld_session_stats d)[idx := p]\<rparr>) d)
                          else Inr d) [(''ASIA'', 0), (''EU'', 1), (''EU_US'', 2), (''US'', 3)]) d)
              else Inr d),
         set_from (i ''recent_idx'') (\<lambda>v d. d\<lparr>ld_recent_idx := nat v\<rparr>),
         set_from (i ''recent_count'') (\<lambda>v d. d\<lparr>ld_recent_count := nat v\<rparr>),
         (\<lambda>d. if js_contains api s ''recent_pnls'' then
                ebind (js_field api s ''recent_pnls'') (\<lambda>rp.
                  if js_is_array api rp then
                    ebind (emap (js_get_double api) (take RECENT_WINDOW (js_elems api rp))) (\<lambda>vs.
                      Inr (d\<lparr>ld_recent_pnls := vs @ drop (length vs) (ld_recent_pnls d)\<rparr>))
                  else Inr d)
              else Inr d)]) SymbolLearnData)"

text \<open>An entry of the first format: one symbol with statistics per timeframe becomes one entry each.\<close>

definition split_v1 :: "'j json_api \<Rightarrow> string \<Rightarrow> 'j \<Rightarrow> 'j \<Rightarrow> string \<times> 'j \<Rightarrow> learner \<Rightarrow> exn + learner" where
  "split_v1 api symb s tf_stats kv l =
     ebind (load_entry api s) (\<lambda>d.
     ebind (js_value_int api (snd kv) ''t'' 0) (\<lambda>t.
     ebind (js_value_int api (snd kv) ''w'' 0) (\<lambda>w.
       let n = js_size api tf_stats;
           pnl = (if n > 0 then ld_total_pnl d / dint (int n) else ld_total_pnl d);
           d' = d\<lparr>ld_total_trades := t, ld_wins := w, ld_losses := t - w, ld_total_pnl := pnl,
                  ld_consecutive_losses := 0, ld_ema_pnl := pnl / dint (max t 1)\<rparr>
       in Inr (l\<lparr>ln_data := AList.update (symb @ '':'' @ fst kv) d' (ln_data l)\<rparr>))))"

definition load_steps_v1 :: "'j json_api \<Rightarrow> string \<times> 'j \<Rightarrow> (learner \<Rightarrow> exn + learner) list" where
  "load_steps_v1 api kv =
     (let (symb, s) = kv;
          whole = [\<lambda>l. ebind (load_entry api s) (\<lambda>d. Inr (l\<lparr>ln_data := AList.update (symb @ '':all'') d (ln_data l)\<rparr>))]
      in if js_contains api s ''tf_stats'' then
           case js_field api s ''tf_stats'' of
             Inl e \<Rightarrow> [\<lambda>l. Inl e]
           | Inr ts \<Rightarrow> if js_size api ts \<noteq> 0 then map (split_v1 api symb s ts) (js_items api ts) else whole
         else whole)"

definition load_state :: "'j json_api \<Rightarrow> string option \<Rightarrow> learner \<Rightarrow> learner" where
  "load_state api file l =
     (case file of None \<Rightarrow> l
      | Some txt \<Rightarrow>
          (case ebind (js_parse api txt) (\<lambda>st. ebind (js_value_int api st ''version'' 1) (\<lambda>v. Inr (st, v))) of
             Inl e \<Rightarrow> l
           | Inr (st, version) \<Rightarrow>
               if version \<ge> 2 \<and> js_contains api st ''entries'' then
                 (case js_field api st ''entries'' of
                    Inl e \<Rightarrow> l
                  | Inr es \<Rightarrow>
                      try_seq (map (\<lambda>(key, s) l. ebind (load_entry api s) (\<lambda>d.
                                 Inr (l\<lparr>ln_data := AList.update key d (ln_data l)\<rparr>))) (js_items api es)) l)
               else if js_contains api st ''symbols'' then
                 (case js_field api st ''symbols'' of
                    Inl e \<Rightarrow> l
                  | Inr sy \<Rightarrow> try_seq (concat (map (load_steps_v1 api) (js_items api sy))) l)
               else l))"

subsection \<open>What an update changes\<close>

lemma recalc_simps [simp]:
  "ld_total_trades (recalc_optimal_tpsl c d) = ld_total_trades d" "ld_wins (recalc_optimal_tpsl c d) = ld_wins d"
  "ld_losses (recalc_optimal_tpsl c d) = ld_losses d"
  "ld_consecutive_losses (recalc_optimal_tpsl c d) = ld_consecutive_losses d"
  "ld_max_consecutive_losses (recalc_optimal_tpsl c d) = ld_max_consecutive_losses d"
  "ld_hour_stats (recalc_optimal_tpsl c d) = ld_hour_stats d"
  "ld_session_stats (recalc_optimal_tpsl c d) = ld_session_stats d"
  "ld_recent_pnls (recalc_optimal_tpsl c d) = ld_recent_pnls d"
  "ld_recent_idx (recalc_optimal_tpsl c d) = ld_recent_idx d"
  "ld_recent_count (recalc_optimal_tpsl c d) = ld_recent_count d"
  "ld_blacklisted (recalc_optimal_tpsl c d) = ld_blacklisted d"
  by (simp_all add: recalc_optimal_tpsl_def Let_def)

lemma kelly_simps [simp]:
  "ld_total_trades (recalc_kelly c d) = ld_total_trades d" "ld_wins (recalc_kelly c d) = ld_wins d"
  "ld_losses (recalc_kelly c d) = ld_losses d" "ld_consecutive_losses (recalc_kelly c d) = ld_consecutive_losses d"
  "ld_max_consecutive_losses (recalc_kelly c d) = ld_max_consecutive_losses d"
  "ld_hour_stats (recalc_kelly c d) = ld_hour_stats d" "ld_session_stats (recalc_kelly c d) = ld_session_stats d"
  "ld_recent_pnls (recalc_kelly c d) = ld_recent_pnls d" "ld_recent_idx (recalc_kelly c d) = ld_recent_idx d"
  "ld_recent_count (recalc_kelly c d) = ld_recent_count d"
  "ld_optimal_tp_pct (recalc_kelly c d) = ld_optimal_tp_pct d"
  "ld_optimal_sl_pct (recalc_kelly c d) = ld_optimal_sl_pct d"
  by (simp_all add: recalc_kelly_def Let_def)

lemma filters_simps [simp]:
  "ld_total_trades (update_filters c t d) = ld_total_trades d" "ld_wins (update_filters c t d) = ld_wins d"
  "ld_losses (update_filters c t d) = ld_losses d"
  "ld_consecutive_losses (update_filters c t d) = ld_consecutive_losses d"
  "ld_max_consecutive_losses (update_filters c t d) = ld_max_consecutive_losses d"
  "ld_hour_stats (update_filters c t d) = ld_hour_stats d" "ld_session_stats (update_filters c t d) = ld_session_stats d"
  "ld_recent_pnls (update_filters c t d) = ld_recent_pnls d" "ld_recent_idx (update_filters c t d) = ld_recent_idx d"
  "ld_recent_count (update_filters c t d) = ld_recent_count d"
  "ld_optimal_tp_pct (update_filters c t d) = ld_optimal_tp_pct d"
  "ld_optimal_sl_pct (update_filters c t d) = ld_optimal_sl_pct d"
  "ld_kelly_fraction (update_filters c t d) = ld_kelly_fraction d"
  by (simp_all add: update_filters_def Let_def)

lemma learn_trade_fields:
  "ld_total_trades (learn_trade c h t tr d) = ld_total_trades d + 1"
  "ld_wins (learn_trade c h t tr d) = (if tr_pnl tr > 0 then ld_wins d + 1 else ld_wins d)"
  "ld_losses (learn_trade c h t tr d) = (if tr_pnl tr > 0 then ld_losses d else ld_losses d + 1)"
  "ld_consecutive_losses (learn_trade c h t tr d) = (if tr_pnl tr > 0 then 0 else ld_consecutive_losses d + 1)"
  "ld_max_consecutive_losses (learn_trade c h t tr d) =
     (if tr_pnl tr > 0 then ld_max_consecutive_losses d
      else max (ld_max_consecutive_losses d) (ld_consecutive_losses d + 1))"
  "ld_hour_stats (learn_trade c h t tr d) = bump (nat h) (tr_pnl tr > 0) (ld_hour_stats d)"
  "ld_session_stats (learn_trade c h t tr d) = bump (session_index (get_session h)) (tr_pnl tr > 0) (ld_session_stats d)"
  "ld_recent_pnls (learn_trade c h t tr d) = (ld_recent_pnls d)[ld_recent_idx d := tr_pnl tr]"
  "ld_recent_idx (learn_trade c h t tr d) = (ld_recent_idx d + 1) mod RECENT_WINDOW"
  "ld_recent_count (learn_trade c h t tr d) = min (ld_recent_count d + 1) RECENT_WINDOW"
  by (simp_all add: learn_trade_def Let_def)

lemma length_bump [simp]: "length (bump i w xs) = length xs"
  by (simp add: bump_def split_beta)

lemma sum_list_update_pair:
  fixes xs :: "int list"
  shows "i < length xs \<Longrightarrow> sum_list (xs[i := x]) = sum_list xs + x - xs ! i"
proof (induction xs arbitrary: i)
  case (Cons a xs)
  then show ?case by (cases i) auto
qed simp

lemma sum_bump:
  "i < length xs \<Longrightarrow> sum_list (map fst (bump i w xs)) = sum_list (map fst xs) + (if w then 1 else 0)"
  "i < length xs \<Longrightarrow> sum_list (map snd (bump i w xs)) = sum_list (map snd xs) + 1"
  by (simp_all add: bump_def split_beta map_update sum_list_update_pair)

lemma session_index_less: "session_index s < 4"
  by (cases s) (simp_all add: session_index_def)

subsection \<open>The statistics are those of the trades\<close>

record trade_event =
  te_hour :: int
  te_now :: int
  te_trade :: trade_record

definition event_ok :: "trade_event \<Rightarrow> bool" where
  "event_ok e \<longleftrightarrow> 0 \<le> te_hour e \<and> te_hour e < 24"

definition event_key :: "trade_event \<Rightarrow> string" where
  "event_key e = make_key (tr_symbol (te_trade e)) (tr_timeframe (te_trade e))"

definition event_win :: "trade_event \<Rightarrow> bool" where
  "event_win e \<longleftrightarrow> tr_pnl (te_trade e) > 0"

definition learn_all :: "learner_cfg \<Rightarrow> trade_event list \<Rightarrow> learner \<Rightarrow> learner" where
  "learn_all c es s = fold (\<lambda>e. record_trade c (te_hour e) (te_now e) (te_trade e)) es s"

text \<open>What an entry says of the events that went into it.\<close>

definition learned :: "trade_event list \<Rightarrow> learn_data \<Rightarrow> bool" where
  "learned es d \<longleftrightarrow>
     ld_total_trades d = int (length es) \<and> ld_wins d = int (length (filter event_win es)) \<and>
     ld_wins d + ld_losses d = ld_total_trades d \<and>
     0 \<le> ld_consecutive_losses d \<and> ld_consecutive_losses d \<le> ld_max_consecutive_losses d \<and>
     ld_max_consecutive_losses d \<le> ld_losses d \<and>
     length (ld_hour_stats d) = 24 \<and> length (ld_session_stats d) = 4 \<and> length (ld_recent_pnls d) = RECENT_WINDOW \<and>
     sum_list (map fst (ld_hour_stats d)) = ld_wins d \<and> sum_list (map snd (ld_hour_stats d)) = ld_total_trades d \<and>
     sum_list (map fst (ld_session_stats d)) = ld_wins d \<and> sum_list (map snd (ld_session_stats d)) = ld_total_trades d \<and>
     ld_recent_idx d = length es mod RECENT_WINDOW \<and> ld_recent_count d = min (length es) RECENT_WINDOW \<and>
     (\<forall>j < length es. length es \<le> j + RECENT_WINDOW \<longrightarrow>
        ld_recent_pnls d ! (j mod RECENT_WINDOW) = tr_pnl (te_trade (es ! j)))"

lemma learned_init: "learned [] SymbolLearnData"
  by (simp add: learned_def SymbolLearnData_def RECENT_WINDOW_def sum_list_replicate)

lemma mod_window_neq: "j < n \<Longrightarrow> n < j + k \<Longrightarrow> j mod k \<noteq> (n :: nat) mod k"
proof
  assume a: "j < n" "n < j + k" "j mod k = n mod k"
  then have "k dvd n - j" using mod_eq_dvd_iff_nat [of j n k] by auto
  with a(1,2) show False using dvd_imp_le [of k "n - j"] by linarith
qed

lemma learned_step:
  assumes "learned es d" "event_ok e"
  shows "learned (es @ [e]) (learn_trade c (te_hour e) (te_now e) (te_trade e) d)"
proof -
  let ?d = "learn_trade c (te_hour e) (te_now e) (te_trade e) d"
  let ?k = RECENT_WINDOW
  have k: "0 < ?k" by (simp add: RECENT_WINDOW_def)
  have hour: "nat (te_hour e) < length (ld_hour_stats d)"
    "session_index (get_session (te_hour e)) < length (ld_session_stats d)"
    using assms session_index_less by (auto simp: learned_def event_ok_def)
  have idx: "ld_recent_idx d = length es mod ?k" "length (ld_recent_pnls d) = ?k"
    using assms(1) by (simp_all add: learned_def)
  have ring: "ld_recent_pnls ?d ! (j mod ?k) = tr_pnl (te_trade ((es @ [e]) ! j))"
    if j: "j < Suc (length es)" "Suc (length es) \<le> j + ?k" for j
  proof (cases "j = length es")
    case True
    then show ?thesis using idx k by (simp add: learn_trade_fields)
  next
    case False
    with j have "j < length es" "length es < j + ?k" by auto
    moreover from this have "j mod ?k \<noteq> length es mod ?k" by (rule mod_window_neq)
    ultimately show ?thesis using assms(1) idx by (simp add: learn_trade_fields nth_append learned_def)
  qed
  have idx': "ld_recent_idx ?d = length (es @ [e]) mod ?k"
    using idx by (simp add: learn_trade_fields mod_Suc_eq)
  have cnt: "ld_recent_count ?d = min (length (es @ [e])) ?k"
    using assms(1) by (simp add: learn_trade_fields learned_def)
  show ?thesis
    unfolding learned_def
    using assms(1) ring idx' cnt
    by (auto simp: learned_def learn_trade_fields sum_bump [OF hour(1)] sum_bump [OF hour(2)] event_win_def)
qed


text \<open>A learner configuration with the constructor's defaults and sample events, for concrete instances.\<close>

definition default_learner :: learner_cfg where
  "default_learner =
     \<lparr>lc_enabled = True, lc_min_trades_filter = 8, lc_blacklist_min = 10, lc_blacklist_wr = lit (25/100),
      lc_cooldown_streak = 3, lc_cooldown_minutes = 30, lc_ema_alpha = lit (15/100), lc_min_trades_tpsl = 15,
      lc_default_tp_pct = lit (15/1000), lc_default_sl_pct = lit (10/1000), lc_tp_safety_margin = lit (85/100),
      lc_sl_safety_margin = lit (115/100), lc_min_trades_quality = 5, lc_quality_threshold = lit (20/100),
      lc_kelly_fraction_cap = lit (25/100), lc_kelly_min_trades = 20\<rparr>"

definition fresh_learner :: learner where
  "fresh_learner = \<lparr>ln_data = [], ln_trade_count_since_save = 0\<rparr>"

definition loss_event :: trade_event where
  "loss_event = \<lparr>te_hour = 9, te_now = 1000,
     te_trade = TradeRecord\<lparr>tr_symbol := ''BTCUSDT'', tr_timeframe := ''15'', tr_pnl := lit (- 2)\<rparr>\<rparr>"


subsection \<open>Bounds of a decision\<close>

definition distances_ok :: "learn_data \<Rightarrow> bool" where
  "distances_ok d \<longleftrightarrow>
     \<not> ld_optimal_tp_pct d < lit (3/1000) \<and> \<not> lit (5/100) < ld_optimal_tp_pct d \<and>
     \<not> ld_optimal_sl_pct d < lit (2/1000) \<and> \<not> lit (3/100) < ld_optimal_sl_pct d"

lemma distances_recalc: "distances_ok d \<Longrightarrow> distances_ok (recalc_optimal_tpsl c d)"
  using stdclamp_not_beyond [OF lit_mono, of "3/1000" "5/100"] stdclamp_not_beyond [OF lit_mono, of "2/1000" "3/100"]
  by (simp add: distances_ok_def recalc_optimal_tpsl_def Let_def)

lemma distances_learn: "distances_ok d \<Longrightarrow> distances_ok (learn_trade c h t tr d)"
proof -
  have same: "distances_ok d1 = distances_ok d2"
    if "ld_optimal_tp_pct d1 = ld_optimal_tp_pct d2" "ld_optimal_sl_pct d1 = ld_optimal_sl_pct d2" for d1 d2
    using that by (simp add: distances_ok_def)
  have rec: "distances_ok (recalc_optimal_tpsl c d2)"
    if "ld_optimal_tp_pct d2 = ld_optimal_tp_pct d" "ld_optimal_sl_pct d2 = ld_optimal_sl_pct d" "distances_ok d" for d2
    using that same distances_recalc by blast
  assume "distances_ok d"
  then show ?thesis
    by (simp add: learn_trade_def Let_def distances_ok_def) (use rec in \<open>simp add: distances_ok_def\<close>)
qed

lemma distances_init: "distances_ok SymbolLearnData"
  by code_simp


subsection \<open>Losing pauses\<close>

lemma evaluate_cooldown:
  "lc_enabled c \<Longrightarrow> map_of (ln_data s) (make_key symb tf) = Some d \<Longrightarrow> 0 < ld_cooldown_until d \<Longrightarrow>
   now_epoch < ld_cooldown_until d \<Longrightarrow> \<not> dec_allowed (evaluate c now_epoch s symb tf hour)"
  by (simp add: evaluate_def Let_def)

lemma record_lookup:
  "lc_enabled c \<Longrightarrow> tr_symbol tr \<noteq> [] \<Longrightarrow>
   map_of (ln_data (record_trade c h t tr s)) (make_key (tr_symbol tr) (tr_timeframe tr)) =
     Some (learn_trade c h t tr (case map_of (ln_data s) (make_key (tr_symbol tr) (tr_timeframe tr)) of
             Some d \<Rightarrow> d | None \<Rightarrow> SymbolLearnData))"
  by (simp add: record_trade_def Let_def map_of_update)

lemma learn_trade_filters: "\<exists>d0. learn_trade c h t tr d = update_filters c t d0"
  unfolding learn_trade_def Let_def by (rule exI) (rule refl)

lemma filters_cooldown:
  "lc_cooldown_streak c \<le> ld_consecutive_losses d \<Longrightarrow>
   ld_cooldown_until (update_filters c t d) =
     t + lc_cooldown_minutes c * 2 ^ nat (min (ld_consecutive_losses d - lc_cooldown_streak c) 3) * 60"
  by (simp add: update_filters_def Let_def)

lemma filters_blacklist:
  "lc_blacklist_min c \<le> ld_total_trades d \<Longrightarrow> dint (ld_wins d) / dint (ld_total_trades d) < lc_blacklist_wr c \<Longrightarrow>
   ld_blacklisted (update_filters c t d)"
  by (simp add: update_filters_def Let_def)

text \<open>A losing streak pauses its symbol and timeframe: when the trade just recorded brings the streak to
  the configured length, no entry is allowed for at least the configured minutes, and the pause never
  exceeds eight times as long.\<close>

theorem losing_streak_pauses:
  assumes "lc_enabled c" "tr_symbol tr \<noteq> []" "0 < now_epoch" "0 \<le> lc_cooldown_minutes c"
    and "map_of (ln_data (record_trade c h now_epoch tr s)) (make_key (tr_symbol tr) (tr_timeframe tr)) = Some d"
    and "lc_cooldown_streak c \<le> ld_consecutive_losses d"
    and "t < now_epoch + lc_cooldown_minutes c * 60"
  shows "\<not> dec_allowed (evaluate c t (record_trade c h now_epoch tr s) (tr_symbol tr) (tr_timeframe tr) hour) \<and>
         ld_cooldown_until d \<le> now_epoch + 8 * lc_cooldown_minutes c * 60"
proof -
  obtain d0 where d: "d = update_filters c now_epoch d0"
    using assms(5) record_lookup [OF assms(1,2)] learn_trade_filters by (metis option.inject)
  define k where "k = min (ld_consecutive_losses d0 - lc_cooldown_streak c) 3"
  have until: "ld_cooldown_until d = now_epoch + lc_cooldown_minutes c * 2 ^ nat k * 60"
    using assms(6) unfolding d filters_simps k_def by (rule filters_cooldown)
  have "(1 :: int) \<le> 2 ^ nat k" "(2 :: int) ^ nat k \<le> 8"
    using power_increasing [of "nat k" 3 "2 :: int"] by (simp_all add: k_def)
  then have "lc_cooldown_minutes c * 1 \<le> lc_cooldown_minutes c * 2 ^ nat k"
    "lc_cooldown_minutes c * 2 ^ nat k \<le> lc_cooldown_minutes c * 8"
    by (blast intro: mult_left_mono [OF _ assms(4)])+
  then have "t < ld_cooldown_until d" "0 < ld_cooldown_until d" "ld_cooldown_until d \<le> now_epoch + 8 * lc_cooldown_minutes c * 60"
    using assms(3,4,7) unfolding until by linarith+
  then show ?thesis using evaluate_cooldown [OF assms(1,5)] by blast
qed

theorem losing_streak_pauses_witness:
  "\<not> dec_allowed (evaluate default_learner 2799
      (record_trade default_learner 9 1000 (te_trade loss_event) (learn_all default_learner [loss_event, loss_event] fresh_learner))
      (tr_symbol (te_trade loss_event)) (tr_timeframe (te_trade loss_event)) 9)"
proof -
  let ?s = "learn_all default_learner [loss_event, loss_event] fresh_learner"
  let ?d = "the (map_of (ln_data (record_trade default_learner 9 1000 (te_trade loss_event) ?s)) ''BTCUSDT:15'')"
  have "lc_enabled default_learner" "tr_symbol (te_trade loss_event) \<noteq> []" "(0 :: int) < 1000"
    "0 \<le> lc_cooldown_minutes default_learner" "(2799 :: int) < 1000 + lc_cooldown_minutes default_learner * 60"
    by (simp_all add: default_learner_def loss_event_def TradeRecord_def)
  moreover have "map_of (ln_data (record_trade default_learner 9 1000 (te_trade loss_event) ?s))
      (make_key (tr_symbol (te_trade loss_event)) (tr_timeframe (te_trade loss_event))) = Some ?d"
    by code_simp
  moreover have "lc_cooldown_streak default_learner \<le> ld_consecutive_losses ?d" by code_simp
  ultimately show ?thesis using losing_streak_pauses by blast
qed

text \<open>A symbol and timeframe that keeps losing is shut off: once enough trades are recorded and the share
  of wins is below the blacklist rate, every entry is refused, at any hour and any time, until further
  trades raise the rate again.\<close>

theorem blacklisted_never_enters:
  assumes "lc_enabled c" "tr_symbol tr \<noteq> []"
    and "map_of (ln_data (record_trade c h now_epoch tr s)) (make_key (tr_symbol tr) (tr_timeframe tr)) = Some d"
    and "lc_blacklist_min c \<le> ld_total_trades d"
    and "dint (ld_wins d) / dint (ld_total_trades d) < lc_blacklist_wr c"
  shows "\<not> dec_allowed (evaluate c t (record_trade c h now_epoch tr s) (tr_symbol tr) (tr_timeframe tr) hour)"
proof -
  obtain d0 where d: "d = update_filters c now_epoch d0"
    using assms(3) record_lookup [OF assms(1,2)] learn_trade_filters by (metis option.inject)
  have "ld_blacklisted d" using assms(4,5) unfolding d filters_simps by (rule filters_blacklist)
  then show ?thesis using assms(1,3,4) by (simp add: evaluate_def Let_def)
qed

theorem blacklisted_never_enters_witness:
  "\<not> dec_allowed (evaluate (default_learner\<lparr>lc_blacklist_min := 1\<rparr>) 99999
      (record_trade (default_learner\<lparr>lc_blacklist_min := 1\<rparr>) 9 1000 (te_trade loss_event) fresh_learner)
      (tr_symbol (te_trade loss_event)) (tr_timeframe (te_trade loss_event)) 14)"
proof -
  let ?c = "default_learner\<lparr>lc_blacklist_min := 1\<rparr>"
  let ?d = "the (map_of (ln_data (record_trade ?c 9 1000 (te_trade loss_event) fresh_learner)) ''BTCUSDT:15'')"
  have "lc_enabled ?c" "tr_symbol (te_trade loss_event) \<noteq> []"
    by (simp_all add: default_learner_def loss_event_def TradeRecord_def)
  moreover have "map_of (ln_data (record_trade ?c 9 1000 (te_trade loss_event) fresh_learner))
      (make_key (tr_symbol (te_trade loss_event)) (tr_timeframe (te_trade loss_event))) = Some ?d"
    by code_simp
  moreover have "lc_blacklist_min ?c \<le> ld_total_trades ?d" by code_simp
  moreover have "dint (ld_wins ?d) / dint (ld_total_trades ?d) < lc_blacklist_wr ?c" by code_simp
  ultimately show ?thesis by (rule blacklisted_never_enters)
qed

end
