(* ===== verification/Alerts.thy ===== *)
theory Alerts
  imports Prelude
begin

text \<open>
  \<open>core/alert_manager.hpp\<close>: the bounded list of alerts the dashboard shows.  The history contract of
  the prelude is interpreted on \<open>add_alert\<close>.
\<close>

datatype alert_level = INFO | WARN | ERROR | CRITICAL

definition alert_level_str :: "alert_level \<Rightarrow> string" where
  "alert_level_str lv =
     (case lv of INFO \<Rightarrow> ''INFO'' | WARN \<Rightarrow> ''WARN'' | ERROR \<Rightarrow> ''ERROR'' | CRITICAL \<Rightarrow> ''CRITICAL'')"

record alert =
  al_timestamp :: string
  al_level :: alert_level
  al_category :: string
  al_message :: string
  al_symbol :: string

record alert_manager =
  am_alerts :: "alert list"

definition MAX_ALERTS :: nat where
  "MAX_ALERTS = 500"

definition add_alert :: "alert \<Rightarrow> alert_manager \<Rightarrow> alert_manager" where
  "add_alert a m =
     (let xs = am_alerts m @ [a] in
      m\<lparr>am_alerts := (if length xs > MAX_ALERTS then tl xs else xs)\<rparr>)"

definition raise_alert :: "string \<Rightarrow> alert_level \<Rightarrow> string \<Rightarrow> string \<Rightarrow> string \<Rightarrow> alert_manager \<Rightarrow> alert_manager" where
  "raise_alert utc level cat msg symb m =
     add_alert \<lparr>al_timestamp = utc, al_level = level, al_category = cat, al_message = msg, al_symbol = symb\<rparr> m"

record alert_row =
  ar_timestamp :: string
  ar_level :: string
  ar_category :: string
  ar_message :: string
  ar_symbol :: string

definition alert_row_of :: "alert \<Rightarrow> alert_row" where
  "alert_row_of a =
     \<lparr>ar_timestamp = al_timestamp a, ar_level = alert_level_str (al_level a), ar_category = al_category a,
      ar_message = al_message a, ar_symbol = al_symbol a\<rparr>"

definition get_alerts_json :: "int \<Rightarrow> alert_manager \<Rightarrow> alert_row list" where
  "get_alerts_json limit m =
     (let start = int (length (am_alerts m)) - limit; start = (if start < 0 then 0 else start) in
      map alert_row_of (drop (nat start) (am_alerts m)))"

interpretation alert_log: capped_log am_alerts id add_alert MAX_ALERTS
proof
  fix s :: alert_manager and x :: alert
  assume "length (am_alerts s) \<le> MAX_ALERTS"
  then consider "length (am_alerts s) < MAX_ALERTS" | "length (am_alerts s) = MAX_ALERTS" by linarith
  then show "am_alerts (add_alert x s) = last_n MAX_ALERTS (am_alerts s @ [id x])"
    by cases (simp_all add: add_alert_def last_n_id last_n_pop)
qed

lemma get_alerts_last:
  "get_alerts_json limit m = map alert_row_of (last_n (nat limit) (am_alerts m))"
proof (cases "limit < 0")
  case True
  then show ?thesis by (simp add: get_alerts_json_def Let_def)
qed (auto simp: get_alerts_json_def last_n_def Let_def nat_diff_distrib)

text \<open>The alert list is the recent past: after any sequence of alerts on a fresh manager, a request for up
  to 500 alerts returns exactly the newest of them, oldest first, and a request for more returns no
  more than 500.\<close>

theorem alerts_are_newest:
  "get_alerts_json limit (fold add_alert as \<lparr>am_alerts = []\<rparr>) =
     map alert_row_of (last_n (if limit < 0 then 0 else min 500 (nat limit)) as)"
proof -
  have "am_alerts (fold add_alert as \<lparr>am_alerts = []\<rparr>) = last_n 500 as"
    using alert_log.hist_newest [of "\<lparr>am_alerts = []\<rparr>" as] by (simp add: MAX_ALERTS_def)
  then show ?thesis by (auto simp: get_alerts_last last_n_twice min_def last_n_id)
qed

end
