(* ===== verification/Signal_Queue.thy ===== *)
theory Signal_Queue
  imports Prelude
begin

text \<open>
  \<open>core/spsc_queue.hpp\<close>: the bounded queue between the webhook threads and the engine.  Every method
  holds the queue's mutex while it reads and writes, so it is one step; \<open>wait_pop\<close> runs on the state
  in which its wait ends.  What the engine relies on is the contract \<open>fifo_queue\<close>: whatever the
  interleaving of the producers' pushes with the consumer's pops, accepted items come out once
  each and in order, and no more than the capacity wait at a time.
\<close>

record 'a mpsc_queue =
  q_items :: "'a list"
  q_max_cap :: nat
  q_shutdown :: bool

definition MPSCQueue :: "nat \<Rightarrow> 'a mpsc_queue" where
  "MPSCQueue max_cap = \<lparr>q_items = [], q_max_cap = max_cap, q_shutdown = False\<rparr>"

definition try_push :: "'a \<Rightarrow> 'a mpsc_queue \<Rightarrow> bool \<times> 'a mpsc_queue" where
  "try_push x q =
     (if length (q_items q) \<ge> q_max_cap q then (False, q) else (True, q\<lparr>q_items := q_items q @ [x]\<rparr>))"

definition try_pop :: "'a mpsc_queue \<Rightarrow> 'a option \<times> 'a mpsc_queue" where
  "try_pop q = (case q_items q of [] \<Rightarrow> (None, q) | x # xs \<Rightarrow> (Some x, q\<lparr>q_items := xs\<rparr>))"

text \<open>\<open>wait_pop\<close> when its wait ends: with the predicate false it timed out.\<close>

definition wait_pop :: "'a mpsc_queue \<Rightarrow> 'a option \<times> 'a mpsc_queue" where
  "wait_pop q =
     (if \<not> (q_items q \<noteq> [] \<or> q_shutdown q) then (None, q)
      else case q_items q of [] \<Rightarrow> (None, q) | x # xs \<Rightarrow> (Some x, q\<lparr>q_items := xs\<rparr>))"

definition shutdown :: "'a mpsc_queue \<Rightarrow> 'a mpsc_queue" where
  "shutdown q = q\<lparr>q_shutdown := True\<rparr>"

lemma wait_pop_eq_try_pop: "wait_pop q = try_pop q"
  by (auto simp: wait_pop_def try_pop_def split: list.splits)

subsection \<open>The contract\<close>

datatype 'a queue_op = Push 'a | Pop | Shutdown

locale fifo_queue =
  fixes put :: "'a \<Rightarrow> 's \<Rightarrow> bool \<times> 's" and get :: "'s \<Rightarrow> 'a option \<times> 's" and stop :: "'s \<Rightarrow> 's"
    and items :: "'s \<Rightarrow> 'a list" and capacity :: "'s \<Rightarrow> nat"
  assumes put_accepts: "length (items s) < capacity s \<Longrightarrow> fst (put x s) \<and> items (snd (put x s)) = items s @ [x]"
    and put_refuses: "capacity s \<le> length (items s) \<Longrightarrow> \<not> fst (put x s) \<and> items (snd (put x s)) = items s"
    and get_head: "get s = (case items s of [] \<Rightarrow> (None, s) | x # xs \<Rightarrow> (Some x, snd (get s)))"
    and get_rest: "items (snd (get s)) = tl (items s)"
    and stop_items: "items (stop s) = items s"
    and capacity_fixed: "capacity (snd (put x s)) = capacity s" "capacity (snd (get s)) = capacity s"
      "capacity (stop s) = capacity s"
begin

text \<open>One step: the item it accepted, the item it handed out, and the new state.\<close>

fun exec :: "'a queue_op \<Rightarrow> 's \<Rightarrow> 'a list \<times> 'a list \<times> 's" where
  "exec (Push x) s = (let (ok, s') = put x s in ((if ok then [x] else []), [], s'))"
| "exec Pop s = (let (r, s') = get s in ([], (case r of Some x \<Rightarrow> [x] | None \<Rightarrow> []), s'))"
| "exec Shutdown s = ([], [], stop s)"

fun run :: "'a queue_op list \<Rightarrow> 's \<Rightarrow> 'a list \<times> 'a list \<times> 's" where
  "run [] s = ([], [], s)"
| "run (p # ps) s = (let (a, d, s') = exec p s; (as, ds, s'') = run ps s' in (a @ as, d @ ds, s''))"

lemma get_fst: "fst (get s) = (case items s of [] \<Rightarrow> None | x # xs \<Rightarrow> Some x)"
  using get_head [of s] by (cases "items s") (auto simp: prod_eq_iff)

lemma exec_conserves: "exec p s = (a, d, s') \<Longrightarrow> d @ items s' = items s @ a \<and> capacity s' = capacity s"
proof (cases p)
  case (Push x)
  then show "exec p s = (a, d, s') \<Longrightarrow> ?thesis"
    using put_accepts [of s x] put_refuses [of s x] capacity_fixed(1) [of x s]
    by (cases "length (items s) < capacity s") (auto simp: Let_def split_beta)
next
  case Pop
  then show "exec p s = (a, d, s') \<Longrightarrow> ?thesis"
    using get_fst [of s] get_rest [of s] capacity_fixed(2) [of s]
    by (cases "items s") (auto simp: Let_def split_beta)
next
  case Shutdown
  then show "exec p s = (a, d, s') \<Longrightarrow> ?thesis" using stop_items capacity_fixed(3) by auto
qed

lemma run_conserves: "run ps s = (as, ds, s') \<Longrightarrow> ds @ items s' = items s @ as \<and> capacity s' = capacity s"
proof (induction ps arbitrary: s as ds)
  case (Cons p ps)
  obtain a d s1 where e: "exec p s = (a, d, s1)" by (metis prod_cases3)
  obtain as1 ds1 where r: "run ps s1 = (as1, ds1, s')" and eq: "as = a @ as1" "ds = d @ ds1"
    using Cons.prems e by (auto simp: Let_def split: prod.splits)
  have "d @ items s1 = items s @ a" "capacity s1 = capacity s" using exec_conserves [OF e] by auto
  with Cons.IH [OF r] eq show ?case by (metis append.assoc)
qed simp

lemma exec_bounded: "length (items s) \<le> capacity s \<Longrightarrow> exec p s = (a, d, s') \<Longrightarrow> length (items s') \<le> capacity s'"
proof (cases p)
  case (Push x)
  then show "length (items s) \<le> capacity s \<Longrightarrow> exec p s = (a, d, s') \<Longrightarrow> ?thesis"
    using put_accepts [of s x] put_refuses [of s x] capacity_fixed(1) [of x s]
    by (cases "length (items s) < capacity s") (auto simp: Let_def split_beta)
qed (auto simp: Let_def split_beta get_rest stop_items capacity_fixed)

lemma run_bounded: "length (items s) \<le> capacity s \<Longrightarrow> length (items (snd (snd (run ps s)))) \<le> capacity s"
proof (induction ps arbitrary: s)
  case (Cons p ps)
  obtain a d s1 where e: "exec p s = (a, d, s1)" by (metis prod_cases3)
  then show ?case
    using Cons.IH [OF exec_bounded [OF Cons.prems e]] exec_conserves [OF e] by (simp add: Let_def split_beta)
qed simp

end

interpretation mpsc: fifo_queue try_push wait_pop shutdown q_items q_max_cap
  by unfold_locales (auto simp: try_push_def wait_pop_def shutdown_def split: list.splits)

text \<open>The producers' and the consumer's calls on the queue, written out.\<close>

fun queue_exec :: "'a queue_op \<Rightarrow> 'a mpsc_queue \<Rightarrow> 'a list \<times> 'a list \<times> 'a mpsc_queue" where
  "queue_exec (Push x) q = (let (ok, q') = try_push x q in ((if ok then [x] else []), [], q'))"
| "queue_exec Pop q = (let (r, q') = wait_pop q in ([], (case r of Some x \<Rightarrow> [x] | None \<Rightarrow> []), q'))"
| "queue_exec Shutdown q = ([], [], shutdown q)"

fun queue_run :: "'a queue_op list \<Rightarrow> 'a mpsc_queue \<Rightarrow> 'a list \<times> 'a list \<times> 'a mpsc_queue" where
  "queue_run [] q = ([], [], q)"
| "queue_run (p # ps) q = (let (a, d, q') = queue_exec p q; (as, ds, q'') = queue_run ps q' in (a @ as, d @ ds, q''))"

lemma queue_exec_eq: "queue_exec p q = mpsc.exec p q"
  by (cases p) simp_all

lemma queue_run_eq: "queue_run ps q = mpsc.run ps q"
  by (induction ps arbitrary: q) (simp_all add: queue_exec_eq)

text \<open>C26.  Signals are neither lost, duplicated nor reordered: for every interleaving of pushes, pops and a
  shutdown on a new queue, the items handed out followed by the items still waiting are exactly the
  items whose push was accepted, in that order, and never more than the capacity wait.\<close>

theorem queue_fifo_no_loss:
  "let (accepted, delivered, q) = queue_run ps (MPSCQueue n)
   in delivered @ q_items q = accepted \<and> length (q_items q) \<le> n"
proof -
  obtain as ds q where r: "queue_run ps (MPSCQueue n) = (as, ds, q)" by (metis prod_cases3)
  then have "ds @ q_items q = as"
    using mpsc.run_conserves [of ps "MPSCQueue n" as ds q] by (simp add: queue_run_eq MPSCQueue_def)
  moreover have "length (q_items q) \<le> n"
    using mpsc.run_bounded [of "MPSCQueue n" ps] r by (simp add: queue_run_eq MPSCQueue_def)
  ultimately show ?thesis using r by simp
qed

text \<open>A shut-down queue drains: after a shutdown the items that were waiting are still delivered, one per
  pop in their order, and only then do pops return nothing.\<close>

theorem shutdown_drains:
  "queue_run (replicate k Pop) (shutdown q) = ([], take k (q_items q), (shutdown q)\<lparr>q_items := drop k (q_items q)\<rparr>)"
proof (induction k arbitrary: q)
  case (Suc k)
  have s: "shutdown (q\<lparr>q_items := xs\<rparr>) = (shutdown q)\<lparr>q_items := xs\<rparr>" for xs by (simp add: shutdown_def)
  show ?case
  proof (cases "q_items q")
    case Nil
    then show ?thesis using Suc.IH [of q] by (simp add: wait_pop_def shutdown_def)
  next
    case (Cons x xs)
    then show ?thesis using Suc.IH [of "q\<lparr>q_items := xs\<rparr>"] by (simp add: s wait_pop_def) (simp add: shutdown_def)
  qed
qed (simp add: shutdown_def)

end
