(* ===== verification/Rate_Limiter.thy ===== *)
theory Rate_Limiter
  imports Doubles
begin

text \<open>
  \<open>core/rate_limiter.hpp\<close>: the token bucket in front of the exchange's API and the per-symbol lock.
  The bucket's methods are steps that read the steady clock (nanoseconds, an argument); the blocking
  \<open>acquire\<close> is a function of the instants at which its loop looks at the bucket, \<open>None\<close> when it has
  not returned by the last of them.  The lock manager is a transition system whose states also
  record which thread holds which symbol.
\<close>

subsection \<open>Token bucket\<close>

record rate_limiter =
  rl_rate :: double
  rl_max_tokens :: double
  rl_tokens :: double
  rl_last_refill :: int

definition RateLimiter :: "double \<Rightarrow> double \<Rightarrow> int \<Rightarrow> rate_limiter" where
  "RateLimiter rate burst now =
     \<lparr>rl_rate = rate, rl_max_tokens = (if burst > 0 then burst else rate),
      rl_tokens = (if burst > 0 then burst else rate), rl_last_refill = now\<rparr>"

definition refill :: "int \<Rightarrow> rate_limiter \<Rightarrow> rate_limiter" where
  "refill now s =
     (let elapsed = dint (now - rl_last_refill s) / lit 1000000000 in
      s\<lparr>rl_tokens := stdmin (rl_max_tokens s) (rl_tokens s + elapsed * rl_rate s), rl_last_refill := now\<rparr>)"

definition try_acquire :: "int \<Rightarrow> int \<Rightarrow> rate_limiter \<Rightarrow> bool \<times> rate_limiter" where
  "try_acquire now n s =
     (let s = refill now s in
      if rl_tokens s \<ge> dint n then (True, s\<lparr>rl_tokens := rl_tokens s - dint n\<rparr>) else (False, s))"

fun acquire :: "int list \<Rightarrow> int \<Rightarrow> rate_limiter \<Rightarrow> rate_limiter option" where
  "acquire [] n s = None"
| "acquire (now # nows) n s =
     (let s = refill now s in
      if rl_tokens s \<ge> dint n then Some (s\<lparr>rl_tokens := rl_tokens s - dint n\<rparr>) else acquire nows n s)"

definition available :: "rate_limiter \<Rightarrow> double" where
  "available s = rl_tokens s"

text \<open>A bucket in working order: a positive finite rate and capacity, and a level between 0 and it.\<close>

definition bucket_ok :: "rate_limiter \<Rightarrow> bool" where
  "bucket_ok s \<longleftrightarrow> 0 < rl_rate s \<and> isfinite (rl_rate s) \<and> isfinite (rl_max_tokens s) \<and>
     is_dbl (rl_max_tokens s) \<and> is_dbl (rl_tokens s) \<and>
     0 \<le> rl_tokens s \<and> rl_tokens s \<le> rl_max_tokens s"

lemma elapsed_nonneg:
  assumes "0 \<le> t" shows "0 \<le> dint t / lit 1000000000"
proof -
  have "0 < lit 1000000000" by code_simp
  show ?thesis
  proof (cases "isfinite (dint t)")
    case True
    then show ?thesis using assms \<open>0 < lit 1000000000\<close> by (simp add: ddiv_nonneg)
  next
    case False
    moreover have "0 \<le> dint t" using assms by simp
    ultimately have "dint t = PInf" by (cases "dint t") (auto simp: double_defs)
    moreover have "lit 1000000000 = Fin 1000000000" by code_simp
    ultimately show ?thesis by (simp add: double_defs)
  qed
qed

lemma mul_pos_nonneg: "0 \<le> x \<Longrightarrow> 0 < y \<Longrightarrow> isfinite y \<Longrightarrow> 0 \<le> x * (y :: double)"
  by (cases x; cases y) (auto simp: double_defs inf_sign_def rnd_nonneg [unfolded double_defs])

lemma refill_ok: "bucket_ok s \<Longrightarrow> rl_last_refill s \<le> now \<Longrightarrow> bucket_ok (refill now s)"
proof -
  assume ok: "bucket_ok s" and le: "rl_last_refill s \<le> now"
  then have "0 \<le> dint (now - rl_last_refill s) / lit 1000000000 * rl_rate s"
    by (intro mul_pos_nonneg elapsed_nonneg) (auto simp: bucket_ok_def)
  then have sum: "0 \<le> rl_tokens s + dint (now - rl_last_refill s) / lit 1000000000 * rl_rate s"
    using ok by (intro dadd_nonneg) (auto simp: bucket_ok_def)
  have "0 \<le> rl_max_tokens s" using ok by (auto simp: bucket_ok_def intro: d_trans)
  with ok sum show ?thesis
    by (auto simp: bucket_ok_def refill_def Let_def stdmin_def d_refl isfinite_not_NaN d_less_imp_le d_not_less
        dest: d_not_NaN)
qed

lemma dsub_bounds: "y \<le> x \<Longrightarrow> 0 \<le> y \<Longrightarrow> is_dbl x \<Longrightarrow> isfinite x \<Longrightarrow> 0 \<le> x - y \<and> x - y \<le> x"
proof -
  assume a: "y \<le> x" "0 \<le> y" "is_dbl x" "isfinite x"
  then obtain p q where pq: "x = Fin p" "y = Fin q" by (cases x; cases y) (auto simp: double_defs)
  have "0 \<le> rnd (p - q)" using a pq by (intro rnd_nonneg) simp
  moreover have "rnd (p - q) \<le> Fin p" using a pq by (intro rnd_le_self) (auto simp: zero_double_def)
  ultimately show ?thesis by (simp add: pq minus_double_def)
qed

text \<open>The calls of a program: their instants and token counts.\<close>

definition run_calls :: "(int \<times> int) list \<Rightarrow> rate_limiter \<Rightarrow> rate_limiter" where
  "run_calls calls s = fold (\<lambda>c s. snd (try_acquire (fst c) (snd c) s)) calls s"

lemma dint_le_finite: "dint n \<le> x \<Longrightarrow> 0 \<le> n \<Longrightarrow> isfinite x \<Longrightarrow> isfinite (dint n)"
  by (cases "dint n"; cases x) (auto simp: double_defs dest: dint_nonneg)

lemma try_acquire_ok:
  assumes "bucket_ok s" "rl_last_refill s \<le> now" "0 \<le> n" shows "bucket_ok (snd (try_acquire now n s))"
proof -
  have ok: "bucket_ok (refill now s)" using assms by (intro refill_ok)
  let ?t = "rl_tokens (refill now s)"
  have fin: "isfinite ?t"
    using ok isfinite_between [of 0 ?t "rl_max_tokens (refill now s)"] by (simp add: bucket_ok_def)
  show ?thesis
  proof (cases "dint n \<le> ?t")
    case True
    then have "0 \<le> ?t - dint n \<and> ?t - dint n \<le> ?t"
      using ok fin assms(3) by (intro dsub_bounds) (auto simp: bucket_ok_def)
    then show ?thesis using True ok by (auto simp: try_acquire_def Let_def bucket_ok_def intro: d_trans)
  qed (use ok in \<open>simp add: try_acquire_def Let_def\<close>)
qed

lemma try_acquire_time [simp]: "rl_last_refill (snd (try_acquire now n s)) = now"
  by (simp add: try_acquire_def Let_def refill_def)

text \<open>The bucket never overflows and never goes into debt: from a fresh limiter with a positive finite
  rate, after any calls at instants that do not go back, the level stays between zero and the capacity.\<close>

theorem tokens_stay_in_bucket:
  assumes "0 < rate" "isfinite rate" "is_dbl rate"
    and "sorted (start # map fst calls)" "\<forall>c \<in> set calls. 0 \<le> snd c"
  shows "0 \<le> available (run_calls calls (RateLimiter rate 0 start)) \<and>
         available (run_calls calls (RateLimiter rate 0 start)) \<le> rate"
proof -
  have run: "bucket_ok (run_calls calls s) \<and> rl_max_tokens (run_calls calls s) = rl_max_tokens s"
    if "bucket_ok s" "sorted (rl_last_refill s # map fst calls)" "\<forall>c \<in> set calls. 0 \<le> snd c" for s
    using that
  proof (induction calls arbitrary: s)
    case (Cons c calls)
    have "bucket_ok (snd (try_acquire (fst c) (snd c) s))" using Cons.prems by (intro try_acquire_ok) auto
    moreover have "rl_max_tokens (snd (try_acquire (fst c) (snd c) s)) = rl_max_tokens s"
      by (simp add: try_acquire_def Let_def refill_def)
    ultimately show ?case using Cons.IH [of "snd (try_acquire (fst c) (snd c) s)"] Cons.prems
      by (simp add: run_calls_def)
  qed (simp add: run_calls_def)
  have "bucket_ok (RateLimiter rate 0 start)"
    using assms by (auto simp: bucket_ok_def RateLimiter_def d_less_imp_le d_refl isfinite_not_NaN)
  then have "bucket_ok (run_calls calls (RateLimiter rate 0 start)) \<and>
      rl_max_tokens (run_calls calls (RateLimiter rate 0 start)) = rate"
    using run [of "RateLimiter rate 0 start"] assms by (simp add: RateLimiter_def)
  then show ?thesis by (auto simp: bucket_ok_def available_def)
qed

theorem tokens_stay_in_bucket_witness:
  "0 \<le> available (run_calls [(5, 2), (7, 9)] (RateLimiter (lit 9) 0 3))"
proof -
  have "0 < lit 9" "isfinite (lit 9)" by code_simp+
  from tokens_stay_in_bucket [of "lit 9" 3 "[(5, 2), (7, 9)]", OF this] show ?thesis by simp
qed

text \<open>A request above the capacity blocks for good: \<open>acquire\<close> of more tokens than the bucket can hold
  does not return at any number of further looks at the bucket, whenever they happen.\<close>

theorem acquire_beyond_capacity_blocks:
  assumes "rl_max_tokens s < dint n" shows "acquire nows n s = None"
  using assms
proof (induction nows arbitrary: s)
  case (Cons now nows)
  let ?r = "refill now s"
  have cap: "rl_max_tokens ?r = rl_max_tokens s" by (simp add: refill_def Let_def)
  have "\<not> rl_max_tokens s < rl_tokens ?r"
    by (auto simp: refill_def Let_def stdmin_def dest: d_less_trans)
  moreover have "rl_max_tokens s < rl_tokens ?r" if "dint n \<le> rl_tokens ?r"
    using Cons.prems that d_less_le_trans by blast
  ultimately have "\<not> dint n \<le> rl_tokens ?r" by blast
  then show ?case using Cons.IH [of ?r] Cons.prems cap by (simp add: Let_def)
qed simp

theorem acquire_beyond_capacity_blocks_witness:
  "acquire [1000000000, 2000000000, 60000000000] 1 (RateLimiter (lit (1/2)) 0 0) = None"
  by (rule acquire_beyond_capacity_blocks) code_simp

subsection \<open>Symbol locks\<close>

text \<open>The set of locked symbols of \<open>SymbolLockManager\<close>.\<close>

definition try_lock :: "string \<Rightarrow> string set \<Rightarrow> bool \<times> string set" where
  "try_lock symb locked = (symb \<notin> locked, insert symb locked)"

definition unlock :: "string \<Rightarrow> string set \<Rightarrow> string set" where
  "unlock symb locked = locked - {symb}"

text \<open>\<open>wait_lock\<close> on the state in which its wait ends.\<close>

definition wait_lock :: "string \<Rightarrow> string set \<Rightarrow> bool \<times> string set" where
  "wait_lock symb locked = (if symb \<in> locked then (False, locked) else (True, insert symb locked))"

text \<open>
  Threads that use the manager: a thread enters the section of a symbol after a successful
  \<open>try_lock\<close> or \<open>wait_lock\<close> and its guard (\<open>SymbolLockGuard\<close>) unlocks when it leaves.
\<close>

record lock_world =
  lw_locked :: "string set"
  lw_inside :: "(nat \<times> string) set"

inductive lock_step :: "lock_world \<Rightarrow> lock_world \<Rightarrow> bool" where
  enter: "try_lock symb (lw_locked w) = (True, l) \<Longrightarrow>
     lock_step w \<lparr>lw_locked = l, lw_inside = insert (t, symb) (lw_inside w)\<rparr>"
| refused: "try_lock symb (lw_locked w) = (False, l) \<Longrightarrow> lock_step w (w\<lparr>lw_locked := l\<rparr>)"
| enter_waiting: "wait_lock symb (lw_locked w) = (True, l) \<Longrightarrow>
     lock_step w \<lparr>lw_locked = l, lw_inside = insert (t, symb) (lw_inside w)\<rparr>"
| timed_out: "wait_lock symb (lw_locked w) = (False, l) \<Longrightarrow> lock_step w (w\<lparr>lw_locked := l\<rparr>)"
| leave: "(t, symb) \<in> lw_inside w \<Longrightarrow>
     lock_step w \<lparr>lw_locked = unlock symb (lw_locked w), lw_inside = lw_inside w - {(t, symb)}\<rparr>"

inductive lock_reachable :: "lock_world \<Rightarrow> bool" where
  start: "lock_reachable \<lparr>lw_locked = {}, lw_inside = {}\<rparr>"
| step: "lock_reachable w \<Longrightarrow> lock_step w w' \<Longrightarrow> lock_reachable w'"

inductive_cases lock_stepE: "lock_step w w'"

definition lock_inv :: "lock_world \<Rightarrow> bool" where
  "lock_inv w \<longleftrightarrow> lw_locked w = snd ` lw_inside w \<and> inj_on snd (lw_inside w)"

lemma lock_inv_step: "lock_step w w' \<Longrightarrow> lock_inv w \<Longrightarrow> lock_inv w'"
proof (induction rule: lock_step.induct)
  case (enter symb w l t)
  then show ?case by (auto simp: lock_inv_def try_lock_def inj_on_def)
next
  case (refused symb w l)
  then show ?case by (auto simp: lock_inv_def try_lock_def insert_absorb)
next
  case (enter_waiting symb w l t)
  then show ?case by (auto simp: lock_inv_def wait_lock_def inj_on_def split: if_splits)
next
  case (timed_out symb w l)
  then show ?case by (auto simp: lock_inv_def wait_lock_def split: if_splits)
next
  case (leave t symb w)
  then have inj: "inj_on snd (lw_inside w)" by (simp add: lock_inv_def)
  have "snd ` (lw_inside w - {(t, symb)}) = snd ` lw_inside w - snd ` {(t, symb)}"
    using leave by (intro inj_on_image_set_diff [OF inj]) auto
  then show ?case using leave inj_on_diff [OF inj] by (simp add: lock_inv_def unlock_def)
qed

lemma lock_inv_reachable: "lock_reachable w \<Longrightarrow> lock_inv w"
proof (induction rule: lock_reachable.induct)
  case start
  then show ?case by (simp add: lock_inv_def)
next
  case (step w w')
  then show ?case by (blast intro: lock_inv_step)
qed

text \<open>C30.  Mutual exclusion per symbol: in every state that threads can reach by taking, waiting for and
  releasing symbol locks, no two threads are inside the section of the same symbol, and the manager's
  set holds exactly the symbols somebody is inside of, so a symbol is never left locked behind.\<close>

theorem one_thread_per_symbol:
  assumes "lock_reachable w"
  shows "\<not> (\<exists>s t symb. (s, symb) \<in> lw_inside w \<and> (t, symb) \<in> lw_inside w \<and> s \<noteq> t) \<and>
         lw_locked w = snd ` lw_inside w"
proof -
  have inj: "inj_on snd (lw_inside w)" and eq: "lw_locked w = snd ` lw_inside w"
    using lock_inv_reachable [OF assms] by (simp_all add: lock_inv_def)
  have "s = t" if "(s, symb) \<in> lw_inside w" "(t, symb) \<in> lw_inside w" for s t symb
    using inj_onD [OF inj _ that] by simp
  with eq show ?thesis by blast
qed

definition one_inside :: lock_world where
  "one_inside = \<lparr>lw_locked = {''BTCUSDT''}, lw_inside = {(1, ''BTCUSDT'')}\<rparr>"

lemma one_inside_reachable: "lock_reachable one_inside"
  using lock_reachable.step [OF lock_reachable.start lock_step.enter [of "''BTCUSDT''" _ "{''BTCUSDT''}" 1]]
  by (simp add: try_lock_def one_inside_def)

theorem one_thread_per_symbol_witness:
  "\<not> (\<exists>s t symb. (s, symb) \<in> lw_inside one_inside \<and> (t, symb) \<in> lw_inside one_inside \<and> s \<noteq> t) \<and>
   lw_locked one_inside = snd ` lw_inside one_inside"
  by (rule one_thread_per_symbol [OF one_inside_reachable])

end
