(* ===== verification/State_Persistence.thy ===== *)
theory State_Persistence
  imports Portfolio_Risk Symbol_Scorer
begin

text \<open>
  \<open>core/state_persistence.hpp\<close>: saving the engine's state as JSON and recovering it after a restart.
  The file system is a map from paths to contents.  \<open>atomic_write\<close> is modelled twice: as the
  function the caller sees when nothing crashes, and as a step relation \<open>write_step\<close> whose
  intermediate states are those a crash can leave behind (truncated or partial temporary file,
  truncated or partial backup).  Each step is assumed durable once it is done, which is what the
  \<open>fsync\<close> of the temporary file and the atomicity of \<open>rename\<close> give.
\<close>

type_synonym fs = "string \<rightharpoonup> string"

record loaded_state =
  ls_balance :: double
  ls_peak_balance :: double
  ls_positions :: "managed_position smap"
  ls_trades :: "trade_record list"
  ls_orders_executed :: int
  ls_valid :: bool

definition LoadedState :: loaded_state where
  "LoadedState =
     \<lparr>ls_balance = 0, ls_peak_balance = 0, ls_positions = [], ls_trades = [], ls_orders_executed = 0, ls_valid = False\<rparr>"

subsection \<open>The document\<close>

definition position_json :: "'j json_writer \<Rightarrow> managed_position \<Rightarrow> 'j" where
  "position_json w p = jw_obj w
     [(''symbol'', jw_str w (mp_symbol p)), (''timeframe'', jw_str w (mp_timeframe p)),
      (''side'', jw_str w (mp_side p)), (''entry_price'', jw_dbl w (mp_entry_price p)),
      (''quantity'', jw_dbl w (mp_quantity p)), (''leverage'', jw_int w (mp_leverage p)),
      (''sl_price'', jw_dbl w (mp_sl_price p)), (''tp1_price'', jw_dbl w (mp_tp1_price p)),
      (''tier'', jw_str w (mp_tier p)), (''strategy'', jw_str w (mp_strategy p)),
      (''is_real'', jw_bool w (mp_is_real p)), (''exchange'', jw_str w (mp_exchange p)),
      (''market_type'', jw_str w (mp_market_type p))]"

definition trade_json :: "'j json_writer \<Rightarrow> trade_record \<Rightarrow> 'j" where
  "trade_json w t = jw_obj w
     [(''symbol'', jw_str w (tr_symbol t)), (''timeframe'', jw_str w (tr_timeframe t)),
      (''exit_reason'', jw_str w (tr_exit_reason t)), (''pnl'', jw_dbl w (tr_pnl t)), (''fee'', jw_dbl w (tr_fee t)),
      (''entry_price'', jw_dbl w (tr_entry_price t)), (''exit_price'', jw_dbl w (tr_exit_price t)),
      (''quantity'', jw_dbl w (tr_quantity t)), (''strategy'', jw_str w (tr_strategy t)),
      (''exchange'', jw_str w (tr_exchange t)), (''market_type'', jw_str w (tr_market_type t))]"

definition state_json ::
  "'j json_writer \<Rightarrow> string \<Rightarrow> double \<Rightarrow> double \<Rightarrow> managed_position smap \<Rightarrow> trade_record list \<Rightarrow> int \<Rightarrow> 'j" where
  "state_json w utc balance peak ps trades orders = jw_obj w
     [(''balance'', jw_dbl w balance), (''peak_balance'', jw_dbl w peak), (''orders_executed'', jw_int w orders),
      (''saved_at'', jw_str w utc),
      (''positions'', jw_obj w (map (\<lambda>kp. (fst kp, position_json w (snd kp))) ps)),
      (''trades'', jw_arr w (map (trade_json w) (last_n 2000 trades)))]"

subsection \<open>Loading\<close>

definition position_from_json :: "'j json_api \<Rightarrow> 'j \<Rightarrow> exn + managed_position" where
  "position_from_json api pj =
     (let s = js_value_string api pj; d = (\<lambda>k. js_value_double api pj k 0) in
      ebind (s ''symbol'' []) (\<lambda>sy. ebind (s ''timeframe'' []) (\<lambda>tf. ebind (s ''side'' []) (\<lambda>sd.
      ebind (d ''entry_price'') (\<lambda>ep. ebind (d ''quantity'') (\<lambda>q. ebind (js_value_int api pj ''leverage'' 10) (\<lambda>lv.
      ebind (d ''sl_price'') (\<lambda>sl. ebind (d ''tp1_price'') (\<lambda>tp. ebind (s ''tier'' ''C'') (\<lambda>ti.
      ebind (s ''strategy'' ''unknown'') (\<lambda>st. ebind (js_value_bool api pj ''is_real'' False) (\<lambda>re.
      ebind (s ''exchange'' ''bitget'') (\<lambda>ex. ebind (s ''market_type'' ''futures'') (\<lambda>mt.
      Inr (ManagedPosition\<lparr>mp_symbol := sy, mp_timeframe := tf, mp_side := sd, mp_entry_price := ep,
             mp_quantity := q, mp_leverage := lv, mp_sl_price := sl, mp_tp1_price := tp, mp_tier := ti,
             mp_strategy := st, mp_is_real := re, mp_exchange := ex, mp_market_type := mt\<rparr>)))))))))))))))"

text \<open>The assignments of \<open>try_load_file\<close> after the parse, in order; the first that throws ends them.\<close>

definition load_steps :: "'j json_api \<Rightarrow> 'j \<Rightarrow> (loaded_state \<Rightarrow> exn + loaded_state) list" where
  "load_steps api st =
     [set_from (js_value_double api st ''balance'' 0) (\<lambda>v s. s\<lparr>ls_balance := v\<rparr>),
      set_from (js_value_double api st ''peak_balance'' 0) (\<lambda>v s. s\<lparr>ls_peak_balance := v\<rparr>),
      set_from (js_value_int api st ''orders_executed'' 0) (\<lambda>v s. s\<lparr>ls_orders_executed := v\<rparr>)] @
     (case (if js_contains api st ''positions'' then js_field api st ''positions'' else Inr (js_object api)) of
        Inl e \<Rightarrow> [\<lambda>s. Inl e]
      | Inr pos \<Rightarrow>
          map (\<lambda>kv. set_from (position_from_json api (snd kv))
                      (\<lambda>p s. s\<lparr>ls_positions := AList.update (fst kv) p (ls_positions s)\<rparr>))
            (if js_contains api st ''positions'' then js_items api pos else [])) @
     (case (if js_contains api st ''trades'' then js_field api st ''trades'' else Inr (js_object api)) of
        Inl e \<Rightarrow> [\<lambda>s. Inl e]
      | Inr ts \<Rightarrow>
          map (\<lambda>tj s. Inr (s\<lparr>ls_trades := ls_trades s @ [from_json_trade api tj TradeRecord]\<rparr>))
            (if js_contains api st ''trades'' then js_elems api ts else [])) @
     [\<lambda>s. Inr (s\<lparr>ls_valid := True\<rparr>)]"

definition try_load_file :: "'j json_api \<Rightarrow> fs \<Rightarrow> string \<Rightarrow> loaded_state" where
  "try_load_file api fs path =
     (case fs path of
        None \<Rightarrow> LoadedState
      | Some txt \<Rightarrow>
          (case js_parse api txt of
             Inl e \<Rightarrow> LoadedState
           | Inr st \<Rightarrow>
               if \<not> js_contains api st ''balance'' \<or> \<not> js_contains api st ''positions'' then LoadedState
               else try_seq (load_steps api st) LoadedState))"

definition state_path :: "string \<Rightarrow> string" where
  "state_path dir = dir @ ''/state.json''"

definition load_state :: "'j json_api \<Rightarrow> string \<Rightarrow> fs \<Rightarrow> loaded_state" where
  "load_state api dir fs =
     (let r = try_load_file api fs (state_path dir) in
      if ls_valid r then r else try_load_file api fs (state_path dir @ ''.bak''))"

definition needs_save :: "int \<Rightarrow> int \<Rightarrow> int \<Rightarrow> bool" where
  "needs_save now_ns last_save_ns interval_sec = (now_ns - last_save_ns \<ge> interval_sec * 1000000000)"

subsection \<open>Writing\<close>

text \<open>The verification of the temporary file: it parses and names a balance.\<close>

definition verifies :: "'j json_api \<Rightarrow> string \<Rightarrow> bool" where
  "verifies api txt = (case js_parse api txt of Inl e \<Rightarrow> False | Inr v \<Rightarrow> js_contains api v ''balance'')"

definition atomic_write :: "'j json_api \<Rightarrow> string \<Rightarrow> string \<Rightarrow> fs \<Rightarrow> exn option \<times> fs" where
  "atomic_write api path content fs =
     (let tmp = path @ ''.tmp''; bak = path @ ''.bak''; fs1 = fs(tmp \<mapsto> content) in
      case js_parse api content of
        Inl e \<Rightarrow> (Some e, fs1)
      | Inr v \<Rightarrow>
          if \<not> js_contains api v ''balance'' then (Some (RuntimeError ''Written state file validation failed''), fs1)
          else let fs2 = (case fs1 path of Some old \<Rightarrow> fs1(bak \<mapsto> old) | None \<Rightarrow> fs1)
               in (None, (fs2(path \<mapsto> content))(tmp := None)))"

text \<open>\<open>save_state\<close>: a failed write is logged and leaves \<open>m_last_save\<close> alone.\<close>

definition save_state ::
  "'j json_api \<Rightarrow> 'j json_writer \<Rightarrow> string \<Rightarrow> string \<Rightarrow> int \<Rightarrow> double \<Rightarrow> double \<Rightarrow> managed_position smap \<Rightarrow>
   trade_record list \<Rightarrow> int \<Rightarrow> fs \<times> int \<Rightarrow> fs \<times> int" where
  "save_state api w dir utc now_ns balance peak ps trades orders st =
     (let (fs, last_save) = st;
          (err, fs') = atomic_write api (state_path dir) (jw_dump w (state_json w utc balance peak ps trades orders)) fs
      in (fs', if err = None then now_ns else last_save))"

datatype write_pc = WStart | Writing nat | Verified | Copying nat | Copied | WDone | WFailed

inductive write_step :: "'j json_api \<Rightarrow> string \<Rightarrow> string \<Rightarrow> write_pc \<times> fs \<Rightarrow> write_pc \<times> fs \<Rightarrow> bool"
  for api :: "'j json_api" and path content :: string where
  open_fails: "write_step api path content (WStart, fs) (WFailed, fs)"
| open_tmp: "write_step api path content (WStart, fs) (Writing 0, fs(path @ ''.tmp'' \<mapsto> []))"
| write_byte: "n < length content \<Longrightarrow>
     write_step api path content (Writing n, fs) (Writing (Suc n), fs(path @ ''.tmp'' \<mapsto> take (Suc n) content))"
| verify_ok: "verifies api content \<Longrightarrow> write_step api path content (Writing (length content), fs) (Verified, fs)"
| verify_fails: "\<not> verifies api content \<Longrightarrow> write_step api path content (Writing (length content), fs) (WFailed, fs)"
| no_backup: "fs path = None \<Longrightarrow> write_step api path content (Verified, fs) (Copied, fs)"
| backup_error: "write_step api path content (Verified, fs) (Copied, fs)"
| backup_open: "fs path = Some old \<Longrightarrow>
     write_step api path content (Verified, fs) (Copying 0, fs(path @ ''.bak'' \<mapsto> []))"
| copy_byte: "fs path = Some old \<Longrightarrow> n < length old \<Longrightarrow>
     write_step api path content (Copying n, fs) (Copying (Suc n), fs(path @ ''.bak'' \<mapsto> take (Suc n) old))"
| copy_error: "write_step api path content (Copying n, fs) (Copied, fs)"
| copy_done: "fs path = Some old \<Longrightarrow> write_step api path content (Copying (length old), fs) (Copied, fs)"
| rename_tmp: "write_step api path content (Copied, fs)
     (WDone, (fs(path := fs (path @ ''.tmp'')))(path @ ''.tmp'' := None))"

inductive_cases write_stepE: "write_step api path content (pc, fs) (pc', fs')"

inductive write_reach :: "'j json_api \<Rightarrow> string \<Rightarrow> string \<Rightarrow> fs \<Rightarrow> write_pc \<times> fs \<Rightarrow> bool"
  for api :: "'j json_api" and path content :: string and fs0 :: fs where
  init: "write_reach api path content fs0 (WStart, fs0)"
| step: "write_reach api path content fs0 c \<Longrightarrow> write_step api path content c c' \<Longrightarrow> write_reach api path content fs0 c'"

subsection \<open>Crash safety\<close>

definition write_inv :: "'j json_api \<Rightarrow> string \<Rightarrow> string \<Rightarrow> fs \<Rightarrow> write_pc \<times> fs \<Rightarrow> bool" where
  "write_inv api path content fs0 c \<longleftrightarrow>
     (let (pc, fs) = c in
      (fs path = (if pc = WDone then Some content else fs0 path)) \<and>
      (case pc of Writing n \<Rightarrow> n \<le> length content \<and> fs (path @ ''.tmp'') = Some (take n content)
       | Verified \<Rightarrow> fs (path @ ''.tmp'') = Some content \<and> verifies api content
       | Copying n \<Rightarrow> fs (path @ ''.tmp'') = Some content \<and> verifies api content
       | Copied \<Rightarrow> fs (path @ ''.tmp'') = Some content \<and> verifies api content
       | WDone \<Rightarrow> verifies api content | _ \<Rightarrow> True) \<and>
      (case pc of WStart \<Rightarrow> fs (path @ ''.bak'') = fs0 (path @ ''.bak'')
       | Writing n \<Rightarrow> fs (path @ ''.bak'') = fs0 (path @ ''.bak'')
       | Verified \<Rightarrow> fs (path @ ''.bak'') = fs0 (path @ ''.bak'') | _ \<Rightarrow> True))"

lemma suffix_differs [simp]: "path @ ''.tmp'' \<noteq> path" "path @ ''.bak'' \<noteq> path" "path @ ''.tmp'' \<noteq> path @ ''.bak''"
  "path \<noteq> path @ ''.tmp''" "path \<noteq> path @ ''.bak''" "path @ ''.bak'' \<noteq> path @ ''.tmp''"
  by auto

lemma write_inv_step:
  "write_step api path content c c' \<Longrightarrow> write_inv api path content fs0 c \<Longrightarrow> write_inv api path content fs0 c'"
  by (induction rule: write_step.induct) (auto simp: write_inv_def)

lemma write_inv_reach: "write_reach api path content fs0 c \<Longrightarrow> write_inv api path content fs0 c"
proof (induction rule: write_reach.induct)
  case init
  then show ?case by (simp add: write_inv_def)
next
  case (step c c')
  then show ?case by (blast intro: write_inv_step)
qed

lemma try_load_main: "fs path = fs' path \<Longrightarrow> try_load_file api fs path = try_load_file api fs' path"
  by (simp add: try_load_file_def)

text \<open>C11.  Crash safety of a save over a valid state: whatever prefix of the write has happened when the
  process dies, the next start recovers a valid state, and it is the old one until the final rename
  and the new document's after it.\<close>

theorem crash_recovers_old_or_new:
  assumes "write_reach api (state_path dir) content fs0 (pc, fs)"
    and "ls_valid (try_load_file api fs0 (state_path dir))"
    and "ls_valid (try_load_file api [state_path dir \<mapsto> content] (state_path dir))"
  shows "ls_valid (load_state api dir fs) \<and>
         load_state api dir fs =
           (if pc = WDone then try_load_file api [state_path dir \<mapsto> content] (state_path dir) else load_state api dir fs0)"
proof -
  have "fs (state_path dir) = (if pc = WDone then Some content else fs0 (state_path dir))"
    using write_inv_reach [OF assms(1)] by (simp add: write_inv_def)
  then have "try_load_file api fs (state_path dir) =
      (if pc = WDone then try_load_file api [state_path dir \<mapsto> content] (state_path dir)
       else try_load_file api fs0 (state_path dir))"
    by (auto intro: try_load_main)
  then show ?thesis using assms(2,3) by (simp add: load_state_def)
qed

subsection \<open>A backup is only as good as the file it copies\<close>

lemma reach_written: "n \<le> length content \<Longrightarrow> \<exists>fs. write_reach api path content fs0 (Writing n, fs)"
proof (induction n)
  case 0
  then show ?case using write_reach.step [OF write_reach.init write_step.open_tmp] by blast
next
  case (Suc n)
  then obtain fs where "write_reach api path content fs0 (Writing n, fs)" by auto
  then show ?case using write_reach.step [OF _ write_step.write_byte] Suc.prems by fastforce
qed

text \<open>C34.  The next save of a recovered state can lose it: when the main file is unreadable and the state was
  recovered from the backup, the write replaces the backup before the new file is in place, so
  there is an instant at which a crash leaves no file to recover from.\<close>

theorem save_can_destroy_good_backup:
  assumes "fs0 (state_path dir) = Some bad" "\<not> ls_valid (try_load_file api fs0 (state_path dir))"
    and "verifies api content" "js_parse api [] = Inl e"
  shows "\<exists>pc fs. write_reach api (state_path dir) content fs0 (pc, fs) \<and> \<not> ls_valid (load_state api dir fs)"
proof -
  let ?p = "state_path dir"
  obtain fs where w: "write_reach api ?p content fs0 (Writing (length content), fs)"
    by (metis reach_written order_refl)
  have main: "fs ?p = Some bad" using write_inv_reach [OF w] assms(1) by (simp add: write_inv_def)
  let ?fs = "fs(?p @ ''.bak'' \<mapsto> [])"
  have "write_reach api ?p content fs0 (Copying 0, ?fs)"
    using write_reach.step [OF w write_step.verify_ok [OF assms(3)]] main
    by (blast intro: write_reach.step write_step.backup_open [where path = ?p])
  moreover have "try_load_file api ?fs ?p = try_load_file api fs0 ?p"
    by (rule try_load_main) (simp add: main assms(1))
  moreover have "\<not> ls_valid (try_load_file api ?fs (?p @ ''.bak''))"
    by (simp add: try_load_file_def assms(4) LoadedState_def)
  ultimately show ?thesis using assms(2) by (auto simp: load_state_def intro!: exI)
qed

subsection \<open>Round trip\<close>

text \<open>What a saved trade and a saved position keep.\<close>

definition saved_trade :: "trade_record \<Rightarrow> trade_record" where
  "saved_trade t = t\<lparr>tr_gross_pnl := 0, tr_net_pnl := 0, tr_fee_cost := 0, tr_realized_rr := 0\<rparr>"

definition saved_position :: "managed_position \<Rightarrow> managed_position" where
  "saved_position p = p\<lparr>mp_opened_at := 0\<rparr>"

lemma trade_roundtrip: "json_laws api w \<Longrightarrow> from_json_trade api (trade_json w t) TradeRecord = saved_trade t"
  by (simp add: json_laws_def from_json_trade_def trade_json_def Let_def TradeRecord_def saved_trade_def)

lemma position_roundtrip: "json_laws api w \<Longrightarrow> position_from_json api (position_json w p) = Inr (saved_position p)"
  by (simp add: json_laws_def position_from_json_def position_json_def Let_def ManagedPosition_def saved_position_def)

lemma fold_positions:
  "fold (\<lambda>kv s. s\<lparr>ls_positions := AList.update (fst kv) (g (snd kv)) (ls_positions s)\<rparr>) kvs s =
   s\<lparr>ls_positions := fold (\<lambda>kv m. AList.update (fst kv) (g (snd kv)) m) kvs (ls_positions s)\<rparr>"
  by (induction kvs arbitrary: s) auto

lemma fold_trades:
  "fold (\<lambda>t s. s\<lparr>ls_trades := ls_trades s @ [g t]\<rparr>) ts s = s\<lparr>ls_trades := ls_trades s @ map g ts\<rparr>"
  by (induction ts arbitrary: s) auto

lemma map_of_fold_update:
  "distinct (map fst kvs) \<Longrightarrow>
   map_of (fold (\<lambda>kv m. AList.update (fst kv) (snd kv) m) kvs m) k =
     (case map_of kvs k of Some v \<Rightarrow> Some v | None \<Rightarrow> map_of m k)"
proof (induction kvs arbitrary: m)
  case (Cons kv kvs)
  then have "map_of kvs (fst kv) = None" by (simp add: map_of_eq_None_iff)
  with Cons show ?case by (auto simp: map_of_update split: option.splits)
qed simp

lemma map_of_map_snd: "map_of (map (\<lambda>kv. (fst kv, g (snd kv))) m) k = map_option g (map_of m k)"
  by (induction m) auto

definition position_step :: "'j json_api \<Rightarrow> string \<times> 'j \<Rightarrow> loaded_state \<Rightarrow> exn + loaded_state" where
  "position_step api kv =
     set_from (position_from_json api (snd kv)) (\<lambda>p s. s\<lparr>ls_positions := AList.update (fst kv) p (ls_positions s)\<rparr>)"

lemma load_positions:
  assumes "json_laws api w" "wf_map ps"
    and "items = js_items api (jw_obj w (map (\<lambda>kp. (fst kp, position_json w (snd kp))) ps))"
  shows "(\<forall>f \<in> set (map (position_step api) items). \<forall>s. \<exists>s'. f s = Inr s') \<and>
    (\<exists>m. (\<forall>s. ls_positions s = [] \<longrightarrow> try_seq (map (position_step api) items) s = s\<lparr>ls_positions := m\<rparr>) \<and>
         (\<forall>k. map_of m k = map_option saved_position (map_of ps k)))"
proof -
  let ?kvs = "map (\<lambda>kp. (fst kp, position_json w (snd kp))) ps"
  have dist: "distinct (map fst ?kvs)" using assms(2) by (simp add: wf_map_def comp_def)
  then have items: "distinct (map fst items)" "set items = set ?kvs"
    using assms(1,3) by (simp_all add: json_laws_def)
  then have same: "map_of items = map_of ?kvs" using dist map_of_inject_set by blast
  define g where "g v = (case position_from_json api v of Inr p \<Rightarrow> p | Inl e \<Rightarrow> ManagedPosition)" for v
  have g: "g (position_json w p) = saved_position p" for p
    using position_roundtrip [OF assms(1)] by (simp add: g_def)
  have step: "position_step api kv s = Inr (s\<lparr>ls_positions := AList.update (fst kv) (g (snd kv)) (ls_positions s)\<rparr>)"
    if "kv \<in> set items" for kv s
    using that items(2) position_roundtrip [OF assms(1)] by (auto simp: position_step_def g)
  then have steps: "map (position_step api) items =
      map (\<lambda>kv s. Inr (s\<lparr>ls_positions := AList.update (fst kv) (g (snd kv)) (ls_positions s)\<rparr>)) items"
    by (auto intro: ext)
  define m where "m = fold (\<lambda>kv m. AList.update (fst kv) (g (snd kv)) m) items []"
  have "m = fold (\<lambda>kv m. AList.update (fst kv) (snd kv) m) (map (\<lambda>kv. (fst kv, g (snd kv))) items) []"
    by (simp add: m_def fold_map comp_def)
  then have "map_of m k = map_option g (map_of items k)" for k
    using map_of_fold_update [of "map (\<lambda>kv. (fst kv, g (snd kv))) items" "[]" k] items(1)
    by (simp add: comp_def map_of_map_snd split: option.splits)
  then have "map_of m k = map_option saved_position (map_of ps k)" for k
    by (simp add: same map_of_map_snd g option.map_comp comp_def)
  moreover have "try_seq (map (position_step api) items) s = s\<lparr>ls_positions := m\<rparr>" if "ls_positions s = []" for s
    by (simp only: steps try_seq_fold fold_positions m_def that)
  ultimately show ?thesis using step by auto
qed


subsection \<open>Concrete instances\<close>

definition doc_of :: "double \<Rightarrow> jv" where
  "doc_of balance = JObj [(''balance'', JDbl balance), (''positions'', JObj [])]"

definition sample_api :: "jv json_api" where
  "sample_api = jv_api [(''old'', doc_of (lit 100)), (''new'', doc_of (lit 200))]"

definition sample_fs :: fs where
  "sample_fs = [state_path ''d'' \<mapsto> ''old'']"

lemma sample_loads:
  "ls_valid (try_load_file sample_api sample_fs (state_path ''d''))"
  "ls_valid (try_load_file sample_api [state_path ''d'' \<mapsto> ''new''] (state_path ''d''))"
  "verifies sample_api ''new''" "js_parse sample_api [] = Inl JsonTypeError"
  by code_simp+

theorem crash_recovers_old_or_new_witness:
  "ls_valid (load_state sample_api ''d'' (sample_fs(state_path ''d'' @ ''.tmp'' \<mapsto> [])))"
  using crash_recovers_old_or_new [OF write_reach.step [OF write_reach.init write_step.open_tmp] sample_loads(1,2)]
  by blast

theorem save_can_destroy_good_backup_witness:
  "let fs0 = [state_path ''d'' \<mapsto> ''garbage'', state_path ''d'' @ ''.bak'' \<mapsto> ''old''] in
   ls_valid (load_state sample_api ''d'' fs0) \<and>
   (\<exists>pc fs. write_reach sample_api (state_path ''d'') ''new'' fs0 (pc, fs) \<and> \<not> ls_valid (load_state sample_api ''d'' fs))"
proof -
  let ?fs0 = "[state_path ''d'' \<mapsto> ''garbage'', state_path ''d'' @ ''.bak'' \<mapsto> ''old''] :: fs"
  have "?fs0 (state_path ''d'') = Some ''garbage''" "\<not> ls_valid (try_load_file sample_api ?fs0 (state_path ''d''))"
    "ls_valid (load_state sample_api ''d'' ?fs0)" by code_simp+
  with save_can_destroy_good_backup [OF this(1,2) sample_loads(3,4)] show ?thesis by (simp only: Let_def)
qed

definition sample_state_json :: jv where
  "sample_state_json = state_json (jv_writer (\<lambda>_. ''doc'')) ''t'' (lit 100) (lit 120) [] [] 7"


end
