(* ===== verification/Trade_Recorder.thy ===== *)
theory Trade_Recorder
  imports Symbol_Learner Portfolio_Risk Alerts
begin

text \<open>
  \<open>execution/trade_recorder.hpp\<close>: the ledger of closed trades.  \<open>TradeRecorder\<close> and
  \<open>PositionManager\<close> keep references into the execution engine's state; the record \<open>book\<close> is that
  shared state.  The history contract of the prelude is interpreted on \<open>record_trade\<close>.
\<close>

record book =
  bk_balance :: double
  bk_peak :: double
  bk_positions :: "managed_position smap"
  bk_trades :: "trade_record list"
  bk_risk :: risk_state
  bk_learner :: learner
  bk_alerts :: alert_manager

text \<open>What the learner reads from outside: its configuration and the wall clock.\<close>

record learn_env =
  le_cfg :: learner_cfg
  le_hour :: int
  le_now :: int

definition kMaxTrades :: nat where
  "kMaxTrades = 2000"

definition calc_pnl :: "string \<Rightarrow> double \<Rightarrow> double \<Rightarrow> double \<Rightarrow> int \<Rightarrow> double" where
  "calc_pnl side entry exit qty leverage =
     (if entry \<le> 0 \<or> qty \<le> 0 then 0
      else (if side = ''long'' then 1 else - 1) * (exit - entry) * qty)"

definition calc_fee :: "double \<Rightarrow> double \<Rightarrow> double" where
  "calc_fee price qty = price * qty * lit (6/10000) * lit 2"

definition cap_trades :: "trade_record list \<Rightarrow> trade_record list" where
  "cap_trades xs = (if length xs > kMaxTrades then drop (length xs - kMaxTrades) xs else xs)"

text \<open>The last statements of \<open>record_trade\<close>: the result goes to the balance, the peak follows it.\<close>

definition book_pnl :: "double \<Rightarrow> book \<Rightarrow> book" where
  "book_pnl pnl b =
     (let bal = bk_balance b + pnl in
      b\<lparr>bk_balance := bal, bk_peak := (if bal > bk_peak b then bal else bk_peak b)\<rparr>)"

definition trade_of :: "string \<Rightarrow> string \<Rightarrow> string \<Rightarrow> double \<Rightarrow> double \<Rightarrow> double \<Rightarrow> double \<Rightarrow> double \<Rightarrow> string \<Rightarrow> trade_record" where
  "trade_of symb tf reason entry exit qty pnl fee strategy =
     TradeRecord\<lparr>tr_symbol := symb, tr_timeframe := tf, tr_exit_reason := reason, tr_entry_price := entry,
       tr_exit_price := exit, tr_quantity := qty, tr_pnl := pnl, tr_fee := fee, tr_strategy := strategy\<rparr>"

definition add_trade :: "learn_env \<Rightarrow> trade_record \<Rightarrow> book \<Rightarrow> book" where
  "add_trade e tr b =
     book_pnl (tr_pnl tr)
       (b\<lparr>bk_trades := cap_trades (bk_trades b @ [tr]),
          bk_learner := Symbol_Learner.record_trade (le_cfg e) (le_hour e) (le_now e) tr (bk_learner b)\<rparr>)"

definition record_trade ::
    "learn_env \<Rightarrow> string \<Rightarrow> string \<Rightarrow> string \<Rightarrow> double \<Rightarrow> double \<Rightarrow> double \<Rightarrow> double \<Rightarrow> double \<Rightarrow> string \<Rightarrow> book \<Rightarrow> book" where
  "record_trade e symb tf reason entry exit qty pnl fee strategy b =
     add_trade e (trade_of symb tf reason entry exit qty pnl fee strategy) b"

text \<open>\<open>record_close\<close> returns the result beside the new state.\<close>

definition record_close :: "learn_env \<Rightarrow> managed_position \<Rightarrow> double \<Rightarrow> string \<Rightarrow> double \<Rightarrow> book \<Rightarrow> double \<times> book" where
  "record_close e pos exit reason close_qty0 b =
     (let close_qty = (if close_qty0 \<le> 0 then mp_quantity pos else close_qty0);
          fee = calc_fee exit close_qty;
          pnl = calc_pnl (mp_side pos) (mp_entry_price pos) exit close_qty (mp_leverage pos) - fee
      in (pnl, record_trade e (mp_symbol pos) (mp_timeframe pos) reason (mp_entry_price pos) exit close_qty
                 pnl fee (mp_strategy pos) b))"

definition record_ws_close :: "learn_env \<Rightarrow> managed_position \<Rightarrow> double \<Rightarrow> double \<Rightarrow> book \<Rightarrow> double \<times> book" where
  "record_ws_close e pos exit realized b =
     (let fee = calc_fee exit (mp_quantity pos);
          pnl0 = calc_pnl (mp_side pos) (mp_entry_price pos) exit (mp_quantity pos) (mp_leverage pos) - fee;
          pnl = (if \<bar>realized\<bar> > lit (1/10000) then realized - fee else pnl0)
      in (pnl, record_trade e (mp_symbol pos) (mp_timeframe pos) ''WS_CLOSE'' (mp_entry_price pos) exit
                 (mp_quantity pos) pnl fee (mp_strategy pos) b))"

definition snapshot_trades :: "book \<Rightarrow> trade_record list" where
  "snapshot_trades b = bk_trades b"

record trade_stats =
  ts_total :: int
  ts_wins :: int
  ts_losses :: int
  ts_win_rate :: double
  ts_total_pnl :: double
  ts_balance :: double
  ts_peak :: double
  ts_open_positions :: int
  ts_orders_executed :: int
  ts_risk_skips :: int
  ts_shadow_mode :: bool

definition wins_of :: "trade_record list \<Rightarrow> int" where
  "wins_of ts = int (length (filter (\<lambda>t. tr_pnl t > 0) ts))"

definition pct2 :: "int \<Rightarrow> int \<Rightarrow> double" where
  "pct2 w n = (if n > 0 then dround (dint w / dint n * lit 10000) / lit 100 else 0)"

definition get_stats :: "int \<Rightarrow> int \<Rightarrow> int \<Rightarrow> bool \<Rightarrow> book \<Rightarrow> trade_stats" where
  "get_stats open_positions orders_executed risk_skips shadow b =
     (let ts = bk_trades b; n = int (length ts) in
      \<lparr>ts_total = n, ts_wins = wins_of ts, ts_losses = n - wins_of ts, ts_win_rate = pct2 (wins_of ts) n,
       ts_total_pnl = round_to 4 (foldl (+) 0 (map tr_pnl ts)), ts_balance = bk_balance b, ts_peak = bk_peak b,
       ts_open_positions = open_positions, ts_orders_executed = orders_executed, ts_risk_skips = risk_skips,
       ts_shadow_mode = shadow\<rparr>)"

record strat_row =
  sr_strategy :: string
  sr_total :: int
  sr_wins :: int
  sr_losses :: int
  sr_win_rate :: double
  sr_total_pnl :: double
  sr_total_fee :: double
  sr_avg_pnl :: double

definition strat_row_of :: "string \<times> trade_record list \<Rightarrow> strat_row" where
  "strat_row_of kv =
     (let ts = snd kv; n = int (length ts); pnl = foldl (+) 0 (map tr_pnl ts) in
      \<lparr>sr_strategy = fst kv, sr_total = n, sr_wins = wins_of ts, sr_losses = n - wins_of ts,
       sr_win_rate = pct2 (wins_of ts) n, sr_total_pnl = round_to 4 pnl,
       sr_total_fee = round_to 4 (foldl (+) 0 (map tr_fee ts)),
       sr_avg_pnl = (if n > 0 then round_to 4 (pnl / dint n) else 0)\<rparr>)"

text \<open>The rows, worst total first; the counters of a strategy are kept as the list of its trades.\<close>

definition get_strategy_stats :: "book \<Rightarrow> strat_row list" where
  "get_strategy_stats b =
     sort_desc (\<lambda>r. - sr_total_pnl r) (map strat_row_of (group_by tr_strategy (bk_trades b)))"

definition alert_trade :: "string \<Rightarrow> string \<Rightarrow> string \<Rightarrow> string \<Rightarrow> book \<Rightarrow> book" where
  "alert_trade utc level msg symb b =
     (let put = (\<lambda>lv. b\<lparr>bk_alerts := raise_alert utc lv ''TRADE'' msg symb (bk_alerts b)\<rparr>) in
      if level = ''info'' then put INFO
      else if level = ''warn'' then put WARN
      else if level = ''critical'' then put CRITICAL
      else b)"

subsection \<open>The ledger\<close>

text \<open>One closing of a position, as the engine's handlers report it.\<close>

record closing =
  cl_env :: learn_env
  cl_trade :: trade_record

definition add_closing :: "closing \<Rightarrow> book \<Rightarrow> book" where
  "add_closing c = add_trade (cl_env c) (cl_trade c)"

lemma cap_trades_last_n: "cap_trades xs = last_n kMaxTrades xs"
  by (simp add: cap_trades_def last_n_def)

lemma book_pnl_simps [simp]:
  "bk_trades (book_pnl p b) = bk_trades b" "bk_learner (book_pnl p b) = bk_learner b"
  "bk_positions (book_pnl p b) = bk_positions b" "bk_risk (book_pnl p b) = bk_risk b"
  "bk_alerts (book_pnl p b) = bk_alerts b" "bk_balance (book_pnl p b) = bk_balance b + p"
  by (simp_all add: book_pnl_def Let_def)

lemma add_trade_simps [simp]:
  "bk_trades (add_trade e tr b) = cap_trades (bk_trades b @ [tr])"
  "bk_balance (add_trade e tr b) = bk_balance b + tr_pnl tr"
  "bk_positions (add_trade e tr b) = bk_positions b"
  by (simp_all add: add_trade_def)

interpretation trade_log: capped_log bk_trades cl_trade add_closing kMaxTrades
  by unfold_locales (simp add: add_closing_def cap_trades_last_n)

lemma balance_fold: "bk_balance (fold add_closing cs b) = foldl (+) (bk_balance b) (map (tr_pnl \<circ> cl_trade) cs)"
  by (induction cs arbitrary: b) (simp_all add: add_closing_def)

text \<open>The peak is a high-water mark: one of the values seen, and no value seen is above it.\<close>

definition high_water :: "double \<Rightarrow> double list \<Rightarrow> bool" where
  "high_water p xs \<longleftrightarrow> p \<in> set xs \<and> (\<forall>x \<in> set xs. \<not> p < x)"

lemma high_water_step:
  assumes "high_water p xs" shows "high_water (if x > p then x else p) (xs @ [x])"
  using assms by (auto simp: high_water_def dest: d_less_trans)

definition balances :: "double \<Rightarrow> closing list \<Rightarrow> double list" where
  "balances b cs = map (\<lambda>n. foldl (+) b (map (tr_pnl \<circ> cl_trade) (take n cs))) [0 ..< Suc (length cs)]"

lemma balances_snoc: "balances b (cs @ [c]) = balances b cs @ [foldl (+) b (map (tr_pnl \<circ> cl_trade) (cs @ [c]))]"
  by (simp add: balances_def)

lemma peak_fold:
  assumes "bk_peak b = bk_balance b" "bk_balance b \<noteq> NaN"
  shows "high_water (bk_peak (fold add_closing cs b)) (balances (bk_balance b) cs)"
proof (induction cs rule: rev_induct)
  case Nil
  with assms show ?case by (simp add: high_water_def balances_def)
next
  case (snoc c cs)
  let ?b = "fold add_closing cs b"
  have "bk_peak (add_closing c ?b) =
      (let bal = bk_balance ?b + tr_pnl (cl_trade c) in if bal > bk_peak ?b then bal else bk_peak ?b)"
    by (simp add: add_closing_def add_trade_def book_pnl_def Let_def)
  with high_water_step [OF snoc] show ?case by (simp add: balances_snoc balance_fold Let_def)
qed

text \<open>C14.  The ledger adds up: after any sequence of closed trades on a book whose peak is its balance, the
  balance is the starting balance with every result added in order (also those of trades the capped
  list has dropped), the list holds the newest 2000 trades in order, and the peak is the highest
  balance the book ever had.\<close>

theorem ledger_adds_up:
  assumes "bk_peak b = bk_balance b" "bk_balance b \<noteq> NaN" "bk_trades b = []"
  shows "let b' = fold add_closing cs b in
      bk_balance b' = foldl (+) (bk_balance b) (map (tr_pnl \<circ> cl_trade) cs) \<and>
      snapshot_trades b' = last_n 2000 (map cl_trade cs) \<and>
      high_water (bk_peak b') (balances (bk_balance b) cs)"
  using trade_log.hist_newest [OF assms(3), of cs] peak_fold [OF assms(1,2)]
  by (simp add: Let_def balance_fold snapshot_trades_def kMaxTrades_def)

definition sample_book :: book where
  "sample_book = \<lparr>bk_balance = lit 1000, bk_peak = lit 1000, bk_positions = [], bk_trades = [],
     bk_risk = risk_init, bk_learner = fresh_learner, bk_alerts = \<lparr>am_alerts = []\<rparr>\<rparr>"

definition sample_closings :: "closing list" where
  "sample_closings = map (\<lambda>p. \<lparr>cl_env = \<lparr>le_cfg = default_learner, le_hour = 9, le_now = 1000\<rparr>,
     cl_trade = trade_of ''BTCUSDT'' ''5'' ''TP1'' (lit 100) (lit 101) (lit 1) p (lit (12/100)) ''trend''\<rparr>)
     [lit 5, lit (- 20), lit 3]"

theorem ledger_adds_up_witness:
  "let b' = fold add_closing sample_closings sample_book in
     bk_balance b' = foldl (+) (bk_balance sample_book) (map (tr_pnl \<circ> cl_trade) sample_closings) \<and>
     snapshot_trades b' = last_n 2000 (map cl_trade sample_closings) \<and>
     high_water (bk_peak b') (balances (bk_balance sample_book) sample_closings)"
  by (rule ledger_adds_up) (simp_all add: sample_book_def)

subsection \<open>Statistics\<close>

lemma wins_of_append [simp]: "wins_of (xs @ ys) = wins_of xs + wins_of ys" "wins_of [] = 0"
  by (simp_all add: wins_of_def)

lemma wins_of_bounds: "0 \<le> wins_of ts \<and> wins_of ts \<le> int (length ts)"
  by (simp add: wins_of_def)

lemma sum_list_insert_desc [simp]:
  "sum_list (map f (insert_desc key x ys)) = f x + sum_list (map f ys)" for f :: "'a \<Rightarrow> int"
  by (induction ys) auto

lemma sum_list_sort_desc [simp]: "sum_list (map f (sort_desc key xs)) = sum_list (map f xs)" for f :: "'a \<Rightarrow> int"
  by (induction xs rule: rev_induct) (simp_all add: sort_desc_snoc, simp add: sort_desc_def)

lemma neg_le_iff [simp]: "- x \<le> - y \<longleftrightarrow> y \<le> (x :: double)"
  by (cases x; cases y) (auto simp: double_defs)

lemma neg_NaN_iff [simp]: "- x = NaN \<longleftrightarrow> x = (NaN :: double)"
  by (cases x) (auto simp: double_defs)

lemma set_group_by: "set (group_by f xs) = (\<lambda>k. (k, filter (\<lambda>x. f x = k) xs)) ` f ` set xs"
proof -
  have "(k, ys) \<in> set (group_by f xs) \<longleftrightarrow> ys = filter (\<lambda>x. f x = k) xs \<and> k \<in> f ` set xs" for k ys
    by (auto simp: wf_map_lookup group_by_lookup Let_def filter_empty_conv split: if_splits)
  then show ?thesis by auto
qed

lemma distinct_insert_desc: "distinct (map f (insert_desc key x ys)) = distinct (map f (x # ys))"
  by (induction ys) auto

lemma distinct_sort_desc [simp]: "distinct (map f (sort_desc key xs)) = distinct (map f xs)"
proof (induction xs rule: rev_induct)
  case (snoc x xs)
  have "set (map f (sort_desc key xs)) = set (map f xs)" by simp
  with snoc show ?case by (auto simp: sort_desc_snoc distinct_insert_desc)
qed (simp add: sort_desc_def)

lemma strat_row_simps [simp]:
  "sr_strategy (strat_row_of kv) = fst kv" "sr_total (strat_row_of kv) = int (length (snd kv))"
  "sr_wins (strat_row_of kv) = wins_of (snd kv)"
  "sr_losses (strat_row_of kv) = int (length (snd kv)) - wins_of (snd kv)"
  by (simp_all add: strat_row_of_def Let_def)

text \<open>The strategy report partitions the ledger: each strategy with a trade has exactly one row, made
  from exactly its trades, the trades, wins and losses of the rows add up to those of the overall
  report, and the rows come worst result first.\<close>

theorem strategy_stats_partition:
  "let rows = get_strategy_stats b; st = get_stats n m k sh b in
     set rows = (\<lambda>s. strat_row_of (s, filter (\<lambda>t. tr_strategy t = s) (bk_trades b))) ` tr_strategy ` set (bk_trades b) \<and>
     distinct (map sr_strategy rows) \<and>
     sum_list (map sr_total rows) = ts_total st \<and> sum_list (map sr_wins rows) = ts_wins st \<and>
     ts_wins st + ts_losses st = ts_total st \<and>
     (if \<exists>r \<in> set rows. sr_total_pnl r = NaN then True
      else sorted_wrt (\<lambda>r r'. sr_total_pnl r \<le> sr_total_pnl r') rows)"
proof -
  let ?rows = "map strat_row_of (group_by tr_strategy (bk_trades b))"
  have total: "sum_list (map (\<lambda>kv. int (length (snd kv))) (group_by tr_strategy (bk_trades b))) = int (length (bk_trades b))"
    by (rule sum_group_by) simp_all
  have wins: "sum_list (map (\<lambda>kv. wins_of (snd kv)) (group_by tr_strategy (bk_trades b))) = wins_of (bk_trades b)"
    by (rule sum_group_by) simp_all
  have "distinct (map fst (group_by tr_strategy (bk_trades b)))"
    using wf_group_by [of tr_strategy "bk_trades b"] by (simp only: wf_map_def)
  then have dist: "distinct (map sr_strategy ?rows)" by (simp add: comp_def)
  have "sorted_wrt (\<lambda>r r'. sr_total_pnl r \<le> sr_total_pnl r') (get_strategy_stats b)"
    if "\<forall>r \<in> set (get_strategy_stats b). sr_total_pnl r \<noteq> NaN"
    using sorted_sort_desc [of ?rows "\<lambda>r. - sr_total_pnl r"] that by (simp add: get_strategy_stats_def)
  with total wins dist show ?thesis
    by (auto simp: Let_def get_strategy_stats_def get_stats_def set_group_by image_image comp_def)
qed

subsection \<open>Results of a close\<close>

lemma dmul_neg_left: "- x * y = - (x * y)" for x y :: double
  by (cases x; cases y) (auto simp: double_defs rnd_neg [unfolded uminus_double_def] inf_sign_def)

lemma dsub_flip: "y - x = - (x - y)" for x y :: double
  by (cases x; cases y) (simp_all add: double_defs rnd_neg [unfolded uminus_double_def, symmetric])

lemma dneg_neg [simp]: "- (- x) = (x :: double)"
  by (cases x) (simp_all add: double_defs)

lemma dmul_sign: "0 < y \<Longrightarrow> \<not> 0 < x \<Longrightarrow> \<not> 0 < x * (y :: double)"
proof (cases x; cases y)
  fix p q assume xy: "x = Fin p" "y = Fin q" and "0 < y" "\<not> 0 < x"
  then have "p * q \<le> 0" by (auto simp: zero_double_def intro: mult_nonpos_nonneg)
  from rnd_nonpos [OF this] xy show ?thesis by (simp add: times_double_def less_double_def less_eq_double_def)
qed (auto simp: double_defs inf_sign_def split: if_splits)

lemma zero_less_neg [simp]: "0 < - z \<longleftrightarrow> z < (0 :: double)" "- z < 0 \<longleftrightarrow> (0 :: double) < z"
  by (cases z; auto simp: double_defs)+

lemma dmul_sign_neg: "0 < y \<Longrightarrow> \<not> x < 0 \<Longrightarrow> \<not> x * y < (0 :: double)"
  using dmul_sign [of y "- x"] by (simp add: dmul_neg_left)

lemma dsub_sign: "x \<le> y \<Longrightarrow> \<not> 0 < x - (y :: double)"
proof (cases x; cases y)
  fix p q assume xy: "x = Fin p" "y = Fin q" and "x \<le> y"
  then have "p - q \<le> 0" by simp
  from rnd_nonpos [OF this] xy show ?thesis by (simp add: minus_double_def less_double_def less_eq_double_def)
qed (auto simp: double_defs)

lemma dsub_nonpos: "\<not> 0 < x \<Longrightarrow> \<not> y < 0 \<Longrightarrow> \<not> 0 < x - (y :: double)"
proof (cases "x = NaN \<or> y = NaN")
  case True
  then show ?thesis by (cases x; cases y) (auto simp: minus_double_def)
next
  case False
  assume "\<not> 0 < x" "\<not> y < 0"
  with False have "x \<le> y" by (auto simp: d_not_less intro: d_trans)
  then show ?thesis by (rule dsub_sign)
qed

lemma calc_fee_sign: "0 \<le> price \<Longrightarrow> 0 < qty \<Longrightarrow> \<not> calc_fee price qty < 0"
  unfolding calc_fee_def
  by (intro dmul_sign_neg) (code_simp, code_simp, assumption, auto simp: d_antisym dest: d_less_le_trans)

lemma calc_pnl_against:
  assumes "if side = ''long'' then exit \<le> entry else entry \<le> exit" "0 < qty"
  shows "\<not> 0 < calc_pnl side entry exit qty lev"
proof (cases "side = ''long''")
  case True
  with assms have "\<not> 0 < (exit - entry) * 1 * qty" by (intro dmul_sign dsub_sign) auto
  with True show ?thesis by (simp add: calc_pnl_def dmul_commute [of 1])
next
  case False
  with assms have "\<not> 0 < (entry - exit) * 1 * qty" by (intro dmul_sign dsub_sign) auto
  moreover have "- 1 * (exit - entry) = (entry - exit) * 1"
    by (simp add: dmul_neg_left dmul_commute [of 1] dsub_flip [of exit entry])
  ultimately show ?thesis using False by (simp add: calc_pnl_def)
qed

text \<open>No win against the price: closing a long position at or below its entry, or a short one at or above
  it, never records a positive result, whatever the quantity, and the ledger's number of wins stays.\<close>

theorem no_win_against_the_move:
  assumes "if mp_side pos = ''long'' then exit \<le> mp_entry_price pos else mp_entry_price pos \<le> exit"
    and "0 \<le> exit" "0 < q" "length (bk_trades b) < 2000"
  shows "\<not> 0 < fst (record_close e pos exit reason q b) \<and>
    ts_wins (get_stats n m k sh (snd (record_close e pos exit reason q b))) = ts_wins (get_stats n m k sh b) \<and>
    ts_total (get_stats n m k sh (snd (record_close e pos exit reason q b))) = ts_total (get_stats n m k sh b) + 1"
proof -
  let ?q = "if q \<le> 0 then mp_quantity pos else q"
  have q: "?q = q" using assms(3) by (auto simp: less_double_def less_eq_double_def)
  have "\<not> 0 < calc_pnl (mp_side pos) (mp_entry_price pos) exit q (mp_leverage pos) - calc_fee exit q"
    using assms by (intro dsub_nonpos calc_pnl_against calc_fee_sign)
  with q assms(4) show ?thesis
    by (simp add: record_close_def record_trade_def Let_def get_stats_def cap_trades_def kMaxTrades_def trade_of_def wins_of_def)
qed

definition sample_long :: managed_position where
  "sample_long = ManagedPosition\<lparr>mp_symbol := ''BTCUSDT'', mp_side := ''long'', mp_entry_price := lit 100, mp_quantity := lit 2\<rparr>"

theorem no_win_against_the_move_witness:
  "let r = record_close \<lparr>le_cfg = default_learner, le_hour = 9, le_now = 1000\<rparr> sample_long (lit 98) ''SL'' (lit 2) sample_book in
    \<not> 0 < fst r \<and>
    ts_wins (get_stats 0 0 0 False (snd r)) = ts_wins (get_stats 0 0 0 False sample_book) \<and>
    ts_total (get_stats 0 0 0 False (snd r)) = ts_total (get_stats 0 0 0 False sample_book) + 1"
  unfolding Let_def
  by (rule no_win_against_the_move) (code_simp, code_simp, code_simp, simp add: sample_book_def)

end
