(* ===== verification/Position_Manager.thy ===== *)
theory Position_Manager
  imports Trade_Recorder State_Persistence
begin

text \<open>
  \<open>execution/position_manager.hpp\<close>: the map of open positions and its reconciliation with the
  exchange.  Responses of the exchange are JSON values behind the interface \<open>json_api\<close>; a request
  that throws is the left summand.  \<open>sync_positions_with_exchange\<close> inserts re-keyed positions into
  the map it iterates over, which C++ leaves undefined when the map rehashes; the model visits the
  keys the map had when the loop began (an inserted position matches the exchange, so visiting it
  as well would change nothing).
\<close>

subsection \<open>Positions\<close>

definition snapshot :: "book \<Rightarrow> managed_position smap" where
  "snapshot b = bk_positions b"

definition matches :: "string \<Rightarrow> string \<Rightarrow> string \<times> managed_position \<Rightarrow> bool" where
  "matches symb side kp \<longleftrightarrow> mp_symbol (snd kp) = symb \<and> mp_side (snd kp) = side"

definition find_by_symbol_side :: "string \<Rightarrow> string \<Rightarrow> book \<Rightarrow> string \<times> double" where
  "find_by_symbol_side symb side b =
     (case find (matches symb side) (bk_positions b) of
        Some (k, p) \<Rightarrow> (k, mp_quantity p)
      | None \<Rightarrow> ([], 0))"

definition position_key :: "string \<Rightarrow> string \<Rightarrow> int \<Rightarrow> string" where
  "position_key symb tf oid = symb @ ''_'' @ tf @ ''_'' @ show_int oid"

definition register_position ::
    "int \<Rightarrow> string \<Rightarrow> string \<Rightarrow> string \<Rightarrow> double \<Rightarrow> double \<Rightarrow> int \<Rightarrow> double \<Rightarrow> double \<Rightarrow> string \<Rightarrow> int \<Rightarrow> string \<Rightarrow> bool \<Rightarrow> book \<Rightarrow> book" where
  "register_position now symb tf side entry qty lev sl tp1 tier oid strategy is_real b =
     b\<lparr>bk_positions := AList.update (position_key symb tf oid)
         (ManagedPosition\<lparr>mp_symbol := symb, mp_timeframe := tf, mp_side := side, mp_entry_price := entry,
            mp_quantity := qty, mp_leverage := lev, mp_sl_price := sl, mp_tp1_price := tp1, mp_tier := tier,
            mp_strategy := strategy, mp_opened_at := now, mp_is_real := is_real\<rparr>) (bk_positions b)\<rparr>"

definition remove :: "string \<Rightarrow> book \<Rightarrow> managed_position option \<times> book" where
  "remove key b =
     (case map_of (bk_positions b) key of
        None \<Rightarrow> (None, b)
      | Some p \<Rightarrow> (Some p, b\<lparr>bk_positions := AList.delete key (bk_positions b)\<rparr>))"

text \<open>The result carries the key and the position when one was found.\<close>

definition find_and_prepare_ws_close :: "string \<Rightarrow> string \<Rightarrow> book \<Rightarrow> (string \<times> managed_position) option \<times> book" where
  "find_and_prepare_ws_close symb side b =
     (case find (matches symb side) (bk_positions b) of
        None \<Rightarrow> (None, b)
      | Some (k, p) \<Rightarrow> (Some (k, p), b\<lparr>bk_positions := AList.delete k (bk_positions b)\<rparr>))"

definition reduce_quantity :: "string \<Rightarrow> double \<Rightarrow> book \<Rightarrow> book" where
  "reduce_quantity key amount b =
     (case map_of (bk_positions b) key of
        None \<Rightarrow> b
      | Some p \<Rightarrow>
          let q = mp_quantity p - amount in
          b\<lparr>bk_positions := (if q \<le> 0 then AList.delete key (bk_positions b)
                            else AList.update key (p\<lparr>mp_quantity := q\<rparr>) (bk_positions b))\<rparr>)"

definition get :: "string \<Rightarrow> book \<Rightarrow> managed_position option" where
  "get key b = map_of (bk_positions b) key"

definition update_balance :: "double \<Rightarrow> book \<Rightarrow> book" where
  "update_balance pnl b = book_pnl pnl b"

definition calc_used_margin :: "int \<Rightarrow> book \<Rightarrow> double" where
  "calc_used_margin default_leverage b =
     foldl (\<lambda>used kp. let p = snd kp in
        used + mp_entry_price p * mp_quantity p / dint (if mp_leverage p > 0 then mp_leverage p else default_leverage))
       0 (bk_positions b)"

subsection \<open>The exchange's balance\<close>

record balance_result =
  br_available :: double
  br_equity :: double
  br_unrealized :: double
  br_ok :: bool

definition BalanceResult :: balance_result where
  "BalanceResult = \<lparr>br_available = 0, br_equity = 0, br_unrealized = 0, br_ok = False\<rparr>"

definition stod_field :: "'j json_api \<Rightarrow> 'j \<Rightarrow> string \<Rightarrow> exn + double" where
  "stod_field api d k =
     (if js_contains api d k then ebind (js_field api d k) (\<lambda>v. ebind (js_get_string api v) stod) else Inr 0)"

text \<open>The three figures of a good response, \<open>None\<close> for an error code or a response without data.\<close>

definition parse_account :: "'j json_api \<Rightarrow> 'j \<Rightarrow> exn + (double \<times> double \<times> double) option" where
  "parse_account api account =
     ebind (js_value_string api account ''code'' ''99999'') (\<lambda>code.
     if code = ''00000'' \<and> js_contains api account ''data'' then
       ebind (js_field api account ''data'') (\<lambda>d.
       ebind (stod_field api d ''available'') (\<lambda>av.
       ebind (stod_field api d ''accountEquity'') (\<lambda>eq.
       ebind (stod_field api d ''unrealizedPL'') (\<lambda>u. Inr (Some (av, eq, u))))))
     else Inr None)"

definition apply_account :: "double \<Rightarrow> double \<Rightarrow> book \<Rightarrow> book" where
  "apply_account available equity b =
     (let bal = (if available > 0 then available else bk_balance b);
          real_equity = (if equity > 0 then equity else bal);
          peak = (if bk_peak b > real_equity * lit 2 \<or> bk_peak b < bal then real_equity else bk_peak b)
      in b\<lparr>bk_balance := bal, bk_peak := peak, bk_risk := Portfolio_Risk.update_balance bal (bk_risk b)\<rparr>)"

definition fetch_real_balance :: "'j json_api \<Rightarrow> exn + 'j \<Rightarrow> book \<Rightarrow> balance_result \<times> book" where
  "fetch_real_balance api response b =
     (case ebind response (parse_account api) of
        Inl e \<Rightarrow> (BalanceResult, b)
      | Inr None \<Rightarrow> (BalanceResult, b)
      | Inr (Some (available, equity, upnl)) \<Rightarrow>
          let r = \<lparr>br_available = available, br_equity = equity, br_unrealized = upnl, br_ok = False\<rparr> in
          if available > 0 \<or> equity > 0 then (r\<lparr>br_ok := True\<rparr>, apply_account available equity b) else (r, b))"

subsection \<open>Reconciliation with the exchange\<close>

record exchange_pos =
  ep_symbol :: string
  ep_hold_side :: string
  ep_total :: double
  ep_avg_price :: double
  ep_leverage :: int

definition lookup_key :: "string \<Rightarrow> string \<Rightarrow> string" where
  "lookup_key symb side = symb @ '':'' @ side"

definition ext_key :: "string \<Rightarrow> string \<Rightarrow> string" where
  "ext_key symb side = symb @ ''_'' @ side @ ''_ext''"

definition mp_lookup :: "managed_position \<Rightarrow> string" where
  "mp_lookup p = lookup_key (mp_symbol p) (mp_side p)"

definition parse_double :: "'j json_api \<Rightarrow> 'j \<Rightarrow> string \<Rightarrow> exn + double" where
  "parse_double api j key =
     (if \<not> js_contains api j key then Inr 0
      else ebind (js_field api j key) (\<lambda>v.
        if js_is_string api v then Inr (ecatch (ebind (js_get_string api v) stod) 0)
        else if js_is_number api v then js_get_double api v
        else Inr 0))"

definition parse_int :: "'j json_api \<Rightarrow> 'j \<Rightarrow> string \<Rightarrow> int \<Rightarrow> exn + int" where
  "parse_int api j key dflt =
     (if \<not> js_contains api j key then Inr dflt
      else ebind (js_field api j key) (\<lambda>v.
        if js_is_string api v then Inr (ecatch (ebind (js_get_string api v) stoi) dflt)
        else if js_is_number api v then js_get_int api v
        else Inr dflt))"

definition parse_exchange_pos :: "'j json_api \<Rightarrow> 'j \<Rightarrow> exn + exchange_pos" where
  "parse_exchange_pos api pos =
     ebind (js_value_string api pos ''symbol'' []) (\<lambda>sy.
     ebind (js_value_string api pos ''holdSide'' []) (\<lambda>hs.
     ebind (parse_double api pos ''total'') (\<lambda>tot.
     ebind (parse_double api pos ''averageOpenPrice'') (\<lambda>avg.
     ebind (parse_int api pos ''leverage'' 10) (\<lambda>lev.
     Inr \<lparr>ep_symbol = sy, ep_hold_side = hs, ep_total = tot, ep_avg_price = avg, ep_leverage = lev\<rparr>)))))"

definition add_exchange_pos :: "exchange_pos \<Rightarrow> exchange_pos smap \<Rightarrow> exchange_pos smap" where
  "add_exchange_pos ep ex =
     (if ep_symbol ep \<noteq> [] \<and> ep_total ep > 0
      then AList.update (lookup_key (ep_symbol ep) (ep_hold_side ep)) ep ex else ex)"

text \<open>\<open>None\<close> when the exchange reported an error.\<close>

definition parse_exchange :: "'j json_api \<Rightarrow> 'j \<Rightarrow> exn + exchange_pos smap option" where
  "parse_exchange api resp =
     ebind (js_value_string api resp ''code'' ''99999'') (\<lambda>code.
     if code \<noteq> ''00000'' then Inr None
     else if js_contains api resp ''data'' then
       ebind (js_field api resp ''data'') (\<lambda>d.
       if js_is_array api d then
         ebind (emap (parse_exchange_pos api) (js_elems api d)) (\<lambda>eps. Inr (Some (fold add_exchange_pos eps [])))
       else Inr (Some []))
     else Inr (Some []))"

definition mark_real :: "exchange_pos smap \<Rightarrow> managed_position smap \<Rightarrow> managed_position smap" where
  "mark_real ex ps =
     map (\<lambda>(k, p). (k, if map_of ex (mp_lookup p) \<noteq> None then p\<lparr>mp_is_real := True\<rparr> else p)) ps"

record scan =
  sn_positions :: "managed_position smap"
  sn_to_remove :: "string list"
  sn_side_changed :: "string set"

definition take_over :: "exchange_pos \<Rightarrow> managed_position \<Rightarrow> managed_position" where
  "take_over ep p =
     p\<lparr>mp_side := ep_hold_side ep, mp_entry_price := ep_avg_price ep, mp_quantity := ep_total ep,
       mp_leverage := ep_leverage ep\<rparr>"

definition other_side :: "string \<Rightarrow> string" where
  "other_side side = (if side = ''long'' then ''short'' else ''long'')"

definition hours_old :: "int \<Rightarrow> managed_position \<Rightarrow> int" where
  "hours_old now_ns p = (now_ns - mp_opened_at p) div 3600000000000"

text \<open>One round of the loop over the positions.\<close>

definition scan_step :: "exchange_pos smap \<Rightarrow> int \<Rightarrow> string \<Rightarrow> scan \<Rightarrow> scan" where
  "scan_step ex now_ns key st =
     (case map_of (sn_positions st) key of
        None \<Rightarrow> st
      | Some p \<Rightarrow>
          if map_of ex (mp_lookup p) \<noteq> None then st
          else if mp_is_real p then
            (case (if has_suffix ''_ext'' key then map_of ex (lookup_key (mp_symbol p) (other_side (mp_side p))) else None) of
               Some ep \<Rightarrow>
                 let p' = take_over ep p; new_key = ext_key (ep_symbol ep) (ep_hold_side ep);
                     ps = AList.update key p' (sn_positions st);
                     st' = st\<lparr>sn_positions := ps, sn_side_changed := insert (mp_symbol p') (sn_side_changed st)\<rparr>
                 in if new_key \<noteq> key
                    then st'\<lparr>sn_positions := AList.update new_key p' ps, sn_to_remove := sn_to_remove st @ [key]\<rparr>
                    else st'
             | None \<Rightarrow> st\<lparr>sn_to_remove := sn_to_remove st @ [key]\<rparr>)
          else if hours_old now_ns p \<ge> 4 then st\<lparr>sn_to_remove := sn_to_remove st @ [key]\<rparr>
          else st)"

definition scan_positions :: "exchange_pos smap \<Rightarrow> int \<Rightarrow> managed_position smap \<Rightarrow> scan" where
  "scan_positions ex now_ns ps =
     fold (scan_step ex now_ns) (map fst ps) \<lparr>sn_positions = ps, sn_to_remove = [], sn_side_changed = {}\<rparr>"

definition imported_position :: "int \<Rightarrow> exchange_pos \<Rightarrow> managed_position" where
  "imported_position now_ns ep =
     ManagedPosition\<lparr>mp_symbol := ep_symbol ep, mp_timeframe := ''ext'', mp_side := ep_hold_side ep,
       mp_entry_price := ep_avg_price ep, mp_quantity := ep_total ep, mp_leverage := ep_leverage ep,
       mp_tier := ''C'', mp_is_real := True, mp_opened_at := now_ns\<rparr>"

definition import_step ::
    "int \<Rightarrow> string set \<Rightarrow> string set \<Rightarrow> string \<times> exchange_pos \<Rightarrow> managed_position smap \<times> int \<Rightarrow> managed_position smap \<times> int" where
  "import_step now_ns changed internal kv st =
     (let (exkey, ep) = kv; (ps, imported) = st in
      if ep_symbol ep \<in> changed then st
      else if exkey \<in> internal then st
      else (AList.update (ext_key (ep_symbol ep) (ep_hold_side ep)) (imported_position now_ns ep) ps, imported + 1))"

text \<open>The three passes on a parsed response; the flag says that something was removed or imported.\<close>

definition reconcile :: "int \<Rightarrow> exchange_pos smap \<Rightarrow> managed_position smap \<Rightarrow> managed_position smap \<times> bool" where
  "reconcile now_ns ex ps0 =
     (let sc = scan_positions ex now_ns (mark_real ex ps0);
          ps1 = fold AList.delete (sn_to_remove sc) (sn_positions sc);
          internal = (\<lambda>kp. mp_lookup (snd kp)) ` set ps1;
          (ps2, imported) = fold (import_step now_ns (sn_side_changed sc) internal) ex (ps1, 0)
      in (ps2, sn_to_remove sc \<noteq> [] \<or> imported > 0))"

text \<open>
  \<open>m_trades_ref\<close> points at the engine's trades when \<open>has_trades\<close>; the second component of the state
  is what \<open>StatePersistence\<close> keeps (the files and the time of the last save).
\<close>

definition sync_positions_with_exchange ::
    "'j json_api \<Rightarrow> 'j json_writer \<Rightarrow> string \<Rightarrow> string \<Rightarrow> int \<Rightarrow> int \<Rightarrow> bool \<Rightarrow> int \<Rightarrow> exn + 'j \<Rightarrow> book \<times> fs \<times> int \<Rightarrow> book \<times> fs \<times> int" where
  "sync_positions_with_exchange api w dir utc steady now_ns has_trades orders response st =
     (let (b, disk) = st in
      case ebind response (parse_exchange api) of
        Inl e \<Rightarrow> (b, disk)
      | Inr None \<Rightarrow> (b, disk)
      | Inr (Some ex) \<Rightarrow>
          let (ps, changed) = reconcile now_ns ex (bk_positions b); b' = b\<lparr>bk_positions := ps\<rparr> in
          (b', if changed
               then State_Persistence.save_state api w dir utc steady (bk_balance b') (bk_peak b') ps
                      (if has_trades then bk_trades b' else []) orders disk
               else disk))"

definition save_book ::
    "'j json_api \<Rightarrow> 'j json_writer \<Rightarrow> string \<Rightarrow> string \<Rightarrow> int \<Rightarrow> trade_record list \<Rightarrow> int \<Rightarrow> book \<times> fs \<times> int \<Rightarrow> book \<times> fs \<times> int" where
  "save_book api w dir utc steady trades orders st =
     (fst st, State_Persistence.save_state api w dir utc steady (bk_balance (fst st)) (bk_peak (fst st))
                (bk_positions (fst st)) trades orders (snd st))"

subsection \<open>Reconciliation is complete\<close>

definition hold_sides :: "string set" where
  "hold_sides = {''long'', ''short''}"

lemma hold_sides_last: "d \<in> hold_sides \<Longrightarrow> d \<noteq> [] \<and> (d = ''long'' \<longleftrightarrow> last d = CHR ''g'')"
  by (auto simp: hold_sides_def)

lemma same_last: "d \<in> hold_sides \<Longrightarrow> d' \<in> hold_sides \<Longrightarrow> s @ c # d = s' @ c # d' \<Longrightarrow> s = s' \<and> d = d'"
proof -
  assume d: "d \<in> hold_sides" "d' \<in> hold_sides" and eq: "s @ c # d = s' @ c # d'"
  have "last d = last d'" using arg_cong [OF eq, of last] hold_sides_last d by auto
  then have "d = d'" using hold_sides_last [OF d(1)] hold_sides_last [OF d(2)] d by (auto simp: hold_sides_def)
  with eq show ?thesis by simp
qed

lemma lookup_key_inj:
  "d \<in> hold_sides \<Longrightarrow> d' \<in> hold_sides \<Longrightarrow> lookup_key s d = lookup_key s' d' \<longleftrightarrow> s = s' \<and> d = d'"
  using same_last [of d d' s "CHR '':''" s'] by (auto simp: lookup_key_def)

lemma ext_key_inj:
  "d \<in> hold_sides \<Longrightarrow> d' \<in> hold_sides \<Longrightarrow> ext_key s d = ext_key s' d' \<longleftrightarrow> s = s' \<and> d = d'"
proof -
  assume d: "d \<in> hold_sides" "d' \<in> hold_sides"
  have "ext_key s d = (s @ CHR ''_'' # d) @ ''_ext''" for s d by (simp add: ext_key_def)
  then show ?thesis using same_last [OF d, of s "CHR ''_''" s'] by (auto simp del: append_assoc)
qed

lemma ext_key_suffix [simp]: "has_suffix ''_ext'' (ext_key s d)"
proof -
  have "ext_key s d = (s @ CHR ''_'' # d) @ ''_ext''" by (simp add: ext_key_def)
  then show ?thesis by (simp only: has_suffix_def length_append append_eq_conv_conj) simp
qed

lemma other_side_in: "d \<in> hold_sides \<Longrightarrow> other_side d \<in> hold_sides \<and> other_side d \<noteq> d"
  by (auto simp: hold_sides_def other_side_def)

lemma sides_two: "d \<in> hold_sides \<Longrightarrow> d' \<in> hold_sides \<Longrightarrow> d' \<noteq> d \<Longrightarrow> d' = other_side d"
  by (auto simp: hold_sides_def other_side_def)

text \<open>
  Positions have a side, and a key ending in \<open>_ext\<close> is the one the import makes from the position.
  The exchange's positions are stored under the key of their symbol and side.
\<close>

definition pos_ok :: "string \<Rightarrow> managed_position \<Rightarrow> bool" where
  "pos_ok k p \<longleftrightarrow> mp_side p \<in> hold_sides \<and> (has_suffix ''_ext'' k \<longrightarrow> k = ext_key (mp_symbol p) (mp_side p))"

definition positions_ok :: "managed_position smap \<Rightarrow> bool" where
  "positions_ok ps \<longleftrightarrow> wf_map ps \<and> (\<forall>k p. map_of ps k = Some p \<longrightarrow> pos_ok k p)"

definition exchange_ok :: "exchange_pos smap \<Rightarrow> bool" where
  "exchange_ok ex \<longleftrightarrow> wf_map ex \<and>
     (\<forall>(k, ep) \<in> set ex. ep_hold_side ep \<in> hold_sides \<and> k = lookup_key (ep_symbol ep) (ep_hold_side ep))"

lemma exchange_okD:
  "exchange_ok ex \<Longrightarrow> map_of ex k = Some ep \<Longrightarrow> ep_hold_side ep \<in> hold_sides \<and> k = lookup_key (ep_symbol ep) (ep_hold_side ep)"
  by (auto simp: exchange_ok_def dest!: map_of_SomeD)

definition on_exchange :: "exchange_pos smap \<Rightarrow> managed_position \<Rightarrow> bool" where
  "on_exchange ex p \<longleftrightarrow> map_of ex (mp_lookup p) \<noteq> None"

definition scan_inv :: "exchange_pos smap \<Rightarrow> string list \<Rightarrow> scan \<Rightarrow> bool" where
  "scan_inv ex todo st \<longleftrightarrow>
     (let ps = sn_positions st; rem = set (sn_to_remove st) in
      wf_map ps \<and> distinct todo \<and> set todo \<inter> rem = {} \<and>
      (\<forall>k p. map_of ps k = Some p \<and> k \<notin> rem \<longrightarrow> pos_ok k p) \<and>
      (\<forall>k p. map_of ps k = Some p \<and> k \<notin> set todo \<and> k \<notin> rem \<and> mp_is_real p \<longrightarrow> on_exchange ex p) \<and>
      (\<forall>s d. d \<in> hold_sides \<and> ext_key s d \<in> rem \<longrightarrow> map_of ex (lookup_key s d) = None) \<and>
      (\<forall>xk ep. map_of ex xk = Some ep \<and> ep_symbol ep \<in> sn_side_changed st \<longrightarrow>
         (\<exists>k p. map_of ps k = Some p \<and> k \<notin> rem \<and> mp_lookup p = xk)))"

lemma scan_inv_skip:
  assumes "scan_inv ex (k # todo) st"
    and "\<And>p. map_of (sn_positions st) k = Some p \<Longrightarrow> mp_is_real p \<Longrightarrow> on_exchange ex p"
  shows "scan_inv ex todo st"
proof -
  have "on_exchange ex p"
    if "map_of (sn_positions st) k' = Some p" "k' \<notin> set todo" "k' \<notin> set (sn_to_remove st)" "mp_is_real p" for k' p
    using assms that by (cases "k' = k") (auto simp: scan_inv_def Let_def)
  then have real: "\<forall>k' p. map_of (sn_positions st) k' = Some p \<and> k' \<notin> set todo \<and> k' \<notin> set (sn_to_remove st) \<and> mp_is_real p \<longrightarrow>
      on_exchange ex p" by blast
  show ?thesis
    using assms(1) unfolding scan_inv_def Let_def
    by (elim conjE, intro conjI) (assumption | rule real | force)+
qed

lemma scan_inv_remove:
  assumes inv: "scan_inv ex (k # todo) st" and k: "map_of (sn_positions st) k = Some p" "\<not> on_exchange ex p"
  shows "scan_inv ex todo (st\<lparr>sn_to_remove := sn_to_remove st @ [k]\<rparr>)"
proof -
  have ok: "pos_ok k p" using inv k by (auto simp: scan_inv_def Let_def)
  have "map_of ex (lookup_key s d) = None" if "d \<in> hold_sides" "ext_key s d = k" for s d
    using ok k(2) that by (auto simp: pos_ok_def ext_key_inj on_exchange_def mp_lookup_def)
  moreover have "\<exists>k' p'. map_of (sn_positions st) k' = Some p' \<and> k' \<noteq> k \<and> k' \<notin> set (sn_to_remove st) \<and> mp_lookup p' = xk"
    if ep: "map_of ex xk = Some ep" "ep_symbol ep \<in> sn_side_changed st" for xk ep
  proof -
    from inv ep obtain k' p' where *: "map_of (sn_positions st) k' = Some p'" "k' \<notin> set (sn_to_remove st)" "mp_lookup p' = xk"
      by (auto simp: scan_inv_def Let_def)
    with k ep have "k' \<noteq> k" by (auto simp: on_exchange_def)
    with * show ?thesis by blast
  qed
  ultimately show ?thesis using inv by (auto simp: scan_inv_def Let_def)
qed

lemma scan_inv_side_change:
  assumes inv: "scan_inv ex (k # todo) st" and ex: "exchange_ok ex"
    and k: "map_of (sn_positions st) k = Some p" "\<not> on_exchange ex p" "has_suffix ''_ext'' k"
    and ep: "map_of ex (lookup_key (mp_symbol p) (other_side (mp_side p))) = Some ep"
  defines "p' \<equiv> take_over ep p" and "nk \<equiv> ext_key (ep_symbol ep) (ep_hold_side ep)"
  shows "nk \<noteq> k" and
    "scan_inv ex todo (st\<lparr>sn_positions := AList.update nk p' (AList.update k p' (sn_positions st)),
        sn_side_changed := insert (mp_symbol p) (sn_side_changed st), sn_to_remove := sn_to_remove st @ [k]\<rparr>)"
proof -
  let ?ps = "sn_positions st" and ?rem = "set (sn_to_remove st)"
  have ok: "mp_side p \<in> hold_sides" "k = ext_key (mp_symbol p) (mp_side p)" and notrem: "k \<notin> ?rem"
    using inv k(1,3) by (auto simp: scan_inv_def Let_def pos_ok_def)
  have side: "other_side (mp_side p) \<in> hold_sides" "other_side (mp_side p) \<noteq> mp_side p"
    using other_side_in [OF ok(1)] by auto
  have eq: "ep_symbol ep = mp_symbol p" "ep_hold_side ep = other_side (mp_side p)"
    using exchange_okD [OF ex ep] side(1) by (auto simp: lookup_key_inj)
  have nk: "nk = ext_key (mp_symbol p) (other_side (mp_side p))" by (simp add: nk_def eq)
  then show neq: "nk \<noteq> k" using ok side ext_key_inj by auto
  have p': "mp_symbol p' = mp_symbol p" "mp_side p' = other_side (mp_side p)" "mp_is_real p' = mp_is_real p"
    by (simp_all add: p'_def take_over_def eq)
  have ok': "pos_ok nk p'" using side(1) by (simp add: pos_ok_def nk p')
  have on': "on_exchange ex p'" using ep by (simp add: on_exchange_def mp_lookup_def p')
  have nkrem: "nk \<notin> ?rem" using inv side(1) ep by (auto simp: nk scan_inv_def Let_def)
  let ?ps' = "AList.update nk p' (AList.update k p' ?ps)"
  have lk: "map_of ?ps' q = Some v \<longleftrightarrow> (if q = nk \<or> q = k then v = p' else map_of ?ps q = Some v)" for q v
    by (auto simp: map_of_update)
  have gone: "map_of ex (lookup_key s d) = None" if "d \<in> hold_sides" "ext_key s d = k" for s d
    using ok k(2) that by (auto simp: ext_key_inj on_exchange_def mp_lookup_def)
  have tracked: "\<exists>q v. map_of ?ps' q = Some v \<and> q \<noteq> k \<and> q \<notin> ?rem \<and> mp_lookup v = xk"
    if x: "map_of ex xk = Some e" "ep_symbol e = mp_symbol p \<or> ep_symbol e \<in> sn_side_changed st" for xk e
  proof (cases "ep_symbol e = mp_symbol p")
    case True
    with exchange_okD [OF ex x(1)] have "xk = lookup_key (mp_symbol p) (ep_hold_side e)" "ep_hold_side e \<in> hold_sides"
      by auto
    moreover from this x(1) k(2) have "ep_hold_side e \<noteq> mp_side p" by (auto simp: on_exchange_def mp_lookup_def)
    ultimately have "xk = mp_lookup p'" using sides_two [OF ok(1)] by (simp add: mp_lookup_def p')
    with neq nkrem lk show ?thesis by metis
  next
    case False
    with x inv obtain q v where q: "map_of ?ps q = Some v" "q \<notin> ?rem" "mp_lookup v = xk"
      by (auto simp: scan_inv_def Let_def)
    have "q \<noteq> k" using q x(1) k by (auto simp: on_exchange_def)
    moreover have "mp_lookup p' = xk" if "q = nk"
    proof -
      have "pos_ok q v" using inv q by (auto simp: scan_inv_def Let_def)
      with that side(1) nk have "mp_symbol v = mp_symbol p" "mp_side v = other_side (mp_side p)"
        by (auto simp: pos_ok_def ext_key_inj)
      with q(3) show ?thesis by (simp add: mp_lookup_def p')
    qed
    ultimately show ?thesis using q lk by metis
  qed
  have real: "on_exchange ex v"
    if "map_of ?ps' q = Some v" "q \<notin> set todo" "q \<noteq> k" "q \<notin> ?rem" "mp_is_real v" for q v
    using that inv on' unfolding lk by (auto simp: scan_inv_def Let_def split: if_splits)
  have oks: "pos_ok q v" if "map_of ?ps' q = Some v" "q \<noteq> k" "q \<notin> ?rem" for q v
    using that inv ok' unfolding lk by (auto simp: scan_inv_def Let_def split: if_splits)
  have inv': "wf_map ?ps" "distinct todo" "k \<notin> set todo" "set todo \<inter> ?rem = {}"
    "\<And>s d. d \<in> hold_sides \<Longrightarrow> ext_key s d \<in> ?rem \<Longrightarrow> map_of ex (lookup_key s d) = None"
    using inv by (auto simp: scan_inv_def Let_def)
  show "scan_inv ex todo (st\<lparr>sn_positions := ?ps', sn_side_changed := insert (mp_symbol p) (sn_side_changed st),
          sn_to_remove := sn_to_remove st @ [k]\<rparr>)"
    unfolding scan_inv_def Let_def using inv' real oks tracked gone by auto
qed

lemma scan_inv_step:
  assumes inv: "scan_inv ex (k # todo) st" and ex: "exchange_ok ex"
  shows "scan_inv ex todo (scan_step ex now k st)"
proof (cases "map_of (sn_positions st) k")
  case None
  then show ?thesis using scan_inv_skip [OF inv] by (simp add: scan_step_def)
next
  case (Some p)
  consider "on_exchange ex p" | "\<not> on_exchange ex p" "\<not> mp_is_real p"
    | "\<not> on_exchange ex p" "mp_is_real p" by blast
  then show ?thesis
  proof cases
    case 1
    then have "scan_step ex now k st = st" using Some by (simp add: scan_step_def on_exchange_def)
    then show ?thesis using scan_inv_skip [OF inv] Some 1 by simp
  next
    case 2
    then show ?thesis using scan_inv_skip [OF inv] scan_inv_remove [OF inv Some] Some
      by (simp add: scan_step_def on_exchange_def)
  next
    case 3
    show ?thesis
    proof (cases "if has_suffix ''_ext'' k then map_of ex (lookup_key (mp_symbol p) (other_side (mp_side p))) else None")
      case None
      then show ?thesis using scan_inv_remove [OF inv Some] 3 Some by (simp add: scan_step_def on_exchange_def)
    next
      case (Some ep)
      then have sfx: "has_suffix ''_ext'' k" and ep: "map_of ex (lookup_key (mp_symbol p) (other_side (mp_side p))) = Some ep"
        by (simp_all split: if_splits)
      note ch = scan_inv_side_change [OF inv ex \<open>map_of (sn_positions st) k = Some p\<close> 3(1) sfx ep]
      have "mp_symbol (take_over ep p) = mp_symbol p" by (simp add: take_over_def)
      with sfx ep 3 ch(1) \<open>map_of (sn_positions st) k = Some p\<close>
      have "scan_step ex now k st = st\<lparr>sn_positions := AList.update (ext_key (ep_symbol ep) (ep_hold_side ep)) (take_over ep p)
              (AList.update k (take_over ep p) (sn_positions st)),
            sn_side_changed := insert (mp_symbol p) (sn_side_changed st), sn_to_remove := sn_to_remove st @ [k]\<rparr>"
        by (intro scan.equality) (simp_all add: scan_step_def on_exchange_def Let_def)
      with ch(2) show ?thesis by simp
    qed
  qed
qed

lemma scan_inv_fold:
  "scan_inv ex todo st \<Longrightarrow> exchange_ok ex \<Longrightarrow> scan_inv ex [] (fold (scan_step ex now) todo st)"
  by (induction todo arbitrary: st) (auto intro: scan_inv_step)

definition lookups :: "managed_position smap \<Rightarrow> string set" where
  "lookups ps = (\<lambda>kp. mp_lookup (snd kp)) ` set ps"

definition ghost_free :: "exchange_pos smap \<Rightarrow> managed_position smap \<Rightarrow> bool" where
  "ghost_free ex ps \<longleftrightarrow> (\<forall>k p. map_of ps k = Some p \<and> mp_is_real p \<longrightarrow> on_exchange ex p)"

lemma in_lookups: "wf_map ps \<Longrightarrow> x \<in> lookups ps \<longleftrightarrow> (\<exists>k p. map_of ps k = Some p \<and> mp_lookup p = x)"
  by (force simp: lookups_def wf_map_lookup [symmetric])

lemma map_of_fold_delete: "map_of (fold AList.delete ks m) k = (if k \<in> set ks then None else map_of m k)"
  by (induction ks arbitrary: m) (auto simp: map_of_delete)

lemma wf_fold_delete: "wf_map m \<Longrightarrow> wf_map (fold AList.delete ks m)"
  by (induction ks arbitrary: m) auto

lemma mark_real_fst: "map fst (mark_real ex ps) = map fst ps"
  by (auto simp: mark_real_def)

lemma mark_real_ok:
  assumes "positions_ok ps" shows "positions_ok (mark_real ex ps)"
proof -
  have wf: "wf_map (mark_real ex ps)" using assms by (simp add: positions_ok_def wf_map_def mark_real_fst)
  have "pos_ok k p" if mem: "(k, p) \<in> set (mark_real ex ps)" for k p
  proof -
    from mem obtain q where q: "(k, q) \<in> set ps" "mp_symbol p = mp_symbol q" "mp_side p = mp_side q"
      by (auto simp: mark_real_def split: if_splits)
    with assms have "pos_ok k q" by (auto simp: positions_ok_def wf_map_lookup)
    with q show ?thesis by (simp add: pos_ok_def)
  qed
  with wf show ?thesis by (auto simp: positions_ok_def wf_map_lookup)
qed

lemma scan_result:
  fixes now :: int
  assumes "positions_ok ps" "exchange_ok ex"
  defines "sc \<equiv> scan_positions ex now ps"
  defines "ps1 \<equiv> fold AList.delete (sn_to_remove sc) (sn_positions sc)"
  shows "positions_ok ps1 \<and> ghost_free ex ps1 \<and>
    (\<forall>xk ep. map_of ex xk = Some ep \<and> ep_symbol ep \<in> sn_side_changed sc \<longrightarrow> xk \<in> lookups ps1)"
proof -
  have dom: "map_of ps k = Some p \<Longrightarrow> k \<in> set (map fst ps)" for k p by (auto dest: map_of_SomeD intro: rev_image_eqI)
  have "scan_inv ex (map fst ps) \<lparr>sn_positions = ps, sn_to_remove = [], sn_side_changed = {}\<rparr>"
    using assms(1) dom by (auto simp: scan_inv_def positions_ok_def wf_map_def)
  then have inv: "scan_inv ex [] sc"
    unfolding sc_def scan_positions_def by (rule scan_inv_fold) (rule assms(2))
  have look: "map_of ps1 k = Some p \<longleftrightarrow> map_of (sn_positions sc) k = Some p \<and> k \<notin> set (sn_to_remove sc)" for k p
    by (simp add: ps1_def map_of_fold_delete)
  have wf: "wf_map ps1" using inv by (simp add: ps1_def scan_inv_def Let_def wf_fold_delete)
  show ?thesis using inv wf look by (simp add: scan_inv_def Let_def positions_ok_def ghost_free_def in_lookups) blast
qed

lemma imported_simps [simp]:
  "mp_symbol (imported_position now ep) = ep_symbol ep" "mp_side (imported_position now ep) = ep_hold_side ep"
  "mp_is_real (imported_position now ep)"
  by (simp_all add: imported_position_def)

lemma import_step_ok:
  assumes ok: "positions_ok ps" "ghost_free ex ps" and ex: "exchange_ok ex" "map_of ex xk = Some ep"
    and step: "import_step now chg internal (xk, ep) (ps, n) = (ps', n')"
  shows "positions_ok ps' \<and> ghost_free ex ps' \<and> lookups ps \<subseteq> lookups ps' \<and>
         (ep_symbol ep \<in> chg \<or> xk \<in> internal \<or> xk \<in> lookups ps')"
proof (cases "ep_symbol ep \<in> chg \<or> xk \<in> internal")
  case True
  with step have "ps' = ps" by (auto simp: import_step_def split: if_splits)
  with True ok show ?thesis by blast
next
  case False
  let ?k = "ext_key (ep_symbol ep) (ep_hold_side ep)" and ?p = "imported_position now ep"
  have ps': "ps' = AList.update ?k ?p ps" using step False by (simp add: import_step_def)
  have xk: "ep_hold_side ep \<in> hold_sides" "xk = mp_lookup ?p"
    using exchange_okD [OF ex] by (simp_all add: mp_lookup_def)
  have wf: "wf_map ps" "wf_map ps'" using ok(1) by (simp_all add: positions_ok_def ps')
  have lk: "map_of ps' q = Some v \<longleftrightarrow> (if q = ?k then v = ?p else map_of ps q = Some v)" for q v
    by (auto simp: ps' map_of_update)
  have new: "pos_ok ?k ?p" "on_exchange ex ?p"
    using xk ex(2) by (simp_all add: pos_ok_def on_exchange_def)
  have old: "mp_lookup v = mp_lookup ?p" if "map_of ps ?k = Some v" for v
  proof -
    have "pos_ok ?k v" using ok(1) that by (simp add: positions_ok_def)
    then show ?thesis using xk(1) by (auto simp: pos_ok_def ext_key_inj mp_lookup_def)
  qed
  have "positions_ok ps'" using ok(1) wf(2) new(1) lk by (auto simp: positions_ok_def)
  moreover have "ghost_free ex ps'" using ok(2) new(2) lk by (auto simp: ghost_free_def split: if_splits)
  moreover have "lookups ps \<subseteq> lookups ps'"
  proof
    fix x assume "x \<in> lookups ps"
    then obtain q v where q: "map_of ps q = Some v" "mp_lookup v = x" using wf(1) by (auto simp: in_lookups)
    then have "map_of ps' q = Some (if q = ?k then ?p else v)" "mp_lookup (if q = ?k then ?p else v) = x"
      using lk old by auto
    then show "x \<in> lookups ps'" unfolding in_lookups [OF wf(2)] by blast
  qed
  moreover have "xk \<in> lookups ps'" unfolding in_lookups [OF wf(2)] using xk(2) lk by auto
  ultimately show ?thesis by blast
qed

lemma import_fold_ok:
  assumes "positions_ok ps" "ghost_free ex ps" "exchange_ok ex" "\<forall>kv \<in> set kvs. map_of ex (fst kv) = Some (snd kv)"
    and "fold (import_step now chg internal) kvs (ps, n) = (ps', n')"
  shows "positions_ok ps' \<and> ghost_free ex ps' \<and> lookups ps \<subseteq> lookups ps' \<and>
         (\<forall>kv \<in> set kvs. ep_symbol (snd kv) \<in> chg \<or> fst kv \<in> internal \<or> fst kv \<in> lookups ps')"
  using assms
proof (induction kvs arbitrary: ps n)
  case (Cons kv kvs)
  obtain xk ep where kv: "kv = (xk, ep)" by force
  obtain ps1 n1 where step: "import_step now chg internal (xk, ep) (ps, n) = (ps1, n1)" by force
  have one: "positions_ok ps1" "ghost_free ex ps1" "lookups ps \<subseteq> lookups ps1"
      "ep_symbol ep \<in> chg \<or> xk \<in> internal \<or> xk \<in> lookups ps1"
    using import_step_ok [OF Cons.prems(1-3) _ step] Cons.prems(4) by (auto simp: kv)
  have "fold (import_step now chg internal) kvs (ps1, n1) = (ps', n')" using Cons.prems(5) step by (simp add: kv)
  with Cons.IH [OF one(1,2) Cons.prems(3)] Cons.prems(4)
  have "positions_ok ps' \<and> ghost_free ex ps' \<and> lookups ps1 \<subseteq> lookups ps' \<and>
        (\<forall>kv \<in> set kvs. ep_symbol (snd kv) \<in> chg \<or> fst kv \<in> internal \<or> fst kv \<in> lookups ps')" by simp
  with one kv show ?case by auto
qed simp

lemma add_exchange_ok:
  "wf_map ex \<Longrightarrow> \<forall>(k, ep) \<in> set ex. k = lookup_key (ep_symbol ep) (ep_hold_side ep) \<Longrightarrow>
   wf_map (fold add_exchange_pos eps ex) \<and>
   (\<forall>(k, ep) \<in> set (fold add_exchange_pos eps ex). k = lookup_key (ep_symbol ep) (ep_hold_side ep))"
proof (induction eps arbitrary: ex)
  case (Cons e eps)
  have "wf_map (add_exchange_pos e ex)" using Cons.prems(1) by (simp add: add_exchange_pos_def)
  moreover have "\<forall>(k, ep) \<in> set (add_exchange_pos e ex). k = lookup_key (ep_symbol ep) (ep_hold_side ep)"
    using Cons.prems by (auto simp: add_exchange_pos_def set_update)
  ultimately show ?case using Cons.IH by simp
qed simp

lemma parse_exchange_ok:
  assumes "parse_exchange api resp = Inr (Some ex)" "\<forall>kv \<in> set ex. ep_hold_side (snd kv) \<in> hold_sides"
  shows "exchange_ok ex"
proof -
  from assms(1) obtain eps where "ex = fold add_exchange_pos eps [] \<or> ex = []"
    by (auto simp: parse_exchange_def ebind_Inr_iff split: if_splits)
  with add_exchange_ok [of "[]" eps]
  have "wf_map ex \<and> (\<forall>(k, ep) \<in> set ex. k = lookup_key (ep_symbol ep) (ep_hold_side ep))" by auto
  with assms(2) show ?thesis by (auto simp: exchange_ok_def)
qed

lemma reconcile_ok:
  fixes now :: int
  assumes ps: "positions_ok ps" and ex: "exchange_ok ex"
  shows "positions_ok (fst (reconcile now ex ps)) \<and> ghost_free ex (fst (reconcile now ex ps)) \<and>
         fst ` set ex \<subseteq> lookups (fst (reconcile now ex ps))"
proof -
  let ?sc = "scan_positions ex now (mark_real ex ps)"
  let ?ps1 = "fold AList.delete (sn_to_remove ?sc) (sn_positions ?sc)"
  obtain ps2 n where imp: "fold (import_step now (sn_side_changed ?sc) (lookups ?ps1)) ex (?ps1, 0) = (ps2, n)" by force
  have r: "fst (reconcile now ex ps) = ps2" using imp by (simp add: reconcile_def Let_def lookups_def)
  have mem: "\<forall>kv \<in> set ex. map_of ex (fst kv) = Some (snd kv)"
    using ex by (auto simp: exchange_ok_def wf_map_def)
  note scan = scan_result [OF mark_real_ok [OF ps] ex, of now]
  note imps = import_fold_ok [OF conjunct1 [OF scan] conjunct1 [OF conjunct2 [OF scan]] ex mem imp]
  have "fst kv \<in> lookups ps2" if "kv \<in> set ex" for kv
    using imps scan mem that by blast
  with imps r show ?thesis by auto
qed


definition sample_response :: jv where
  "sample_response = JObj [(''code'', JStr ''00000''),
     (''data'', JArr [JObj [(''symbol'', JStr ''BTCUSDT''), (''holdSide'', JStr ''long''), (''total'', JStr ''0.5''),
                           (''averageOpenPrice'', JStr ''100''), (''leverage'', JStr ''10'')]])]"

definition sample_exchange :: "exchange_pos smap" where
  "sample_exchange = [(''BTCUSDT:long'', \<lparr>ep_symbol = ''BTCUSDT'', ep_hold_side = ''long'', ep_total = lit (1/2),
     ep_avg_price = lit 100, ep_leverage = 10\<rparr>)]"

definition sample_positions :: "managed_position smap" where
  "sample_positions = [(''BTCUSDT_short_ext'', ManagedPosition\<lparr>mp_symbol := ''BTCUSDT'', mp_side := ''short'', mp_is_real := True\<rparr>),
     (''ETHUSDT_5_1'', ManagedPosition\<lparr>mp_symbol := ''ETHUSDT'', mp_side := ''long'', mp_is_real := True\<rparr>)]"

lemma sample_positions_ok: "positions_ok sample_positions"
  by (simp add: positions_ok_def sample_positions_def wf_map_def pos_ok_def hold_sides_def ManagedPosition_def
      ext_key_def has_suffix_def)

lemma sample_parsed: "ebind (Inr sample_response) (parse_exchange (jv_api [])) = Inr (Some sample_exchange)"
  by code_simp


text \<open>Fetching the balance is fail-safe: unless the exchange's answer is complete and names a positive
  balance or equity, nothing changes; otherwise the balance is the available amount (the old one when
  that is not positive), the risk manager works with the same balance, and neither positions nor
  trades are touched.\<close>

theorem fetch_balance_failsafe:
  "let (r, b') = fetch_real_balance api response b in
     (if br_ok r
      then (br_available r > 0 \<or> br_equity r > 0) \<and>
           bk_balance b' = (if br_available r > 0 then br_available r else bk_balance b) \<and>
           initial_balance (bk_risk b') = bk_balance b' \<and>
           bk_positions b' = bk_positions b \<and> bk_trades b' = bk_trades b \<and>
           ebind response (parse_account api) = Inr (Some (br_available r, br_equity r, br_unrealized r))
      else b' = b)"
  by (auto simp: fetch_real_balance_def BalanceResult_def apply_account_def Portfolio_Risk.update_balance_def Let_def
      split: sum.splits option.splits if_splits)

end
