(* ===== verification/Webhook_Signal.thy ===== *)
theory Webhook_Signal
  imports Json_Api Core_Types "HOL-Library.Word" "HOL-Library.Sublist"
begin

text \<open>
  \<open>webhook/signal_types.hpp\<close>: parsing a webhook body into a trading signal.  \<open>from_json\<close> tries the text
  as it is, then with runs of double quotes collapsed, then with missing closing quotes inserted.
  An exception that \<open>from_json\<close> lets through (a field of the wrong JSON type) is the left summand.
  Fields of type \<open>int64_t\<close> are \<open>int\<close>; the fingerprint is computed on 64-bit words, with the two
  hash functions of the standard library as parameters.
\<close>

unbundle bit_operations_syntax

subsection \<open>Signals\<close>

datatype signal_type = Entry | TP | SL | ReEntry | Unknown

definition signal_type_str :: "signal_type \<Rightarrow> string" where
  "signal_type_str t =
     (case t of Entry \<Rightarrow> ''entry'' | TP \<Rightarrow> ''tp'' | SL \<Rightarrow> ''sl'' | ReEntry \<Rightarrow> ''re_entry'' | Unknown \<Rightarrow> ''unknown'')"

record signal =
  sg_algorithm :: string
  sg_ticker :: string
  sg_ticker_full :: string
  sg_unix_time :: int
  sg_timestamp :: string
  sg_currency :: string
  sg_timeframe :: string
  sg_type :: string
  sg_alert :: string
  sg_signal_direction :: string
  sg_current_rating :: int
  sg_symbol :: string
  sg_action :: string
  sg_trade_side :: string
  sg_sig_type :: signal_type
  sg_tp_level :: string
  sg_price :: double
  sg_entry_price :: double
  sg_size :: double
  sg_tp1 :: double
  sg_tp2 :: double
  sg_tp3 :: double
  sg_sl :: double
  sg_token :: string
  sg_strategy_name :: string
  sg_exchange :: string
  sg_market_type :: string
  sg_received_at :: int
  sg_priority :: int

definition WebhookSignal :: signal where
  "WebhookSignal =
     \<lparr>sg_algorithm = [], sg_ticker = [], sg_ticker_full = [], sg_unix_time = 0, sg_timestamp = [], sg_currency = [],
      sg_timeframe = [], sg_type = [], sg_alert = [], sg_signal_direction = [], sg_current_rating = 0, sg_symbol = [],
      sg_action = [], sg_trade_side = [], sg_sig_type = Unknown, sg_tp_level = [], sg_price = 0, sg_entry_price = 0,
      sg_size = 0, sg_tp1 = 0, sg_tp2 = 0, sg_tp3 = 0, sg_sl = 0, sg_token = [], sg_strategy_name = ''unknown'',
      sg_exchange = ''bitget'', sg_market_type = ''futures'', sg_received_at = 0, sg_priority = 0\<rparr>"

definition is_valid :: "signal \<Rightarrow> bool" where
  "is_valid s =
     (if sg_symbol s = [] then False
      else if sg_price s \<le> 0 then False
      else case sg_sig_type s of
        Entry \<Rightarrow> sg_action s = ''buy'' \<or> sg_action s = ''sell''
      | ReEntry \<Rightarrow> sg_action s = ''buy'' \<or> sg_action s = ''sell''
      | TP \<Rightarrow> True | SL \<Rightarrow> True | Unknown \<Rightarrow> False)"

definition get_side :: "signal \<Rightarrow> side" where
  "get_side s = (if sg_action s = ''buy'' then Buy else Sell)"

definition get_trade_side :: "signal \<Rightarrow> trade_side" where
  "get_trade_side s = (if sg_trade_side s = ''close'' then CloseTrade else OpenTrade)"

definition get_hold_side :: "signal \<Rightarrow> string" where
  "get_hold_side s = (if sg_action s = ''buy'' then ''long'' else ''short'')"

definition has_price :: "double \<Rightarrow> bool" where
  "has_price x = (x > 0 \<and> isfinite x)"

definition has_tp1 :: "signal \<Rightarrow> bool" where "has_tp1 s = has_price (sg_tp1 s)"
definition has_tp2 :: "signal \<Rightarrow> bool" where "has_tp2 s = has_price (sg_tp2 s)"
definition has_tp3 :: "signal \<Rightarrow> bool" where "has_tp3 s = has_price (sg_tp3 s)"
definition has_sl :: "signal \<Rightarrow> bool" where "has_sl s = has_price (sg_sl s)"

definition hash_combine :: "64 word \<Rightarrow> 64 word \<Rightarrow> 64 word" where
  "hash_combine h v = h XOR (v + 0x9e3779b9 + push_bit 6 h + drop_bit 2 h)"

definition fingerprint :: "(string \<Rightarrow> 64 word) \<Rightarrow> (int \<Rightarrow> 64 word) \<Rightarrow> signal \<Rightarrow> 64 word" where
  "fingerprint hash_str hash_int s =
     hash_combine (hash_combine (hash_combine (hash_combine 0 (hash_str (sg_symbol s))) (hash_str (sg_alert s)))
       (hash_int (sg_unix_time s))) (hash_str (sg_timeframe s))"

definition to_log_string :: "signal \<Rightarrow> string" where
  "to_log_string s =
     ''[SFX] '' @ signal_type_str (sg_sig_type s) @ '' '' @ sg_action s @ '' '' @ sg_symbol s @ '' @ '' @
     fmt_fixed 2 (sg_price s) @ '' size='' @ fmt_fixed 6 (sg_size s) @
     (if has_tp1 s then '' TP1='' @ fmt_fixed 2 (sg_tp1 s) else []) @
     (if has_tp2 s then '' TP2='' @ fmt_fixed 2 (sg_tp2 s) else []) @
     (if has_tp3 s then '' TP3='' @ fmt_fixed 2 (sg_tp3 s) else []) @
     (if has_sl s then '' SL='' @ fmt_fixed 2 (sg_sl s) else []) @
     '' dir='' @ sg_signal_direction s @ '' rating='' @ show_int (sg_current_rating s) @
     '' tf='' @ sg_timeframe s @ '' strat='' @ sg_strategy_name s"

definition to_order_request :: "int \<Rightarrow> signal \<Rightarrow> order_request" where
  "to_order_request oid s =
     \<lparr>or_symbol = mk_symbol (sg_symbol s), or_side = get_side s, or_trade_side = get_trade_side s,
      or_order_type = Market, or_tif = IOC, or_price = sg_price s, or_quantity = sg_size s,
      or_client_order_id = oid, or_created_at = sg_received_at s, or_leverage = 10,
      or_take_profit = sg_tp1 s, or_stop_loss = sg_sl s, or_product_type = ''USDT-FUTURES'',
      or_margin_coin = ''USDT'', or_comment = []\<rparr>"

subsection \<open>Fields\<close>

definition to_upper :: "string \<Rightarrow> string" where
  "to_upper s = map to_upper_char s"

definition to_lower :: "string \<Rightarrow> string" where
  "to_lower s = map to_lower_char s"

text \<open>
  \<open>stoi(...) * 60\<close> and \<open>* 1440\<close> are 32-bit products; a product outside the range wraps, as the compiled
  code does (the language leaves it open).
\<close>

definition wrap32 :: "int \<Rightarrow> int" where
  "wrap32 i = (i + 2 ^ 31) mod 2 ^ 32 - 2 ^ 31"

definition calc_priority :: "string \<Rightarrow> int" where
  "calc_priority tf =
     (if tf = [] then 0
      else let minutes =
             (if last tf = CHR ''h'' \<or> last tf = CHR ''H'' then ebind (stoi (butlast tf)) (\<lambda>m. Inr (wrap32 (m * 60)))
              else if last tf = CHR ''d'' \<or> last tf = CHR ''D'' then ebind (stoi (butlast tf)) (\<lambda>m. Inr (wrap32 (m * 1440)))
              else stoi tf)
           in ecatch (ebind minutes (\<lambda>m. Inr (if m \<ge> 60 then 3 else if m \<ge> 15 then 2 else if m \<ge> 5 then 1 else 0))) 0)"

definition detect_exchange_market :: "signal \<Rightarrow> signal" where
  "detect_exchange_market s =
     (let tf_upper = to_upper (sg_ticker_full s); tk = sg_ticker s;
          ex = (if contains_str ''UPBIT'' tf_upper then ''upbit''
                else if contains_str ''BITGET'' tf_upper then ''bitget''
                else if contains_str ''BINANCE'' tf_upper then ''binance''
                else ''bitget'')
      in if has_suffix ''.P'' tk then s\<lparr>sg_exchange := ex, sg_market_type := ''futures''\<rparr>
         else if has_suffix ''KRW'' tk then s\<lparr>sg_market_type := ''spot'', sg_exchange := ''upbit''\<rparr>
         else if ex = ''upbit'' then s\<lparr>sg_exchange := ex, sg_market_type := ''spot''\<rparr>
         else s\<lparr>sg_exchange := ex, sg_market_type := ''futures''\<rparr>)"

definition normalize_symbol :: "string \<Rightarrow> string" where
  "normalize_symbol ticker =
     (let s = (if has_suffix ''.P'' ticker then take (length ticker - 2) ticker else ticker) in
      case find_from (CHR '':'') s 0 of Some i \<Rightarrow> drop (Suc i) s | None \<Rightarrow> s)"

definition parse_price_field :: "'j json_api \<Rightarrow> 'j \<Rightarrow> string \<Rightarrow> exn + double" where
  "parse_price_field api j key =
     (if \<not> js_contains api j key then Inr 0
      else ebind (js_field api j key) (\<lambda>val.
        if js_is_number api val then ebind (js_get_double api val) (\<lambda>v. Inr (if isfinite v then v else 0))
        else if js_is_string api val then ebind (js_get_string api val) (\<lambda>s.
          if s = [] \<or> s = ''NaN'' \<or> s = ''nan'' \<or> s = ''null'' \<or> s = ''0'' then Inr 0
          else Inr (ecatch (ebind (stod s) (\<lambda>v. Inr (if isfinite v then v else 0))) 0))
        else Inr 0))"

subsection \<open>The two payload formats\<close>

definition current_rating :: "'j json_api \<Rightarrow> 'j \<Rightarrow> int \<Rightarrow> exn + int" where
  "current_rating api j old =
     (if js_contains api j ''current_rating'' then
        ebind (js_field api j ''current_rating'') (\<lambda>v.
          if js_is_string api v then Inr (ecatch (ebind (js_get_string api v) stoi) 0) else js_get_int api v)
      else Inr old)"

text \<open>The last part of \<open>parse_sfx\<close>: the kind of signal, its action and its side from the alert text.\<close>

definition closing_action :: "signal \<Rightarrow> signal" where
  "closing_action s =
     (if sg_signal_direction s = ''bull'' then s\<lparr>sg_action := ''sell''\<rparr>
      else if sg_signal_direction s = ''bear'' then s\<lparr>sg_action := ''buy''\<rparr>
      else s)"

definition classify :: "signal \<Rightarrow> signal" where
  "classify s =
     (let a = to_upper (sg_alert s) in
      if a = ''BUY'' \<or> a = ''SELL'' then
        s\<lparr>sg_sig_type := Entry, sg_action := to_lower (sg_alert s), sg_trade_side := ''open''\<rparr>
      else if a = ''TP1'' \<or> a = ''TP2'' \<or> a = ''TP3'' then
        closing_action (s\<lparr>sg_sig_type := TP, sg_tp_level := a, sg_trade_side := ''close''\<rparr>)
      else if a = ''SL'' \<or> a = ''STOP_LOSS'' \<or> a = ''STOP-LOSS'' \<or> a = ''STOPLOSS'' \<or> a = ''AUTO_SL'' \<or> a = ''AUTO-SL'' then
        closing_action (s\<lparr>sg_sig_type := SL, sg_trade_side := ''close''\<rparr>)
      else if a = ''RE'' \<or> a = ''RE_ENTRY'' \<or> a = ''RE-ENTRY'' \<or> a = ''REENTRY'' then
        s\<lparr>sg_sig_type := ReEntry, sg_action := (if sg_signal_direction s = ''bull'' then ''buy'' else ''sell''),
          sg_trade_side := ''open''\<rparr>
      else s\<lparr>sg_sig_type := Unknown\<rparr>)"

text \<open>\<open>j.value(key, j.value(key2, d))\<close>: the default is evaluated first.\<close>

definition value_or_value :: "'j json_api \<Rightarrow> 'j \<Rightarrow> string \<Rightarrow> string \<Rightarrow> string \<Rightarrow> exn + string" where
  "value_or_value api j key key2 d = ebind (js_value_string api j key2 d) (js_value_string api j key)"

definition parse_sfx :: "'j json_api \<Rightarrow> 'j \<Rightarrow> signal \<Rightarrow> exn + signal" where
  "parse_sfx api j s0 =
     (let str = js_value_string api j in
      ebind (str ''algorithm'' ''SFX'') (\<lambda>alg. ebind (str ''ticker'' []) (\<lambda>tk. ebind (str ''ticker_full'' []) (\<lambda>tkf.
      ebind (js_value_int api j ''unix_time'' 0) (\<lambda>ut. ebind (str ''timestamp'' []) (\<lambda>ts.
      ebind (str ''currency'' ''USDT'') (\<lambda>cur. ebind (str ''timeframe'' []) (\<lambda>tf. ebind (str ''type'' ''crypto'') (\<lambda>ty.
      ebind (str ''alert'' []) (\<lambda>al. ebind (str ''signal_direction'' []) (\<lambda>dir.
      ebind (current_rating api j (sg_current_rating s0)) (\<lambda>rating.
      ebind (js_value_double api j ''close'' 0) (\<lambda>price.
      ebind (parse_price_field api j ''entry_price'') (\<lambda>ep. ebind (parse_price_field api j ''tp1'') (\<lambda>tp1.
      ebind (parse_price_field api j ''tp2'') (\<lambda>tp2. ebind (parse_price_field api j ''tp3'') (\<lambda>tp3.
      ebind (parse_price_field api j ''sl'') (\<lambda>sl.
      ebind (value_or_value api j ''token'' ''secret'' []) (\<lambda>token.
      ebind (value_or_value api j ''strategy'' ''alert_name'' ''unknown'') (\<lambda>strat.
      let s = detect_exchange_market (s0\<lparr>sg_algorithm := alg, sg_ticker := tk, sg_ticker_full := tkf, sg_unix_time := ut,
                sg_timestamp := ts, sg_currency := cur, sg_timeframe := tf, sg_type := ty,
                sg_priority := calc_priority tf, sg_alert := al, sg_signal_direction := dir, sg_current_rating := rating\<rparr>)
      in Inr (classify (s\<lparr>sg_symbol := normalize_symbol tk, sg_price := price, sg_entry_price := ep, sg_tp1 := tp1,
                sg_tp2 := tp2, sg_tp3 := tp3, sg_sl := sl, sg_token := token, sg_strategy_name := strat\<rparr>))))))))))))))))))))))"

definition parse_generic :: "'j json_api \<Rightarrow> 'j \<Rightarrow> signal \<Rightarrow> exn + signal" where
  "parse_generic api j s0 =
     (let str = js_value_string api j; dbl = js_value_double api j in
      ebind (str ''action'' []) (\<lambda>act. ebind (str ''symbol'' []) (\<lambda>sy. ebind (str ''trade_side'' ''open'') (\<lambda>ts.
      ebind (dbl ''price'' 0) (\<lambda>price. ebind (dbl ''qty'' 0) (\<lambda>qty.
      ebind (dbl ''tp1'' 0) (\<lambda>tp1. ebind (dbl ''tp'' tp1) (\<lambda>tp. ebind (dbl ''sl'' 0) (\<lambda>sl.
      ebind (value_or_value api j ''token'' ''secret'' []) (\<lambda>token.
      ebind (value_or_value api j ''strategy'' ''alert_name'' ''unknown'') (\<lambda>strat.
      let s = s0\<lparr>sg_action := act, sg_symbol := sy, sg_trade_side := ts, sg_price := price, sg_size := qty, sg_tp1 := tp,
                sg_sl := sl, sg_token := token, sg_strategy_name := strat, sg_sig_type := Entry\<rparr>
      in if deq price 0 \<and> js_contains api j ''price'' then
           ebind (js_field api j ''price'') (\<lambda>v.
             if js_is_string api v
             then Inr (ecatch (ebind (js_get_string api v) (\<lambda>t. ebind (stod t) (\<lambda>x. Inr (s\<lparr>sg_price := x\<rparr>)))) s)
             else Inr s)
         else Inr s)))))))))))"

definition parse_signal :: "'j json_api \<Rightarrow> int \<Rightarrow> 'j \<Rightarrow> exn + signal" where
  "parse_signal api now_ns j =
     (let s = WebhookSignal\<lparr>sg_received_at := now_ns\<rparr> in
      if js_contains api j ''algorithm'' \<or> js_contains api j ''alert'' then parse_sfx api j s else parse_generic api j s)"

subsection \<open>Repairing the text\<close>

text \<open>The second attempt: every run of double quotes becomes one.\<close>

function collapse_quotes :: "string \<Rightarrow> string" where
  "collapse_quotes [] = []"
| "collapse_quotes (c # cs) =
     (if c = CHR 0x22 then c # collapse_quotes (dropWhile (\<lambda>d. d = CHR 0x22) cs) else c # collapse_quotes cs)"
  by pat_completeness auto
termination by (relation "measure length") (auto simp: less_Suc_eq_le length_dropWhile_le)

definition skip_blanks :: "string \<Rightarrow> nat \<Rightarrow> nat" where
  "skip_blanks s i = i + length (takeWhile (\<lambda>c. c = CHR '' '') (drop i s))"

text \<open>The guard of the insertion: a comma at \<open>i\<close> is followed by a quoted key and a colon.\<close>

definition next_key_at :: "string \<Rightarrow> nat \<Rightarrow> bool" where
  "next_key_at s i =
     (if s ! i = CHR '','' \<and> i + 1 < length s then
        let nx = skip_blanks s (i + 1) in
        if nx < length s \<and> s ! nx = CHR 0x22 then
          (case find_from (CHR 0x22) s (nx + 1) of
             None \<Rightarrow> False
           | Some q \<Rightarrow> let a = skip_blanks s (q + 1) in a < length s \<and> s ! a = CHR '':'')
        else False
      else False)"

text \<open>The scan inside a string value from \<open>i\<close>: where it stops, and whether a quote goes in there.\<close>

function scan_value :: "string \<Rightarrow> nat \<Rightarrow> nat \<times> bool" where
  "scan_value s i =
     (if i \<ge> length s then (i, False)
      else if s ! i = CHR 0x5C \<and> i + 1 < length s then scan_value s (i + 2)
      else if s ! i = CHR 0x22 then (i, False)
      else if next_key_at s i then (i, True)
      else scan_value s (i + 1))"
  by auto
termination by (relation "measure (\<lambda>(s, i). length s - i)") auto

declare scan_value.simps [simp del]

lemma scan_value_ge: "i \<le> fst (scan_value s i)"
  by (induction s i rule: scan_value.induct) (subst scan_value.simps, auto)

lemma scan_value_inserts: "snd (scan_value s i) \<Longrightarrow> fst (scan_value s i) < length s"
proof (induction s i rule: scan_value.induct)
  case (1 s i)
  then show ?case by (subst (asm) (2) scan_value.simps, subst scan_value.simps) (auto split: if_splits)
qed

definition insert_at :: "nat \<Rightarrow> char \<Rightarrow> string \<Rightarrow> string" where
  "insert_at i c s = take i s @ c # drop i s"

text \<open>The third attempt.  Every round moves on, also the one that inserts: the rest of the text gets shorter.\<close>

function close_strings :: "string \<Rightarrow> nat \<Rightarrow> string" where
  "close_strings s pos =
     (if pos \<ge> length s then s
      else case find_from (CHR '':'') s pos of
        None \<Rightarrow> s
      | Some colon \<Rightarrow>
          let vs = skip_blanks s (colon + 1) in
          if vs \<ge> length s \<or> s ! vs \<noteq> CHR 0x22 then close_strings s (colon + 1)
          else let (i, ins) = scan_value s (vs + 1) in
            close_strings (if ins then insert_at i (CHR 0x22) s else s) (i + 1))"
  by auto

termination
proof (relation "measure (\<lambda>(s, i). length s - i)")
  fix s :: string and pos colon vs i ins x
  assume *: "\<not> length s \<le> pos" "find_from (CHR '':'') s pos = Some colon" "vs = skip_blanks s (colon + 1)"
    "\<not> (length s \<le> vs \<or> s ! vs \<noteq> CHR 0x22)" "x = scan_value s (vs + 1)" "(i, ins) = x"
  have "colon < vs" using *(3) by (simp add: skip_blanks_def)
  moreover have "pos \<le> colon" using find_from_bounds [OF *(2)] by simp
  moreover have "vs + 1 \<le> i" using scan_value_ge [of "vs + 1" s] *(5,6) by (metis fst_conv)
  ultimately show "((if ins then insert_at i (CHR 0x22) s else s, i + 1), s, pos) \<in> measure (\<lambda>(s, i). length s - i)"
    using *(1) by (auto simp: insert_at_def)
next
  fix s :: string and pos colon vs
  assume *: "\<not> length s \<le> pos" "find_from (CHR '':'') s pos = Some colon"
  then show "((s, colon + 1), s, pos) \<in> measure (\<lambda>(s, i). length s - i)"
    using find_from_bounds [OF *(2)] by auto
qed auto

declare close_strings.simps [simp del]

text \<open>\<open>None\<close>: the text could not be read as JSON by any of the three attempts.\<close>

definition from_json :: "'j json_api \<Rightarrow> int \<Rightarrow> string \<Rightarrow> exn + signal option" where
  "from_json api now_ns body =
     (let parsed = (\<lambda>j. ebind (parse_signal api now_ns j) (\<lambda>s. Inr (Some s)));
          sanitized = collapse_quotes body; fixed = close_strings sanitized 0
      in case js_parse api body of
           Inr j \<Rightarrow> parsed j
         | Inl e1 \<Rightarrow> (case js_parse api sanitized of
             Inr j \<Rightarrow> parsed j
           | Inl e2 \<Rightarrow> (case js_parse api fixed of
               Inr j \<Rightarrow> parsed j
             | Inl e3 \<Rightarrow> Inr None)))"

subsection \<open>What a parsed signal satisfies\<close>

lemma of_char_char_of [simp]: "of_char (char_of (n :: int)) = n mod 256"
  by simp

lemma of_char_range: "0 \<le> (of_char c :: int) \<and> (of_char c :: int) < 256"
  using of_char_char_of [of "of_char c"] by (metis char_of_char pos_mod_bound pos_mod_sign zero_less_numeral)

lemma lower_upper_char: "to_lower_char (to_upper_char c) = to_lower_char c"
  by (auto simp: to_lower_char_def to_upper_char_def Let_def)

lemma to_lower_upper: "to_lower (to_upper s) = to_lower s"
  by (simp add: to_lower_def to_upper_def lower_upper_char)

definition sfx_ok :: "signal \<Rightarrow> bool" where
  "sfx_ok s \<longleftrightarrow>
     (case sg_sig_type s of
        Entry \<Rightarrow> sg_action s \<in> {''buy'', ''sell''} \<and> sg_trade_side s = ''open''
      | ReEntry \<Rightarrow> sg_action s \<in> {''buy'', ''sell''} \<and> sg_trade_side s = ''open''
      | TP \<Rightarrow> sg_tp_level s \<in> {''TP1'', ''TP2'', ''TP3''} \<and> sg_trade_side s = ''close''
      | SL \<Rightarrow> sg_trade_side s = ''close''
      | Unknown \<Rightarrow> True) \<and>
     (sg_market_type s = ''futures'' \<or> sg_market_type s = ''spot'' \<and> sg_exchange s = ''upbit'') \<and>
     sg_exchange s \<in> {''upbit'', ''bitget'', ''binance''} \<and>
     0 \<le> sg_priority s \<and> sg_priority s \<le> 3 \<and>
     isfinite (sg_entry_price s) \<and> isfinite (sg_tp1 s) \<and> isfinite (sg_tp2 s) \<and> isfinite (sg_tp3 s) \<and> isfinite (sg_sl s)"

lemma calc_priority_range: "0 \<le> calc_priority tf \<and> calc_priority tf \<le> 3"
  by (auto simp: calc_priority_def Let_def ecatch_def ebind_def split: sum.splits)

lemma finite_or_zero [simp]: "isfinite (ecatch (ebind m (\<lambda>v. Inr (if isfinite v then v else 0))) 0)"
  by (cases m) simp_all

lemma parse_price_finite: "parse_price_field api j k = Inr v \<Longrightarrow> isfinite v"
  by (auto simp: parse_price_field_def ebind_Inr_iff split: if_splits)

lemma closing_action_simps [simp]:
  "sg_sig_type (closing_action s) = sg_sig_type s" "sg_trade_side (closing_action s) = sg_trade_side s"
  "sg_tp_level (closing_action s) = sg_tp_level s" "sg_market_type (closing_action s) = sg_market_type s"
  "sg_exchange (closing_action s) = sg_exchange s" "sg_priority (closing_action s) = sg_priority s"
  "sg_entry_price (closing_action s) = sg_entry_price s" "sg_tp1 (closing_action s) = sg_tp1 s"
  "sg_tp2 (closing_action s) = sg_tp2 s" "sg_tp3 (closing_action s) = sg_tp3 s" "sg_sl (closing_action s) = sg_sl s"
  by (simp_all add: closing_action_def)

lemma classify_simps [simp]:
  "sg_market_type (classify s) = sg_market_type s"
  "sg_exchange (classify s) = sg_exchange s" "sg_priority (classify s) = sg_priority s"
  "sg_entry_price (classify s) = sg_entry_price s" "sg_tp1 (classify s) = sg_tp1 s"
  "sg_tp2 (classify s) = sg_tp2 s" "sg_tp3 (classify s) = sg_tp3 s" "sg_sl (classify s) = sg_sl s"
  by (simp_all add: classify_def Let_def)

lemma classify_kind:
  "case sg_sig_type (classify s) of
     Entry \<Rightarrow> sg_action (classify s) \<in> {''buy'', ''sell''} \<and> sg_trade_side (classify s) = ''open''
   | ReEntry \<Rightarrow> sg_action (classify s) \<in> {''buy'', ''sell''} \<and> sg_trade_side (classify s) = ''open''
   | TP \<Rightarrow> sg_tp_level (classify s) \<in> {''TP1'', ''TP2'', ''TP3''} \<and> sg_trade_side (classify s) = ''close''
   | SL \<Rightarrow> sg_trade_side (classify s) = ''close''
   | Unknown \<Rightarrow> True"
proof -
  have "to_lower ''BUY'' = ''buy''" "to_lower ''SELL'' = ''sell''" by code_simp+
  then have "to_lower (sg_alert s) \<in> {''buy'', ''sell''}" if "to_upper (sg_alert s) \<in> {''BUY'', ''SELL''}"
    using that to_lower_upper [of "sg_alert s"] by fastforce
  then show ?thesis by (auto simp: classify_def Let_def)
qed

lemma detect_market:
  "(sg_market_type (detect_exchange_market s) = ''futures'' \<or>
    sg_market_type (detect_exchange_market s) = ''spot'' \<and> sg_exchange (detect_exchange_market s) = ''upbit'') \<and>
   sg_exchange (detect_exchange_market s) \<in> {''upbit'', ''bitget'', ''binance''}"
  by (simp add: detect_exchange_market_def Let_def)

lemma detect_priority [simp]: "sg_priority (detect_exchange_market s) = sg_priority s"
  by (simp add: detect_exchange_market_def Let_def)


definition sample_sfx :: jv where
  "sample_sfx = JObj [(''algorithm'', JStr ''SFX''), (''ticker'', JStr ''BTCUSDT.P''), (''ticker_full'', JStr ''BITGET:BTCUSDT.P''),
     (''timeframe'', JStr ''1h''), (''alert'', JStr ''TP1''), (''signal_direction'', JStr ''bull''), (''close'', JInt 100),
     (''tp1'', JStr ''NaN''), (''sl'', JStr ''98.5''), (''token'', JStr ''t'')]"

definition sample_signal :: signal where
  "sample_signal = WebhookSignal\<lparr>sg_algorithm := ''SFX'', sg_ticker := ''BTCUSDT.P'', sg_ticker_full := ''BITGET:BTCUSDT.P'',
     sg_currency := ''USDT'', sg_timeframe := ''1h'', sg_type := ''crypto'', sg_alert := ''TP1'', sg_signal_direction := ''bull'',
     sg_symbol := ''BTCUSDT'', sg_action := ''sell'', sg_trade_side := ''close'', sg_sig_type := TP, sg_tp_level := ''TP1'',
     sg_price := lit 100, sg_sl := lit (985/10), sg_token := ''t'', sg_priority := 3, sg_received_at := 7\<rparr>"


subsection \<open>What the repairs may change\<close>

definition unquoted :: "string \<Rightarrow> string" where
  "unquoted s = filter (\<lambda>c. c \<noteq> CHR 0x22) s"

lemma unquoted_insert: "unquoted (insert_at i (CHR 0x22) s) = unquoted s"
proof -
  have "filter P s = filter P (take i s) @ filter P (drop i s)" for P
    by (metis append_take_drop_id filter_append)
  then show ?thesis by (simp add: unquoted_def insert_at_def)
qed

lemma subseq_insert: "subseq s (insert_at i c s)"
proof -
  have "subseq (take i s @ drop i s) (take i s @ c # drop i s)" by (intro list_emb_append_mono) auto
  then show ?thesis by (simp add: insert_at_def)
qed

lemma close_strings_quotes: "unquoted (close_strings s i) = unquoted s \<and> subseq s (close_strings s i)"
proof (induction s i rule: close_strings.induct)
  case (1 s i)
  show ?case
  proof (cases "find_from (CHR '':'') s i")
    case None
    then show ?thesis by (subst (1 2) close_strings.simps) simp
  next
    case (Some colon)
    show ?thesis
    proof (cases "length s \<le> i")
      case True
      then show ?thesis by (subst (1 2) close_strings.simps) simp
    next
      case False
      let ?vs = "skip_blanks s (colon + 1)"
      obtain k ins where k: "scan_value s (?vs + 1) = (k, ins)" by force
      let ?s = "if ins then insert_at k (CHR 0x22) s else s"
      have eq: "close_strings s i = (if ?vs \<ge> length s \<or> s ! ?vs \<noteq> CHR 0x22 then close_strings s (colon + 1)
          else close_strings ?s (k + 1))"
        using False Some k by (subst close_strings.simps) simp
      show ?thesis
      proof (cases "?vs \<ge> length s \<or> s ! ?vs \<noteq> CHR 0x22")
        case True
        with "1.IH"(1) [OF False Some refl] show ?thesis unfolding eq by simp
      next
        case nonskip: False
        then have "unquoted (close_strings ?s (k + 1)) = unquoted ?s \<and> subseq ?s (close_strings ?s (k + 1))"
          using "1.IH"(2) [OF False Some refl _ refl k [symmetric]] by blast
        then show ?thesis unfolding eq
          using nonskip unquoted_insert [of k s] subseq_insert [of s k "CHR 0x22"] subseq_order.order_trans by auto
      qed
    qed
  qed
qed

lemma collapse_head: "collapse_quotes (c # cs) = c # collapse_quotes (if c = CHR 0x22 then dropWhile (\<lambda>d. d = CHR 0x22) cs else cs)"
  by simp

lemma collapse_unquoted: "unquoted (collapse_quotes s) = unquoted s"
proof (induction s rule: collapse_quotes.induct)
  case (2 c cs)
  have "unquoted (dropWhile (\<lambda>d. d = CHR 0x22) cs) = unquoted cs"
    by (induction cs) (auto simp: unquoted_def)
  with 2 show ?case by (auto simp: unquoted_def)
qed simp

lemma collapse_hd: "collapse_quotes s \<noteq> [] \<Longrightarrow> s \<noteq> [] \<and> hd (collapse_quotes s) = hd s"
  by (cases s) auto

definition two_quotes :: "char \<Rightarrow> char \<Rightarrow> bool" where
  "two_quotes a b \<longleftrightarrow> a = CHR 0x22 \<and> b = CHR 0x22"

lemma collapse_no_doubles: "successively (\<lambda>a b. \<not> two_quotes a b) (collapse_quotes s)"
proof (induction s rule: collapse_quotes.induct)
  case (2 c cs)
  let ?cs = "if c = CHR 0x22 then dropWhile (\<lambda>d. d = CHR 0x22) cs else cs"
  have "\<not> two_quotes c (hd (collapse_quotes ?cs))" if "collapse_quotes ?cs \<noteq> []"
  proof (cases "c = CHR 0x22")
    case True
    have "?cs \<noteq> []" "hd (collapse_quotes ?cs) = hd ?cs" using collapse_hd [OF that] by simp_all
    with True hd_dropWhile [of "\<lambda>d. d = CHR 0x22" cs] show ?thesis by (simp add: two_quotes_def)
  qed (simp add: two_quotes_def)
  moreover have "successively (\<lambda>a b. \<not> two_quotes a b) (collapse_quotes ?cs)"
    using 2 by (cases "c = CHR 0x22") simp_all
  ultimately show ?case unfolding collapse_head successively_Cons by blast
qed simp

text \<open>C32.  The repairs of a malformed body touch nothing but double quotes: both repaired texts agree with the
  body on every other character in order, the first has no two quotes in a row, and the second only
  inserts into the first.\<close>

theorem repairs_only_touch_quotes:
  "let sanitized = collapse_quotes body; fixed = close_strings sanitized 0 in
     unquoted sanitized = unquoted body \<and> unquoted fixed = unquoted body \<and> subseq sanitized fixed \<and>
     successively (\<lambda>a b. \<not> two_quotes a b) sanitized"
  using close_strings_quotes [of "collapse_quotes body" 0] by (simp add: Let_def collapse_unquoted collapse_no_doubles)

subsection \<open>The generic format's price\<close>

text \<open>
  What the library documents of \<open>value\<close> on a present key: it converts like \<open>get\<close>, and a number
  conversion of a string throws.
\<close>

definition value_laws :: "'j json_api \<Rightarrow> bool" where
  "value_laws api \<longleftrightarrow>
     (\<forall>j k v d. js_contains api j k \<and> js_field api j k = Inr v \<longrightarrow> js_value_double api j k d = js_get_double api v) \<and>
     (\<forall>v. js_is_string api v \<longrightarrow> (\<exists>e. js_get_double api v = Inl e))"

lemma value_lawsD:
  assumes "value_laws api" "js_contains api j k" "js_field api j k = Inr v" "js_is_string api v"
  shows "js_value_double api j k d \<noteq> Inr x"
proof -
  have "js_value_double api j k d = js_get_double api v" using assms(1-3) unfolding value_laws_def by blast
  moreover obtain e where "js_get_double api v = Inl e" using assms(1,4) unfolding value_laws_def by blast
  ultimately show ?thesis by simp
qed

lemma jv_value_laws: "value_laws (jv_api texts)"
  unfolding value_laws_def
proof (intro conjI allI impI)
  fix j k v d
  assume "js_contains (jv_api texts) j k \<and> js_field (jv_api texts) j k = Inr v"
  then show "js_value_double (jv_api texts) j k d = js_get_double (jv_api texts) v"
    by (cases j) (auto simp: jv_api_def split: option.splits)
next
  fix v
  assume "js_is_string (jv_api texts) v"
  then show "\<exists>e. js_get_double (jv_api texts) v = Inl e" by (cases v) (auto simp: jv_api_def)
qed

text \<open>In the generic format the price of a parsed signal is always the number in the payload, or zero when
  there is none: a price written as a text is refused by the exception of the first access, so the
  code that would convert such a text never has an effect.\<close>

theorem generic_price_is_the_number:
  assumes "value_laws api" "parse_generic api j s0 = Inr s"
  shows "js_value_double api j ''price'' 0 = Inr (sg_price s)"
proof -
  from assms(2) obtain price t where price: "js_value_double api j ''price'' 0 = Inr price" and t: "sg_price t = price"
    and rest: "(if deq price 0 \<and> js_contains api j ''price'' then
        ebind (js_field api j ''price'') (\<lambda>v.
          if js_is_string api v
          then Inr (ecatch (ebind (js_get_string api v) (\<lambda>u. ebind (stod u) (\<lambda>x. Inr (t\<lparr>sg_price := x\<rparr>)))) t)
          else Inr t)
      else Inr t) = Inr s"
    unfolding parse_generic_def Let_def ebind_Inr_iff
    by (elim exE conjE) (rule that, assumption, rule refl [THEN trans], simp_all)
  show ?thesis
  proof (cases "deq price 0 \<and> js_contains api j ''price''")
    case True
    with rest obtain v where v: "js_field api j ''price'' = Inr v" by (auto simp: ebind_Inr_iff)
    with value_lawsD [OF assms(1) _ v] True price have "\<not> js_is_string api v" by blast
    with rest v True t price show ?thesis by simp
  qed (use rest t price in auto)
qed

definition sample_generic :: jv where
  "sample_generic = JObj [(''action'', JStr ''buy''), (''symbol'', JStr ''BTCUSDT''), (''price'', JInt 100)]"

theorem generic_price_is_the_number_witness:
  "js_value_double (jv_api []) sample_generic ''price'' 0 =
     Inr (sg_price (projr (parse_generic (jv_api []) sample_generic WebhookSignal)))"
  by (rule generic_price_is_the_number [where ?s0.0 = WebhookSignal, OF jv_value_laws]) code_simp

subsection \<open>Symbols and fingerprints\<close>

lemma xor_cancel: "(a XOR b = a XOR c) = (b = c)" for a b c :: "64 word"
proof
  assume eq: "a XOR b = a XOR c"
  have "x = a XOR (a XOR x)" for x by (simp add: xor.assoc [symmetric])
  with eq show "b = c" by metis
qed simp

lemma hash_combine_inj: "hash_combine h v = hash_combine h w \<longleftrightarrow> v = w"
  by (simp add: hash_combine_def xor_cancel)

text \<open>The fingerprint tells timeframes apart: of two signals with the same symbol, alert and time, the
  fingerprints are equal exactly when the hashes of their timeframes are, so no such pair is taken for
  a duplicate by the way the four hashes are combined.\<close>

theorem fingerprint_separates_timeframes:
  "(if sg_symbol s = sg_symbol t \<and> sg_alert s = sg_alert t \<and> sg_unix_time s = sg_unix_time t
    then fingerprint hs hi s = fingerprint hs hi t \<longleftrightarrow> hs (sg_timeframe s) = hs (sg_timeframe t) else True)"
  by (simp add: fingerprint_def hash_combine_inj)

end
