(* ===== verification/Webhook_Server.thy ===== *)
theory Webhook_Server
  imports Webhook_Signal
begin

text \<open>
  \<open>webhook/http_server.hpp\<close>: who may connect, the request limit per address, and what a session does
  with a request.  Transport (TLS, Boost.Beast) is not modelled: a session starts from the parsed
  request and ends with the response it sends.  An exception that leaves \<open>handle_request\<close> (the
  parser's, which nothing catches) is the left summand.  The callback is a parameter that returns
  whether it finished and the application state it leaves; \<open>CRYPTO_memcmp\<close> is a parameter too.
  Times are nanoseconds.
\<close>

record webhook_config =
  wc_auth_token :: string
  wc_allowed_ips :: "string list"
  wc_max_body_size :: int

definition constant_time_eq :: "(string \<Rightarrow> string \<Rightarrow> int) \<Rightarrow> string \<Rightarrow> string \<Rightarrow> bool" where
  "constant_time_eq memcmp a b = (if length a \<noteq> length b then False else memcmp a b = 0)"

definition normalize_ip :: "string \<Rightarrow> string" where
  "normalize_ip ip =
     (let prefix = ''::ffff:'' in
      if length ip > length prefix \<and> take (length prefix) ip = prefix then drop (length prefix) ip else ip)"

subsection \<open>Requests per address\<close>

record ip_limiter =
  il_requests :: "int list smap"
  il_check_count :: nat

definition max_per_minute :: nat where
  "max_per_minute = 600"

definition minute_ns :: int where
  "minute_ns = 60 * 1000000000"

definition WebhookRateLimiter :: ip_limiter where
  "WebhookRateLimiter = \<lparr>il_requests = [], il_check_count = 0\<rparr>"

definition deque_of :: "string \<Rightarrow> int list smap \<Rightarrow> int list" where
  "deque_of ip m = (case map_of m ip of Some ts \<Rightarrow> ts | None \<Rightarrow> [])"

definition requests_of :: "string \<Rightarrow> ip_limiter \<Rightarrow> int list" where
  "requests_of ip s = deque_of ip (il_requests s)"

definition check :: "string \<Rightarrow> int \<Rightarrow> ip_limiter \<Rightarrow> bool \<times> ip_limiter" where
  "check ip now s =
     (let cutoff = now - minute_ns;
          ts = dropWhile (\<lambda>t. t < cutoff) (requests_of ip s)
      in if length ts \<ge> max_per_minute then (False, s\<lparr>il_requests := AList.update ip ts (il_requests s)\<rparr>)
         else let m = AList.update ip (ts @ [now]) (il_requests s); n = (il_check_count s + 1) mod 2 ^ 64 in
           (True, \<lparr>il_requests = (if n mod 100 = 0 then filter (\<lambda>kv. snd kv \<noteq> []) m else m), il_check_count = n\<rparr>))"

subsection \<open>Sessions\<close>

datatype verb = GET | POST | OtherVerb

record request =
  rq_method :: verb
  rq_target :: string
  rq_body :: string

record response =
  rp_status :: int
  rp_body :: string

text \<open>Server-wide counters, the limiter, and the state of the application behind the callback.\<close>

record 'q server =
  sv_total_requests :: nat
  sv_limiter :: ip_limiter
  sv_app :: 'q

definition respond :: "int \<Rightarrow> string \<Rightarrow> response" where
  "respond status body = \<lparr>rp_status = status, rp_body = body\<rparr>"

definition error_body :: "string \<Rightarrow> string" where
  "error_body msg = (let q = [CHR 0x22] in ''{'' @ q @ ''error'' @ q @ '':'' @ q @ msg @ q @ ''}'')"

definition status_body :: "string \<Rightarrow> string" where
  "status_body msg = (let q = [CHR 0x22] in ''{'' @ q @ ''status'' @ q @ '':'' @ q @ msg @ q @ ''}'')"

definition retry_body :: string where
  "retry_body =
     (let q = [CHR 0x22] in ''{'' @ q @ ''error'' @ q @ '':'' @ q @ ''internal error'' @ q @ '','' @ q @ ''retry'' @ q @ '':true}'')"

definition handle_request ::
    "'j json_api \<Rightarrow> (string \<Rightarrow> string \<Rightarrow> int) \<Rightarrow> webhook_config \<Rightarrow> (signal \<Rightarrow> 'q \<Rightarrow> bool \<times> 'q) \<Rightarrow>
     string \<Rightarrow> int \<Rightarrow> int \<Rightarrow> request \<Rightarrow> 'q server \<Rightarrow> (exn + response) \<times> 'q server" where
  "handle_request api memcmp cfg callback client_ip steady now_ns rq s0 =
     (let s1 = s0\<lparr>sv_total_requests := sv_total_requests s0 + 1\<rparr> in
      if rq_method rq = GET \<and> rq_target rq = ''/health'' then (Inr (respond 200 (status_body ''ok'')), s1)
      else if rq_method rq \<noteq> POST \<or> rq_target rq \<noteq> ''/webhook'' then (Inr (respond 404 (error_body ''not found'')), s1)
      else let (ok, lim) = check client_ip steady (sv_limiter s1); s2 = s1\<lparr>sv_limiter := lim\<rparr> in
        if \<not> ok then (Inr (respond 429 (error_body ''rate limited'')), s2)
        else case from_json api now_ns (rq_body rq) of
          Inl e \<Rightarrow> (Inl e, s2)
        | Inr None \<Rightarrow> (Inr (respond 400 (error_body ''invalid json'')), s2)
        | Inr (Some sig) \<Rightarrow>
            if wc_auth_token cfg \<noteq> [] \<and> \<not> constant_time_eq memcmp (sg_token sig) (wc_auth_token cfg)
            then (Inr (respond 401 (error_body ''unauthorized'')), s2)
            else if \<not> is_valid sig then (Inr (respond 400 (error_body ''invalid signal'')), s2)
            else let (finished, app) = callback sig (sv_app s2); s3 = s2\<lparr>sv_app := app\<rparr> in
              if finished then (Inr (respond 200 (status_body ''accepted'')), s3)
              else (Inr (respond 500 retry_body), s3))"

text \<open>
  A connection: the address filter decides whether there is a session at all; \<open>None\<close> is a closed
  connection.  A body above the configured limit ends the read with an error and no response.
\<close>

definition accept_connection ::
    "'j json_api \<Rightarrow> (string \<Rightarrow> string \<Rightarrow> int) \<Rightarrow> webhook_config \<Rightarrow> (signal \<Rightarrow> 'q \<Rightarrow> bool \<times> 'q) \<Rightarrow>
     string \<Rightarrow> int \<Rightarrow> int \<Rightarrow> request \<Rightarrow> 'q server \<Rightarrow> (exn + response) option \<times> 'q server" where
  "accept_connection api memcmp cfg callback remote_raw steady now_ns rq s =
     (let remote = normalize_ip remote_raw in
      if wc_allowed_ips cfg \<noteq> [] \<and> remote \<notin> set (wc_allowed_ips cfg) then (None, s)
      else if int (length (rq_body rq)) > wc_max_body_size cfg then (None, s)
      else let (r, s') = handle_request api memcmp cfg callback remote steady now_ns rq s in (Some r, s'))"

subsection \<open>The limit is a sliding window\<close>

text \<open>The specification: a request passes when fewer than 600 of its address passed in the last 60 seconds.\<close>

definition window_ok :: "string \<Rightarrow> int \<Rightarrow> (string \<times> int) list \<Rightarrow> bool" where
  "window_ok ip now hist \<longleftrightarrow> length (filter (\<lambda>t. now - minute_ns \<le> t) (map snd (filter (\<lambda>h. fst h = ip) hist))) < max_per_minute"

fun window_run :: "(string \<times> int) list \<Rightarrow> (string \<times> int) list \<Rightarrow> bool list" where
  "window_run [] hist = []"
| "window_run ((ip, now) # cs) hist =
     (let ok = window_ok ip now hist in ok # window_run cs (if ok then hist @ [(ip, now)] else hist))"

fun limiter_run :: "(string \<times> int) list \<Rightarrow> ip_limiter \<Rightarrow> bool list" where
  "limiter_run [] s = []"
| "limiter_run ((ip, now) # cs) s = (let (ok, s') = check ip now s in ok # limiter_run cs s')"

text \<open>The deque of an address is a suffix of its history that has everything of the last minute.\<close>

definition tracks :: "(string \<times> int) list \<Rightarrow> int \<Rightarrow> ip_limiter \<Rightarrow> bool" where
  "tracks hist now s \<longleftrightarrow> wf_map (il_requests s) \<and>
     (\<forall>ip. sorted (map snd (filter (\<lambda>h. fst h = ip) hist)) \<and> (\<forall>h \<in> set hist. snd h \<le> now) \<and>
       (\<exists>old. map snd (filter (\<lambda>h. fst h = ip) hist) = old @ requests_of ip s \<and> (\<forall>t \<in> set old. t < now - minute_ns)))"

lemma deque_of_update: "deque_of ip (AList.update a ts m) = (if ip = a then ts else deque_of ip m)"
  by (simp add: deque_of_def map_of_update)

lemma map_of_filter_snd: "wf_map m \<Longrightarrow> map_of (filter (\<lambda>kv. P (snd kv)) m) k =
    (case map_of m k of Some v \<Rightarrow> if P v then Some v else None | None \<Rightarrow> None)"
  by (induction m) (auto simp: wf_map_def map_of_eq_None_iff split: option.splits intro: rev_image_eqI)

lemma deque_of_cleanup: "wf_map m \<Longrightarrow> deque_of ip (filter (\<lambda>kv. snd kv \<noteq> []) m) = deque_of ip m"
  using map_of_filter_snd [of m "\<lambda>v. v \<noteq> []" ip] by (simp add: deque_of_def split: option.splits)

lemma sorted_filter_recent:
  "sorted (xs :: int list) \<Longrightarrow> filter (\<lambda>t. c \<le> t) xs = dropWhile (\<lambda>t. t < c) xs"
proof (induction xs)
  case (Cons x xs)
  show ?case
  proof (cases "x < c")
    case False
    with Cons.prems have "\<forall>y \<in> set (x # xs). c \<le> y" by auto
    then have "filter (\<lambda>t. c \<le> t) (x # xs) = x # xs" by (rule filter_True)
    with False show ?thesis by simp
  qed (use Cons in simp)
qed simp

text \<open>After a check only the deque of the address has changed.\<close>

lemma check_effect:
  fixes ip :: string and now :: int
  assumes "wf_map (il_requests s)"
  defines "ts \<equiv> dropWhile (\<lambda>t. t < now - minute_ns) (requests_of ip s)"
  shows "fst (check ip now s) = (length ts < max_per_minute)"
    and "wf_map (il_requests (snd (check ip now s)))"
    and "requests_of a (snd (check ip now s)) =
      (if a \<noteq> ip then requests_of a s else if length ts < max_per_minute then ts @ [now] else ts)"
proof -
  let ?m = "AList.update ip (ts @ [now]) (il_requests s)"
  have wf: "wf_map ?m" using assms(1) by simp
  show "fst (check ip now s) = (length ts < max_per_minute)" by (simp add: check_def ts_def Let_def)
  show "wf_map (il_requests (snd (check ip now s)))"
    using assms(1) wf by (simp add: check_def ts_def [symmetric] Let_def wf_map_filter)
  show "requests_of a (snd (check ip now s)) =
      (if a \<noteq> ip then requests_of a s else if length ts < max_per_minute then ts @ [now] else ts)"
    using wf assms(1) by (simp add: check_def ts_def [unfolded requests_of_def, symmetric] Let_def requests_of_def deque_of_cleanup deque_of_update)
qed

lemma tracks_window:
  assumes "tracks hist now s" "now \<le> now'"
  shows "window_ok ip now' hist = fst (check ip now' s)"
    and "tracks (if window_ok ip now' hist then hist @ [(ip, now')] else hist) now' (snd (check ip now' s))"
proof -
  let ?own = "\<lambda>a. map snd (filter (\<lambda>h. fst h = a) hist)" and ?c = "now' - minute_ns"
  let ?ts = "dropWhile (\<lambda>t. t < ?c) (requests_of ip s)"
  have wf: "wf_map (il_requests s)" and sorted: "sorted (?own a)" and le: "\<forall>h \<in> set hist. snd h \<le> now" for a
    using assms(1) by (auto simp: tracks_def)
  have split: "\<exists>old. ?own a = old @ requests_of a s \<and> (\<forall>t \<in> set old. t < ?c)" for a
    using assms by (fastforce simp: tracks_def)
  obtain old where old: "?own ip = old @ requests_of ip s" "\<forall>t \<in> set old. t < ?c" using split by blast
  have rest: "?own ip = (old @ takeWhile (\<lambda>t. t < ?c) (requests_of ip s)) @ ?ts" using old(1) by simp
  have small: "\<forall>t \<in> set (old @ takeWhile (\<lambda>t. t < ?c) (requests_of ip s)). t < ?c"
    using old(2) by (auto dest: set_takeWhileD)
  have "filter (\<lambda>t. ?c \<le> t) (?own ip) = ?ts"
  proof -
    have "filter (\<lambda>t. ?c \<le> t) (?own ip) = dropWhile (\<lambda>t. t < ?c) (old @ requests_of ip s)"
      unfolding old(1) [symmetric] by (rule sorted_filter_recent [OF sorted])
    also have "\<dots> = ?ts" using old(2) by (simp add: dropWhile_append)
    finally show ?thesis .
  qed
  then show ok: "window_ok ip now' hist = fst (check ip now' s)"
    by (simp add: window_ok_def check_effect(1) [OF wf])
  let ?s' = "snd (check ip now' s)" and ?h = "if window_ok ip now' hist then hist @ [(ip, now')] else hist"
  have own': "map snd (filter (\<lambda>h. fst h = a) ?h) = (if a = ip \<and> window_ok ip now' hist then ?own a @ [now'] else ?own a)" for a
    by auto
  have "sorted (map snd (filter (\<lambda>h. fst h = a) ?h))" for a
    unfolding own' using sorted le assms(2) by (fastforce simp: sorted_append)
  moreover have "\<forall>h \<in> set ?h. snd h \<le> now'" using le assms(2) by auto
  moreover have "\<exists>old. map snd (filter (\<lambda>h. fst h = a) ?h) = old @ requests_of a ?s' \<and> (\<forall>t \<in> set old. t < ?c)" for a
  proof (cases "a = ip")
    case True
    have "requests_of a ?s' = (if window_ok ip now' hist then ?ts @ [now'] else ?ts)"
      unfolding check_effect(3) [OF wf] ok check_effect(1) [OF wf] using True by simp
    with True rest small show ?thesis unfolding own' by (metis append.assoc)
  next
    case False
    with split show ?thesis unfolding own' check_effect(3) [OF wf] by simp
  qed
  ultimately show "tracks ?h now' ?s'" using check_effect(2) [OF wf] by (auto simp: tracks_def)
qed

lemma limiter_run_tracks:
  "tracks hist now s \<Longrightarrow> sorted (now # map snd cs) \<Longrightarrow> limiter_run cs s = window_run cs hist"
proof (induction cs arbitrary: hist now s)
  case (Cons c cs)
  obtain ip now' where c: "c = (ip, now')" by force
  obtain ok s' where ck: "check ip now' s = (ok, s')" by force
  from Cons.prems c have le: "now \<le> now'" by simp
  note t = tracks_window [OF Cons.prems(1) le, of ip]
  have "limiter_run cs s' = window_run cs (if ok then hist @ [(ip, now')] else hist)"
    using Cons.IH [OF t(2)] Cons.prems(2) ck t(1) c by simp
  with t(1) ck c show ?case by simp
qed simp

text \<open>C16.  The request limiter refines its specification: for calls at instants that do not go back, it lets a
  request through exactly when fewer than 600 requests of that address passed in the last 60 seconds,
  whatever the cleanup of idle addresses removes in between.\<close>

theorem limiter_is_sliding_window:
  assumes "sorted (map snd calls)"
  shows "limiter_run calls WebhookRateLimiter = window_run calls []"
proof (cases calls)
  case (Cons c cs)
  have "tracks [] (snd c) WebhookRateLimiter" by (simp add: tracks_def WebhookRateLimiter_def requests_of_def deque_of_def)
  then show ?thesis by (rule limiter_run_tracks) (use assms Cons in auto)
qed simp

theorem limiter_is_sliding_window_witness:
  "limiter_run [(''1.2.3.4'', 5), (''5.6.7.8'', 9), (''1.2.3.4'', 61000000000)] WebhookRateLimiter =
   window_run [(''1.2.3.4'', 5), (''5.6.7.8'', 9), (''1.2.3.4'', 61000000000)] []"
  by (rule limiter_is_sliding_window) simp

subsection \<open>What reaches the application\<close>

text \<open>C9.  Only an authenticated, valid signal reaches the application: whatever a session is sent, the
  application's state changes only by the callback on a signal parsed from the body of a POST to
  \<open>/webhook\<close>, whose token is the configured one when one is configured, and which is valid; the answer
  is 200 exactly for those the callback finished on (and for health checks), and no session from an
  address outside a nonempty allow-list happens at all.\<close>

theorem only_authentic_signals_delivered:
  "let (r, s') = accept_connection api memcmp cfg callback raw steady now_ns rq s in
     (if sv_app s' = sv_app s \<and> r \<noteq> Some (Inr (respond 200 (status_body ''accepted''))) then True
      else \<exists>sig. from_json api now_ns (rq_body rq) = Inr (Some sig) \<and> is_valid sig \<and>
             (wc_auth_token cfg = [] \<or> length (sg_token sig) = length (wc_auth_token cfg) \<and> memcmp (sg_token sig) (wc_auth_token cfg) = 0) \<and>
             rq_method rq = POST \<and> rq_target rq = ''/webhook'' \<and>
             (wc_allowed_ips cfg = [] \<or> normalize_ip raw \<in> set (wc_allowed_ips cfg)) \<and>
             sv_app s' = snd (callback sig (sv_app s)))"
  by (auto simp: accept_connection_def handle_request_def Let_def respond_def error_body_def status_body_def retry_body_def
      constant_time_eq_def split: prod.splits sum.splits option.splits if_splits)

text \<open>C33.  An exception of the parser leaves the session before the token is looked at: a body that is JSON but
  not an object makes \<open>handle_request\<close> throw, with any configured token, and no response is sent.\<close>

theorem unauthenticated_body_throws:
  assumes "rq_method rq = POST" "rq_target rq = ''/webhook''" "fst (check ip steady (sv_limiter s))"
    and "js_parse api (rq_body rq) = Inr j" "\<not> js_contains api j ''algorithm''" "\<not> js_contains api j ''alert''"
    and "js_value_string api j ''action'' [] = Inl e"
  shows "fst (handle_request api memcmp cfg callback ip steady now_ns rq s) = Inl e"
proof -
  have "from_json api now_ns (rq_body rq) = Inl e"
    using assms(4-7) by (simp add: from_json_def parse_signal_def parse_generic_def Let_def)
  with assms(1-3) show ?thesis by (cases "check ip steady (sv_limiter s)") (simp add: handle_request_def Let_def)
qed

theorem unauthenticated_body_throws_witness:
  "fst (handle_request (jv_api [(''1'', JInt 1)]) (\<lambda>a b. if a = b then 0 else 1)
      \<lparr>wc_auth_token = ''secret'', wc_allowed_ips = [], wc_max_body_size = 4096\<rparr> (\<lambda>sig q. (True, q)) ''1.2.3.4'' 0 0
      \<lparr>rq_method = POST, rq_target = ''/webhook'', rq_body = ''1''\<rparr>
      \<lparr>sv_total_requests = 0, sv_limiter = WebhookRateLimiter, sv_app = ()\<rparr>) = Inl JsonTypeError"
  by (rule unauthenticated_body_throws [where j = "JInt 1"])
    (simp_all add: jv_api_def check_def WebhookRateLimiter_def requests_of_def deque_of_def max_per_minute_def Let_def)

end
