(* ===== verification/Shadow_Tracker.thy ===== *)
theory Shadow_Tracker
  imports Trade_Recorder State_Persistence Webhook_Signal
begin

text \<open>
  \<open>execution/shadow_tracker.hpp\<close>: every futures signal is followed by a virtual position of fixed
  notional, apart from the real trading, and every virtual close teaches the symbol learner.
  Positions whose real counterpart passed all live filters are marked; their results are counted a
  second time.  The file written by \<open>save_state\<close> is part of the state (\<open>sh_disk\<close>).
\<close>

subsection \<open>State\<close>

record virtual_position =
  vp_symbol :: string
  vp_timeframe :: string
  vp_side :: string
  vp_strategy :: string
  vp_entry_price :: double
  vp_sl_price :: double
  vp_tp1_price :: double
  vp_opened_at :: int

record shadow_stats =
  hs_total_entries :: int
  hs_total_closes :: int
  hs_open_positions :: int
  hs_wins :: int
  hs_losses :: int
  hs_total_pnl :: double
  hs_win_rate :: double

definition ShadowStats :: shadow_stats where
  "ShadowStats = \<lparr>hs_total_entries = 0, hs_total_closes = 0, hs_open_positions = 0, hs_wins = 0, hs_losses = 0,
     hs_total_pnl = 0, hs_win_rate = 0\<rparr>"

record shadow =
  sh_positions :: "virtual_position smap"
  sh_trades :: "trade_record list"
  sh_learner :: learner
  sh_total_entries :: int
  sh_total_closes :: int
  sh_wins :: int
  sh_losses :: int
  sh_total_pnl :: double
  sh_ops_since_save :: int
  sh_le_keys :: "string list"
  sh_le_stats :: shadow_stats
  sh_le_trades :: "trade_record list"
  sh_disk :: fs

definition shadow_init :: "learner \<Rightarrow> fs \<Rightarrow> shadow" where
  "shadow_init lrn disk =
     \<lparr>sh_positions = [], sh_trades = [], sh_learner = lrn, sh_total_entries = 0, sh_total_closes = 0, sh_wins = 0,
      sh_losses = 0, sh_total_pnl = 0, sh_ops_since_save = 0, sh_le_keys = [], sh_le_stats = ShadowStats,
      sh_le_trades = [], sh_disk = disk\<rparr>"

text \<open>What an operation reads from outside: the learner's environment, the clock, the data directory.\<close>

record 'j shadow_env =
  he_learn :: learn_env
  he_now_ns :: int
  he_dir :: string
  he_writer :: "'j json_writer"

definition MAX_TRADES :: nat where
  "MAX_TRADES = 5000"

definition dir_to_side :: "signal \<Rightarrow> string" where
  "dir_to_side s =
     (if sg_sig_type s = Entry \<or> sg_sig_type s = ReEntry
      then (if sg_action s = ''buy'' then ''long'' else ''short'')
      else (if sg_signal_direction s = ''bull'' then ''long'' else ''short''))"

definition make_key :: "string \<Rightarrow> string \<Rightarrow> string \<Rightarrow> string" where
  "make_key symb tf side = symb @ '':'' @ tf @ '':'' @ side"

definition tf_or_0 :: "string \<Rightarrow> string" where
  "tf_or_0 tf = (if tf = [] then ''0'' else tf)"

definition opposite :: "string \<Rightarrow> string" where
  "opposite side = (if side = ''long'' then ''short'' else ''long'')"

subsection \<open>Saving\<close>

definition shadow_position_json :: "'j json_writer \<Rightarrow> string \<times> virtual_position \<Rightarrow> 'j" where
  "shadow_position_json w kv =
     (let vp = snd kv in jw_obj w
       [(''key'', jw_str w (fst kv)), (''symbol'', jw_str w (vp_symbol vp)), (''timeframe'', jw_str w (vp_timeframe vp)),
        (''side'', jw_str w (vp_side vp)), (''strategy'', jw_str w (vp_strategy vp)),
        (''entry_price'', jw_dbl w (vp_entry_price vp)), (''sl_price'', jw_dbl w (vp_sl_price vp)),
        (''tp1_price'', jw_dbl w (vp_tp1_price vp)), (''opened_at'', jw_int w (vp_opened_at vp div 1000000000))])"

definition shadow_trade_json :: "'j json_writer \<Rightarrow> trade_record \<Rightarrow> 'j" where
  "shadow_trade_json w t = jw_obj w
     [(''symbol'', jw_str w (tr_symbol t)), (''timeframe'', jw_str w (tr_timeframe t)), (''side'', jw_str w (tr_market_type t)),
      (''entry_price'', jw_dbl w (tr_entry_price t)), (''exit_price'', jw_dbl w (tr_exit_price t)),
      (''quantity'', jw_dbl w (tr_quantity t)), (''pnl'', jw_dbl w (tr_pnl t)), (''fee'', jw_dbl w (tr_fee t)),
      (''exit_reason'', jw_str w (tr_exit_reason t)), (''strategy'', jw_str w (tr_strategy t)),
      (''gross_pnl'', jw_dbl w (tr_gross_pnl t)), (''net_pnl'', jw_dbl w (tr_net_pnl t)),
      (''fee_cost'', jw_dbl w (tr_fee_cost t)), (''realized_rr'', jw_dbl w (tr_realized_rr t))]"

definition shadow_json :: "'j json_writer \<Rightarrow> shadow \<Rightarrow> 'j" where
  "shadow_json w s =
     (let le = sh_le_stats s in jw_obj w
       [(''positions'', jw_arr w (map (shadow_position_json w) (sh_positions s))),
        (''trades'', jw_arr w (map (shadow_trade_json w) (last_n 1000 (sh_trades s)))),
        (''stats'', jw_obj w [(''total_entries'', jw_int w (sh_total_entries s)), (''total_closes'', jw_int w (sh_total_closes s)),
           (''wins'', jw_int w (sh_wins s)), (''losses'', jw_int w (sh_losses s)), (''total_pnl'', jw_dbl w (sh_total_pnl s))]),
        (''live_equiv_stats'', jw_obj w [(''total_entries'', jw_int w (hs_total_entries le)),
           (''total_closes'', jw_int w (hs_total_closes le)), (''wins'', jw_int w (hs_wins le)),
           (''losses'', jw_int w (hs_losses le)), (''total_pnl'', jw_dbl w (hs_total_pnl le)),
           (''win_rate'', jw_dbl w (hs_win_rate le))]),
        (''live_equiv_keys'', jw_arr w (map (jw_str w) (sh_le_keys s))),
        (''live_equiv_trades'', jw_arr w (map (shadow_trade_json w) (last_n 500 (sh_le_trades s))))])"

definition shadow_path :: "string \<Rightarrow> string" where
  "shadow_path dir = dir @ ''/shadow_state.json''"

definition save_state_locked :: "'j shadow_env \<Rightarrow> shadow \<Rightarrow> shadow" where
  "save_state_locked e s =
     s\<lparr>sh_disk := (sh_disk s)(shadow_path (he_dir e) \<mapsto> jw_dump (he_writer e) (shadow_json (he_writer e) s))\<rparr>"

definition maybe_save :: "'j shadow_env \<Rightarrow> shadow \<Rightarrow> shadow" where
  "maybe_save e s0 =
     (let s = s0\<lparr>sh_ops_since_save := sh_ops_since_save s0 + 1\<rparr> in
      if sh_ops_since_save s \<ge> 10 then (save_state_locked e s)\<lparr>sh_ops_since_save := 0\<rparr> else s)"

subsection \<open>Closing a virtual position\<close>

definition virtual_trade :: "virtual_position \<Rightarrow> double \<Rightarrow> string \<Rightarrow> trade_record" where
  "virtual_trade vp exit reason =
     (let entry = vp_entry_price vp;
          qty = (if entry > 0 then lit 100 / entry else 0);
          direction = (if vp_side vp = ''long'' then 1 else - 1);
          gross = direction * (exit - entry) * qty;
          entry_fee = entry * qty * lit (6/10000);
          exit_fee = exit * qty * lit (6/10000);
          fee_cost = entry_fee + exit_fee;
          net = gross - fee_cost;
          planned_risk = \<bar>entry - vp_sl_price vp\<bar> * qty;
          entry_notional = entry * qty;
          rr = (if vp_sl_price vp > 0 \<and> entry > 0 then
                  (if planned_risk > lit (1/10000) then net / planned_risk else 0)
                else if entry > 0 then
                  (if entry_notional > lit (1/10000) then net / entry_notional else 0)
                else 0)
      in TradeRecord\<lparr>tr_symbol := vp_symbol vp, tr_timeframe := vp_timeframe vp, tr_exit_reason := ''SHADOW_'' @ reason,
           tr_entry_price := entry, tr_exit_price := exit, tr_quantity := qty, tr_pnl := net, tr_fee := fee_cost,
           tr_strategy := vp_strategy vp, tr_market_type := vp_side vp, tr_gross_pnl := gross, tr_net_pnl := net,
           tr_fee_cost := fee_cost, tr_realized_rr := rr\<rparr>)"

definition win_rate_pct :: "int \<Rightarrow> int \<Rightarrow> double" where
  "win_rate_pct wins closes = (if closes > 0 then dround (dint wins / dint closes * lit 10000) / lit 100 else 0)"

definition cap_trades :: "trade_record list \<Rightarrow> trade_record list" where
  "cap_trades xs = (if length xs > MAX_TRADES then drop (length xs - MAX_TRADES) xs else xs)"

text \<open>The second book-keeping, for a position whose key was marked.\<close>

definition close_live_equiv :: "string \<Rightarrow> trade_record \<Rightarrow> shadow \<Rightarrow> shadow" where
  "close_live_equiv key tr s =
     (if key \<in> set (sh_le_keys s) then
        let st = sh_le_stats s; win = tr_pnl tr > 0;
            st1 = st\<lparr>hs_wins := hs_wins st + (if win then 1 else 0), hs_losses := hs_losses st + (if win then 0 else 1),
                     hs_total_pnl := hs_total_pnl st + tr_pnl tr, hs_total_closes := hs_total_closes st + 1\<rparr>;
            st2 = st1\<lparr>hs_win_rate := win_rate_pct (hs_wins st1) (hs_total_closes st1)\<rparr>;
            ts = sh_le_trades s @ [tr]
        in s\<lparr>sh_le_stats := st2, sh_le_trades := (if length ts > 2000 then drop (length ts - 2000) ts else ts),
             sh_le_keys := filter (\<lambda>k. k \<noteq> key) (sh_le_keys s)\<rparr>
      else s)"

text \<open>\<open>it\<close> is the entry \<open>(key, vp)\<close> of the map.\<close>

definition close_position :: "'j shadow_env \<Rightarrow> string \<Rightarrow> virtual_position \<Rightarrow> double \<Rightarrow> string \<Rightarrow> shadow \<Rightarrow> shadow" where
  "close_position e key vp exit reason s =
     (let tr = virtual_trade vp exit reason; win = tr_pnl tr > 0; le = he_learn e;
          s1 = s\<lparr>sh_wins := sh_wins s + (if win then 1 else 0), sh_losses := sh_losses s + (if win then 0 else 1),
                 sh_total_pnl := sh_total_pnl s + tr_pnl tr, sh_total_closes := sh_total_closes s + 1,
                 sh_trades := cap_trades (sh_trades s @ [tr]),
                 sh_learner := Symbol_Learner.record_trade (le_cfg le) (le_hour le) (le_now le) tr (sh_learner s)\<rparr>;
          s2 = close_live_equiv (make_key (vp_symbol vp) (vp_timeframe vp) (vp_side vp)) tr s1
      in maybe_save e (s2\<lparr>sh_positions := AList.delete key (sh_positions s2)\<rparr>))"

subsection \<open>Signals\<close>

definition find_by_symbol_side :: "string \<Rightarrow> string \<Rightarrow> shadow \<Rightarrow> (string \<times> virtual_position) option" where
  "find_by_symbol_side symb side s =
     find (\<lambda>kv. vp_symbol (snd kv) = symb \<and> vp_side (snd kv) = side) (sh_positions s)"

definition track_entry :: "'j shadow_env \<Rightarrow> signal \<Rightarrow> shadow \<Rightarrow> shadow" where
  "track_entry e sig s =
     (let side = dir_to_side sig; tf = tf_or_0 (sg_timeframe sig); key = make_key (sg_symbol sig) tf side in
      if map_of (sh_positions s) key \<noteq> None then s
      else let opp_key = make_key (sg_symbol sig) tf (opposite side);
               s1 = (case map_of (sh_positions s) opp_key of
                       Some vp \<Rightarrow> close_position e opp_key vp (sg_price sig) ''REVERSAL'' s
                     | None \<Rightarrow> s);
               vp = \<lparr>vp_symbol = sg_symbol sig, vp_timeframe = tf, vp_side = side, vp_strategy = sg_strategy_name sig,
                     vp_entry_price = sg_price sig, vp_sl_price = sg_sl sig, vp_tp1_price = sg_tp1 sig,
                     vp_opened_at = he_now_ns e\<rparr>
           in maybe_save e (s1\<lparr>sh_positions := AList.update key vp (sh_positions s1),
                              sh_total_entries := sh_total_entries s1 + 1\<rparr>))"

text \<open>\<open>track_tp\<close> and \<open>track_sl\<close> differ in the reason only.\<close>

definition track_exit :: "'j shadow_env \<Rightarrow> string \<Rightarrow> signal \<Rightarrow> shadow \<Rightarrow> shadow" where
  "track_exit e reason sig s =
     (let side = dir_to_side sig; key = make_key (sg_symbol sig) (tf_or_0 (sg_timeframe sig)) side in
      case map_of (sh_positions s) key of
        Some vp \<Rightarrow> close_position e key vp (sg_price sig) reason s
      | None \<Rightarrow> (case find_by_symbol_side (sg_symbol sig) side s of
          Some (k, vp) \<Rightarrow> close_position e k vp (sg_price sig) reason s
        | None \<Rightarrow> s))"

definition track_tp :: "'j shadow_env \<Rightarrow> signal \<Rightarrow> shadow \<Rightarrow> shadow" where
  "track_tp e = track_exit e ''TP''"

definition track_sl :: "'j shadow_env \<Rightarrow> signal \<Rightarrow> shadow \<Rightarrow> shadow" where
  "track_sl e = track_exit e ''SL''"

definition track :: "'j shadow_env \<Rightarrow> signal \<Rightarrow> shadow \<Rightarrow> shadow" where
  "track e sig s =
     (if sg_market_type sig = ''spot'' then s
      else if sg_symbol sig = [] then s
      else case sg_sig_type sig of
        Entry \<Rightarrow> track_entry e sig s | ReEntry \<Rightarrow> track_entry e sig s
      | TP \<Rightarrow> track_tp e sig s | SL \<Rightarrow> track_sl e sig s | Unknown \<Rightarrow> s)"

definition mark_live_equivalent :: "string \<Rightarrow> shadow \<Rightarrow> shadow" where
  "mark_live_equivalent key s =
     s\<lparr>sh_le_keys := List.insert key (sh_le_keys s),
       sh_le_stats := (sh_le_stats s)\<lparr>hs_total_entries := hs_total_entries (sh_le_stats s) + 1\<rparr>\<rparr>"

subsection \<open>Reports\<close>

definition get_stats :: "shadow \<Rightarrow> shadow_stats" where
  "get_stats s =
     \<lparr>hs_total_entries = sh_total_entries s, hs_total_closes = sh_total_closes s,
      hs_open_positions = int (length (sh_positions s)), hs_wins = sh_wins s, hs_losses = sh_losses s,
      hs_total_pnl = sh_total_pnl s, hs_win_rate = win_rate_pct (sh_wins s) (sh_total_closes s)\<rparr>"

definition get_stats_json :: "shadow \<Rightarrow> shadow_stats" where
  "get_stats_json s = (get_stats s)\<lparr>hs_total_pnl := round_to 4 (sh_total_pnl s)\<rparr>"

definition get_live_equiv_stats :: "shadow \<Rightarrow> shadow_stats" where
  "get_live_equiv_stats s = sh_le_stats s"

text \<open>With the number of marked keys that still wait for their close.\<close>

definition get_live_equiv_stats_json :: "shadow \<Rightarrow> shadow_stats \<times> int" where
  "get_live_equiv_stats_json s =
     ((sh_le_stats s)\<lparr>hs_open_positions := int (length (filter (\<lambda>k. map_of (sh_positions s) k \<noteq> None) (sh_le_keys s))),
        hs_total_pnl := round_to 4 (hs_total_pnl (sh_le_stats s))\<rparr>, int (length (sh_le_keys s)))"

record shadow_trade_row =
  hr_symbol :: string
  hr_timeframe :: string
  hr_side :: string
  hr_entry_price :: double
  hr_exit_price :: double
  hr_pnl :: double
  hr_fee :: double
  hr_exit_reason :: string
  hr_strategy :: string
  hr_gross_pnl :: double
  hr_net_pnl :: double
  hr_realized_rr :: double

definition shadow_trade_row_of :: "trade_record \<Rightarrow> shadow_trade_row" where
  "shadow_trade_row_of t =
     \<lparr>hr_symbol = tr_symbol t, hr_timeframe = tr_timeframe t, hr_side = tr_market_type t, hr_entry_price = tr_entry_price t,
      hr_exit_price = tr_exit_price t, hr_pnl = round_to 4 (tr_pnl t), hr_fee = round_to 4 (tr_fee t),
      hr_exit_reason = tr_exit_reason t, hr_strategy = tr_strategy t, hr_gross_pnl = round_to 4 (tr_gross_pnl t),
      hr_net_pnl = round_to 4 (tr_net_pnl t), hr_realized_rr = round_to 2 (tr_realized_rr t)\<rparr>"

definition get_live_equiv_trades_json :: "nat \<Rightarrow> shadow \<Rightarrow> shadow_trade_row list" where
  "get_live_equiv_trades_json limit s = map shadow_trade_row_of (last_n limit (sh_le_trades s))"

text \<open>The rows also carry the fee under the name \<open>fee_cost\<close>.\<close>

definition get_trades_json :: "nat \<Rightarrow> shadow \<Rightarrow> (shadow_trade_row \<times> double) list" where
  "get_trades_json limit s = map (\<lambda>t. (shadow_trade_row_of t, round_to 4 (tr_fee_cost t))) (last_n limit (sh_trades s))"

text \<open>Key, position and age in minutes.\<close>

definition get_positions_json :: "int \<Rightarrow> shadow \<Rightarrow> (string \<times> virtual_position \<times> int) list" where
  "get_positions_json now_ns s = map (\<lambda>(k, vp). (k, vp, (now_ns - vp_opened_at vp) div 60000000000)) (sh_positions s)"

definition grade_of :: "int \<Rightarrow> double \<Rightarrow> double \<Rightarrow> string" where
  "grade_of n wr pnl =
     (if n < 5 then ''?''
      else if wr \<ge> lit 65 \<and> pnl > 0 then ''A+''
      else if wr \<ge> lit 55 \<and> pnl > 0 then ''A''
      else if wr \<ge> lit 50 \<and> pnl > 0 then ''B''
      else if wr \<ge> lit 45 then ''C''
      else if wr \<ge> lit 35 then ''D''
      else ''F'')"

record report_row =
  rr_key :: string
  rr_symbol :: string
  rr_timeframe :: string
  rr_total :: int
  rr_wins :: int
  rr_losses :: int
  rr_win_rate :: double
  rr_total_pnl :: double
  rr_avg_pnl :: double
  rr_grade :: string

text \<open>A row from a group of trades; the caller says how the key names symbol and timeframe.\<close>

definition report_row_of :: "(string \<Rightarrow> string \<times> string) \<Rightarrow> string \<times> trade_record list \<Rightarrow> report_row" where
  "report_row_of split kv =
     (let ts = snd kv; n = int (length ts); wr = win_rate_pct (wins_of ts) n; pnl = foldl (+) 0 (map tr_pnl ts) in
      \<lparr>rr_key = fst kv, rr_symbol = fst (split (fst kv)), rr_timeframe = snd (split (fst kv)), rr_total = n,
       rr_wins = wins_of ts, rr_losses = n - wins_of ts, rr_win_rate = wr, rr_total_pnl = round_to 4 pnl,
       rr_avg_pnl = (if n > 0 then round_to 4 (pnl / dint n) else 0), rr_grade = grade_of n wr pnl\<rparr>)"

definition get_symbol_report :: "shadow \<Rightarrow> report_row list" where
  "get_symbol_report s =
     sort_desc rr_total_pnl (map (report_row_of (\<lambda>k. (k, []))) (group_by tr_symbol (sh_trades s)))"

definition sym_tf_key :: "trade_record \<Rightarrow> string" where
  "sym_tf_key t = tr_symbol t @ '':'' @ tf_or_0 (tr_timeframe t)"

definition split_key :: "string \<Rightarrow> string \<times> string" where
  "split_key key = (case find_from (CHR '':'') key 0 of Some i \<Rightarrow> (take i key, drop (Suc i) key) | None \<Rightarrow> (key, key))"

definition get_symbol_tf_report :: "shadow \<Rightarrow> report_row list" where
  "get_symbol_tf_report s = sort_desc rr_total_pnl (map (report_row_of split_key) (group_by sym_tf_key (sh_trades s)))"

subsection \<open>Loading\<close>

definition shadow_position_from :: "'j json_api \<Rightarrow> 'j \<Rightarrow> exn + string \<times> virtual_position" where
  "shadow_position_from api p =
     (let str = js_value_string api p; dbl = (\<lambda>k. js_value_double api p k 0) in
      ebind (str ''symbol'' []) (\<lambda>sy. ebind (str ''timeframe'' ''0'') (\<lambda>tf. ebind (str ''side'' ''long'') (\<lambda>sd.
      ebind (str ''strategy'' ''unknown'') (\<lambda>st. ebind (dbl ''entry_price'') (\<lambda>ep. ebind (dbl ''sl_price'') (\<lambda>sl.
      ebind (dbl ''tp1_price'') (\<lambda>tp. ebind (js_value_int api p ''opened_at'' 0) (\<lambda>t.
      ebind (str ''key'' (make_key sy tf sd)) (\<lambda>key.
      Inr (key, \<lparr>vp_symbol = sy, vp_timeframe = tf, vp_side = sd, vp_strategy = st, vp_entry_price = ep, vp_sl_price = sl,
                vp_tp1_price = tp, vp_opened_at = t * 1000000000\<rparr>)))))))))))"

definition shadow_trade_from :: "'j json_api \<Rightarrow> 'j \<Rightarrow> exn + trade_record" where
  "shadow_trade_from api t =
     (let str = js_value_string api t; dbl = (\<lambda>k. js_value_double api t k 0) in
      ebind (str ''symbol'' []) (\<lambda>sy. ebind (str ''timeframe'' []) (\<lambda>tf. ebind (dbl ''entry_price'') (\<lambda>ep.
      ebind (dbl ''exit_price'') (\<lambda>xp. ebind (dbl ''quantity'') (\<lambda>q. ebind (dbl ''pnl'') (\<lambda>pnl. ebind (dbl ''fee'') (\<lambda>fee.
      ebind (str ''exit_reason'' []) (\<lambda>er. ebind (str ''strategy'' ''unknown'') (\<lambda>st. ebind (str ''side'' []) (\<lambda>sd.
      ebind (dbl ''gross_pnl'') (\<lambda>g. ebind (dbl ''net_pnl'') (\<lambda>n. ebind (dbl ''fee_cost'') (\<lambda>fc.
      ebind (dbl ''realized_rr'') (\<lambda>rr.
      Inr (TradeRecord\<lparr>tr_symbol := sy, tr_timeframe := tf, tr_entry_price := ep, tr_exit_price := xp, tr_quantity := q,
             tr_pnl := pnl, tr_fee := fee, tr_exit_reason := er, tr_strategy := st, tr_market_type := sd,
             tr_gross_pnl := g, tr_net_pnl := n, tr_fee_cost := fc, tr_realized_rr := rr\<rparr>))))))))))))))))"

text \<open>The elements of an array field, none when the field is absent or not an array.\<close>

definition array_field :: "'j json_api \<Rightarrow> 'j \<Rightarrow> string \<Rightarrow> exn + 'j list" where
  "array_field api j k =
     (if js_contains api j k
      then ebind (js_field api j k) (\<lambda>a. Inr (if js_is_array api a then js_elems api a else []))
      else Inr [])"

text \<open>One step per element; a field that throws is a step that throws.\<close>

definition each :: "exn + 'j list \<Rightarrow> ('j \<Rightarrow> 's \<Rightarrow> exn + 's) \<Rightarrow> ('s \<Rightarrow> exn + 's) list" where
  "each m f = (case m of Inl e \<Rightarrow> [\<lambda>s. Inl e] | Inr xs \<Rightarrow> map f xs)"

definition stats_steps :: "'j json_api \<Rightarrow> 'j \<Rightarrow> (shadow \<Rightarrow> exn + shadow) list" where
  "stats_steps api j =
     (if js_contains api j ''stats'' then
        case js_field api j ''stats'' of Inl e \<Rightarrow> [\<lambda>s. Inl e]
        | Inr st \<Rightarrow>
          [set_from (js_value_int api st ''total_entries'' 0) (\<lambda>v s. s\<lparr>sh_total_entries := v\<rparr>),
           set_from (js_value_int api st ''total_closes'' 0) (\<lambda>v s. s\<lparr>sh_total_closes := v\<rparr>),
           set_from (js_value_int api st ''wins'' 0) (\<lambda>v s. s\<lparr>sh_wins := v\<rparr>),
           set_from (js_value_int api st ''losses'' 0) (\<lambda>v s. s\<lparr>sh_losses := v\<rparr>),
           set_from (js_value_double api st ''total_pnl'' 0) (\<lambda>v s. s\<lparr>sh_total_pnl := v\<rparr>)]
      else [])"

definition le_stats_steps :: "'j json_api \<Rightarrow> 'j \<Rightarrow> (shadow \<Rightarrow> exn + shadow) list" where
  "le_stats_steps api j =
     (if js_contains api j ''live_equiv_stats'' then
        case js_field api j ''live_equiv_stats'' of Inl e \<Rightarrow> [\<lambda>s. Inl e]
        | Inr st \<Rightarrow>
          let upd = (\<lambda>f s. s\<lparr>sh_le_stats := f (sh_le_stats s)\<rparr>) in
          [set_from (js_value_int api st ''total_entries'' 0) (\<lambda>v. upd (\<lambda>h. h\<lparr>hs_total_entries := v\<rparr>)),
           set_from (js_value_int api st ''total_closes'' 0) (\<lambda>v. upd (\<lambda>h. h\<lparr>hs_total_closes := v\<rparr>)),
           set_from (js_value_int api st ''wins'' 0) (\<lambda>v. upd (\<lambda>h. h\<lparr>hs_wins := v\<rparr>)),
           set_from (js_value_int api st ''losses'' 0) (\<lambda>v. upd (\<lambda>h. h\<lparr>hs_losses := v\<rparr>)),
           set_from (js_value_double api st ''total_pnl'' 0) (\<lambda>v. upd (\<lambda>h. h\<lparr>hs_total_pnl := v\<rparr>)),
           set_from (js_value_double api st ''win_rate'' 0) (\<lambda>v. upd (\<lambda>h. h\<lparr>hs_win_rate := v\<rparr>))]
      else [])"

definition load_steps :: "'j json_api \<Rightarrow> 'j \<Rightarrow> (shadow \<Rightarrow> exn + shadow) list" where
  "load_steps api j =
     each (array_field api j ''positions'')
       (\<lambda>p. set_from (shadow_position_from api p) (\<lambda>(key, vp) s.
          if vp_symbol vp \<noteq> [] then s\<lparr>sh_positions := AList.update key vp (sh_positions s)\<rparr> else s)) @
     each (array_field api j ''trades'')
       (\<lambda>t. set_from (shadow_trade_from api t) (\<lambda>tr s. s\<lparr>sh_trades := sh_trades s @ [tr]\<rparr>)) @
     stats_steps api j @ le_stats_steps api j @
     each (array_field api j ''live_equiv_keys'')
       (\<lambda>k. if js_is_string api k
            then set_from (js_get_string api k) (\<lambda>v s. s\<lparr>sh_le_keys := List.insert v (sh_le_keys s)\<rparr>)
            else (\<lambda>s. Inr s)) @
     each (array_field api j ''live_equiv_trades'')
       (\<lambda>t. set_from (shadow_trade_from api t) (\<lambda>tr s. s\<lparr>sh_le_trades := sh_le_trades s @ [tr]\<rparr>))"

definition load_state :: "'j json_api \<Rightarrow> string \<Rightarrow> shadow \<Rightarrow> shadow" where
  "load_state api dir s =
     (case sh_disk s (shadow_path dir) of
        None \<Rightarrow> s
      | Some txt \<Rightarrow> (case js_parse api txt of Inl e \<Rightarrow> s | Inr j \<Rightarrow> try_seq (load_steps api j) s))"

definition ShadowTracker :: "'j json_api \<Rightarrow> string \<Rightarrow> learner \<Rightarrow> fs \<Rightarrow> shadow" where
  "ShadowTracker api dir lrn disk = load_state api dir (shadow_init lrn disk)"

subsection \<open>Book-keeping of the virtual positions\<close>

lemma maybe_save_simps [simp]:
  "sh_positions (maybe_save e s) = sh_positions s" "sh_trades (maybe_save e s) = sh_trades s"
  "sh_learner (maybe_save e s) = sh_learner s" "sh_total_entries (maybe_save e s) = sh_total_entries s"
  "sh_total_closes (maybe_save e s) = sh_total_closes s" "sh_wins (maybe_save e s) = sh_wins s"
  "sh_losses (maybe_save e s) = sh_losses s" "sh_le_keys (maybe_save e s) = sh_le_keys s"
  "sh_le_stats (maybe_save e s) = sh_le_stats s" "sh_le_trades (maybe_save e s) = sh_le_trades s"
  by (simp_all add: maybe_save_def save_state_locked_def Let_def)

lemma close_live_equiv_simps [simp]:
  "sh_positions (close_live_equiv k tr s) = sh_positions s" "sh_trades (close_live_equiv k tr s) = sh_trades s"
  "sh_learner (close_live_equiv k tr s) = sh_learner s" "sh_total_entries (close_live_equiv k tr s) = sh_total_entries s"
  "sh_total_closes (close_live_equiv k tr s) = sh_total_closes s" "sh_wins (close_live_equiv k tr s) = sh_wins s"
  "sh_losses (close_live_equiv k tr s) = sh_losses s"
  by (simp_all add: close_live_equiv_def Let_def)

lemma close_position_simps:
  "sh_positions (close_position e k vp x r s) = AList.delete k (sh_positions s)"
  "sh_total_entries (close_position e k vp x r s) = sh_total_entries s"
  "sh_total_closes (close_position e k vp x r s) = sh_total_closes s + 1"
  "sh_wins (close_position e k vp x r s) + sh_losses (close_position e k vp x r s) = sh_wins s + sh_losses s + 1"
  "sh_trades (close_position e k vp x r s) = cap_trades (sh_trades s @ [virtual_trade vp x r])"
  by (simp_all add: close_position_def Let_def)

text \<open>
  The counters balance; a position is stored under the key of its symbol, timeframe and side; a symbol
  and timeframe is never held on both sides.
\<close>

definition shadow_ok :: "shadow \<Rightarrow> bool" where
  "shadow_ok s \<longleftrightarrow> wf_map (sh_positions s) \<and>
     sh_total_entries s = sh_total_closes s + int (length (sh_positions s)) \<and>
     sh_wins s + sh_losses s = sh_total_closes s \<and>
     (\<forall>k vp. map_of (sh_positions s) k = Some vp \<longrightarrow>
        k = make_key (vp_symbol vp) (vp_timeframe vp) (vp_side vp) \<and> vp_side vp \<in> {''long'', ''short''}) \<and>
     (\<forall>symb tf. \<not> (map_of (sh_positions s) (make_key symb tf ''long'') \<noteq> None \<and>
                   map_of (sh_positions s) (make_key symb tf ''short'') \<noteq> None))"

lemma shadow_ok_close:
  assumes "shadow_ok s" "map_of (sh_positions s) k = Some vp"
  shows "shadow_ok (close_position e k vp x r s)"
proof -
  have "0 < length (sh_positions s)" using assms(2) by auto
  moreover have "length (AList.delete k (sh_positions s)) = length (sh_positions s) - 1"
    using assms by (simp add: length_delete shadow_ok_def)
  ultimately have len: "int (length (AList.delete k (sh_positions s))) = int (length (sh_positions s)) - 1" by linarith
  show ?thesis using assms len
    by (auto simp: shadow_ok_def close_position_simps map_of_delete split: if_splits)
qed

lemma make_key_inj_side: "make_key symb tf side = make_key symb' tf' side \<longleftrightarrow> symb @ '':'' @ tf = symb' @ '':'' @ tf'"
  by (simp add: make_key_def)

lemma dir_to_side_cases: "dir_to_side sig = ''long'' \<or> dir_to_side sig = ''short''"
  by (simp add: dir_to_side_def)

lemma make_key_sides: "make_key symb tf ''long'' \<noteq> make_key symb' tf' ''short''"
proof
  assume "make_key symb tf ''long'' = make_key symb' tf' ''short''"
  then have "last (make_key symb tf ''long'') = last (make_key symb' tf' ''short'')" by simp
  then show False by (simp add: make_key_def)
qed

lemma shadow_ok_save [simp]: "shadow_ok (maybe_save e s) = shadow_ok s"
  by (simp add: shadow_ok_def)

text \<open>Adding a position on a side where nothing is held on either side.\<close>

lemma shadow_ok_add:
  assumes ok: "shadow_ok s" and side: "side \<in> {''long'', ''short''}"
    and free: "map_of (sh_positions s) (make_key symb tf side) = None" "map_of (sh_positions s) (make_key symb tf (opposite side)) = None"
    and vp: "vp_symbol vp = symb" "vp_timeframe vp = tf" "vp_side vp = side"
  shows "shadow_ok (s\<lparr>sh_positions := AList.update (make_key symb tf side) vp (sh_positions s),
                      sh_total_entries := sh_total_entries s + 1\<rparr>)"
proof -
  let ?ps = "AList.update (make_key symb tf side) vp (sh_positions s)"
  have both: "\<not> (map_of ?ps (make_key u v ''long'') \<noteq> None \<and> map_of ?ps (make_key u v ''short'') \<noteq> None)" for u v
  proof
    assume a: "map_of ?ps (make_key u v ''long'') \<noteq> None \<and> map_of ?ps (make_key u v ''short'') \<noteq> None"
    have old: "\<not> (map_of (sh_positions s) (make_key u v ''long'') \<noteq> None \<and> map_of (sh_positions s) (make_key u v ''short'') \<noteq> None)"
      using ok by (simp add: shadow_ok_def)
    have same: "make_key u v (opposite side) = make_key symb tf (opposite side)" if "make_key u v side = make_key symb tf side"
      using that by (simp only: make_key_inj_side)
    from side consider "side = ''long''" | "side = ''short''" by blast
    then show False
      by cases (use a old same free make_key_sides [of u v symb tf] make_key_sides [of symb tf u v] in
          \<open>auto simp: map_of_update opposite_def split: if_splits\<close>)
  qed
  with ok side free vp show ?thesis
    by (simp add: shadow_ok_def map_of_update length_update)
qed

lemma opposite_in: "opposite side \<in> {''long'', ''short''} \<and> opposite side \<noteq> side"
  by (simp add: opposite_def)

lemma make_key_opposite: "side \<in> {''long'', ''short''} \<Longrightarrow> make_key symb tf side \<noteq> make_key symb tf (opposite side)"
  by (auto simp: make_key_def opposite_def)

lemma shadow_ok_entry: assumes "shadow_ok s" shows "shadow_ok (track_entry e sig s)"
proof -
  let ?side = "dir_to_side sig" and ?tf = "tf_or_0 (sg_timeframe sig)" and ?symb = "sg_symbol sig"
  let ?key = "make_key ?symb ?tf ?side" and ?opp = "make_key ?symb ?tf (opposite ?side)"
  have side: "?side \<in> {''long'', ''short''}" using dir_to_side_cases by blast
  show ?thesis
  proof (cases "map_of (sh_positions s) ?key = None")
    case True
    define s1 where "s1 = (case map_of (sh_positions s) ?opp of
        Some vp \<Rightarrow> close_position e ?opp vp (sg_price sig) ''REVERSAL'' s | None \<Rightarrow> s)"
    have "shadow_ok s1" "map_of (sh_positions s1) ?opp = None" "map_of (sh_positions s1) ?key = None"
      using assms True make_key_opposite [OF side, of ?symb ?tf] unfolding s1_def
      by (auto simp: shadow_ok_close close_position_simps map_of_delete split: option.splits)
    from shadow_ok_add [OF this(1) side this(3,2), of "\<lparr>vp_symbol = ?symb, vp_timeframe = ?tf, vp_side = ?side,
        vp_strategy = sg_strategy_name sig, vp_entry_price = sg_price sig, vp_sl_price = sg_sl sig,
        vp_tp1_price = sg_tp1 sig, vp_opened_at = he_now_ns e\<rparr>"]
    show ?thesis using True by (simp add: track_entry_def Let_def s1_def [symmetric])
  qed (use assms in \<open>simp add: track_entry_def Let_def\<close>)
qed

lemma shadow_ok_find: "shadow_ok s \<Longrightarrow> find_by_symbol_side symb side s = Some (k, vp) \<Longrightarrow> map_of (sh_positions s) k = Some vp"
  unfolding find_by_symbol_side_def
  by (drule find_Some_mem) (simp add: shadow_ok_def wf_map_lookup)

lemma shadow_ok_exit: "shadow_ok s \<Longrightarrow> shadow_ok (track_exit e r sig s)"
  by (auto simp: track_exit_def Let_def shadow_ok_close shadow_ok_find split: option.splits)

lemma shadow_ok_track: "shadow_ok s \<Longrightarrow> shadow_ok (track e sig s)"
  by (simp add: track_def track_tp_def track_sl_def shadow_ok_entry shadow_ok_exit split: signal_type.split)

text \<open>The second book-keeping, which only a close and a mark touch.\<close>

definition le_ok :: "shadow \<Rightarrow> bool" where
  "le_ok s \<longleftrightarrow>
     (let st = sh_le_stats s in
      distinct (sh_le_keys s) \<and> hs_wins st + hs_losses st = hs_total_closes st \<and>
      hs_total_closes st + int (length (sh_le_keys s)) \<le> hs_total_entries st \<and>
      hs_total_closes st \<le> sh_total_closes s \<and> int (length (sh_trades s)) = min 5000 (sh_total_closes s) \<and> 0 \<le> sh_total_closes s)"

lemma filter_absent: "k \<notin> set xs \<Longrightarrow> filter (\<lambda>x. x \<noteq> k) xs = xs"
  by (induction xs) auto

lemma length_filter_neq: "distinct xs \<Longrightarrow> k \<in> set xs \<Longrightarrow> int (length (filter (\<lambda>x. x \<noteq> k) xs)) = int (length xs) - 1"
  by (induction xs) (auto simp: filter_absent)

lemma le_ok_close: assumes "le_ok s" shows "le_ok (close_position e k vp x r s)"
proof -
  let ?s = "close_position e k vp x r s" and ?key = "make_key (vp_symbol vp) (vp_timeframe vp) (vp_side vp)"
  have len: "int (length (sh_trades ?s)) = min 5000 (sh_total_closes ?s)"
    using assms by (auto simp: le_ok_def Let_def close_position_simps cap_trades_def MAX_TRADES_def)
  show ?thesis
  proof (cases "?key \<in> set (sh_le_keys s)")
    case True
    with assms length_filter_neq [of "sh_le_keys s" ?key] len show ?thesis
      by (simp add: le_ok_def Let_def close_position_def close_live_equiv_def)
  next
    case False
    then have "sh_le_keys ?s = sh_le_keys s" "sh_le_stats ?s = sh_le_stats s"
      by (simp_all add: close_position_def close_live_equiv_def Let_def)
    with assms len show ?thesis by (simp add: le_ok_def Let_def close_position_simps)
  qed
qed

lemma le_ok_save [simp]: "le_ok (maybe_save e s) = le_ok s"
  by (simp add: le_ok_def)

lemma le_ok_update [simp]: "le_ok (s\<lparr>sh_positions := ps, sh_total_entries := n\<rparr>) = le_ok s"
  by (simp add: le_ok_def)

lemma le_ok_entry: "le_ok s \<Longrightarrow> le_ok (track_entry e sig s)"
  by (simp add: track_entry_def Let_def le_ok_close split: option.split)

lemma le_ok_exit: "le_ok s \<Longrightarrow> le_ok (track_exit e r sig s)"
  by (auto simp: track_exit_def Let_def le_ok_close split: option.split)

lemma le_ok_track: "le_ok s \<Longrightarrow> le_ok (track e sig s)"
  by (simp add: track_def track_tp_def track_sl_def le_ok_entry le_ok_exit split: signal_type.split)

lemma le_ok_mark: "le_ok s \<Longrightarrow> le_ok (mark_live_equivalent k s)"
  by (auto simp: le_ok_def mark_live_equivalent_def Let_def List.insert_def)

lemma shadow_ok_mark: "shadow_ok s \<Longrightarrow> shadow_ok (mark_live_equivalent k s)"
  by (simp add: shadow_ok_def mark_live_equivalent_def)

datatype 'j shadow_op = Track "'j shadow_env" signal | MarkLive string

fun shadow_exec :: "'j shadow_op \<Rightarrow> shadow \<Rightarrow> shadow" where
  "shadow_exec (Track e sig) s = track e sig s"
| "shadow_exec (MarkLive k) s = mark_live_equivalent k s"

lemma shadow_exec_ok: "shadow_ok s \<and> le_ok s \<Longrightarrow> shadow_ok (shadow_exec op s) \<and> le_ok (shadow_exec op s)"
  by (cases op) (simp_all add: shadow_ok_track le_ok_track shadow_ok_mark le_ok_mark)

lemma shadow_fold_ok: "shadow_ok s \<and> le_ok s \<Longrightarrow> shadow_ok (fold shadow_exec ops s) \<and> le_ok (fold shadow_exec ops s)"
  by (induction ops arbitrary: s) (simp_all add: shadow_exec_ok)

lemma shadow_init_ok: "shadow_ok (shadow_init lrn disk) \<and> le_ok (shadow_init lrn disk)"
  by (simp add: shadow_ok_def le_ok_def shadow_init_def ShadowStats_def)

text \<open>C18.  The shadow books balance: after any sequence of signals and live marks on a new tracker, the entries
  are the closes plus what is open, wins and losses add up to the closes, the list holds the newest
  5000 closes, no symbol and timeframe is held long and short at once, and the live-equivalent book
  is a part of it: its closes are among all closes, its wins and losses add up, and its closes and
  waiting marks never exceed the marks set.\<close>

theorem shadow_books_balance:
  "let s = fold shadow_exec ops (shadow_init lrn disk); st = get_stats s; le = get_live_equiv_stats s in
     hs_total_entries st = hs_total_closes st + hs_open_positions st \<and>
     hs_wins st + hs_losses st = hs_total_closes st \<and>
     int (length (sh_trades s)) = min 5000 (hs_total_closes st) \<and>
     (\<forall>symb tf. \<not> (map_of (sh_positions s) (make_key symb tf ''long'') \<noteq> None \<and>
                   map_of (sh_positions s) (make_key symb tf ''short'') \<noteq> None)) \<and>
     hs_wins le + hs_losses le = hs_total_closes le \<and> hs_total_closes le \<le> hs_total_closes st \<and>
     hs_total_closes le + int (length (sh_le_keys s)) \<le> hs_total_entries le"
  using shadow_fold_ok [OF shadow_init_ok, of ops lrn disk]
  by (simp add: Let_def get_stats_def get_live_equiv_stats_def shadow_ok_def le_ok_def)

end
