(* ===== verification/Spot_Shadow.thy ===== *)
theory Spot_Shadow
  imports Shadow_Tracker
begin

text \<open>
  \<open>execution/spot_shadow_tracker.hpp\<close>: the virtual positions of the spot signals.  They are long
  only, one per symbol, timeframe and exchange, and close in parts: the three take-profit levels take
  33, 50 and 100 percent.  Every close renews the cached grade of its key.  The tracker does not teach
  the learner; the file written by \<open>save_state\<close> is part of the state (\<open>xs_disk\<close>).
\<close>

subsection \<open>State\<close>

record spot_position =
  xp_symbol :: string
  xp_timeframe :: string
  xp_exchange :: string
  xp_strategy :: string
  xp_entry_price :: double
  xp_sl_price :: double
  xp_tp1_price :: double
  xp_remaining_pct :: double
  xp_opened_at :: int

record spot_shadow =
  xs_positions :: "spot_position smap"
  xs_trades :: "trade_record list"
  xs_symbol_grades :: "string smap"
  xs_total_entries :: int
  xs_total_closes :: int
  xs_wins :: int
  xs_losses :: int
  xs_total_pnl :: double
  xs_ops_since_save :: int
  xs_disk :: fs

definition spot_init :: "fs \<Rightarrow> spot_shadow" where
  "spot_init disk =
     \<lparr>xs_positions = [], xs_trades = [], xs_symbol_grades = [], xs_total_entries = 0, xs_total_closes = 0, xs_wins = 0,
      xs_losses = 0, xs_total_pnl = 0, xs_ops_since_save = 0, xs_disk = disk\<rparr>"

text \<open>\<open>symbol:tf:exchange\<close>.\<close>

definition make_key :: "string \<Rightarrow> string \<Rightarrow> string \<Rightarrow> string" where
  "make_key symb tf ex = symb @ '':'' @ tf @ '':'' @ ex"

definition get_notional :: "string \<Rightarrow> double" where
  "get_notional ex = (if ex = ''upbit'' then lit 50000 else lit 100)"

definition get_fee_rate :: "string \<Rightarrow> double" where
  "get_fee_rate ex = (if ex = ''upbit'' then lit (5/10000) else lit (1/1000))"

definition tp_close_pct :: "string \<Rightarrow> double" where
  "tp_close_pct level = (if level = ''TP1'' then lit 33 else if level = ''TP2'' then lit 50 else lit 100)"

definition compute_grade :: "int \<Rightarrow> int \<Rightarrow> double \<Rightarrow> double \<Rightarrow> string" where
  "compute_grade n wins pnl wr =
     (if n < 5 then ''?''
      else if wr \<ge> lit 65 \<and> pnl > 0 then ''A+''
      else if wr \<ge> lit 55 \<and> pnl > 0 then ''A''
      else if wr \<ge> lit 50 \<and> pnl > 0 then ''B''
      else if wr \<ge> lit 45 then ''C''
      else if wr \<ge> lit 35 then ''D''
      else ''F'')"

definition spot_quote_currency :: "string \<Rightarrow> string" where
  "spot_quote_currency symb =
     (if has_suffix ''KRW'' symb then ''KRW''
      else if has_suffix ''USDT'' symb then ''USDT''
      else if has_suffix ''BTC'' symb then ''BTC''
      else ''UNKNOWN'')"

subsection \<open>Saving\<close>

definition spot_position_json :: "'j json_writer \<Rightarrow> string \<times> spot_position \<Rightarrow> 'j" where
  "spot_position_json w kv =
     (let vp = snd kv in jw_obj w
       [(''key'', jw_str w (fst kv)), (''symbol'', jw_str w (xp_symbol vp)), (''timeframe'', jw_str w (xp_timeframe vp)),
        (''exchange'', jw_str w (xp_exchange vp)), (''strategy'', jw_str w (xp_strategy vp)),
        (''entry_price'', jw_dbl w (xp_entry_price vp)), (''sl_price'', jw_dbl w (xp_sl_price vp)),
        (''tp1_price'', jw_dbl w (xp_tp1_price vp)), (''remaining_pct'', jw_dbl w (xp_remaining_pct vp)),
        (''opened_at'', jw_int w (xp_opened_at vp div 1000000000))])"

definition spot_trade_json :: "'j json_writer \<Rightarrow> trade_record \<Rightarrow> 'j" where
  "spot_trade_json w t = jw_obj w
     [(''symbol'', jw_str w (tr_symbol t)), (''timeframe'', jw_str w (tr_timeframe t)), (''exchange'', jw_str w (tr_exchange t)),
      (''entry_price'', jw_dbl w (tr_entry_price t)), (''exit_price'', jw_dbl w (tr_exit_price t)),
      (''quantity'', jw_dbl w (tr_quantity t)), (''pnl'', jw_dbl w (tr_pnl t)), (''fee'', jw_dbl w (tr_fee t)),
      (''exit_reason'', jw_str w (tr_exit_reason t)), (''strategy'', jw_str w (tr_strategy t))]"

definition spot_json :: "'j json_writer \<Rightarrow> spot_shadow \<Rightarrow> 'j" where
  "spot_json w s = jw_obj w
     [(''positions'', jw_arr w (map (spot_position_json w) (xs_positions s))),
      (''trades'', jw_arr w (map (spot_trade_json w) (last_n 1000 (xs_trades s)))),
      (''stats'', jw_obj w [(''total_entries'', jw_int w (xs_total_entries s)), (''total_closes'', jw_int w (xs_total_closes s)),
         (''wins'', jw_int w (xs_wins s)), (''losses'', jw_int w (xs_losses s)), (''total_pnl'', jw_dbl w (xs_total_pnl s))]),
      (''grades'', jw_obj w (map (\<lambda>(k, g). (k, jw_str w g)) (xs_symbol_grades s)))]"

definition spot_path :: "string \<Rightarrow> string" where
  "spot_path dir = dir @ ''/spot_shadow_state.json''"

definition save_state_locked :: "'j shadow_env \<Rightarrow> spot_shadow \<Rightarrow> spot_shadow" where
  "save_state_locked e s =
     s\<lparr>xs_disk := (xs_disk s)(spot_path (he_dir e) \<mapsto> jw_dump (he_writer e) (spot_json (he_writer e) s))\<rparr>"

definition save_state :: "'j shadow_env \<Rightarrow> spot_shadow \<Rightarrow> spot_shadow" where
  "save_state = save_state_locked"

definition maybe_save :: "'j shadow_env \<Rightarrow> spot_shadow \<Rightarrow> spot_shadow" where
  "maybe_save e s0 =
     (let s = s0\<lparr>xs_ops_since_save := xs_ops_since_save s0 + 1\<rparr> in
      if xs_ops_since_save s \<ge> 10 then (save_state_locked e s)\<lparr>xs_ops_since_save := 0\<rparr> else s)"

subsection \<open>Closing, whole or in part\<close>

definition grade_key :: "trade_record \<Rightarrow> string" where
  "grade_key t = tr_symbol t @ '':'' @ tr_timeframe t @ '':'' @ tr_exchange t"

text \<open>The grade of a list of trades; the sum runs in the list's order.\<close>

definition grade_trades :: "trade_record list \<Rightarrow> string" where
  "grade_trades ts =
     (let n = int (length ts); wins = wins_of ts; pnl = foldl (+) 0 (map tr_pnl ts)
      in compute_grade n wins pnl (win_rate_pct wins n))"

definition refresh_grade :: "string \<Rightarrow> spot_shadow \<Rightarrow> spot_shadow" where
  "refresh_grade key s =
     s\<lparr>xs_symbol_grades := AList.update key (grade_trades (filter (\<lambda>t. grade_key t = key) (xs_trades s))) (xs_symbol_grades s)\<rparr>"

definition cap_trades :: "trade_record list \<Rightarrow> trade_record list" where
  "cap_trades xs = (if length xs > 5000 then drop (length xs - 5000) xs else xs)"

text \<open>The trade of closing the share \<open>ratio\<close> of the original position.\<close>

definition spot_trade :: "spot_position \<Rightarrow> double \<Rightarrow> string \<Rightarrow> double \<Rightarrow> trade_record" where
  "spot_trade vp exit reason ratio =
     (let entry = xp_entry_price vp;
          total_qty = (if entry > 0 then get_notional (xp_exchange vp) / entry else 0);
          qty = total_qty * ratio;
          pnl_raw = (exit - entry) * qty;
          fee = (entry * qty + exit * qty) * get_fee_rate (xp_exchange vp)
      in TradeRecord\<lparr>tr_symbol := xp_symbol vp, tr_timeframe := xp_timeframe vp, tr_exit_reason := ''SPOT_SHADOW_'' @ reason,
           tr_entry_price := entry, tr_exit_price := exit, tr_quantity := qty, tr_pnl := pnl_raw - fee, tr_fee := fee,
           tr_strategy := xp_strategy vp, tr_exchange := xp_exchange vp, tr_market_type := ''spot''\<rparr>)"

text \<open>The part that both ways of closing share: counters, history, grade.\<close>

definition book_close :: "spot_position \<Rightarrow> trade_record \<Rightarrow> spot_shadow \<Rightarrow> spot_shadow" where
  "book_close vp tr s =
     (let win = tr_pnl tr > 0 in
      refresh_grade (make_key (xp_symbol vp) (xp_timeframe vp) (xp_exchange vp))
        (s\<lparr>xs_wins := xs_wins s + (if win then 1 else 0), xs_losses := xs_losses s + (if win then 0 else 1),
           xs_total_pnl := xs_total_pnl s + tr_pnl tr, xs_total_closes := xs_total_closes s + 1,
           xs_trades := cap_trades (xs_trades s @ [tr])\<rparr>))"

definition partial_close :: "'j shadow_env \<Rightarrow> string \<Rightarrow> spot_position \<Rightarrow> double \<Rightarrow> string \<Rightarrow> double \<Rightarrow> spot_shadow \<Rightarrow> spot_shadow" where
  "partial_close e key vp exit reason close_pct s =
     (let ratio = (close_pct / lit 100) * (xp_remaining_pct vp / lit 100);
          s1 = book_close vp (spot_trade vp exit reason ratio) s;
          new_remaining = xp_remaining_pct vp * (1 - close_pct / lit 100)
      in maybe_save e (s1\<lparr>xs_positions :=
           (if new_remaining < 1 then AList.delete key (xs_positions s1)
            else AList.update key (vp\<lparr>xp_remaining_pct := new_remaining\<rparr>) (xs_positions s1))\<rparr>))"

definition close_position :: "'j shadow_env \<Rightarrow> string \<Rightarrow> spot_position \<Rightarrow> double \<Rightarrow> string \<Rightarrow> spot_shadow \<Rightarrow> spot_shadow" where
  "close_position e key vp exit reason s =
     (let s1 = book_close vp (spot_trade vp exit reason (xp_remaining_pct vp / lit 100)) s
      in maybe_save e (s1\<lparr>xs_positions := AList.delete key (xs_positions s1)\<rparr>))"

subsection \<open>Signals\<close>

definition track_entry :: "'j shadow_env \<Rightarrow> signal \<Rightarrow> spot_shadow \<Rightarrow> spot_shadow" where
  "track_entry e sig s =
     (let quote = spot_quote_currency (sg_symbol sig); tf = tf_or_0 (sg_timeframe sig);
          key = make_key (sg_symbol sig) tf (sg_exchange sig) in
      if sg_action sig \<noteq> ''buy'' then s
      else if sg_exchange sig = ''upbit'' \<and> quote \<noteq> ''KRW'' then s
      else if sg_exchange sig = ''bitget'' \<and> quote \<noteq> ''USDT'' then s
      else if map_of (xs_positions s) key \<noteq> None then s
      else maybe_save e (s\<lparr>xs_positions := AList.update key
             \<lparr>xp_symbol = sg_symbol sig, xp_timeframe = tf, xp_exchange = sg_exchange sig, xp_strategy = sg_strategy_name sig,
              xp_entry_price = sg_price sig, xp_sl_price = sg_sl sig, xp_tp1_price = sg_tp1 sig,
              xp_remaining_pct = lit 100, xp_opened_at = he_now_ns e\<rparr> (xs_positions s),
            xs_total_entries := xs_total_entries s + 1\<rparr>))"

definition find_by_symbol :: "string \<Rightarrow> spot_shadow \<Rightarrow> (string \<times> spot_position) option" where
  "find_by_symbol symb s = find (\<lambda>kv. xp_symbol (snd kv) = symb) (xs_positions s)"

text \<open>The position a closing signal is about: its own key, else any of the symbol.\<close>

definition target_of :: "signal \<Rightarrow> spot_shadow \<Rightarrow> (string \<times> spot_position) option" where
  "target_of sig s =
     (let key = make_key (sg_symbol sig) (tf_or_0 (sg_timeframe sig)) (sg_exchange sig) in
      case map_of (xs_positions s) key of Some vp \<Rightarrow> Some (key, vp) | None \<Rightarrow> find_by_symbol (sg_symbol sig) s)"

definition track_tp :: "'j shadow_env \<Rightarrow> signal \<Rightarrow> spot_shadow \<Rightarrow> spot_shadow" where
  "track_tp e sig s =
     (if sg_signal_direction sig \<noteq> ''bull'' then s
      else case target_of sig s of
        None \<Rightarrow> s
      | Some (key, vp) \<Rightarrow>
          let actual = stdmin (tp_close_pct (sg_tp_level sig)) (xp_remaining_pct vp) in
          if actual \<ge> xp_remaining_pct vp then close_position e key vp (sg_price sig) (''TP_'' @ sg_tp_level sig) s
          else partial_close e key vp (sg_price sig) (''TP_'' @ sg_tp_level sig) actual s)"

definition track_sl :: "'j shadow_env \<Rightarrow> signal \<Rightarrow> spot_shadow \<Rightarrow> spot_shadow" where
  "track_sl e sig s =
     (if sg_signal_direction sig \<noteq> ''bull'' then s
      else case target_of sig s of
        None \<Rightarrow> s
      | Some (key, vp) \<Rightarrow> close_position e key vp (sg_price sig) ''SL'' s)"

definition track :: "'j shadow_env \<Rightarrow> signal \<Rightarrow> spot_shadow \<Rightarrow> spot_shadow" where
  "track e sig s =
     (if sg_market_type sig \<noteq> ''spot'' then s
      else if sg_symbol sig = [] then s
      else case sg_sig_type sig of
        Entry \<Rightarrow> track_entry e sig s | ReEntry \<Rightarrow> track_entry e sig s
      | TP \<Rightarrow> track_tp e sig s | SL \<Rightarrow> track_sl e sig s | Unknown \<Rightarrow> s)"

subsection \<open>Reports\<close>

definition get_stats :: "spot_shadow \<Rightarrow> shadow_stats" where
  "get_stats s =
     \<lparr>hs_total_entries = xs_total_entries s, hs_total_closes = xs_total_closes s,
      hs_open_positions = int (length (xs_positions s)), hs_wins = xs_wins s, hs_losses = xs_losses s,
      hs_total_pnl = xs_total_pnl s, hs_win_rate = win_rate_pct (xs_wins s) (xs_total_closes s)\<rparr>"

definition get_stats_json :: "spot_shadow \<Rightarrow> shadow_stats" where
  "get_stats_json s = (get_stats s)\<lparr>hs_total_pnl := round_to 4 (xs_total_pnl s)\<rparr>"

text \<open>Key, position and age in minutes.\<close>

definition get_positions_json :: "int \<Rightarrow> spot_shadow \<Rightarrow> (string \<times> spot_position \<times> int) list" where
  "get_positions_json now_ns s = map (\<lambda>(k, vp). (k, vp, (now_ns - xp_opened_at vp) div 60000000000)) (xs_positions s)"

record spot_trade_row =
  xr_symbol :: string
  xr_timeframe :: string
  xr_exchange :: string
  xr_entry_price :: double
  xr_exit_price :: double
  xr_pnl :: double
  xr_fee :: double
  xr_exit_reason :: string
  xr_strategy :: string

definition get_trades_json :: "nat \<Rightarrow> spot_shadow \<Rightarrow> spot_trade_row list" where
  "get_trades_json limit s =
     map (\<lambda>t. \<lparr>xr_symbol = tr_symbol t, xr_timeframe = tr_timeframe t, xr_exchange = tr_exchange t,
        xr_entry_price = tr_entry_price t, xr_exit_price = tr_exit_price t, xr_pnl = round_to 4 (tr_pnl t),
        xr_fee = round_to 4 (tr_fee t), xr_exit_reason = tr_exit_reason t, xr_strategy = tr_strategy t\<rparr>)
       (last_n limit (xs_trades s))"

text \<open>A row of a group; \<open>compute_grade\<close> sees the unrounded sum.\<close>

definition spot_row_of :: "(string \<Rightarrow> string \<times> string) \<Rightarrow> string \<times> trade_record list \<Rightarrow> report_row" where
  "spot_row_of split kv =
     (let ts = snd kv; n = int (length ts); wins = wins_of ts; wr = win_rate_pct wins n; pnl = foldl (+) 0 (map tr_pnl ts) in
      \<lparr>rr_key = fst kv, rr_symbol = fst (split (fst kv)), rr_timeframe = snd (split (fst kv)), rr_total = n,
       rr_wins = wins, rr_losses = n - wins, rr_win_rate = wr, rr_total_pnl = round_to 4 pnl,
       rr_avg_pnl = (if n > 0 then round_to 4 (pnl / dint n) else 0), rr_grade = compute_grade n wins pnl wr\<rparr>)"

definition get_symbol_report :: "spot_shadow \<Rightarrow> report_row list" where
  "get_symbol_report s = sort_desc rr_total_pnl (map (spot_row_of (\<lambda>k. (k, []))) (group_by grade_key (xs_trades s)))"

definition get_symbol_tf_report :: "spot_shadow \<Rightarrow> report_row list" where
  "get_symbol_tf_report s = sort_desc rr_total_pnl (map (spot_row_of split_key) (group_by sym_tf_key (xs_trades s)))"

definition get_grade :: "string \<Rightarrow> spot_shadow \<Rightarrow> string" where
  "get_grade symb s = (case map_of (xs_symbol_grades s) symb of Some g \<Rightarrow> g | None \<Rightarrow> ''?'')"

subsection \<open>Loading\<close>

definition spot_position_from :: "'j json_api \<Rightarrow> 'j \<Rightarrow> exn + string \<times> spot_position" where
  "spot_position_from api p =
     (let str = js_value_string api p; dbl = js_value_double api p in
      ebind (str ''symbol'' []) (\<lambda>sy. ebind (str ''timeframe'' ''0'') (\<lambda>tf. ebind (str ''exchange'' ''bitget'') (\<lambda>ex.
      ebind (str ''strategy'' ''unknown'') (\<lambda>st. ebind (dbl ''entry_price'' 0) (\<lambda>ep. ebind (dbl ''sl_price'' 0) (\<lambda>sl.
      ebind (dbl ''tp1_price'' 0) (\<lambda>tp. ebind (dbl ''remaining_pct'' (lit 100)) (\<lambda>rp.
      ebind (js_value_int api p ''opened_at'' 0) (\<lambda>t. ebind (str ''key'' (make_key sy tf ex)) (\<lambda>key.
      Inr (key, \<lparr>xp_symbol = sy, xp_timeframe = tf, xp_exchange = ex, xp_strategy = st, xp_entry_price = ep, xp_sl_price = sl,
                xp_tp1_price = tp, xp_remaining_pct = rp, xp_opened_at = t * 1000000000\<rparr>))))))))))))"

text \<open>Pairs quoted in another currency are dropped on loading.\<close>

definition load_valid :: "spot_position \<Rightarrow> bool" where
  "load_valid vp =
     (let quote = spot_quote_currency (xp_symbol vp) in
      xp_exchange vp = ''upbit'' \<and> quote = ''KRW'' \<or> xp_exchange vp = ''bitget'' \<and> quote = ''USDT'' \<or>
      quote = ''KRW'' \<or> quote = ''USDT'')"

definition spot_trade_from :: "'j json_api \<Rightarrow> 'j \<Rightarrow> exn + trade_record" where
  "spot_trade_from api t =
     (let str = js_value_string api t; dbl = (\<lambda>k. js_value_double api t k 0) in
      ebind (str ''symbol'' []) (\<lambda>sy. ebind (str ''timeframe'' []) (\<lambda>tf. ebind (dbl ''entry_price'') (\<lambda>ep.
      ebind (dbl ''exit_price'') (\<lambda>xp. ebind (dbl ''quantity'') (\<lambda>q. ebind (dbl ''pnl'') (\<lambda>pnl. ebind (dbl ''fee'') (\<lambda>fee.
      ebind (str ''exit_reason'' []) (\<lambda>er. ebind (str ''strategy'' ''unknown'') (\<lambda>st. ebind (str ''exchange'' ''bitget'') (\<lambda>ex.
      Inr (TradeRecord\<lparr>tr_symbol := sy, tr_timeframe := tf, tr_entry_price := ep, tr_exit_price := xp, tr_quantity := q,
             tr_pnl := pnl, tr_fee := fee, tr_exit_reason := er, tr_strategy := st, tr_exchange := ex,
             tr_market_type := ''spot''\<rparr>))))))))))))"

definition spot_stats_steps :: "'j json_api \<Rightarrow> 'j \<Rightarrow> (spot_shadow \<Rightarrow> exn + spot_shadow) list" where
  "spot_stats_steps api j =
     (if js_contains api j ''stats'' then
        case js_field api j ''stats'' of Inl e \<Rightarrow> [\<lambda>s. Inl e]
        | Inr st \<Rightarrow>
          [set_from (js_value_int api st ''total_entries'' 0) (\<lambda>v s. s\<lparr>xs_total_entries := v\<rparr>),
           set_from (js_value_int api st ''total_closes'' 0) (\<lambda>v s. s\<lparr>xs_total_closes := v\<rparr>),
           set_from (js_value_int api st ''wins'' 0) (\<lambda>v s. s\<lparr>xs_wins := v\<rparr>),
           set_from (js_value_int api st ''losses'' 0) (\<lambda>v s. s\<lparr>xs_losses := v\<rparr>),
           set_from (js_value_double api st ''total_pnl'' 0) (\<lambda>v s. s\<lparr>xs_total_pnl := v\<rparr>)]
      else [])"

definition spot_grade_steps :: "'j json_api \<Rightarrow> 'j \<Rightarrow> (spot_shadow \<Rightarrow> exn + spot_shadow) list" where
  "spot_grade_steps api j =
     (if js_contains api j ''grades'' then
        case js_field api j ''grades'' of Inl e \<Rightarrow> [\<lambda>s. Inl e]
        | Inr g \<Rightarrow>
          (if js_is_object api g
           then map (\<lambda>(k, v). set_from (js_get_string api v) (\<lambda>t s. s\<lparr>xs_symbol_grades := AList.update k t (xs_symbol_grades s)\<rparr>))
                  (js_items api g)
           else [])
      else [])"

definition load_steps :: "'j json_api \<Rightarrow> 'j \<Rightarrow> (spot_shadow \<Rightarrow> exn + spot_shadow) list" where
  "load_steps api j =
     each (array_field api j ''positions'')
       (\<lambda>p. set_from (spot_position_from api p) (\<lambda>(key, vp) s.
          if xp_symbol vp \<noteq> [] \<and> load_valid vp then s\<lparr>xs_positions := AList.update key vp (xs_positions s)\<rparr> else s)) @
     each (array_field api j ''trades'')
       (\<lambda>t. set_from (spot_trade_from api t) (\<lambda>tr s. s\<lparr>xs_trades := xs_trades s @ [tr]\<rparr>)) @
     spot_stats_steps api j @ spot_grade_steps api j"

definition load_state :: "'j json_api \<Rightarrow> string \<Rightarrow> spot_shadow \<Rightarrow> spot_shadow" where
  "load_state api dir s =
     (case xs_disk s (spot_path dir) of
        None \<Rightarrow> s
      | Some txt \<Rightarrow> (case js_parse api txt of Inl e \<Rightarrow> s | Inr j \<Rightarrow> try_seq (load_steps api j) s))"

definition SpotShadowTracker :: "'j json_api \<Rightarrow> string \<Rightarrow> fs \<Rightarrow> spot_shadow" where
  "SpotShadowTracker api dir disk = load_state api dir (spot_init disk)"

subsection \<open>The life of a spot position\<close>

text \<open>
  From 100 percent the take-profit levels lead to finitely many remaining shares: the tracker compares
  the level's percentage with what remains, so a position has at most three partial closes.
  \<open>stage\<close> counts the partial closes behind a share, \<open>shares\<close> are the shares that occur.
\<close>

definition after_part :: "double \<Rightarrow> double \<Rightarrow> double" where
  "after_part remaining pct = remaining * (1 - pct / lit 100)"

definition share_45 :: double where
  "share_45 = Fin (6317705852270673 / 140737488355328)"

definition share_30 :: double where
  "share_30 = Fin (8465725842042701 / 281474976710656)"

definition share_22 :: double where
  "share_22 = Fin (6317705852270673 / 281474976710656)"

definition stages :: "(double \<times> int) list" where
  "stages = [(Fin 100, 0), (Fin 67, 1), (Fin 50, 1), (share_45, 2), (Fin (67/2), 2), (share_30, 3), (share_22, 3)]"

definition stage :: "spot_position \<Rightarrow> int" where
  "stage vp = (case map_of stages (xp_remaining_pct vp) of Some k \<Rightarrow> k | None \<Rightarrow> 0)"

lemma lit_levels: "lit 33 = Fin 33" "lit 50 = Fin 50" "lit 100 = Fin 100"
  by code_simp+

lemma part_100: "after_part (Fin 100) (Fin 33) = Fin 67" "after_part (Fin 100) (Fin 50) = Fin 50"
  by code_simp+

lemma part_67: "after_part (Fin 67) (Fin 33) = share_45" "after_part (Fin 67) (Fin 50) = Fin (67/2)"
  by code_simp+

lemma part_50: "after_part (Fin 50) (Fin 33) = Fin (67/2)" "after_part share_45 (Fin 33) = share_30"
  by code_simp+

lemma part_33: "after_part (Fin (67/2)) (Fin 33) = share_22"
  by code_simp

lemmas part_simps = part_100 part_67 part_50 part_33

lemma stages_cases:
  assumes "map_of stages r = Some k"
  obtains "r = Fin 100" "k = 0" | "r = Fin 67" "k = 1" | "r = Fin 50" "k = 1" | "r = share_45" "k = 2"
    | "r = Fin (67/2)" "k = 2" | "r = share_30" "k = 3" | "r = share_22" "k = 3"
  using assms by (auto simp: stages_def split: if_splits)

lemma stages_lookup: "map_of stages (Fin 100) = Some 0" "map_of stages (Fin 67) = Some 1" "map_of stages (Fin 50) = Some 1"
  "map_of stages share_45 = Some 2" "map_of stages (Fin (67/2)) = Some 2" "map_of stages share_30 = Some 3"
  "map_of stages share_22 = Some 3"
  by (simp_all add: stages_def share_45_def share_30_def share_22_def)

lemma share_order:
  "share_45 \<le> share_45" "share_30 \<le> share_30" "share_22 \<le> share_22"
  "\<not> share_45 \<le> Fin 33" "Fin 33 < share_45" "\<not> share_45 < Fin 33" "share_45 < Fin 50" "share_45 < Fin 100"
  "share_30 < Fin 33" "share_30 < Fin 50" "share_30 < Fin 100" "share_22 < Fin 33" "share_22 < Fin 50" "share_22 < Fin 100"
  "\<not> share_30 < Fin 1" "\<not> share_22 < Fin 1" "\<not> share_45 < Fin 1"
  by (simp_all add: share_45_def share_30_def share_22_def)

text \<open>A take-profit closes the whole rest or leads into the next stage.\<close>

lemma stage_step:
  assumes "map_of stages r = Some k" "\<not> stdmin (tp_close_pct level) r \<ge> r"
  shows "map_of stages (after_part r (stdmin (tp_close_pct level) r)) = Some (k + 1) \<and>
         \<not> after_part r (stdmin (tp_close_pct level) r) < 1"
  using assms(1)
  by (cases rule: stages_cases)
    (use assms(2) in \<open>auto simp: tp_close_pct_def lit_levels stdmin_def part_simps stages_lookup one_double_def share_order
       split: if_splits\<close>)

lemma stage_bounds: "map_of stages r = Some k \<Longrightarrow> 0 \<le> k \<and> k \<le> 3 \<and> Fin 22 \<le> r \<and> r \<le> Fin 100"
  by (elim stages_cases) (simp_all add: share_45_def share_30_def share_22_def)

subsection \<open>Book-keeping\<close>

lemma spot_save_simps [simp]:
  "xs_positions (maybe_save e s) = xs_positions s" "xs_trades (maybe_save e s) = xs_trades s"
  "xs_symbol_grades (maybe_save e s) = xs_symbol_grades s" "xs_total_entries (maybe_save e s) = xs_total_entries s"
  "xs_total_closes (maybe_save e s) = xs_total_closes s" "xs_wins (maybe_save e s) = xs_wins s"
  "xs_losses (maybe_save e s) = xs_losses s"
  by (simp_all add: maybe_save_def save_state_locked_def Let_def)

lemma book_close_simps [simp]:
  "xs_positions (book_close vp tr s) = xs_positions s" "xs_total_entries (book_close vp tr s) = xs_total_entries s"
  "xs_total_closes (book_close vp tr s) = xs_total_closes s + 1"
  "xs_trades (book_close vp tr s) = cap_trades (xs_trades s @ [tr])"
  by (simp_all add: book_close_def refresh_grade_def Let_def)

lemma book_close_results: "xs_wins (book_close vp tr s) + xs_losses (book_close vp tr s) = xs_wins s + xs_losses s + 1"
  by (simp add: book_close_def refresh_grade_def Let_def)

text \<open>The counters and the cached grades, which only closing touches.\<close>

definition grades_current :: "trade_record list \<Rightarrow> string smap \<Rightarrow> bool" where
  "grades_current ts gs \<longleftrightarrow>
     (\<forall>k. map_of gs k = (let mine = filter (\<lambda>t. grade_key t = k) ts in if mine = [] then None else Some (grade_trades mine)))"

definition counts_ok :: "spot_shadow \<Rightarrow> bool" where
  "counts_ok s \<longleftrightarrow>
     xs_wins s + xs_losses s = xs_total_closes s \<and> 0 \<le> xs_total_closes s \<and>
     int (length (xs_trades s)) = min 5000 (xs_total_closes s) \<and>
     (xs_total_closes s \<le> 5000 \<longrightarrow> grades_current (xs_trades s) (xs_symbol_grades s))"

text \<open>A position stands under its own key, at a share of \<open>stages\<close>, in its exchange's currency.\<close>

definition pair_ok :: "spot_position \<Rightarrow> bool" where
  "pair_ok vp \<longleftrightarrow>
     (if xp_exchange vp = ''upbit'' then spot_quote_currency (xp_symbol vp) = ''KRW''
      else if xp_exchange vp = ''bitget'' then spot_quote_currency (xp_symbol vp) = ''USDT'' else True)"

definition spot_position_ok :: "string \<times> spot_position \<Rightarrow> bool" where
  "spot_position_ok kv \<longleftrightarrow>
     (let vp = snd kv in fst kv = make_key (xp_symbol vp) (xp_timeframe vp) (xp_exchange vp) \<and>
        map_of stages (xp_remaining_pct vp) \<noteq> None \<and> pair_ok vp)"

definition stage_sum :: "spot_position smap \<Rightarrow> int" where
  "stage_sum ps = sum_list (map (\<lambda>kv. stage (snd kv)) ps)"

text \<open>Every entry that is gone took one to four closes, an open one as many as its stage.\<close>

definition lives_ok :: "spot_shadow \<Rightarrow> bool" where
  "lives_ok s \<longleftrightarrow>
     (let ps = xs_positions s; gone = xs_total_entries s - int (length ps) in
      wf_map ps \<and> list_all spot_position_ok ps \<and>
      gone + stage_sum ps \<le> xs_total_closes s \<and> xs_total_closes s \<le> 4 * gone + stage_sum ps)"

lemma counts_ok_frame [simp]:
  "counts_ok (maybe_save e s) = counts_ok s" "counts_ok (s\<lparr>xs_positions := ps\<rparr>) = counts_ok s"
  "counts_ok (s\<lparr>xs_positions := ps, xs_total_entries := n\<rparr>) = counts_ok s"
  by (simp_all add: counts_ok_def)

lemma grades_current_add:
  "grades_current ts gs \<Longrightarrow>
   grades_current (ts @ [t]) (AList.update (grade_key t) (grade_trades (filter (\<lambda>u. grade_key u = grade_key t) (ts @ [t]))) gs)"
  by (auto simp: grades_current_def map_of_update Let_def)

lemma counts_ok_book:
  assumes ok: "counts_ok s" and key: "grade_key tr = make_key (xp_symbol vp) (xp_timeframe vp) (xp_exchange vp)"
  shows "counts_ok (book_close vp tr s)"
proof -
  have len: "int (length (cap_trades (xs_trades s @ [tr]))) = min 5000 (xs_total_closes s + 1)"
    using ok by (auto simp: counts_ok_def cap_trades_def)
  have "grades_current (xs_trades (book_close vp tr s)) (xs_symbol_grades (book_close vp tr s))"
    if "xs_total_closes s + 1 \<le> 5000"
  proof -
    have "cap_trades (xs_trades s @ [tr]) = xs_trades s @ [tr]" using ok that by (auto simp: counts_ok_def cap_trades_def)
    moreover have "grades_current (xs_trades s) (xs_symbol_grades s)" using ok that by (simp add: counts_ok_def)
    ultimately show ?thesis
      using grades_current_add [of "xs_trades s" "xs_symbol_grades s" tr]
      by (simp add: book_close_def refresh_grade_def Let_def key)
  qed
  with ok len book_close_results [of vp tr s] show ?thesis by (simp add: counts_ok_def)
qed

lemma grade_key_spot_trade: "grade_key (spot_trade vp x r q) = make_key (xp_symbol vp) (xp_timeframe vp) (xp_exchange vp)"
  by (simp add: grade_key_def make_key_def spot_trade_def Let_def)

lemma counts_ok_close: "counts_ok s \<Longrightarrow> counts_ok (close_position e k vp x r s)"
  by (simp add: close_position_def Let_def counts_ok_book grade_key_spot_trade)

lemma counts_ok_part: "counts_ok s \<Longrightarrow> counts_ok (partial_close e k vp x r pct s)"
  by (simp add: partial_close_def Let_def counts_ok_book grade_key_spot_trade)

text \<open>The positions.\<close>

lemma position_found: "lives_ok s \<Longrightarrow> target_of sig s = Some (k, vp) \<Longrightarrow> map_of (xs_positions s) k = Some vp"
  by (auto simp: target_of_def find_by_symbol_def Let_def lives_ok_def wf_map_lookup split: option.splits dest!: find_Some_mem)

lemma position_known:
  assumes "lives_ok s" "map_of (xs_positions s) k = Some vp"
  shows "spot_position_ok (k, vp)"
  using assms by (auto simp: lives_ok_def Let_def list_all_iff dest: map_of_SomeD)

lemma stage_nonneg: "0 \<le> stage vp \<and> stage vp \<le> 3"
  using stage_bounds [of "xp_remaining_pct vp"] by (simp add: stage_def split: option.split)

lemma stage_sum_bounds: "0 \<le> stage_sum ps \<and> stage_sum ps \<le> 3 * int (length ps)"
proof (induction ps)
  case (Cons p ps)
  with stage_nonneg [of "snd p"] show ?case by (simp add: stage_sum_def)
qed (simp add: stage_sum_def)

lemma lives_ok_save [simp]: "lives_ok (maybe_save e s) = lives_ok s"
  by (simp add: lives_ok_def)

lemma lives_ok_close:
  assumes ok: "lives_ok s" and at: "map_of (xs_positions s) k = Some vp"
  shows "lives_ok (close_position e k vp x r s)"
proof -
  let ?ps = "AList.delete k (xs_positions s)"
  have wf: "wf_map (xs_positions s)" using ok by (simp add: lives_ok_def Let_def)
  have "0 < length (xs_positions s)" using at by auto
  moreover have "length ?ps = length (xs_positions s) - 1" using wf at by (simp add: length_delete)
  ultimately have len: "int (length ?ps) = int (length (xs_positions s)) - 1" by linarith
  have sum: "stage_sum ?ps = stage_sum (xs_positions s) - stage vp"
    unfolding stage_sum_def by (rule sum_list_delete [OF wf at])
  have "list_all spot_position_ok ?ps" using ok by (auto simp: lives_ok_def Let_def list_all_iff set_delete)
  with ok len sum stage_nonneg [of vp] wf show ?thesis
    by (simp add: lives_ok_def close_position_def Let_def)
qed

lemma lives_ok_part:
  assumes ok: "lives_ok s" and at: "map_of (xs_positions s) k = Some vp" and st: "map_of stages (xp_remaining_pct vp) = Some i"
    and step: "map_of stages (after_part (xp_remaining_pct vp) pct) = Some (i + 1)" "\<not> after_part (xp_remaining_pct vp) pct < 1"
  shows "lives_ok (partial_close e k vp x r pct s)"
proof -
  let ?vp = "vp\<lparr>xp_remaining_pct := after_part (xp_remaining_pct vp) pct\<rparr>"
  let ?ps = "AList.update k ?vp (xs_positions s)"
  have wf: "wf_map (xs_positions s)" using ok by (simp add: lives_ok_def Let_def)
  have "stage_sum ?ps = stage_sum (xs_positions s) + (stage ?vp - stage vp)"
    unfolding stage_sum_def using sum_list_update [OF wf, of stage k ?vp] at by simp
  then have sum: "stage_sum ?ps = stage_sum (xs_positions s) + 1" by (simp add: stage_def st step)
  have "spot_position_ok (k, ?vp)"
    using position_known [OF ok at] step(1) by (simp add: spot_position_ok_def pair_ok_def)
  then have "list_all spot_position_ok ?ps" using ok by (auto simp: lives_ok_def Let_def list_all_iff set_update)
  with ok sum wf at step(2) show ?thesis
    by (simp add: lives_ok_def partial_close_def Let_def length_update after_part_def)
qed

lemma lives_ok_exit: "lives_ok s \<Longrightarrow> lives_ok (track_tp e sig s) \<and> lives_ok (track_sl e sig s)"
proof -
  assume ok: "lives_ok s"
  have "lives_ok (partial_close e k vp (sg_price sig) (''TP_'' @ sg_tp_level sig)
          (stdmin (tp_close_pct (sg_tp_level sig)) (xp_remaining_pct vp)) s)"
    if "target_of sig s = Some (k, vp)" "\<not> stdmin (tp_close_pct (sg_tp_level sig)) (xp_remaining_pct vp) \<ge> xp_remaining_pct vp" for k vp
  proof -
    have at: "map_of (xs_positions s) k = Some vp" by (rule position_found [OF ok that(1)])
    then obtain i where st: "map_of stages (xp_remaining_pct vp) = Some i"
      using position_known [OF ok] by (auto simp: spot_position_ok_def Let_def)
    show ?thesis using stage_step [OF st that(2)] by (intro lives_ok_part [OF ok at st]) auto
  qed
  then show ?thesis
    using ok position_found [OF ok] by (auto simp: track_tp_def track_sl_def Let_def lives_ok_close split: option.split)
qed

lemma lives_ok_entry: assumes ok: "lives_ok s" shows "lives_ok (track_entry e sig s)"
proof -
  let ?key = "make_key (sg_symbol sig) (tf_or_0 (sg_timeframe sig)) (sg_exchange sig)"
  have add: "lives_ok (s\<lparr>xs_positions := AList.update k vp (xs_positions s), xs_total_entries := xs_total_entries s + 1\<rparr>)"
    if "map_of (xs_positions s) k = None" "spot_position_ok (k, vp)" "stage vp = 0" for k vp
  proof -
    have wf: "wf_map (xs_positions s)" using ok by (simp add: lives_ok_def Let_def)
    have "stage_sum (AList.update k vp (xs_positions s)) = stage_sum (xs_positions s)"
      unfolding stage_sum_def using sum_list_update [OF wf, of stage k vp] that by simp
    moreover have "list_all spot_position_ok (AList.update k vp (xs_positions s))"
      using ok that by (auto simp: lives_ok_def Let_def list_all_iff set_update)
    ultimately show ?thesis using ok that wf by (simp add: lives_ok_def Let_def length_update)
  qed
  show ?thesis
  proof (cases "track_entry e sig s = s")
    case False
    then have "map_of (xs_positions s) ?key = None" "sg_exchange sig = ''upbit'' \<longrightarrow> spot_quote_currency (sg_symbol sig) = ''KRW''"
      "sg_exchange sig = ''bitget'' \<longrightarrow> spot_quote_currency (sg_symbol sig) = ''USDT''" "sg_action sig = ''buy''"
      by (auto simp: track_entry_def Let_def split: if_splits)
    then show ?thesis
      by (auto simp: track_entry_def Let_def spot_position_ok_def pair_ok_def stage_def lit_levels stages_lookup intro!: add)
  qed (use ok in simp)
qed

lemma lives_ok_track: "lives_ok s \<Longrightarrow> lives_ok (track e sig s)"
  by (simp add: track_def lives_ok_entry lives_ok_exit split: signal_type.split)

lemma counts_ok_track: "counts_ok s \<Longrightarrow> counts_ok (track e sig s)"
  by (auto simp: track_def track_entry_def track_tp_def track_sl_def Let_def counts_ok_close counts_ok_part
      split: signal_type.split option.split)

lemma spot_fold_ok:
  "lives_ok s \<and> counts_ok s \<Longrightarrow> lives_ok (fold (\<lambda>(e, sig). track e sig) ops s) \<and> counts_ok (fold (\<lambda>(e, sig). track e sig) ops s)"
  by (induction ops arbitrary: s) (auto simp: lives_ok_track counts_ok_track)

lemma spot_init_ok: "lives_ok (spot_init disk) \<and> counts_ok (spot_init disk)"
  by (simp add: lives_ok_def counts_ok_def spot_init_def grades_current_def stage_sum_def)

text \<open>C19.  The spot books balance: after any sequence of signals on a new tracker, wins and losses add up
  to the closes, the list holds the newest 5000 of them, every position is open or has taken between one
  and four closes, and every open position stands under its own key, with a rest between 22 and 100
  percent and a symbol quoted in the currency of its exchange.\<close>

theorem spot_books_balance:
  "let s = fold (\<lambda>(e, sig). track e sig) ops (spot_init disk); st = get_stats s in
     hs_wins st + hs_losses st = hs_total_closes st \<and>
     int (length (xs_trades s)) = min 5000 (hs_total_closes st) \<and>
     hs_total_entries st - hs_open_positions st \<le> hs_total_closes st \<and>
     hs_total_closes st \<le> 4 * hs_total_entries st - hs_open_positions st \<and>
     list_all (\<lambda>(k, vp). k = make_key (xp_symbol vp) (xp_timeframe vp) (xp_exchange vp) \<and>
        Fin 22 \<le> xp_remaining_pct vp \<and> xp_remaining_pct vp \<le> Fin 100 \<and> pair_ok vp) (xs_positions s)"
proof -
  define s where "s = fold (\<lambda>(e, sig). track e sig) ops (spot_init disk)"
  have ok: "lives_ok s" "counts_ok s" using spot_fold_ok [OF spot_init_ok, of ops disk] by (simp_all add: s_def)
  have "list_all (\<lambda>(k, vp). k = make_key (xp_symbol vp) (xp_timeframe vp) (xp_exchange vp) \<and>
      Fin 22 \<le> xp_remaining_pct vp \<and> xp_remaining_pct vp \<le> Fin 100 \<and> pair_ok vp) (xs_positions s)"
    using ok(1) unfolding lives_ok_def Let_def
    by (elim conjE list.pred_mono_strong) (auto simp: spot_position_ok_def Let_def dest: stage_bounds)
  then show ?thesis using ok stage_sum_bounds [of "xs_positions s"] unfolding s_def [symmetric]
    by (simp add: Let_def get_stats_def lives_ok_def counts_ok_def)
qed

lemma find_by_key: "distinct (map f xs) \<Longrightarrow> x \<in> set xs \<Longrightarrow> find (\<lambda>y. f y = f x) xs = Some x"
  by (induction xs) force+

lemma spot_row_key [simp]: "rr_key (spot_row_of split kv) = fst kv"
  by (simp add: spot_row_of_def Let_def)

text \<open>The cached grades are the report's: while nothing has fallen out of the trade list, the grade of a key is
  the one in its row of the report, and a key without a row is unknown.\<close>

theorem spot_grades_current:
  fixes ops :: "('j shadow_env \<times> signal) list" and disk :: fs
  defines "s \<equiv> fold (\<lambda>(e, sig). track e sig) ops (spot_init disk)"
  assumes "xs_total_closes s \<le> 5000"
  shows "get_grade key s = (case find (\<lambda>r. rr_key r = key) (get_symbol_report s) of Some r \<Rightarrow> rr_grade r | None \<Rightarrow> ''?'')"
proof -
  let ?mine = "filter (\<lambda>t. grade_key t = key) (xs_trades s)" and ?row = "spot_row_of (\<lambda>k. (k, []))"
  have "counts_ok s" using spot_fold_ok [OF spot_init_ok, of ops disk] by (simp add: s_def)
  with assms(2) have g: "map_of (xs_symbol_grades s) key = (if ?mine = [] then None else Some (grade_trades ?mine))"
    by (simp add: counts_ok_def grades_current_def Let_def)
  have dist: "distinct (map rr_key (get_symbol_report s))"
    using wf_group_by [of grade_key "xs_trades s"] by (simp add: get_symbol_report_def wf_map_def comp_def)
  have rows: "set (get_symbol_report s) = ?row ` set (group_by grade_key (xs_trades s))"
    by (simp add: get_symbol_report_def)
  have at: "map_of (group_by grade_key (xs_trades s)) key = (if ?mine = [] then None else Some ?mine)"
    by (simp add: group_by_lookup Let_def)
  show ?thesis
  proof (cases "?mine = []")
    case True
    with at have "find (\<lambda>r. rr_key r = key) (get_symbol_report s) = None"
      by (auto simp: find_None_all rows map_of_eq_None_iff)
    with g True show ?thesis by (simp add: get_grade_def)
  next
    case False
    with at have "?row (key, ?mine) \<in> set (get_symbol_report s)" by (auto simp: rows dest!: map_of_SomeD)
    from find_by_key [OF dist this] have "find (\<lambda>r. rr_key r = key) (get_symbol_report s) = Some (?row (key, ?mine))" by simp
    with g False show ?thesis by (simp add: get_grade_def grade_trades_def spot_row_of_def Let_def)
  qed
qed

definition sample_env :: "jv shadow_env" where
  "sample_env = \<lparr>he_learn = \<lparr>le_cfg = default_learner, le_hour = 9, le_now = 1000\<rparr>, he_now_ns = 1000, he_dir = ''data'',
     he_writer = jv_writer (\<lambda>_. [])\<rparr>"

definition sample_buy :: signal where
  "sample_buy = WebhookSignal\<lparr>sg_market_type := ''spot'', sg_exchange := ''upbit'', sg_symbol := ''BTCKRW'', sg_timeframe := ''15'',
     sg_sig_type := Entry, sg_action := ''buy'', sg_price := Fin 100, sg_signal_direction := ''bull''\<rparr>"

definition sample_spot_ops :: "(jv shadow_env \<times> signal) list" where
  "sample_spot_ops = concat (replicate 2
     [(sample_env, sample_buy), (sample_env, sample_buy\<lparr>sg_sig_type := TP, sg_tp_level := ''TP3'', sg_price := Fin 110\<rparr>)])"

lemma sample_spot_closes: "xs_total_closes (fold (\<lambda>(e, sig). track e sig) sample_spot_ops (spot_init Map.empty)) = 2"
  by code_simp

theorem spot_grades_current_witness:
  "get_grade ''BTCKRW:15:upbit'' (fold (\<lambda>(e, sig). track e sig) sample_spot_ops (spot_init Map.empty)) =
   (case find (\<lambda>r. rr_key r = ''BTCKRW:15:upbit'')
      (get_symbol_report (fold (\<lambda>(e, sig). track e sig) sample_spot_ops (spot_init Map.empty))) of
      Some r \<Rightarrow> rr_grade r | None \<Rightarrow> ''?'')"
  by (rule spot_grades_current) (simp add: sample_spot_closes)

end
