(* ===== verification/Live_Readiness.thy ===== *)
theory Live_Readiness
  imports Spot_Shadow
begin

text \<open>
  \<open>execution/live_readiness.hpp\<close>: from the reports of the two shadow trackers every symbol gets a
  readiness level; the symbols at READY or PROVEN become eligible for real orders, and a counter of
  consecutive passes per symbol (its confidence) sets a size multiplier.  The reports arrive as JSON
  arrays, so the model reads them through the JSON interface; \<open>row_json\<close> builds what the trackers send.
  The file of confidence scores is part of the state (\<open>ry_disk\<close>).
\<close>

subsection \<open>Levels\<close>

datatype readiness_level = BLOCKED | LEARNING | PROMISING | READY | PROVEN

text \<open>The code compares levels by \<open>static_cast<int>\<close>.\<close>

definition level_rank :: "readiness_level \<Rightarrow> int" where
  "level_rank l = (case l of BLOCKED \<Rightarrow> 0 | LEARNING \<Rightarrow> 1 | PROMISING \<Rightarrow> 2 | READY \<Rightarrow> 3 | PROVEN \<Rightarrow> 4)"

lemma level_rank_inj: "level_rank a = level_rank b \<longleftrightarrow> a = b"
  by (simp add: level_rank_def split: readiness_level.splits)

instantiation readiness_level :: linorder
begin

definition less_eq_readiness_level_def: "a \<le> b \<longleftrightarrow> level_rank a \<le> level_rank b"
definition less_readiness_level_def: "a < b \<longleftrightarrow> level_rank a < level_rank b"

instance
  by standard (auto simp: less_eq_readiness_level_def less_readiness_level_def level_rank_inj)

end

definition level_to_string :: "readiness_level \<Rightarrow> string" where
  "level_to_string l =
     (case l of BLOCKED \<Rightarrow> ''BLOCKED'' | LEARNING \<Rightarrow> ''LEARNING'' | PROMISING \<Rightarrow> ''PROMISING'' | READY \<Rightarrow> ''READY''
      | PROVEN \<Rightarrow> ''PROVEN'')"

record symbol_readiness =
  ry_symbol :: string
  ry_market :: string
  ry_level :: readiness_level
  ry_grade :: string
  ry_total_trades :: int
  ry_wins :: int
  ry_win_rate :: double
  ry_total_pnl :: double
  ry_avg_pnl :: double
  ry_confidence_score :: int
  ry_confidence_boost :: double
  ry_reason :: string

record confidence_entry =
  ce_consecutive_passes :: int
  ce_confidence :: int
  ce_size_boost :: double
  ce_rolling_pnl :: double
  ce_rolling_wr :: double
  ce_rolling_count :: int
  ce_demoted :: bool

definition ConfidenceEntry :: confidence_entry where
  "ConfidenceEntry = \<lparr>ce_consecutive_passes = 0, ce_confidence = 0, ce_size_boost = 1, ce_rolling_pnl = 0, ce_rolling_wr = 0,
     ce_rolling_count = 0, ce_demoted = False\<rparr>"

definition ROLLING_WINDOW :: int where
  "ROLLING_WINDOW = 20"

record pipeline_status =
  ps_total_symbols :: int
  ps_blocked :: int
  ps_learning :: int
  ps_promising :: int
  ps_ready :: int
  ps_proven :: int
  ps_can_go_live :: bool
  ps_min_symbols_for_live :: int

record readiness_cfg =
  yc_min_trades_ready :: int
  yc_min_trades_proven :: int
  yc_min_grade_ready :: string
  yc_min_grade_proven :: string
  yc_min_symbols_for_live :: int
  yc_require_positive_pnl :: bool
  yc_max_confidence :: int

record readiness =
  rn_confidence :: "confidence_entry smap"
  rn_disk :: fs

text \<open>The decision tree, with its reason text.\<close>

definition level_of :: "readiness_cfg \<Rightarrow> string \<Rightarrow> int \<Rightarrow> double \<Rightarrow> readiness_level \<times> string" where
  "level_of c grade n pnl =
     (let pnl_ok = pnl > 0 \<or> \<not> yc_require_positive_pnl c; small_sample_cap_c = n < 15; num = show_int n in
      if grade = ''?'' \<or> n < 5 then
        (LEARNING, if grade = ''?'' then ''Insufficient data (grade unknown)'' else ''Too few trades ('' @ num @ '' < 5)'')
      else if grade = ''F'' \<or> grade = ''D'' then (BLOCKED, ''Poor grade ('' @ grade @ '') - not suitable for live trading'')
      else if grade = ''C'' then
        (if pnl > 0 then (PROMISING, ''Grade C with positive PnL - keep monitoring'')
         else (BLOCKED, ''Grade C with negative PnL - blocked''))
      else if grade = ''A+'' \<or> grade = ''A'' then
        (if small_sample_cap_c then
           (PROMISING, ''Grade '' @ grade @ '' but only '' @ num @ '' trades (<15, small sample cap)'')
         else if n \<ge> yc_min_trades_proven c \<and> pnl_ok then
           (PROVEN, ''Grade '' @ grade @ '' with '' @ num @ '' trades - high confidence'')
         else if n \<ge> yc_min_trades_ready c \<and> pnl_ok then
           (READY, ''Grade '' @ grade @ '' with '' @ num @ '' trades (need '' @ show_int (yc_min_trades_proven c) @ '' for PROVEN)'')
         else if pnl_ok then
           (PROMISING, ''Grade '' @ grade @ '' with '' @ num @ '' trades (need '' @ show_int (yc_min_trades_ready c) @ '' for READY)'')
         else (PROMISING, ''Grade '' @ grade @ '' but negative PnL - keep watching''))
      else if grade = ''B'' then
        (if small_sample_cap_c then (PROMISING, ''Grade B but only '' @ num @ '' trades (<15, small sample cap)'')
         else if n \<ge> yc_min_trades_ready c \<and> pnl_ok then
           (READY, ''Grade B with '' @ num @ '' trades and positive PnL - ready for live'')
         else if n < yc_min_trades_ready c then
           (PROMISING, ''Grade B but only '' @ num @ '' trades (need '' @ show_int (yc_min_trades_ready c) @ '')'')
         else (PROMISING, ''Grade B with enough trades but negative PnL''))
      else (LEARNING, ''Unrecognized grade: '' @ grade))"

definition evaluate_symbol :: "'j json_api \<Rightarrow> readiness_cfg \<Rightarrow> 'j \<Rightarrow> string \<Rightarrow> exn + symbol_readiness" where
  "evaluate_symbol api c entry market =
     ebind (js_value_string api entry ''symbol'' []) (\<lambda>sy. ebind (js_value_string api entry ''grade'' ''?'') (\<lambda>g.
     ebind (js_value_int api entry ''total'' 0) (\<lambda>n. ebind (js_value_int api entry ''wins'' 0) (\<lambda>wins.
     ebind (js_value_double api entry ''win_rate'' 0) (\<lambda>wr. ebind (js_value_double api entry ''total_pnl'' 0) (\<lambda>pnl.
     ebind (js_value_double api entry ''avg_pnl'' 0) (\<lambda>avg.
     let (lvl, why) = level_of c g n pnl in
     Inr \<lparr>ry_symbol = sy, ry_market = market, ry_level = lvl, ry_grade = g, ry_total_trades = n, ry_wins = wins, ry_win_rate = wr,
          ry_total_pnl = pnl, ry_avg_pnl = avg, ry_confidence_score = 0, ry_confidence_boost = 1, ry_reason = why\<rparr>)))))))"

definition live_level :: "readiness_level \<Rightarrow> bool" where
  "live_level l \<longleftrightarrow> l = READY \<or> l = PROVEN"

text \<open>\<open>std::sort\<close> by level, then by result, both descending.\<close>

definition ranks_before :: "symbol_readiness \<Rightarrow> symbol_readiness \<Rightarrow> bool" where
  "ranks_before a b =
     (if ry_level a \<noteq> ry_level b then ry_level a > ry_level b else ry_total_pnl a > ry_total_pnl b)"

fun insert_ranked :: "symbol_readiness \<Rightarrow> symbol_readiness list \<Rightarrow> symbol_readiness list" where
  "insert_ranked x [] = [x]"
| "insert_ranked x (y # ys) = (if ranks_before x y then x # y # ys else y # insert_ranked x ys)"

definition sort_ranked :: "symbol_readiness list \<Rightarrow> symbol_readiness list" where
  "sort_ranked xs = fold insert_ranked xs []"

definition evaluate_all :: "'j json_api \<Rightarrow> readiness_cfg \<Rightarrow> 'j list \<Rightarrow> 'j list \<Rightarrow> exn + symbol_readiness list" where
  "evaluate_all api c futures spot =
     ebind (emap (\<lambda>e. evaluate_symbol api c e ''futures'') futures) (\<lambda>fs.
     ebind (emap (\<lambda>e. evaluate_symbol api c e ''spot'') spot) (\<lambda>ss. Inr (sort_ranked (fs @ ss))))"

definition count_level :: "readiness_level \<Rightarrow> symbol_readiness list \<Rightarrow> int" where
  "count_level l rs = int (length (filter (\<lambda>r. ry_level r = l) rs))"

definition get_pipeline_status :: "readiness_cfg \<Rightarrow> symbol_readiness list \<Rightarrow> pipeline_status" where
  "get_pipeline_status c rs =
     \<lparr>ps_total_symbols = int (length rs), ps_blocked = count_level BLOCKED rs, ps_learning = count_level LEARNING rs,
      ps_promising = count_level PROMISING rs, ps_ready = count_level READY rs, ps_proven = count_level PROVEN rs,
      ps_can_go_live = (count_level READY rs + count_level PROVEN rs \<ge> yc_min_symbols_for_live c),
      ps_min_symbols_for_live = yc_min_symbols_for_live c\<rparr>"

fun is_live_allowed :: "'j json_api \<Rightarrow> readiness_cfg \<Rightarrow> string \<Rightarrow> string \<Rightarrow> 'j list \<Rightarrow> exn + bool" where
  "is_live_allowed api c symb market [] = Inr False"
| "is_live_allowed api c symb market (e # es) =
     ebind (js_value_string api e ''symbol'' []) (\<lambda>sy.
       if sy = symb then ebind (evaluate_symbol api c e market) (\<lambda>r. Inr (live_level (ry_level r)))
       else is_live_allowed api c symb market es)"

text \<open>By timeframe: the symbol is replaced by \<open>symbol:tf\<close>.\<close>

definition evaluate_tf_entry :: "'j json_api \<Rightarrow> readiness_cfg \<Rightarrow> string \<Rightarrow> 'j \<Rightarrow> exn + symbol_readiness" where
  "evaluate_tf_entry api c market e =
     ebind (evaluate_symbol api c e market) (\<lambda>r. ebind (js_value_string api e ''timeframe'' []) (\<lambda>tf.
       Inr (if tf \<noteq> [] then r\<lparr>ry_symbol := ry_symbol r @ '':'' @ tf\<rparr> else r)))"

definition evaluate_all_by_tf :: "'j json_api \<Rightarrow> readiness_cfg \<Rightarrow> 'j list \<Rightarrow> 'j list \<Rightarrow> exn + symbol_readiness list" where
  "evaluate_all_by_tf api c futures spot =
     ebind (emap (evaluate_tf_entry api c ''futures'') futures) (\<lambda>fs.
     ebind (emap (evaluate_tf_entry api c ''spot'') spot) (\<lambda>ss. Inr (sort_ranked (fs @ ss))))"

subsection \<open>Confidence\<close>

definition confidence_to_boost :: "int \<Rightarrow> double" where
  "confidence_to_boost conf =
     (if conf \<le> 0 then lit (9/10) else if conf = 1 then 1 else if conf = 2 then lit (105/100)
      else if conf \<le> 4 then lit (11/10) else lit (115/100))"

text \<open>\<open>auto& ce = m[k]\<close>, then a change of the entry.\<close>

definition entry_at :: "string \<Rightarrow> confidence_entry smap \<Rightarrow> confidence_entry" where
  "entry_at k m = (case map_of m k of Some ce \<Rightarrow> ce | None \<Rightarrow> ConfidenceEntry)"

definition change_entry :: "string \<Rightarrow> (confidence_entry \<Rightarrow> confidence_entry) \<Rightarrow> confidence_entry smap \<Rightarrow> confidence_entry smap" where
  "change_entry k f m = AList.update k (f (entry_at k m)) m"

text \<open>Steps that may throw, on a state that keeps what was done before the throw.\<close>

fun run_steps :: "('s \<Rightarrow> exn + 's) list \<Rightarrow> 's \<Rightarrow> exn option \<times> 's" where
  "run_steps [] s = (None, s)"
| "run_steps (f # fs) s = (case f s of Inl e \<Rightarrow> (Some e, s) | Inr s' \<Rightarrow> run_steps fs s')"

text \<open>\<open>e.value(k1, e.value(k2, 0))\<close>.\<close>

definition int_or :: "'j json_api \<Rightarrow> 'j \<Rightarrow> string \<Rightarrow> string \<Rightarrow> exn + int" where
  "int_or api e k1 k2 = ebind (js_value_int api e k2 0) (js_value_int api e k1)"

definition rolling_entry :: "int \<Rightarrow> int \<Rightarrow> double \<Rightarrow> confidence_entry \<Rightarrow> confidence_entry" where
  "rolling_entry recent_n recent_wins recent_pnl ce =
     (let n = min recent_n ROLLING_WINDOW in
      ce\<lparr>ce_rolling_count := n, ce_rolling_pnl := recent_pnl,
         ce_rolling_wr := (if n > 0 then dint (min recent_wins n) / dint n else 0)\<rparr>)"

definition rolling_steps :: "'j json_api \<Rightarrow> 'j \<Rightarrow> (confidence_entry smap \<Rightarrow> exn + confidence_entry smap) list" where
  "rolling_steps api e =
     (case js_value_string api e ''symbol'' [] of
        Inl x \<Rightarrow> [\<lambda>m. Inl x]
      | Inr sy \<Rightarrow>
          if sy = [] then []
          else [\<lambda>m. Inr (change_entry sy id m),
                \<lambda>m. ebind (int_or api e ''recent_trades'' ''total'') (\<lambda>n. ebind (int_or api e ''recent_wins'' ''wins'') (\<lambda>wins.
                    ebind (ebind (js_value_double api e ''total_pnl'' 0) (js_value_double api e ''recent_pnl'')) (\<lambda>pnl.
                    Inr (change_entry sy (rolling_entry n wins pnl) m))))])"

definition build_rolling :: "'j json_api \<Rightarrow> 'j list \<Rightarrow> (confidence_entry smap \<Rightarrow> exn + confidence_entry smap) list" where
  "build_rolling api report = concat (map (rolling_steps api) report)"

definition should_demote :: "confidence_entry \<Rightarrow> bool" where
  "should_demote ce \<longleftrightarrow>
     ce_rolling_count ce \<ge> ROLLING_WINDOW \<and> (ce_rolling_pnl ce < 0 \<or> ce_rolling_wr ce < lit (40/100))"

text \<open>\<open>ce.confidence\<close> and \<open>ce.size_boost\<close> follow the passes.\<close>

definition settle :: "confidence_entry \<Rightarrow> confidence_entry" where
  "settle ce = ce\<lparr>ce_confidence := ce_consecutive_passes ce, ce_size_boost := confidence_to_boost (ce_consecutive_passes ce)\<rparr>"

definition passed :: "readiness_cfg \<Rightarrow> confidence_entry \<Rightarrow> confidence_entry" where
  "passed c ce = settle (ce\<lparr>ce_consecutive_passes := min (ce_consecutive_passes ce + 1) (yc_max_confidence c)\<rparr>)"

definition judge_symbol :: "readiness_cfg \<Rightarrow> symbol_readiness \<Rightarrow> confidence_entry smap \<times> string list \<Rightarrow> confidence_entry smap \<times> string list" where
  "judge_symbol c r st =
     (let (m, eligible) = st; ce = (entry_at (ry_symbol r) m)\<lparr>ce_demoted := False\<rparr> in
      if live_level (ry_level r) then
        (if should_demote ce then
           (AList.update (ry_symbol r) (settle (ce\<lparr>ce_consecutive_passes := 0, ce_demoted := True\<rparr>)) m, eligible)
         else (AList.update (ry_symbol r) (passed c ce) m, List.insert (ry_symbol r) eligible))
      else (AList.update (ry_symbol r)
              (settle (if ce_consecutive_passes ce > 0
                       then ce\<lparr>ce_consecutive_passes := ce_consecutive_passes ce - 1\<rparr> else ce)) m, eligible))"

text \<open>Entries at zero that were seen and are not eligible are erased.\<close>

definition cleanup :: "string set \<Rightarrow> string list \<Rightarrow> confidence_entry smap \<Rightarrow> confidence_entry smap" where
  "cleanup seen eligible = filter (\<lambda>(k, ce). \<not> (ce_confidence ce = 0 \<and> k \<in> seen \<and> k \<notin> set eligible))"

definition confidence_json :: "'j json_writer \<Rightarrow> confidence_entry smap \<Rightarrow> 'j" where
  "confidence_json w m =
     (if m = [] then jw_null w
      else jw_obj w (map (\<lambda>(k, ce). (k, jw_obj w
        [(''consecutive_passes'', jw_int w (ce_consecutive_passes ce)), (''confidence'', jw_int w (ce_confidence ce)),
         (''size_boost'', jw_dbl w (ce_size_boost ce)), (''rolling_pnl'', jw_dbl w (ce_rolling_pnl ce)),
         (''rolling_wr'', jw_dbl w (ce_rolling_wr ce)), (''rolling_count'', jw_int w (ce_rolling_count ce))])) m))"

definition confidence_path :: "string \<Rightarrow> string" where
  "confidence_path dir = dir @ ''/confidence_scores.json''"

definition save_confidence :: "'j json_writer \<Rightarrow> string \<Rightarrow> readiness \<Rightarrow> readiness" where
  "save_confidence w dir s = s\<lparr>rn_disk := (rn_disk s)(confidence_path dir \<mapsto> jw_dump w (confidence_json w (rn_confidence s)))\<rparr>"

definition confidence_from :: "'j json_api \<Rightarrow> 'j \<Rightarrow> exn + confidence_entry" where
  "confidence_from api v =
     ebind (js_value_int api v ''consecutive_passes'' 0) (\<lambda>p. ebind (js_value_int api v ''confidence'' 0) (\<lambda>cf.
     ebind (js_value_double api v ''size_boost'' 1) (\<lambda>b. ebind (js_value_double api v ''rolling_pnl'' 0) (\<lambda>rp.
     ebind (js_value_double api v ''rolling_wr'' 0) (\<lambda>rw. ebind (js_value_int api v ''rolling_count'' 0) (\<lambda>rc.
     Inr \<lparr>ce_consecutive_passes = p, ce_confidence = cf, ce_size_boost = b, ce_rolling_pnl = rp, ce_rolling_wr = rw,
          ce_rolling_count = rc, ce_demoted = False\<rparr>))))))"

definition load_confidence :: "'j json_api \<Rightarrow> string \<Rightarrow> readiness \<Rightarrow> readiness" where
  "load_confidence api dir s =
     (case rn_disk s (confidence_path dir) of
        None \<Rightarrow> s
      | Some txt \<Rightarrow> (case js_parse api txt of Inl e \<Rightarrow> s | Inr j \<Rightarrow>
          try_seq (map (\<lambda>(k, v). set_from (confidence_from api v) (\<lambda>ce s. s\<lparr>rn_confidence := AList.update k ce (rn_confidence s)\<rparr>))
                     (js_items api j)) s))"

text \<open>The constructor: configuration with defaults, then the file.\<close>

definition LiveReadinessEngine :: "'j json_api \<Rightarrow> string \<Rightarrow> 'j \<Rightarrow> fs \<Rightarrow> exn + readiness_cfg \<times> readiness" where
  "LiveReadinessEngine api dir config disk =
     ebind (js_value_json api config ''live_readiness'' (js_object api)) (\<lambda>cfg.
     ebind (js_value_int api cfg ''min_trades_ready'' 10) (\<lambda>mr. ebind (js_value_int api cfg ''min_trades_proven'' 20) (\<lambda>mp.
     ebind (js_value_string api cfg ''min_grade_ready'' ''B'') (\<lambda>gr. ebind (js_value_string api cfg ''min_grade_proven'' ''A'') (\<lambda>gp.
     ebind (js_value_int api cfg ''min_symbols_for_live'' 5) (\<lambda>ms. ebind (js_value_bool api cfg ''require_positive_pnl'' True) (\<lambda>rp.
     ebind (js_value_int api cfg ''max_confidence'' 10) (\<lambda>mc.
     Inr (\<lparr>yc_min_trades_ready = mr, yc_min_trades_proven = mp, yc_min_grade_ready = gr, yc_min_grade_proven = gp,
           yc_min_symbols_for_live = ms, yc_require_positive_pnl = rp, yc_max_confidence = mc\<rparr>,
          load_confidence api dir \<lparr>rn_confidence = [], rn_disk = disk\<rparr>)))))))))"

definition get_confidence :: "string \<Rightarrow> readiness \<Rightarrow> confidence_entry" where
  "get_confidence key s = entry_at key (rn_confidence s)"

subsection \<open>Refreshing the eligible symbols\<close>

text \<open>The result, the eligible keys and the state; on a throw the keys are the cleared set.\<close>

definition refresh_eligible ::
    "'j json_api \<Rightarrow> 'j json_writer \<Rightarrow> string \<Rightarrow> readiness_cfg \<Rightarrow> 'j list \<Rightarrow> 'j list \<Rightarrow> readiness \<Rightarrow>
     (exn + pipeline_status) \<times> string list \<times> readiness" where
  "refresh_eligible api w dir c futures spot s =
     (case evaluate_all api c futures spot of
        Inl e \<Rightarrow> (Inl e, [], s)
      | Inr rs \<Rightarrow>
          (case run_steps (build_rolling api futures @ build_rolling api spot) (rn_confidence s) of
             (Some e, m) \<Rightarrow> (Inl e, [], s\<lparr>rn_confidence := m\<rparr>)
           | (None, m) \<Rightarrow>
               let (m', eligible) = fold (judge_symbol c) rs (m, []) in
               (Inr (get_pipeline_status c rs), eligible,
                save_confidence w dir (s\<lparr>rn_confidence := cleanup (set (map ry_symbol rs)) eligible m'\<rparr>))))"

definition context_keys :: "string \<Rightarrow> string \<Rightarrow> string list" where
  "context_keys symb tf = [symb @ '':'' @ tf @ '':long'', symb @ '':'' @ tf @ '':short'']"

definition enrich_step ::
    "'j json_api \<Rightarrow> readiness_cfg \<Rightarrow> string \<Rightarrow> 'j \<Rightarrow> string list \<times> confidence_entry smap \<Rightarrow> exn + string list \<times> confidence_entry smap" where
  "enrich_step api c market e st =
     ebind (js_value_string api e ''symbol'' []) (\<lambda>symb. ebind (js_value_string api e ''timeframe'' []) (\<lambda>tf.
       if symb = [] \<or> tf = [] then Inr st
       else ebind (evaluate_symbol api c e market) (\<lambda>r.
         Inr (if live_level (ry_level r)
              then (fold List.insert (context_keys symb tf) (fst st), fold (\<lambda>k. change_entry k (passed c)) (context_keys symb tf) (snd st))
              else st))))"

definition enrich_eligible_with_context ::
    "'j json_api \<Rightarrow> readiness_cfg \<Rightarrow> 'j list \<Rightarrow> 'j list \<Rightarrow> string list \<Rightarrow> readiness \<Rightarrow> exn option \<times> string list \<times> readiness" where
  "enrich_eligible_with_context api c futures_tf spot_tf eligible s =
     (let (err, el, m) = run_steps (map (enrich_step api c ''futures'') futures_tf @ map (enrich_step api c ''spot'') spot_tf)
                           (eligible, rn_confidence s)
      in (err, el, s\<lparr>rn_confidence := m\<rparr>))"

subsection \<open>Reports\<close>

definition readiness_to_json :: "symbol_readiness \<Rightarrow> symbol_readiness" where
  "readiness_to_json r =
     r\<lparr>ry_win_rate := round_to 2 (ry_win_rate r), ry_total_pnl := round_to 4 (ry_total_pnl r),
       ry_avg_pnl := round_to 4 (ry_avg_pnl r), ry_confidence_boost := round_to 2 (ry_confidence_boost r)\<rparr>"

record readiness_report =
  rp_pipeline :: pipeline_status
  rp_futures :: "symbol_readiness list"
  rp_spot :: "symbol_readiness list"
  rp_top_ready :: "symbol_readiness list"

text \<open>The rows carry the confidence of their symbol; at most five live symbols head the summary.\<close>

definition get_readiness_json ::
    "'j json_api \<Rightarrow> readiness_cfg \<Rightarrow> 'j list \<Rightarrow> 'j list \<Rightarrow> readiness \<Rightarrow> exn + readiness_report" where
  "get_readiness_json api c futures spot s =
     ebind (evaluate_all api c futures spot) (\<lambda>rs.
       let rows = map (\<lambda>r. let ce = get_confidence (ry_symbol r) s in
                    r\<lparr>ry_confidence_score := ce_confidence ce, ry_confidence_boost := ce_size_boost ce\<rparr>) rs in
       Inr \<lparr>rp_pipeline = get_pipeline_status c rs,
            rp_futures = map readiness_to_json (filter (\<lambda>r. ry_market r = ''futures'') rows),
            rp_spot = map readiness_to_json (filter (\<lambda>r. ry_market r \<noteq> ''futures'') rows),
            rp_top_ready = map readiness_to_json (take 5 (filter (\<lambda>r. live_level (ry_level r)) rows))\<rparr>)"

text \<open>What the trackers' reports send: a row of \<open>get_symbol_report\<close>, and one of \<open>get_symbol_tf_report\<close>.\<close>

definition row_json :: "'j json_writer \<Rightarrow> report_row \<Rightarrow> 'j" where
  "row_json w r = jw_obj w
     [(''symbol'', jw_str w (rr_symbol r)), (''total'', jw_int w (rr_total r)), (''wins'', jw_int w (rr_wins r)),
      (''losses'', jw_int w (rr_losses r)), (''win_rate'', jw_dbl w (rr_win_rate r)), (''total_pnl'', jw_dbl w (rr_total_pnl r)),
      (''avg_pnl'', jw_dbl w (rr_avg_pnl r)), (''grade'', jw_str w (rr_grade r))]"

definition tf_row_json :: "'j json_writer \<Rightarrow> report_row \<Rightarrow> 'j" where
  "tf_row_json w r = jw_obj w
     [(''symbol'', jw_str w (rr_symbol r)), (''timeframe'', jw_str w (rr_timeframe r)), (''key'', jw_str w (rr_key r)),
      (''total'', jw_int w (rr_total r)), (''wins'', jw_int w (rr_wins r)), (''losses'', jw_int w (rr_losses r)),
      (''win_rate'', jw_dbl w (rr_win_rate r)), (''total_pnl'', jw_dbl w (rr_total_pnl r)),
      (''avg_pnl'', jw_dbl w (rr_avg_pnl r)), (''grade'', jw_str w (rr_grade r))]"

subsection \<open>Levels grow with the evidence\<close>

lemma level_simps:
  "BLOCKED \<le> l" "l \<le> PROVEN" "READY \<le> l \<longleftrightarrow> live_level l"
  by (cases l; simp add: less_eq_readiness_level_def level_rank_def live_level_def)+

text \<open>A symbol never falls to a lower level by getting more trades at the same grade with no smaller
  result: from five trades on the level is monotone in the number of trades and in the result.\<close>

theorem level_monotone:
  assumes "5 \<le> m" "m \<le> n" "p \<le> q"
  shows "fst (level_of c g m p) \<le> fst (level_of c g n q)"
proof -
  have pos: "p > 0 \<Longrightarrow> q > 0" using assms(3) d_less_le_trans by blast
  show ?thesis using assms(1,2) pos
    by (auto simp: level_of_def Let_def less_eq_readiness_level_def level_rank_def)
qed

theorem level_monotone_witness:
  "fst (level_of \<lparr>yc_min_trades_ready = 10, yc_min_trades_proven = 20, yc_min_grade_ready = ''B'', yc_min_grade_proven = ''A'',
      yc_min_symbols_for_live = 5, yc_require_positive_pnl = True, yc_max_confidence = 10\<rparr> ''B'' 8 (Fin 3)) \<le>
   fst (level_of \<lparr>yc_min_trades_ready = 10, yc_min_trades_proven = 20, yc_min_grade_ready = ''B'', yc_min_grade_proven = ''A'',
      yc_min_symbols_for_live = 5, yc_require_positive_pnl = True, yc_max_confidence = 10\<rparr> ''B'' 16 (Fin 4))"
  by (rule level_monotone) simp_all

subsection \<open>What a tracker's row can say\<close>

text \<open>A row of a tracker: win rate and grade are computed from the counts and the unrounded sum.\<close>

definition tracker_row :: "report_row \<Rightarrow> bool" where
  "tracker_row r \<longleftrightarrow>
     0 \<le> rr_wins r \<and> rr_win_rate r = win_rate_pct (rr_wins r) (rr_total r) \<and>
     (\<exists>pnl. rr_total_pnl r = round_to 4 pnl \<and> rr_grade r = grade_of (rr_total r) (rr_win_rate r) pnl)"

lemma compute_grade_eq: "compute_grade n wins pnl wr = grade_of n wr pnl"
  unfolding compute_grade_def grade_of_def ..

lemma wins_of_nonneg: "0 \<le> wins_of ts"
  by (simp add: wins_of_def)

lemma tracker_row_of: "tracker_row (report_row_of split kv)" "tracker_row (spot_row_of split kv)"
  unfolding tracker_row_def report_row_of_def spot_row_of_def Let_def compute_grade_eq report_row.simps
  by (intro conjI wins_of_nonneg refl exI [of _ "foldl (+) 0 (map tr_pnl (snd kv))"])+

lemma tracker_rows:
  "r \<in> set (Shadow_Tracker.get_symbol_report s) \<Longrightarrow> tracker_row r"
  "r \<in> set (Spot_Shadow.get_symbol_report x) \<Longrightarrow> tracker_row r"
  unfolding Shadow_Tracker.get_symbol_report_def Spot_Shadow.get_symbol_report_def
  by (simp_all only: set_sort_desc set_map) (elim imageE, simp only: tracker_row_of)+

text \<open>A win rate of 50 percent over at least 20 trades takes at least ten wins, also after rounding.\<close>

lemma share_small: assumes "0 \<le> wins" "wins \<le> 9" "20 \<le> n" shows "dint wins / dint n \<le> rnd (9/20)"
proof -
  have w: "dint wins = Fin (of_int wins)" using assms by (intro dint_Fin) simp
  have "Fin 20 \<le> dint n" using dint_mono [OF assms(3)] dint_Fin [of 20] by simp
  then consider b where "dint n = Fin b" "20 \<le> b" | "dint n = PInf" by (cases "dint n") (auto simp: less_eq_double_def)
  then show ?thesis
  proof cases
    case (1 b)
    have "of_int wins \<le> (9 :: rat)" using assms(2) by simp
    then have "of_int wins / b \<le> 9 / 20" using 1(2) assms(1) by (simp add: divide_le_eq)
    with 1 show ?thesis by (simp add: w divide_double_def rnd_mono)
  next
    case 2
    have "0 \<le> rnd (9/20)" by (rule rnd_nonneg) simp
    with 2 show ?thesis by (simp add: w divide_double_def zero_double_def)
  qed
qed

lemma ten_wins:
  assumes "lit 50 \<le> win_rate_pct wins n" "20 \<le> n" "0 \<le> wins"
  shows "10 \<le> wins"
proof (rule ccontr)
  assume "\<not> 10 \<le> wins"
  then have "dint wins / dint n \<le> rnd (9/20)" using assms by (intro share_small) auto
  moreover have c: "0 < lit 10000" "isfinite (lit 10000)" "0 < lit 100" "isfinite (lit 100)" by code_simp+
  ultimately have "dround (dint wins / dint n * lit 10000) / lit 100 \<le> dround (rnd (9/20) * lit 10000) / lit 100"
    unfolding dmul_commute [of _ "lit 10000"] by (intro ddiv_mono dround_mono dmul_mono)
  moreover have "dround (rnd (9/20) * lit 10000) / lit 100 < lit 50" by code_simp
  ultimately have "win_rate_pct wins n < lit 50" using assms(2) by (simp add: win_rate_pct_def d_le_less_trans)
  with assms(1) show False by (simp add: less_double_def less_eq_double_def)
qed

text \<open>The rolling figures of a row.\<close>

definition rolled :: "report_row \<Rightarrow> confidence_entry \<Rightarrow> bool" where
  "rolled r ce \<longleftrightarrow> (\<exists>old. ce = rolling_entry (rr_total r) (rr_wins r) (rr_total_pnl r) old)"

definition row_level :: "readiness_cfg \<Rightarrow> report_row \<Rightarrow> readiness_level" where
  "row_level c r = fst (level_of c (rr_grade r) (rr_total r) (rr_total_pnl r))"

lemma live_grade: "live_level (fst (level_of c g n p)) \<Longrightarrow> g \<in> {''A+'', ''A'', ''B''}"
  by (auto simp: level_of_def Let_def live_level_def split: if_splits)

lemma good_grade:
  assumes "grade_of n wr pnl \<in> {''A+'', ''A'', ''B''}"
  shows "0 < pnl" "lit 50 \<le> wr"
proof -
  have good: "pnl > 0 \<and> (wr \<ge> lit 65 \<or> wr \<ge> lit 55 \<or> wr \<ge> lit 50)"
    using assms unfolding grade_of_def by (simp split: if_split_asm)
  then show "0 < pnl" by blast
  have "lit 50 \<le> lit 55" "lit 50 \<le> lit 65" by (simp_all add: lit_mono)
  with good show "lit 50 \<le> wr" using d_trans by blast
qed

lemma never_demoted:
  assumes "tracker_row r" "live_level (row_level c r)" "rolled r ce"
  shows "\<not> should_demote ce"
proof -
  obtain pnl where r: "rr_total_pnl r = round_to 4 pnl" "rr_grade r = grade_of (rr_total r) (rr_win_rate r) pnl"
      "rr_win_rate r = win_rate_pct (rr_wins r) (rr_total r)" "0 \<le> rr_wins r"
    using assms(1) by (auto simp: tracker_row_def)
  have grade: "0 < pnl" "lit 50 \<le> rr_win_rate r"
    using good_grade live_grade [OF assms(2) [unfolded row_level_def]] unfolding r(2) by blast+
  have "round_to 4 0 \<le> round_to 4 pnl" using grade(1) by (intro round_to_mono) (auto simp: d_less_imp_le)
  moreover have "round_to 4 0 = 0" by code_simp
  ultimately have pnl: "\<not> rr_total_pnl r < 0" by (simp add: r(1) less_double_def less_eq_double_def)
  have wr: "\<not> dint (min (rr_wins r) 20) / dint 20 < lit (40/100)" if "20 \<le> rr_total r"
  proof -
    have "10 \<le> min (rr_wins r) 20" using ten_wins grade(2) that r by simp
    then have "dint 10 / dint 20 \<le> dint (min (rr_wins r) 20) / dint 20"
      by (intro ddiv_mono dint_mono) (simp_all add: dint_Fin zero_double_def)
    moreover have "lit (40/100) \<le> dint 10 / dint 20" by code_simp
    ultimately show ?thesis using d_trans by (auto simp: less_double_def less_eq_double_def)
  qed
  show ?thesis
    using assms(3) pnl wr by (auto simp: rolled_def rolling_entry_def should_demote_def ROLLING_WINDOW_def Let_def min_def split: if_splits)
qed

subsection \<open>The refresh over the trackers' reports\<close>

definition readiness_row :: "readiness_cfg \<Rightarrow> string \<Rightarrow> report_row \<Rightarrow> symbol_readiness" where
  "readiness_row c market r =
     \<lparr>ry_symbol = rr_symbol r, ry_market = market, ry_level = row_level c r, ry_grade = rr_grade r, ry_total_trades = rr_total r,
      ry_wins = rr_wins r, ry_win_rate = rr_win_rate r, ry_total_pnl = rr_total_pnl r, ry_avg_pnl = rr_avg_pnl r,
      ry_confidence_score = 0, ry_confidence_boost = 1, ry_reason = snd (level_of c (rr_grade r) (rr_total r) (rr_total_pnl r))\<rparr>"

lemma evaluate_row: "json_laws api w \<Longrightarrow> evaluate_symbol api c (row_json w r) market = Inr (readiness_row c market r)"
  by (simp add: json_laws_def evaluate_symbol_def row_json_def readiness_row_def row_level_def split: prod.split)

lemma emap_rows: "(\<And>r. f (g r) = Inr (h r)) \<Longrightarrow> emap f (map g rs) = Inr (map h rs)"
  by (induction rs) simp_all

lemma set_sort_ranked [simp]: "set (sort_ranked xs) = set xs"
proof -
  have ins: "set (insert_ranked x ys) = insert x (set ys)" for x ys by (induction ys) auto
  have "set (fold insert_ranked xs ys) = set xs \<union> set ys" for ys by (induction xs arbitrary: ys) (simp_all add: ins)
  then show ?thesis by (simp add: sort_ranked_def)
qed

lemma length_sort_ranked: "length (sort_ranked xs) = length xs"
proof -
  have ins: "length (insert_ranked x ys) = Suc (length ys)" for x ys by (induction ys) auto
  have "length (fold insert_ranked xs ys) = length xs + length ys" for ys by (induction xs arbitrary: ys) (simp_all add: ins)
  then show ?thesis by (simp add: sort_ranked_def)
qed

lemma distinct_sort_ranked: assumes "distinct (map f xs)" shows "distinct (map f (sort_ranked xs))"
proof -
  have "card (set (map f (sort_ranked xs))) = length (map f (sort_ranked xs))"
    using assms distinct_card [of "map f xs"] by (simp add: length_sort_ranked)
  then show ?thesis by (rule card_distinct)
qed

lemma evaluate_all_rows:
  "json_laws api w \<Longrightarrow> evaluate_all api c (map (row_json w) fs) (map (row_json w) ss) =
     Inr (sort_ranked (map (readiness_row c ''futures'') fs @ map (readiness_row c ''spot'') ss))"
  by (simp add: evaluate_all_def emap_rows [where f = "\<lambda>e. evaluate_symbol api c e ''futures''", OF evaluate_row]
      emap_rows [where f = "\<lambda>e. evaluate_symbol api c e ''spot''", OF evaluate_row])

text \<open>The rolling figures: every row writes its own entry.\<close>

definition roll_row :: "report_row \<Rightarrow> confidence_entry smap \<Rightarrow> confidence_entry smap" where
  "roll_row r m = change_entry (rr_symbol r) (rolling_entry (rr_total r) (rr_wins r) (rr_total_pnl r)) (change_entry (rr_symbol r) id m)"

lemma run_steps_append:
  "run_steps fs s = (None, s') \<Longrightarrow> run_steps (fs @ gs) s = run_steps gs s'"
  by (induction fs arbitrary: s) (auto split: sum.splits)

lemma rolling_row: "json_laws api w \<Longrightarrow> rr_symbol r \<noteq> [] \<Longrightarrow> run_steps (rolling_steps api (row_json w r)) m = (None, roll_row r m)"
  by (simp add: json_laws_def rolling_steps_def row_json_def int_or_def roll_row_def)

lemma build_rolling_rows:
  "json_laws api w \<Longrightarrow> \<forall>r \<in> set rs. rr_symbol r \<noteq> [] \<Longrightarrow>
   run_steps (build_rolling api (map (row_json w) rs)) m = (None, fold roll_row rs m)"
  by (induction rs arbitrary: m) (simp_all add: build_rolling_def run_steps_append [OF rolling_row])

lemma entry_at_change: "entry_at k (change_entry k' f m) = (if k = k' then f (entry_at k m) else entry_at k m)"
  by (simp add: entry_at_def change_entry_def map_of_update)

lemma rolled_rows:
  "distinct (map rr_symbol rs) \<Longrightarrow> r \<in> set rs \<Longrightarrow> rolled r (entry_at (rr_symbol r) (fold roll_row rs m))"
proof (induction rs rule: rev_induct)
  case (snoc q rs)
  have own: "entry_at k (roll_row q m') = (if k = rr_symbol q
      then rolling_entry (rr_total q) (rr_wins q) (rr_total_pnl q) (entry_at k m') else entry_at k m')" for k m'
    by (simp add: roll_row_def entry_at_change)
  show ?case
  proof (cases "r = q")
    case True
    then show ?thesis by (auto simp: rolled_def own)
  next
    case False
    with snoc.prems have "r \<in> set rs" "rr_symbol r \<noteq> rr_symbol q" by (auto intro: rev_image_eqI)
    with snoc show ?thesis by (simp add: own)
  qed
qed simp

text \<open>Judging the rows: only the own entry changes, so nothing that was fit for promotion gets demoted.\<close>

lemma should_demote_frame [simp]: "should_demote (ce\<lparr>ce_demoted := b\<rparr>) = should_demote ce"
  by (simp add: should_demote_def)

lemma judged:
  assumes "distinct (map ry_symbol rs)" "\<forall>r \<in> set rs. live_level (ry_level r) \<longrightarrow> \<not> should_demote (entry_at (ry_symbol r) m)"
  shows "set (snd (fold (judge_symbol c) rs (m, el))) = set el \<union> ry_symbol ` {r \<in> set rs. live_level (ry_level r)}"
  using assms
proof (induction rs arbitrary: m el)
  case (Cons r rs)
  obtain m' el' where j: "judge_symbol c r (m, el) = (m', el')" by force
  have "el' = (if live_level (ry_level r) then List.insert (ry_symbol r) el else el)"
    using j Cons.prems(2) by (auto simp: judge_symbol_def Let_def split: if_splits)
  moreover have "entry_at k m' = entry_at k m" if "k \<noteq> ry_symbol r" for k
    using j that by (auto simp: judge_symbol_def Let_def entry_at_def map_of_update split: if_splits)
  then have "entry_at (ry_symbol q) m' = entry_at (ry_symbol q) m" if "q \<in> set rs" for q
    using Cons.prems(1) that by (metis distinct.simps(2) image_eqI list.set_map list.simps(9))
  then have "\<forall>q \<in> set rs. live_level (ry_level q) \<longrightarrow> \<not> should_demote (entry_at (ry_symbol q) m')"
    using Cons.prems(2) by simp
  ultimately show ?case using Cons.IH [of m' el'] Cons.prems(1) j by auto
qed simp

lemma tracker_keys:
  "rr_symbol ` set (Shadow_Tracker.get_symbol_report s) = tr_symbol ` set (sh_trades s)"
  "rr_symbol ` set (Spot_Shadow.get_symbol_report x) = grade_key ` set (xs_trades x)"
  "distinct (map rr_symbol (Shadow_Tracker.get_symbol_report s))" "distinct (map rr_symbol (Spot_Shadow.get_symbol_report x))"
proof -
  have keys: "fst ` set (group_by f ts) = f ` set ts" for f :: "trade_record \<Rightarrow> string" and ts
    by (auto simp: set_group_by image_image)
  have sym: "rr_symbol (report_row_of (\<lambda>k. (k, [])) kv) = fst kv" "rr_symbol (spot_row_of (\<lambda>k. (k, [])) kv) = fst kv" for kv
    by (simp_all add: report_row_of_def spot_row_of_def Let_def)
  show "rr_symbol ` set (Shadow_Tracker.get_symbol_report s) = tr_symbol ` set (sh_trades s)"
    "rr_symbol ` set (Spot_Shadow.get_symbol_report x) = grade_key ` set (xs_trades x)"
    by (simp_all add: Shadow_Tracker.get_symbol_report_def Spot_Shadow.get_symbol_report_def image_image sym keys)
  show "distinct (map rr_symbol (Shadow_Tracker.get_symbol_report s))" "distinct (map rr_symbol (Spot_Shadow.get_symbol_report x))"
    using wf_group_by [of tr_symbol "sh_trades s"] wf_group_by [of grade_key "xs_trades x"]
    by (simp_all add: Shadow_Tracker.get_symbol_report_def Spot_Shadow.get_symbol_report_def sym comp_def wf_map_def)
qed

lemma count_live:
  assumes "distinct (map ry_symbol rs)"
  shows "count_level READY rs + count_level PROVEN rs = int (card (ry_symbol ` {q \<in> set rs. live_level (ry_level q)}))"
proof -
  have "count_level READY rs + count_level PROVEN rs = int (length (filter (\<lambda>q. live_level (ry_level q)) rs))"
    by (induction rs) (auto simp: count_level_def live_level_def)
  moreover have "distinct (map ry_symbol (filter (\<lambda>q. live_level (ry_level q)) rs))"
    using assms by (rule distinct_map_filter)
  ultimately show ?thesis using distinct_card by (metis length_map set_filter set_map)
qed

text \<open>C15.  The symbols that become eligible for real orders are exactly those whose shadow report earns READY or
  PROVEN, and the pipeline opens exactly when there are enough of them.  In particular the walk-forward
  demotion never fires: the reports carry no recent figures, so a symbol is judged by the first twenty
  wins it ever had.  Spot keys name timeframe and exchange, so they differ from the futures symbols.\<close>

theorem eligible_are_live_grade:
  assumes "json_laws api w" "[] \<notin> tr_symbol ` set (sh_trades s)" "tr_symbol ` set (sh_trades s) \<inter> grade_key ` set (xs_trades x) = {}"
  shows "let fs = Shadow_Tracker.get_symbol_report s; ss = Spot_Shadow.get_symbol_report x;
             (res, eligible, y') = refresh_eligible api w dir c (map (row_json w) fs) (map (row_json w) ss) y in
    set eligible = rr_symbol ` {r \<in> set (fs @ ss). live_level (row_level c r)} \<and>
    (\<exists>ps. res = Inr ps \<and> ps_can_go_live ps = (yc_min_symbols_for_live c \<le> int (card (set eligible))))"
proof -
  let ?fs = "Shadow_Tracker.get_symbol_report s" and ?ss = "Spot_Shadow.get_symbol_report x"
  let ?rows = "map (readiness_row c ''futures'') ?fs @ map (readiness_row c ''spot'') ?ss"
  define m where "m = fold roll_row (?fs @ ?ss) (rn_confidence y)"
  have key: "grade_key t \<noteq> []" for t by (simp add: grade_key_def)
  have ne: "\<forall>r \<in> set (?fs @ ?ss). rr_symbol r \<noteq> []"
    using assms(2) tracker_keys(1) [of s] tracker_keys(2) [of x] key by (metis (no_types, lifting) Un_iff image_iff set_append)
  have dist: "distinct (map rr_symbol (?fs @ ?ss))"
    using assms(3) by (simp add: tracker_keys)
  have roll: "run_steps (build_rolling api (map (row_json w) ?fs) @ build_rolling api (map (row_json w) ?ss)) (rn_confidence y) = (None, m)"
    using build_rolling_rows [OF assms(1) ne] by (simp add: m_def build_rolling_def)
  have syms: "ry_symbol (readiness_row c mk r) = rr_symbol r" "ry_level (readiness_row c mk r) = row_level c r" for mk r
    by (simp_all add: readiness_row_def)
  have distr: "distinct (map ry_symbol ?rows)" using dist by (simp add: syms comp_def)
  have fit: "\<not> should_demote (entry_at (rr_symbol r) m)" if "r \<in> set (?fs @ ?ss)" "live_level (row_level c r)" for r
    using never_demoted [OF _ that(2) rolled_rows [OF dist that(1), of "rn_confidence y"]] tracker_rows that(1) by (auto simp: m_def)
  then have ok: "\<forall>q \<in> set (sort_ranked ?rows). live_level (ry_level q) \<longrightarrow> \<not> should_demote (entry_at (ry_symbol q) m)"
    by (auto simp: syms)
  obtain m' el where f: "fold (judge_symbol c) (sort_ranked ?rows) (m, []) = (m', el)" by force
  have el: "set el = ry_symbol ` {q \<in> set ?rows. live_level (ry_level q)}"
    using judged [OF distinct_sort_ranked [OF distr] ok, of c "[]"] f by simp
  also have "\<dots> = rr_symbol ` {r \<in> set (?fs @ ?ss). live_level (row_level c r)}"
    by (force simp: syms image_iff)
  finally have el': "set el = rr_symbol ` {r \<in> set (?fs @ ?ss). live_level (row_level c r)}" .
  have "count_level READY (sort_ranked ?rows) + count_level PROVEN (sort_ranked ?rows) = int (card (set el))"
    using count_live [OF distinct_sort_ranked [OF distr]] el by simp
  then show ?thesis
    using el' f by (simp add: refresh_eligible_def evaluate_all_rows [OF assms(1)] roll get_pipeline_status_def)
qed

definition default_readiness :: readiness_cfg where
  "default_readiness = \<lparr>yc_min_trades_ready = 10, yc_min_trades_proven = 20, yc_min_grade_ready = ''B'',
     yc_min_grade_proven = ''A'', yc_min_symbols_for_live = 5, yc_require_positive_pnl = True, yc_max_confidence = 10\<rparr>"

definition sample_shadow :: shadow where
  "sample_shadow = (shadow_init fresh_learner Map.empty)\<lparr>sh_trades := replicate 20
     (TradeRecord\<lparr>tr_symbol := ''BTCUSDT'', tr_timeframe := ''15'', tr_pnl := Fin 2\<rparr>)\<rparr>"

theorem eligible_are_live_grade_witness:
  "let fs = Shadow_Tracker.get_symbol_report sample_shadow; ss = Spot_Shadow.get_symbol_report (spot_init Map.empty);
       (res, eligible, y') = refresh_eligible (jv_api []) (jv_writer (\<lambda>_. [])) ''data'' default_readiness
          (map (row_json (jv_writer (\<lambda>_. []))) fs) (map (row_json (jv_writer (\<lambda>_. []))) ss)
          \<lparr>rn_confidence = [], rn_disk = Map.empty\<rparr> in
   set eligible = rr_symbol ` {r \<in> set (fs @ ss). live_level (row_level default_readiness r)} \<and>
   (\<exists>ps. res = Inr ps \<and>
      ps_can_go_live ps = (yc_min_symbols_for_live default_readiness \<le> int (card (set eligible))))"
  by (rule eligible_are_live_grade [OF jv_laws])
    (simp_all add: sample_shadow_def spot_init_def shadow_init_def TradeRecord_def)

subsection \<open>Confidence over time\<close>

datatype 'j readiness_op = Refresh "'j list" "'j list" | Enrich "'j list" "'j list" "string list"

fun readiness_exec :: "'j json_api \<Rightarrow> 'j json_writer \<Rightarrow> string \<Rightarrow> readiness_cfg \<Rightarrow> 'j readiness_op \<Rightarrow> readiness \<Rightarrow> readiness" where
  "readiness_exec api w dir c (Refresh fs ss) s = snd (snd (refresh_eligible api w dir c fs ss s))"
| "readiness_exec api w dir c (Enrich fs ss el) s = snd (snd (enrich_eligible_with_context api c fs ss el s))"

definition entry_ok :: "readiness_cfg \<Rightarrow> confidence_entry \<Rightarrow> bool" where
  "entry_ok c ce \<longleftrightarrow>
     ce_confidence ce = ce_consecutive_passes ce \<and> 0 \<le> ce_confidence ce \<and> ce_confidence ce \<le> yc_max_confidence c \<and>
     (ce_size_boost ce = confidence_to_boost (ce_confidence ce) \<or> ce_confidence ce = 0 \<and> ce_size_boost ce = 1)"

definition conf_ok :: "readiness_cfg \<Rightarrow> confidence_entry smap \<Rightarrow> bool" where
  "conf_ok c m \<longleftrightarrow> wf_map m \<and> list_all (entry_ok c \<circ> snd) m"

lemma entry_at_ok: "conf_ok c m \<Longrightarrow> 0 \<le> yc_max_confidence c \<Longrightarrow> entry_ok c (entry_at k m)"
proof (cases "map_of m k")
  case (Some ce)
  then have "(k, ce) \<in> set m" by (rule map_of_SomeD)
  moreover assume "conf_ok c m"
  ultimately show ?thesis using Some by (auto simp: conf_ok_def list_all_iff entry_at_def)
qed (simp add: entry_at_def entry_ok_def ConfidenceEntry_def)

lemma conf_ok_update: "conf_ok c m \<Longrightarrow> entry_ok c ce \<Longrightarrow> conf_ok c (AList.update k ce m)"
  by (auto simp: conf_ok_def list_all_iff set_update)

lemma entry_ok_changes:
  "entry_ok c ce \<Longrightarrow> entry_ok c (rolling_entry n wins p ce)" "entry_ok c ce \<Longrightarrow> entry_ok c (ce\<lparr>ce_demoted := b\<rparr>)"
  "entry_ok c ce \<Longrightarrow> 0 \<le> yc_max_confidence c \<Longrightarrow> entry_ok c (passed c ce)"
  by (auto simp: entry_ok_def rolling_entry_def passed_def settle_def Let_def)

lemma entry_ok_settle:
  "0 \<le> ce_consecutive_passes ce \<Longrightarrow> ce_consecutive_passes ce \<le> yc_max_confidence c \<Longrightarrow> entry_ok c (settle ce)"
  by (simp add: entry_ok_def settle_def)

lemma conf_ok_judge:
  assumes "conf_ok c m" "0 \<le> yc_max_confidence c"
  shows "conf_ok c (fst (judge_symbol c r (m, el)))"
proof -
  have "entry_ok c (entry_at (ry_symbol r) m)" by (rule entry_at_ok [OF assms])
  with assms show ?thesis
    by (auto simp: judge_symbol_def Let_def intro!: conf_ok_update entry_ok_settle entry_ok_changes) (auto simp: entry_ok_def)
qed

lemma conf_ok_judged:
  "conf_ok c (fst st) \<Longrightarrow> 0 \<le> yc_max_confidence c \<Longrightarrow> conf_ok c (fst (fold (judge_symbol c) rs st))"
proof (induction rs arbitrary: st)
  case (Cons r rs)
  then show ?case using conf_ok_judge [of c "fst st" r "snd st"] by simp
qed simp

text \<open>A step that may throw keeps \<open>P\<close> when every state it returns has it.\<close>

definition keeps :: "('s \<Rightarrow> bool) \<Rightarrow> ('s \<Rightarrow> exn + 's) \<Rightarrow> bool" where
  "keeps P f \<longleftrightarrow> (\<forall>s s'. P s \<longrightarrow> f s = Inr s' \<longrightarrow> P s')"

lemma keepsI: "(\<And>s s'. P s \<Longrightarrow> f s = Inr s' \<Longrightarrow> P s') \<Longrightarrow> keeps P f"
  unfolding keeps_def by blast

lemma keepsD: "keeps P f \<Longrightarrow> P s \<Longrightarrow> f s = Inr s' \<Longrightarrow> P s'"
  unfolding keeps_def by blast

lemma run_steps_inv: "list_all (keeps P) fs \<Longrightarrow> P s \<Longrightarrow> P (snd (run_steps fs s))"
  by (induction fs arbitrary: s) (auto split: sum.split dest: keepsD)

lemma conf_ok_change:
  "conf_ok c m \<Longrightarrow> 0 \<le> yc_max_confidence c \<Longrightarrow> (\<And>ce. entry_ok c ce \<Longrightarrow> entry_ok c (f ce)) \<Longrightarrow> conf_ok c (change_entry k f m)"
  unfolding change_entry_def by (intro conf_ok_update) (auto intro: entry_at_ok)

lemma rolling_step_change:
  assumes "f \<in> set (rolling_steps api e)" "f m = Inr m'"
  obtains sy g where "m' = change_entry sy g m" "\<And>ce. entry_ok c ce \<Longrightarrow> entry_ok c (g ce)"
proof (cases "js_value_string api e ''symbol'' []")
  case (Inr sy)
  with assms(1) consider "f = (\<lambda>m. Inr (change_entry sy id m))"
    | "f = (\<lambda>m. ebind (int_or api e ''recent_trades'' ''total'') (\<lambda>n. ebind (int_or api e ''recent_wins'' ''wins'') (\<lambda>wins.
                    ebind (ebind (js_value_double api e ''total_pnl'' 0) (js_value_double api e ''recent_pnl'')) (\<lambda>pnl.
                    Inr (change_entry sy (rolling_entry n wins pnl) m)))))"
    unfolding rolling_steps_def by (simp split: if_split_asm) blast
  then show ?thesis
  proof cases
    case 1
    with assms(2) that [of sy id] show ?thesis by simp
  next
    case 2
    with assms(2) obtain n wins pnl where "m' = change_entry sy (rolling_entry n wins pnl) m"
      unfolding ebind_Inr_iff by (simp only: ebind_Inr_iff) blast
    then show ?thesis by (rule that) (rule entry_ok_changes)
  qed
qed (use assms in \<open>simp add: rolling_steps_def\<close>)

lemma rolling_steps_ok:
  "f \<in> set (rolling_steps api e) \<Longrightarrow> conf_ok c m \<Longrightarrow> 0 \<le> yc_max_confidence c \<Longrightarrow> f m = Inr m' \<Longrightarrow> conf_ok c m'"
  by (erule (1) rolling_step_change [where c = c]) (simp add: conf_ok_change)

lemma enrich_step_ok:
  "conf_ok c (snd st) \<Longrightarrow> 0 \<le> yc_max_confidence c \<Longrightarrow> enrich_step api c mk e st = Inr st' \<Longrightarrow> conf_ok c (snd st')"
  by (auto simp: enrich_step_def ebind_Inr_iff context_keys_def split: if_splits intro!: conf_ok_change entry_ok_changes)

lemma enrich_keeps: "0 \<le> yc_max_confidence c \<Longrightarrow> keeps (\<lambda>st. conf_ok c (snd st)) (enrich_step api c mk e)"
  by (rule keepsI) (rule enrich_step_ok)

lemma conf_ok_exec:
  assumes "conf_ok c (rn_confidence s)" "0 \<le> yc_max_confidence c"
  shows "conf_ok c (rn_confidence (readiness_exec api w dir c op s))"
proof (cases op)
  case (Refresh fs ss)
  obtain err m where r: "run_steps (build_rolling api fs @ build_rolling api ss) (rn_confidence s) = (err, m)" by force
  have "conf_ok c (snd (run_steps (build_rolling api fs @ build_rolling api ss) (rn_confidence s)))"
    by (rule run_steps_inv [of "conf_ok c", OF _ assms(1)])
      (auto simp: list_all_iff build_rolling_def intro!: keepsI elim: rolling_steps_ok [OF _ _ assms(2)])
  with r have m: "conf_ok c m" by simp
  have "conf_ok c (cleanup seen el (fst (fold (judge_symbol c) rs (m, []))))" for seen el rs
    using conf_ok_judged [of c "(m, [])" rs] m assms(2)
    by (auto simp: cleanup_def conf_ok_def wf_map_filter list_all_iff)
  with Refresh r m assms(1) show ?thesis
    by (auto simp: refresh_eligible_def save_confidence_def split: sum.split option.split prod.split) (metis fst_conv)
next
  case (Enrich fs ss el)
  have "conf_ok c (snd (snd (run_steps (map (enrich_step api c ''futures'') fs @ map (enrich_step api c ''spot'') ss) (el, rn_confidence s))))"
  proof (rule run_steps_inv [where P = "\<lambda>st. conf_ok c (snd st)"])
    show "list_all (keeps (\<lambda>st. conf_ok c (snd st))) (map (enrich_step api c ''futures'') fs @ map (enrich_step api c ''spot'') ss)"
      by (simp add: list.pred_map comp_def list.pred_True enrich_keeps [OF assms(2)])
  qed (simp add: assms)
  with Enrich show ?thesis by (simp add: enrich_eligible_with_context_def case_prod_unfold Let_def)
qed

text \<open>Confidence stays in its scale: after any sequence of refreshes and enrichments from an empty
  state, every entry's confidence is its number of passes, between zero and the maximum, and its size
  multiplier is the one of that confidence, or the neutral 1 of an entry not judged yet.\<close>

theorem confidence_in_scale:
  assumes "0 \<le> yc_max_confidence c"
  shows "list_all (\<lambda>(key, ce). entry_ok c ce) (rn_confidence (fold (readiness_exec api w dir c) ops \<lparr>rn_confidence = [], rn_disk = disk\<rparr>))"
proof -
  have "conf_ok c (rn_confidence (fold (readiness_exec api w dir c) ops s))" if "conf_ok c (rn_confidence s)" for s
    using that by (induction ops arbitrary: s) (simp_all add: conf_ok_exec assms)
  from this [of "\<lparr>rn_confidence = [], rn_disk = disk\<rparr>"] show ?thesis
    by (auto simp: conf_ok_def list_all_iff)
qed

theorem confidence_in_scale_witness:
  "list_all (\<lambda>(key, ce). entry_ok default_readiness ce) (rn_confidence (fold (readiness_exec (jv_api []) (jv_writer (\<lambda>_. [])) ''data'' default_readiness)
     [Refresh [JObj [(''symbol'', JStr ''BTCUSDT''), (''grade'', JStr ''A''), (''total'', JInt 30), (''total_pnl'', JDbl 1)]] []]
     \<lparr>rn_confidence = [], rn_disk = Map.empty\<rparr>))"
  by (rule confidence_in_scale) (simp add: default_readiness_def)

end
