(* ===== verification/Execution_Engine.thy ===== *)
theory Execution_Engine
  imports Position_Manager Live_Readiness Fee_Analyzer Position_Sizer Risk_Manager
begin

text \<open>
  \<open>execution/execution_engine.hpp\<close>: what the workers do with a signal.  The components the class
  holds by reference are fields of \<open>engine\<close>; the book (balance, positions, trades, risk state,
  learner, alerts) is the state shared with the position manager and the trade recorder, and the
  shadow tracker works on the same learner.  Requests to the exchange are appended to \<open>en_calls\<close>; the
  answers are a parameter, one per attempt (\<open>engine_env\<close>).  One call reads each clock once:
  \<open>ee_clock\<close> is the steady clock, \<open>now_of\<close> the system clock in nanoseconds.  A
  handler holds the lock of its symbol, and each access to the shared state is one step of the
  sequential model; \<open>ee_lock\<close> says whether the wait for the lock succeeded.
\<close>

subsection \<open>Configuration, environment and state\<close>

record tf_filter =
  fl_size_multiplier :: double
  fl_min_tier :: string
  fl_min_tp_to_cost_ratio :: double
  fl_block_reverse :: bool

definition TfFilter :: tf_filter where
  "TfFilter = \<lparr>fl_size_multiplier = 1, fl_min_tier = ''C'', fl_min_tp_to_cost_ratio = lit (15/10), fl_block_reverse = True\<rparr>"

record trading_config =
  tg_default_size :: double
  tg_trade_amount_usdt :: double
  tg_default_leverage :: int
  tg_num_workers :: int
  tg_order_rate_limit :: double
  tg_tpsl_rate_limit :: double
  tg_shadow_mode :: bool
  tg_auto_live :: bool
  tg_backup_sl_pct :: double
  tg_allowed_symbols :: "string list"
  tg_symbol_sizes :: "double smap"
  tg_symbol_leverages :: "int smap"
  tg_tf_filters :: "tf_filter smap"

definition TradingConfig :: trading_config where
  "TradingConfig =
     \<lparr>tg_default_size = lit (1/100), tg_trade_amount_usdt = lit 10, tg_default_leverage = 10, tg_num_workers = 4,
      tg_order_rate_limit = lit 9, tg_tpsl_rate_limit = lit 9, tg_shadow_mode = False, tg_auto_live = True,
      tg_backup_sl_pct = lit (3/100), tg_allowed_symbols = [], tg_symbol_sizes = [], tg_symbol_leverages = [],
      tg_tf_filters = []\<rparr>"

text \<open>The requests the engine sends.\<close>

datatype exchange_call =
  PlaceOrder order_request double double
| ClosePartial string double string
| FlashClose string string
| PlaceTpsl string string double double string
| SetLeverage string int

record 'j engine_env =
  ee_risk :: risk_cfg
  ee_scorer :: scorer_cfg
  ee_fee :: fee_cfg
  ee_sizer :: sizer_cfg
  ee_readiness :: readiness_cfg
  ee_trading :: trading_config
  ee_shadow :: "'j shadow_env"
  ee_api :: "'j json_api"
  ee_clock :: clock
  ee_utc :: string
  ee_utc_hour :: int
  ee_state_dir :: string
  ee_hash_str :: "string \<Rightarrow> 64 word"
  ee_hash_int :: "int \<Rightarrow> 64 word"
  ee_lock :: bool
  ee_order :: "nat \<Rightarrow> order_response"
  ee_partial :: "nat \<Rightarrow> order_response"
  ee_flash :: "nat \<Rightarrow> bool"
  ee_tpsl :: "string \<Rightarrow> nat \<Rightarrow> exn + bool"
  ee_positions :: "exn + 'j"
  ee_account :: "exn + 'j"
  ee_close :: "string \<Rightarrow> string \<Rightarrow> bool"

record engine =
  en_book :: book
  en_scorer :: scorer_state
  en_risk :: risk_manager
  en_shadow :: shadow
  en_spot_shadow :: spot_shadow
  en_readiness :: readiness
  en_eligible :: "string list"
  en_auto_live_active :: bool
  en_shadow_mode :: bool
  en_next_oid :: int
  en_executed :: int
  en_rejected :: int
  en_skipped :: int
  en_risk_skips :: int
  en_fingerprints :: "(64 word \<times> int) list"
  en_equity :: double
  en_unrealized :: double
  en_store :: "fs \<times> int"
  en_spot_balance :: double
  en_spot_peak :: double
  en_spot_positions :: "managed_position smap"
  en_spot_trades :: "trade_record list"
  en_spot_store :: "fs \<times> int"
  en_calls :: "exchange_call list"
  en_running :: bool
  en_last_sync_ts :: int
  en_last_balance_sync :: int

text \<open>The system clock, in nanoseconds.\<close>

definition now_of :: "'j engine_env \<Rightarrow> int" where
  "now_of e = he_now_ns (ee_shadow e)"

definition learn_of :: "'j engine_env \<Rightarrow> learn_env" where
  "learn_of e = he_learn (ee_shadow e)"

definition skip :: "engine \<Rightarrow> engine" where
  "skip en = en\<lparr>en_skipped := en_skipped en + 1\<rparr>"

definition risk_skip :: "engine \<Rightarrow> engine" where
  "risk_skip en = en\<lparr>en_risk_skips := en_risk_skips en + 1\<rparr>"

definition reject :: "engine \<Rightarrow> engine" where
  "reject en = en\<lparr>en_rejected := en_rejected en + 1\<rparr>"

definition sent :: "exchange_call list \<Rightarrow> engine \<Rightarrow> engine" where
  "sent cs en = en\<lparr>en_calls := en_calls en @ cs\<rparr>"

definition on_book :: "(book \<Rightarrow> book) \<Rightarrow> engine \<Rightarrow> engine" where
  "on_book f en = en\<lparr>en_book := f (en_book en)\<rparr>"

definition engine_alert :: "'j engine_env \<Rightarrow> alert_level \<Rightarrow> string \<Rightarrow> string \<Rightarrow> string \<Rightarrow> engine \<Rightarrow> engine" where
  "engine_alert e lv cat msg symb =
     on_book (\<lambda>b. b\<lparr>bk_alerts := raise_alert (ee_utc e) lv cat msg symb (bk_alerts b)\<rparr>)"

text \<open>\<open>m_pos_mgr.save_state(m_trades, m_orders_executed)\<close> and its spot counterpart.\<close>

definition save_futures :: "'j engine_env \<Rightarrow> engine \<Rightarrow> engine" where
  "save_futures e en =
     en\<lparr>en_store := snd (save_book (ee_api e) (he_writer (ee_shadow e)) (ee_state_dir e) (ee_utc e) (steady_ns (ee_clock e))
          (bk_trades (en_book en)) (en_executed en) (en_book en, en_store en))\<rparr>"

definition save_spot :: "'j engine_env \<Rightarrow> engine \<Rightarrow> engine" where
  "save_spot e en =
     en\<lparr>en_spot_store := State_Persistence.save_state (ee_api e) (he_writer (ee_shadow e)) ''data/spot'' (ee_utc e)
          (steady_ns (ee_clock e)) (en_spot_balance en) (en_spot_peak en) (en_spot_positions en) (en_spot_trades en) 0
          (en_spot_store en)\<rparr>"

text \<open>\<open>std::to_string(pnl).substr(0, 8)\<close>.\<close>

definition pnl_text :: "double \<Rightarrow> string" where
  "pnl_text pnl = take 8 (fmt_fixed 6 pnl)"

text \<open>Up to \<open>n\<close> attempts: how many were made and whether the last one succeeded.\<close>

fun attempts :: "(nat \<Rightarrow> bool) \<Rightarrow> nat \<Rightarrow> nat \<Rightarrow> nat \<times> bool" where
  "attempts ok 0 i = (0, False)"
| "attempts ok (Suc n) i = (if ok i then (1, True) else let (k, r) = attempts ok n (Suc i) in (Suc k, r))"

definition tier_meets_min :: "string \<Rightarrow> string \<Rightarrow> bool" where
  "tier_meets_min tier min_tier =
     (let rank = [(''S'', 5), (''A'', 4), (''B'', 3), (''C'', 2), (''D'', 1), (''X'', 0 :: int)];
          value = (\<lambda>t. case map_of rank t of Some r \<Rightarrow> r | None \<Rightarrow> 2)
      in value tier \<ge> value min_tier)"

definition parse_timeframe_minutes :: "string \<Rightarrow> int" where
  "parse_timeframe_minutes tf =
     (if tf = [] then 0
      else ecatch (if last tf = CHR ''h'' \<or> last tf = CHR ''H'' then ebind (stoi (butlast tf)) (\<lambda>m. Inr (wrap32 (m * 60)))
                   else if last tf = CHR ''d'' \<or> last tf = CHR ''D'' then ebind (stoi (butlast tf)) (\<lambda>m. Inr (wrap32 (m * 1440)))
                   else stoi tf) 0)"

subsection \<open>Entries\<close>

definition tf_of :: "signal \<Rightarrow> string" where
  "tf_of sig = (if sg_timeframe sig = [] then ''unknown'' else sg_timeframe sig)"

definition entry_tier :: "signal \<Rightarrow> engine \<Rightarrow> string" where
  "entry_tier sig en =
     (case get_context_score (en_scorer en) (sg_symbol sig) (tf_of sig) (get_hold_side sig) of
        Some sc \<Rightarrow> if ss_total_trades sc \<ge> 5 then ss_tier sc else get_tier (en_scorer en) (sg_symbol sig)
      | None \<Rightarrow> get_tier (en_scorer en) (sg_symbol sig))"

definition is_eligible :: "signal \<Rightarrow> engine \<Rightarrow> bool" where
  "is_eligible sig en \<longleftrightarrow>
     en_auto_live_active en \<and>
     (compute_context_key (sg_symbol sig) (tf_of sig) (get_hold_side sig) \<in> set (en_eligible en) \<or>
      sg_symbol sig \<in> set (en_eligible en))"

text \<open>\<open>force_shadow\<close>: the entry is booked without an order.\<close>

definition paper_entry :: "signal \<Rightarrow> engine \<Rightarrow> bool" where
  "paper_entry sig en \<longleftrightarrow> en_shadow_mode en \<or> en_auto_live_active en \<and> \<not> is_eligible sig en"

text \<open>The grade filter on the first row of the shadow report that names the symbol.\<close>

definition grade_blocks :: "string \<Rightarrow> report_row list \<Rightarrow> bool" where
  "grade_blocks symb rows =
     (case find (\<lambda>r. rr_symbol r = symb) rows of
        None \<Rightarrow> False
      | Some r \<Rightarrow> rr_grade r = ''F'' \<or> rr_grade r = ''D'' \<or> rr_grade r = ''C'' \<and> rr_total r \<ge> 10)"

definition filter_blocks :: "'j engine_env \<Rightarrow> signal \<Rightarrow> string \<Rightarrow> engine \<Rightarrow> bool" where
  "filter_blocks e sig tier en =
     (case map_of (tg_tf_filters (ee_trading e)) (tf_of sig) of
        None \<Rightarrow> False
      | Some f \<Rightarrow> fl_block_reverse f \<and> sg_sig_type sig = ReEntry \<or>
                  \<not> en_shadow_mode en \<and> \<not> tier_meets_min tier (fl_min_tier f))"

definition fee_blocks :: "'j engine_env \<Rightarrow> signal \<Rightarrow> engine \<Rightarrow> bool" where
  "fee_blocks e sig en =
     (let custom = (case map_of (tg_tf_filters (ee_trading e)) (tf_of sig) of Some f \<Rightarrow> fl_min_tp_to_cost_ratio f | None \<Rightarrow> 0) in
      has_tp1 sig \<and> sg_price sig > 0 \<and>
      \<not> tc_profitable (is_tp_profitable (ee_fee e) (sg_symbol sig) (sg_price sig) (sg_tp1 sig) custom) \<and>
      \<not> en_shadow_mode en)"

text \<open>Stages 0 to 3: what refuses an entry before its size is computed.\<close>

datatype refusal = Skipped | Risky | Unlearned string

definition entry_refusal :: "'j engine_env \<Rightarrow> signal \<Rightarrow> engine \<Rightarrow> refusal option" where
  "entry_refusal e sig en =
     (let tier = entry_tier sig en;
          dec = Symbol_Learner.evaluate (le_cfg (learn_of e)) (le_now (learn_of e)) (bk_learner (en_book en))
                  (sg_symbol sig) (tf_of sig) (ee_utc_hour e) in
      if has_suffix ''USDC'' (sg_symbol sig) then Some Skipped
      else if \<not> en_shadow_mode en \<and> \<not> tier_meets_min tier (live_min_tier (ee_risk e)) then Some Risky
      else if grade_blocks (sg_symbol sig) (Shadow_Tracker.get_symbol_report (en_shadow en)) then Some Risky
      else if \<not> dec_allowed dec then Some (Unlearned (dec_skip_reason dec))
      else if filter_blocks e sig tier en then Some Risky
      else if \<not> paper_entry sig en \<and> (\<not> has_tp1 sig \<or> sg_tp1 sig \<le> 0) then Some Risky
      else if fee_blocks e sig en then Some Risky
      else None)"

definition entry_refused :: "'j engine_env \<Rightarrow> signal \<Rightarrow> refusal \<Rightarrow> engine \<Rightarrow> engine" where
  "entry_refused e sig r en =
     (case r of Skipped \<Rightarrow> skip en | Risky \<Rightarrow> risk_skip en
      | Unlearned why \<Rightarrow>
          risk_skip (engine_alert e WARN ''RISK'' (''LEARN_SKIP '' @ sg_symbol sig @ '' '' @ why) (sg_symbol sig) en))"

text \<open>Stage 4: size and leverage.\<close>

definition sl_of :: "signal \<Rightarrow> double" where
  "sl_of sig = (if has_sl sig then sg_sl sig else 0)"

definition tp_of :: "signal \<Rightarrow> double" where
  "tp_of sig = (if has_tp1 sig then sg_tp1 sig else 0)"

definition entry_size_req :: "'j engine_env \<Rightarrow> signal \<Rightarrow> engine \<Rightarrow> size_req" where
  "entry_size_req e sig en =
     (let b = en_book en; lev = tg_default_leverage (ee_trading e);
          score = get_best_score (en_scorer en) (sg_symbol sig) (tf_of sig) (get_hold_side sig);
          ctx = get_confidence (compute_context_key (sg_symbol sig) (tf_of sig) (get_hold_side sig)) (en_readiness en);
          conf = (if ce_confidence ctx = 0 then get_confidence (sg_symbol sig) (en_readiness en) else ctx)
      in \<lparr>sq_balance = bk_balance b, sq_symbol = sg_symbol sig, sq_price = sg_price sig, sq_sl_price = sl_of sig,
          sq_leverage = (case score of Some s \<Rightarrow> min lev (ss_max_leverage s) | None \<Rightarrow> lev), sq_score = score,
          sq_dd_pct = (if bk_peak b > 0 then (bk_peak b - bk_balance b) / bk_peak b * lit 100 else 0),
          sq_used_margin = calc_used_margin lev b, sq_conf = ce_size_boost conf\<rparr>)"

definition MIN_NOTIONAL_USDT :: double where
  "MIN_NOTIONAL_USDT = lit (55/10)"

text \<open>The multipliers after the sizer, then the exchange's minimum; quantity and leverage of the entry.\<close>

definition entry_size :: "'j engine_env \<Rightarrow> signal \<Rightarrow> engine \<Rightarrow> (double \<times> int) option" where
  "entry_size e sig en =
     (let sz = calc_size (ee_sizer e) (entry_size_req e sig en);
          dec = Symbol_Learner.evaluate (le_cfg (learn_of e)) (le_now (learn_of e)) (bk_learner (en_book en))
                  (sg_symbol sig) (tf_of sig) (ee_utc_hour e) in
      if sr_usdt sz \<le> 0 \<or> sr_qty sz \<le> 0 then None
      else let tf_mult = (\<lambda>x. case map_of (tg_tf_filters (ee_trading e)) (tf_of sig) of
                              Some f \<Rightarrow> x * fl_size_multiplier f | None \<Rightarrow> x);
               learn_mult = (\<lambda>x. if \<bar>dec_size_multiplier dec - 1\<bar> > lit (1/100) then x * dec_size_multiplier dec else x);
               qty = learn_mult (tf_mult (sr_qty sz)); usdt = learn_mult (tf_mult (sr_usdt sz))
           in Some (if sg_price sig > 0 \<and> usdt < MIN_NOTIONAL_USDT then MIN_NOTIONAL_USDT / sg_price sig else qty,
                    sr_leverage sz))"

definition holds_side :: "string \<Rightarrow> string \<Rightarrow> book \<Rightarrow> bool" where
  "holds_side symb side b = list_ex (\<lambda>kp. mp_symbol (snd kp) = symb \<and> mp_side (snd kp) = side) (bk_positions b)"

definition entry_request :: "signal \<Rightarrow> int \<Rightarrow> engine \<Rightarrow> entry_req" where
  "entry_request sig lev en =
     \<lparr>er_symbol = sg_symbol sig, er_timeframe = tf_of sig, er_price = sg_price sig, er_qty = sg_size sig, er_leverage = lev,
      er_balance = bk_balance (en_book en), er_sl_price = sl_of sig, er_side = get_hold_side sig\<rparr>"

definition entry_position :: "'j engine_env \<Rightarrow> signal \<Rightarrow> string \<Rightarrow> int \<Rightarrow> int \<Rightarrow> bool \<Rightarrow> engine \<Rightarrow> engine" where
  "entry_position e sig tier lev oid is_real =
     on_book (register_position (now_of e) (sg_symbol sig) (tf_of sig) (get_hold_side sig) (sg_price sig) (sg_size sig) lev
       (sl_of sig) (tp_of sig) tier oid (sg_strategy_name sig) is_real)"

text \<open>The stop loss sent with the order: the signal's, else the backup distance from the price.\<close>

definition preset_sl :: "'j engine_env \<Rightarrow> signal \<Rightarrow> double" where
  "preset_sl e sig =
     (let sl = (if isfinite (sl_of sig) then sl_of sig else 0); pct = tg_backup_sl_pct (ee_trading e) in
      if sl \<le> 0 \<and> pct > 0 \<and> sg_price sig > 0
      then (if sg_action sig = ''buy'' then sg_price sig * (1 - pct) else sg_price sig * (1 + pct)) else sl)"

text \<open>One retry, after a network error only.\<close>

definition order_attempts :: "'j engine_env \<Rightarrow> nat \<times> order_response" where
  "order_attempts e =
     (if rs_status (ee_order e 0) = Rejected \<and> rs_error_code (ee_order e 0) = 99999 then (2, ee_order e 1) else (1, ee_order e 0))"

definition place_order :: "'j engine_env \<Rightarrow> signal \<Rightarrow> string \<Rightarrow> int \<Rightarrow> order_request \<Rightarrow> engine \<Rightarrow> engine" where
  "place_order e sig tier lev req en =
     (let (n, resp) = order_attempts e;
          en1 = sent (replicate n (PlaceOrder req (tp_of sig) (preset_sl e sig)))
                  (en\<lparr>en_risk := ((on_order_done \<circ> on_order_placed) ^^ n) (en_risk en)\<rparr>) in
      if rs_status resp = New then
        let en2 = entry_position e sig tier lev (or_client_order_id req) True
                    (en1\<lparr>en_executed := en_executed en1 + 1,
                         en_risk := on_position_opened (sg_symbol sig) (sg_size sig) (get_hold_side sig) (en_risk en1)\<rparr>);
            kind = (if sg_sig_type sig = ReEntry then ''REENTRY'' else ''ENTRY'')
        in save_futures e (engine_alert e INFO ''TRADE'' (kind @ '' '' @ sg_action sig @ '' '' @ sg_symbol sig @ '' sz='' @
             take 8 (fmt_fixed 6 (sg_size sig)) @ '' lev='' @ show_int lev @ ''x'') (sg_symbol sig) en2)
      else reject en1)"

text \<open>Stages 5 and 6: the conflict checks, the portfolio limits and the last validation.\<close>

definition book_entry :: "'j engine_env \<Rightarrow> signal \<Rightarrow> string \<Rightarrow> int \<Rightarrow> engine \<Rightarrow> engine" where
  "book_entry e sig tier lev en =
     (let oid = en_next_oid en; en1 = en\<lparr>en_next_oid := oid + 1\<rparr>; req = to_order_request oid sig in
      if \<not> validate req (en_risk en1) then reject en1
      else let en2 = en1\<lparr>en_shadow := mark_live_equivalent (sg_symbol sig @ '':'' @ tf_of sig @ '':'' @ get_hold_side sig) (en_shadow en1)\<rparr> in
        if paper_entry sig en then entry_position e sig tier lev oid False (en2\<lparr>en_executed := en_executed en2 + 1\<rparr>)
        else place_order e sig tier lev req en2)"

definition admit_entry :: "'j engine_env \<Rightarrow> signal \<Rightarrow> string \<Rightarrow> int \<Rightarrow> engine \<Rightarrow> engine" where
  "admit_entry e sig tier lev en =
     (let side = get_hold_side sig; b = en_book en in
      if holds_side (sg_symbol sig) (if side = ''long'' then ''short'' else ''long'') b then risk_skip en
      else if holds_side (sg_symbol sig) side b then skip en
      else let (dec, rs) = check_entry (ee_risk e) (ee_clock e) (entry_request sig lev en) (bk_positions b) (bk_risk b);
               en1 = on_book (\<lambda>b. b\<lparr>bk_risk := rs\<rparr>) en
           in if \<not> allowed dec then risk_skip en1 else book_entry e sig tier lev en1)"

definition handle_entry :: "'j engine_env \<Rightarrow> signal \<Rightarrow> engine \<Rightarrow> engine" where
  "handle_entry e sig en =
     (if \<not> ee_lock e then skip en
      else case entry_refusal e sig en of
        Some r \<Rightarrow> entry_refused e sig r en
      | None \<Rightarrow>
          (case entry_size e sig en of
             None \<Rightarrow> risk_skip en
           | Some (qty, lev) \<Rightarrow> admit_entry e (sig\<lparr>sg_size := qty\<rparr>) (entry_tier sig en) lev en))"

subsection \<open>Take-profit and stop-loss signals\<close>

text \<open>Result before fees, fee and realised multiple of the planned risk, as the scorer records them.\<close>

definition realized_of :: "managed_position \<Rightarrow> double \<Rightarrow> double \<Rightarrow> double \<Rightarrow> double \<times> double \<times> double" where
  "realized_of p exit qty pnl =
     (let fee = calc_fee exit qty;
          planned = (if mp_sl_price p > 0 \<and> mp_entry_price p > 0 then \<bar>mp_entry_price p - mp_sl_price p\<bar> * qty else 0)
      in (pnl + fee, fee,
          if planned > lit (1/10000) then pnl / planned
          else if mp_entry_price p > 0 then pnl / (mp_entry_price p * qty) else 0))"

definition score_realized :: "string \<Rightarrow> managed_position \<Rightarrow> string \<Rightarrow> double \<times> double \<times> double \<Rightarrow> engine \<Rightarrow> engine" where
  "score_realized symb p side g en =
     (let (gross, fee, rr) = g in
      en\<lparr>en_scorer := record_realized_trade symb (mp_timeframe p) side gross fee rr (en_scorer en)\<rparr>)"

text \<open>\<open>record_close\<close> on the engine's book; the result comes beside the state.\<close>

definition close_on_book :: "'j engine_env \<Rightarrow> managed_position \<Rightarrow> double \<Rightarrow> string \<Rightarrow> double \<Rightarrow> engine \<Rightarrow> double \<times> engine" where
  "close_on_book e p exit reason qty en =
     (let (pnl, b) = record_close (learn_of e) p exit reason qty (en_book en) in (pnl, en\<lparr>en_book := b\<rparr>))"

definition signal_side :: "signal \<Rightarrow> string" where
  "signal_side sig = (if sg_signal_direction sig = ''bull'' then ''long'' else ''short'')"

definition tp_ratio :: "signal \<Rightarrow> double" where
  "tp_ratio sig = (if sg_tp_level sig = ''TP1'' then lit (33/100) else if sg_tp_level sig = ''TP2'' then lit (50/100) else 1)"

definition closes_all :: "signal \<Rightarrow> bool" where
  "closes_all sig \<longleftrightarrow> sg_tp_level sig = ''TP3'' \<or> tp_ratio sig \<ge> lit (99/100)"

text \<open>The book-keeping of a take-profit: \<open>real\<close> positions also feed the scorer.\<close>

definition book_tp :: "'j engine_env \<Rightarrow> signal \<Rightarrow> string \<Rightarrow> managed_position \<Rightarrow> double \<Rightarrow> bool \<Rightarrow> engine \<Rightarrow> engine" where
  "book_tp e sig key p qty is_real en =
     (let exit = (if sg_price sig > 0 then sg_price sig else mp_entry_price p);
          reason = (if closes_all sig then sg_tp_level sig else sg_tp_level sig @ ''_PARTIAL'');
          (pnl, en1) = close_on_book e p exit reason qty en;
          en2 = (if is_real then score_realized (sg_symbol sig) p (signal_side sig) (realized_of p exit qty pnl) en1 else en1);
          text = (if is_real then [] else ''[SHADOW] '') @ sg_tp_level sig @ '' '' @ sg_symbol sig @ '' PnL='' @ pnl_text pnl
      in save_futures e
           (if closes_all sig
            then on_book (\<lambda>b. alert_trade (ee_utc e) ''info'' text (sg_symbol sig) (snd (remove key b))) en2
            else on_book (reduce_quantity key qty) en2))"

definition handle_tp :: "'j engine_env \<Rightarrow> signal \<Rightarrow> engine \<Rightarrow> engine" where
  "handle_tp e sig en =
     (let (key, quantity) = Position_Manager.find_by_symbol_side (sg_symbol sig) (signal_side sig) (en_book en); qty = quantity * tp_ratio sig in
      if \<not> ee_lock e then en
      else if key = [] then en
      else case get key (en_book en) of
        None \<Rightarrow> en
      | Some p \<Rightarrow>
          if \<not> mp_is_real p then book_tp e sig key p qty False en
          else let (n, ok) = attempts (\<lambda>i. rs_status (ee_partial e i) = New) 3 0;
                   en1 = sent (replicate n (ClosePartial (sg_symbol sig) qty (signal_side sig))) en
               in if ok then book_tp e sig key p qty True en1
                  else engine_alert e WARN ''TRADE'' (''TP close failed '' @ sg_tp_level sig @ '' '' @ sg_symbol sig) (sg_symbol sig) en1)"

definition em_dash :: string where
  "em_dash = [CHR 0xE2, CHR 0x80, CHR 0x94]"

definition book_sl :: "'j engine_env \<Rightarrow> signal \<Rightarrow> string \<Rightarrow> managed_position \<Rightarrow> bool \<Rightarrow> engine \<Rightarrow> engine" where
  "book_sl e sig key p is_real en =
     (let exit = (if sg_price sig > 0 then sg_price sig else mp_sl_price p);
          (pnl, en1) = close_on_book e p exit ''SL'' 0 en;
          en2 = (if is_real then score_realized (sg_symbol sig) p (signal_side sig) (realized_of p exit (mp_quantity p) pnl) en1 else en1);
          text = (if is_real then [] else ''[SHADOW] '') @ ''SL '' @ sg_symbol sig @ '' PnL='' @ pnl_text pnl
      in on_book (alert_trade (ee_utc e) ''warn'' text (sg_symbol sig)) (save_futures e (on_book (\<lambda>b. snd (remove key b)) en2)))"

definition handle_sl :: "'j engine_env \<Rightarrow> signal \<Rightarrow> engine \<Rightarrow> engine" where
  "handle_sl e sig en =
     (let (key, quantity) = Position_Manager.find_by_symbol_side (sg_symbol sig) (signal_side sig) (en_book en) in
      if \<not> ee_lock e then en
      else if key = [] then en
      else case get key (en_book en) of
        None \<Rightarrow> en
      | Some p \<Rightarrow>
          if \<not> mp_is_real p then book_sl e sig key p False en
          else let (n, ok) = attempts (ee_flash e) 3 0;
                   en1 = sent (replicate n (FlashClose (sg_symbol sig) (signal_side sig))) en
               in if ok then book_sl e sig key p True en1
                  else engine_alert e CRITICAL ''TRADE'' (''SL CLOSE FAILED '' @ sg_symbol sig @ '' '' @ signal_side sig @
                         '' '' @ em_dash @ '' manual intervention needed!'') (sg_symbol sig) en1)"

subsection \<open>Spot signals\<close>

text \<open>The spot book is separate and on paper only.\<close>

definition handle_spot_entry :: "'j engine_env \<Rightarrow> signal \<Rightarrow> engine \<Rightarrow> engine" where
  "handle_spot_entry e sig en =
     (let tf = tf_of sig;
          grade = get_grade (sg_symbol sig @ '':'' @ tf @ '':'' @ sg_exchange sig) (en_spot_shadow en);
          qty = (if sg_price sig > 0 then lit 5000 / sg_price sig else 0) in
      if sg_action sig = ''sell'' then skip en
      else if spot_quote_currency (sg_symbol sig) \<noteq> ''KRW'' then skip en
      else if \<not> ee_lock e then skip en
      else if grade = ''F'' \<or> grade = ''D'' then risk_skip en
      else if qty \<le> 0 then skip en
      else let oid = en_next_oid en; en1 = en\<lparr>en_next_oid := oid + 1\<rparr> in
        if list_ex (\<lambda>kp. mp_symbol (snd kp) = sg_symbol sig \<and> mp_exchange (snd kp) = sg_exchange sig \<and> mp_side (snd kp) = ''long'')
             (en_spot_positions en1)
        then skip en1
        else save_spot e (en1\<lparr>en_spot_positions := AList.update (position_key (sg_symbol sig) tf oid)
               (ManagedPosition\<lparr>mp_symbol := sg_symbol sig, mp_timeframe := tf, mp_side := ''long'', mp_entry_price := sg_price sig,
                  mp_quantity := qty, mp_leverage := 1, mp_sl_price := sl_of sig, mp_tp1_price := tp_of sig, mp_tier := ''C'',
                  mp_strategy := sg_strategy_name sig, mp_opened_at := now_of e, mp_is_real := False,
                  mp_exchange := sg_exchange sig, mp_market_type := ''spot''\<rparr>) (en_spot_positions en1),
               en_spot_balance := en_spot_balance en1 - lit 5000\<rparr>))"

definition spot_match :: "signal \<Rightarrow> engine \<Rightarrow> (string \<times> managed_position) option" where
  "spot_match sig en =
     find (\<lambda>kp. mp_symbol (snd kp) = sg_symbol sig \<and> mp_exchange (snd kp) = sg_exchange sig \<and>
                mp_market_type (snd kp) = ''spot'' \<and> mp_side (snd kp) = ''long'') (en_spot_positions en)"

text \<open>A sale of \<open>qty\<close> at \<open>exit\<close>: the trade goes to the history, the proceeds to the balance.\<close>

definition spot_sale :: "signal \<Rightarrow> managed_position \<Rightarrow> double \<Rightarrow> double \<Rightarrow> string \<Rightarrow> engine \<Rightarrow> engine" where
  "spot_sale sig p exit qty reason en =
     (let pnl_raw = (exit - mp_entry_price p) * qty; fee = exit * qty * lit (1/1000);
          tr = TradeRecord\<lparr>tr_symbol := mp_symbol p, tr_timeframe := mp_timeframe p, tr_exit_reason := reason,
                 tr_entry_price := mp_entry_price p, tr_exit_price := exit, tr_quantity := qty, tr_pnl := pnl_raw - fee,
                 tr_fee := fee, tr_strategy := mp_strategy p, tr_exchange := sg_exchange sig, tr_market_type := ''spot''\<rparr>;
          bal = en_spot_balance en + exit * qty
      in en\<lparr>en_spot_trades := en_spot_trades en @ [tr], en_spot_balance := bal,
            en_spot_peak := (if bal > en_spot_peak en then bal else en_spot_peak en)\<rparr>)"

definition handle_spot_tp :: "'j engine_env \<Rightarrow> signal \<Rightarrow> engine \<Rightarrow> engine" where
  "handle_spot_tp e sig en =
     (if \<not> ee_lock e then en
      else case spot_match sig en of
        None \<Rightarrow> en
      | Some (key, _) \<Rightarrow>
          (case map_of (en_spot_positions en) key of
             None \<Rightarrow> en
           | Some p \<Rightarrow>
               let qty = mp_quantity p * tp_ratio sig;
                   exit = (if sg_price sig > 0 then sg_price sig else mp_entry_price p);
                   en1 = spot_sale sig p exit qty (''SPOT_'' @ sg_tp_level sig) en;
                   rest = mp_quantity p - qty
               in save_spot e (en1\<lparr>en_spot_positions :=
                    (if closes_all sig then AList.delete key (en_spot_positions en1)
                     else if rest \<le> 0 then AList.delete key (en_spot_positions en1)
                     else AList.update key (p\<lparr>mp_quantity := rest\<rparr>) (en_spot_positions en1))\<rparr>)))"

definition handle_spot_sl :: "'j engine_env \<Rightarrow> signal \<Rightarrow> engine \<Rightarrow> engine" where
  "handle_spot_sl e sig en =
     (if \<not> ee_lock e then en
      else case spot_match sig en of
        None \<Rightarrow> en
      | Some (key, _) \<Rightarrow>
          (case map_of (en_spot_positions en) key of
             None \<Rightarrow> en
           | Some p \<Rightarrow>
               let exit = (if sg_price sig > 0 then sg_price sig
                           else if mp_sl_price p > 0 then mp_sl_price p else mp_entry_price p);
                   en1 = spot_sale sig p exit (mp_quantity p) ''SPOT_SL'' en
               in save_spot e (en1\<lparr>en_spot_positions := AList.delete key (en_spot_positions en1)\<rparr>)))"

definition handle_spot_signal :: "'j engine_env \<Rightarrow> signal \<Rightarrow> engine \<Rightarrow> engine" where
  "handle_spot_signal e sig en =
     (case sg_sig_type sig of
        Entry \<Rightarrow> handle_spot_entry e sig en | ReEntry \<Rightarrow> handle_spot_entry e sig en
      | TP \<Rightarrow> handle_spot_tp e sig en | SL \<Rightarrow> handle_spot_sl e sig en | Unknown \<Rightarrow> en)"

subsection \<open>A signal from the queue\<close>

text \<open>The shadow tracker works on the learner of the book.\<close>

definition track_shadows :: "'j engine_env \<Rightarrow> signal \<Rightarrow> engine \<Rightarrow> engine" where
  "track_shadows e sig en =
     (let sh = Shadow_Tracker.track (ee_shadow e) sig ((en_shadow en)\<lparr>sh_learner := bk_learner (en_book en)\<rparr>)
      in on_book (\<lambda>b. b\<lparr>bk_learner := sh_learner sh\<rparr>)
           (en\<lparr>en_shadow := sh, en_spot_shadow := Spot_Shadow.track (ee_shadow e) sig (en_spot_shadow en)\<rparr>))"

definition max_age_ms :: "signal \<Rightarrow> int" where
  "max_age_ms sig =
     (let m = parse_timeframe_minutes (sg_timeframe sig) in
      if m \<le> 1 then 10000 else if m \<le> 5 then 30000 else if m \<le> 15 then 60000 else 120000)"

definition is_stale :: "int \<Rightarrow> signal \<Rightarrow> bool" where
  "is_stale now sig \<longleftrightarrow> dtrunc (dint (now - sg_received_at sig) / lit 1000000) > max_age_ms sig"

definition FP_TTL_NS :: int where
  "FP_TTL_NS = 120000000000"

text \<open>The eviction and the overflow guard that precede every look-up.\<close>

definition evict :: "int \<Rightarrow> (64 word \<times> int) list \<Rightarrow> (64 word \<times> int) list" where
  "evict now m =
     (let m1 = (if length m > 100 then filter (\<lambda>kt. \<not> now - snd kt > FP_TTL_NS) m else m)
      in if length m1 > 50000 then [] else m1)"

definition dispatch :: "'j engine_env \<Rightarrow> signal \<Rightarrow> engine \<Rightarrow> engine" where
  "dispatch e sig en =
     (if sg_market_type sig = ''spot'' then handle_spot_signal e sig en
      else case sg_sig_type sig of
        Entry \<Rightarrow> handle_entry e sig en | ReEntry \<Rightarrow> handle_entry e sig en
      | TP \<Rightarrow> handle_tp e sig en | SL \<Rightarrow> handle_sl e sig en | Unknown \<Rightarrow> en)"

definition process_signal :: "'j engine_env \<Rightarrow> signal \<Rightarrow> engine \<Rightarrow> engine" where
  "process_signal e sig en0 =
     (let en = track_shadows e sig en0; now = steady_ns (ee_clock e); fp = fingerprint (ee_hash_str e) (ee_hash_int e) sig;
          m = evict now (en_fingerprints en); allowed = tg_allowed_symbols (ee_trading e) in
      if is_stale now sig then skip en
      else if map_of m fp \<noteq> None then skip (en\<lparr>en_fingerprints := m\<rparr>)
      else let en1 = en\<lparr>en_fingerprints := AList.update fp now m\<rparr> in
        if \<not> is_valid sig then skip en1
        else if sg_market_type sig \<noteq> ''spot'' \<and> allowed \<noteq> [] \<and> sg_symbol sig \<notin> set allowed then skip en1
        else dispatch e sig en1)"

end
