(* ===== verification/Engine_Cycle.thy ===== *)
theory Engine_Cycle
  imports Execution_Engine
begin

text \<open>
  \<open>execution/execution_engine.hpp\<close>, everything besides the handling of a signal: construction, start
  and stop, the periodic tasks with the switch between paper and live trading, the callbacks of the
  exchange's stream, the emergency close, the import of trades, and the reports.  Heartbeats and
  the watchdog only write the log and are left out.
\<close>

definition now_sec :: "'j engine_env \<Rightarrow> int" where
  "now_sec e = steady_ns (ee_clock e) div 1000000000"

definition wall_sec :: "'j engine_env \<Rightarrow> int" where
  "wall_sec e = now_of e div 1000000000"

subsection \<open>Construction, start and stop\<close>

definition fresh_book :: "risk_state \<Rightarrow> learner \<Rightarrow> alert_manager \<Rightarrow> book" where
  "fresh_book rs lrn am =
     \<lparr>bk_balance = lit 100, bk_peak = lit 100, bk_positions = [], bk_trades = [], bk_risk = rs, bk_learner = lrn,
      bk_alerts = am\<rparr>"

definition ExecutionEngine ::
    "'j engine_env \<Rightarrow> risk_manager \<Rightarrow> scorer_state \<Rightarrow> risk_state \<Rightarrow> learner \<Rightarrow> alert_manager \<Rightarrow> shadow \<Rightarrow> spot_shadow \<Rightarrow>
     readiness \<Rightarrow> fs \<times> int \<Rightarrow> fs \<times> int \<Rightarrow> engine" where
  "ExecutionEngine e rm sco rs lrn am sh spot rn store spot_store =
     \<lparr>en_book = fresh_book rs lrn am, en_scorer = sco, en_risk = rm, en_shadow = sh, en_spot_shadow = spot,
      en_readiness = rn, en_eligible = [], en_auto_live_active = False, en_shadow_mode = tg_shadow_mode (ee_trading e),
      en_next_oid = now_of e div 1000000 * 1000, en_executed = 0, en_rejected = 0, en_skipped = 0, en_risk_skips = 0,
      en_fingerprints = [], en_equity = 0, en_unrealized = 0, en_store = store, en_spot_balance = lit 1000000,
      en_spot_peak = lit 1000000, en_spot_positions = [], en_spot_trades = [], en_spot_store = spot_store, en_calls = [],
      en_running = False, en_last_sync_ts = 0, en_last_balance_sync = 0\<rparr>"

text \<open>\<open>start\<close>: the saved trades are also fed to the learner, which has loaded a state of its own.\<close>

definition relearn :: "'j engine_env \<Rightarrow> trade_record list \<Rightarrow> learner \<Rightarrow> learner" where
  "relearn e ts = fold (Symbol_Learner.record_trade (le_cfg (learn_of e)) (le_hour (learn_of e)) (le_now (learn_of e))) ts"

definition rescore :: "'j engine_env \<Rightarrow> engine \<Rightarrow> engine" where
  "rescore e en =
     en\<lparr>en_scorer := rescore_all (ee_scorer e) (ee_utc e) (now_of e) (bk_trades (en_book en)) (en_scorer en)\<rparr>"

definition restore_futures :: "'j engine_env \<Rightarrow> engine \<Rightarrow> engine" where
  "restore_futures e en =
     (let st = State_Persistence.load_state (ee_api e) (ee_state_dir e) (fst (en_store en)) in
      if \<not> ls_valid st then en
      else let en1 = on_book (\<lambda>b. b\<lparr>bk_balance := ls_balance st, bk_peak := ls_peak_balance st,
                       bk_positions := ls_positions st, bk_trades := ls_trades st,
                       bk_risk := Portfolio_Risk.update_balance (ls_balance st) (bk_risk b)\<rparr>)
                     (en\<lparr>en_executed := ls_orders_executed st, en_next_oid := now_of e div 1000000 * 1000\<rparr>)
           in if ls_trades st = [] then en1
              else on_book (\<lambda>b. b\<lparr>bk_learner := relearn e (bk_trades b) (bk_learner b)\<rparr>) (rescore e en1))"

definition restore_spot :: "'j engine_env \<Rightarrow> engine \<Rightarrow> engine" where
  "restore_spot e en =
     (let st = State_Persistence.load_state (ee_api e) ''data/spot'' (fst (en_spot_store en)) in
      if \<not> ls_valid st then en
      else en\<lparr>en_spot_balance := ls_balance st, en_spot_peak := ls_peak_balance st, en_spot_trades := ls_trades st,
              en_spot_positions := filter (\<lambda>kp. spot_quote_currency (mp_symbol (snd kp)) = ''KRW'') (ls_positions st)\<rparr>)"

definition sync :: "'j engine_env \<Rightarrow> engine \<Rightarrow> engine" where
  "sync e en =
     (let (b, disk) = sync_positions_with_exchange (ee_api e) (he_writer (ee_shadow e)) (ee_state_dir e) (ee_utc e)
                        (steady_ns (ee_clock e)) (now_of e) True (en_executed en) (ee_positions e) (en_book en, en_store en)
      in en\<lparr>en_book := b, en_store := disk\<rparr>)"

definition init_leverage :: "'j engine_env \<Rightarrow> engine \<Rightarrow> engine" where
  "init_leverage e en =
     (let (r, b) = fetch_real_balance (ee_api e) (ee_account e) (en_book en);
          en1 = en\<lparr>en_book := b\<rparr>;
          en2 = (if br_ok r
                 then on_book (\<lambda>b. if br_available r > 0 then b\<lparr>bk_balance := br_available r\<rparr> else b)
                   (en1\<lparr>en_equity := (if br_equity r > 0 then br_equity r else en_equity en1),
                        en_unrealized := br_unrealized r\<rparr>)
                 else en1);
          cfg = ee_trading e
      in sent (map (\<lambda>kv. SetLeverage (fst kv) (snd kv)) (tg_symbol_leverages cfg) @
               map (\<lambda>s. SetLeverage s (tg_default_leverage cfg))
                 (filter (\<lambda>s. map_of (tg_symbol_leverages cfg) s = None) (tg_allowed_symbols cfg)))
           (sync e en2))"

definition start :: "'j engine_env \<Rightarrow> engine \<Rightarrow> engine" where
  "start e en0 =
     (let en = on_book (\<lambda>b. b\<lparr>bk_risk := set_shadow_mode (en_shadow_mode en0) (bk_risk b)\<rparr>)
                 ((restore_spot e (restore_futures e en0))\<lparr>en_running := True\<rparr>)
      in if \<not> en_shadow_mode en then init_leverage e en else en)"

definition stop :: "'j engine_env \<Rightarrow> engine \<Rightarrow> engine" where
  "stop e en = save_spot e (save_futures e (en\<lparr>en_running := False\<rparr>))"

subsection \<open>The exchange's stream\<close>

record ws_account =
  wa_available :: double
  wa_equity :: double
  wa_unrealized_pnl :: double

record ws_position =
  wp_symbol :: string
  wp_hold_side :: string
  wp_size :: double
  wp_avg_price :: double
  wp_realized_pnl :: double

definition on_account :: "'j engine_env \<Rightarrow> ws_account \<Rightarrow> engine \<Rightarrow> engine" where
  "on_account e upd en =
     (let en1 = (if wa_available upd > 0
                 then on_book (\<lambda>b. b\<lparr>bk_balance := wa_available upd,
                          bk_peak := (if wa_equity upd > bk_peak b then wa_equity upd else bk_peak b),
                          bk_risk := Portfolio_Risk.update_balance (wa_available upd) (bk_risk b)\<rparr>)
                        (en\<lparr>en_equity := wa_equity upd, en_unrealized := wa_unrealized_pnl upd\<rparr>)
                 else en)
      in en1\<lparr>en_last_balance_sync := wall_sec e\<rparr>)"

definition on_position :: "'j engine_env \<Rightarrow> ws_position \<Rightarrow> engine \<Rightarrow> engine" where
  "on_position e upd en =
     (if \<not> wp_size upd \<le> 0 then en
      else case find_and_prepare_ws_close (wp_symbol upd) (wp_hold_side upd) (en_book en) of
        (None, b) \<Rightarrow> en\<lparr>en_book := b\<rparr>
      | (Some (key, p), b) \<Rightarrow>
          let exit = (if wp_avg_price upd > 0 then wp_avg_price upd else mp_entry_price p);
              (pnl, b1) = record_ws_close (learn_of e) p exit (wp_realized_pnl upd) b;
              en1 = en\<lparr>en_book := b1,
                       en_scorer := record_context_trade (ee_scorer e) (ee_utc e) (wp_symbol upd) (mp_timeframe p)
                                      (wp_hold_side upd) pnl (pnl > 0) (en_scorer en)\<rparr>;
              en2 = score_realized (wp_symbol upd) p (wp_hold_side upd) (realized_of p exit (mp_quantity p) pnl) en1
          in save_futures e (on_book (alert_trade (ee_utc e) ''info''
               (''WS close '' @ wp_symbol upd @ '' PnL='' @ pnl_text pnl) (wp_symbol upd)) en2))"

subsection \<open>Periodic tasks and the switch to live trading\<close>

definition go_live :: "'j engine_env \<Rightarrow> bool \<Rightarrow> engine \<Rightarrow> engine" where
  "go_live e can en =
     (if can \<and> en_shadow_mode en \<and> \<not> en_auto_live_active en
      then init_leverage e (on_book (\<lambda>b. b\<lparr>bk_risk := set_shadow_mode False (bk_risk b)\<rparr>)
             (en\<lparr>en_auto_live_active := True, en_shadow_mode := False\<rparr>))
      else en)"

definition leave_live :: "bool \<Rightarrow> engine \<Rightarrow> engine" where
  "leave_live can en =
     (if en_auto_live_active en \<and> \<not> can
      then on_book (\<lambda>b. b\<lparr>bk_risk := set_shadow_mode True (bk_risk b)\<rparr>)
             (en\<lparr>en_auto_live_active := False, en_shadow_mode := True\<rparr>)
      else en)"

text \<open>The new set of eligible keys, then the switch; an exception of the refresh leaves both.\<close>

definition check_auto_live :: "'j engine_env \<Rightarrow> engine \<Rightarrow> engine" where
  "check_auto_live e en =
     (let w = he_writer (ee_shadow e); rows = map (row_json w); tf_rows = map (tf_row_json w);
          (r, eligible, rn) = refresh_eligible (ee_api e) w ''data'' (ee_readiness e)
             (rows (Shadow_Tracker.get_symbol_report (en_shadow en))) (rows (Spot_Shadow.get_symbol_report (en_spot_shadow en)))
             (en_readiness en) in
      case r of
        Inl x \<Rightarrow> en\<lparr>en_readiness := rn\<rparr>
      | Inr ps \<Rightarrow>
          let (err, eligible', rn') = enrich_eligible_with_context (ee_api e) (ee_readiness e)
                (tf_rows (Shadow_Tracker.get_symbol_tf_report (en_shadow en)))
                (tf_rows (Spot_Shadow.get_symbol_tf_report (en_spot_shadow en))) eligible rn
          in leave_live (ps_can_go_live ps)
               (go_live e (ps_can_go_live ps) (en\<lparr>en_readiness := rn', en_eligible := eligible'\<rparr>)))"

definition SYNC_INTERVAL_SEC :: int where
  "SYNC_INTERVAL_SEC = 60"

definition daily_reset :: "'j engine_env \<Rightarrow> engine \<Rightarrow> engine" where
  "daily_reset e en =
     (if needs_daily_reset (steady_ns (ee_clock e)) (en_risk en)
      then en\<lparr>en_risk := reset_daily (steady_ns (ee_clock e)) (en_risk en), en_fingerprints := []\<rparr> else en)"

definition autosave :: "'j engine_env \<Rightarrow> engine \<Rightarrow> engine" where
  "autosave e en =
     (let en1 = (if needs_save (steady_ns (ee_clock e)) (snd (en_store en)) 30 then save_futures e en else en)
      in if needs_save (steady_ns (ee_clock e)) (snd (en_spot_store en1)) 30 then save_spot e en1 else en1)"

text \<open>The minute's synchronisation: positions, balance, and the trackers' files.\<close>

definition refresh :: "'j engine_env \<Rightarrow> engine \<Rightarrow> engine" where
  "refresh e en =
     (let en1 = sync e en;
          (r, b) = fetch_real_balance (ee_api e) (ee_account e) (en_book en1);
          en2 = en1\<lparr>en_book := b\<rparr>;
          en3 = (if br_ok r then en2\<lparr>en_equity := br_equity r, en_unrealized := br_unrealized r\<rparr> else en2)
      in en3\<lparr>en_last_balance_sync := wall_sec e,
             en_shadow := Shadow_Tracker.save_state_locked (ee_shadow e) (en_shadow en3),
             en_spot_shadow := Spot_Shadow.save_state (ee_shadow e) (en_spot_shadow en3)\<rparr>)"

definition periodic_tasks :: "'j engine_env \<Rightarrow> engine \<Rightarrow> engine" where
  "periodic_tasks e en0 =
     (let en1 = daily_reset e en0;
          en2 = (if needs_rescore (ee_scorer e) (now_of e) (en_scorer en1) \<and> bk_trades (en_book en1) \<noteq> []
                 then rescore e en1 else en1);
          en3 = autosave e en2
      in if now_sec e - en_last_sync_ts en3 \<ge> SYNC_INTERVAL_SEC then
           let en4 = refresh e (en3\<lparr>en_last_sync_ts := now_sec e\<rparr>)
           in if tg_auto_live (ee_trading e) then check_auto_live e en4 else en4
         else en3)"

text \<open>One round of a worker: a signal or a timeout; only the first worker does the periodic tasks.\<close>

definition worker_round :: "'j engine_env \<Rightarrow> int \<Rightarrow> signal option \<Rightarrow> engine \<Rightarrow> engine" where
  "worker_round e wid sig_opt en =
     (case sig_opt of
        None \<Rightarrow> if wid = 0 then periodic_tasks e en else en
      | Some sig \<Rightarrow> process_signal e sig en)"

subsection \<open>Emergency close and import\<close>

record close_result =
  cr_closed :: int
  cr_failed :: int
  cr_details :: "(string \<times> string \<times> string) list"

definition close_one :: "'j engine_env \<Rightarrow> string \<times> string \<Rightarrow> close_result \<times> engine \<Rightarrow> close_result \<times> engine" where
  "close_one e sd st =
     (let (symb, side) = sd; (cr, en) = st; en1 = sent [FlashClose symb side] en in
      if ee_close e symb side then
        (cr\<lparr>cr_closed := cr_closed cr + 1, cr_details := cr_details cr @ [(symb, side, ''closed'')]\<rparr>,
         case find (matches symb side) (bk_positions (en_book en1)) of
           None \<Rightarrow> en1
         | Some (k, p) \<Rightarrow>
             on_book (\<lambda>b. b\<lparr>bk_positions := AList.delete k (bk_positions b)\<rparr>)
               (snd (close_on_book e p (mp_entry_price p) ''MANUAL_CLOSE_ALL'' 0 en1)))
      else (cr\<lparr>cr_failed := cr_failed cr + 1, cr_details := cr_details cr @ [(symb, side, ''failed'')]\<rparr>, en1))"

definition close_all_positions :: "'j engine_env \<Rightarrow> engine \<Rightarrow> close_result \<times> engine" where
  "close_all_positions e en =
     (let (cr, en1) = fold (close_one e) (map (\<lambda>kp. (mp_symbol (snd kp), mp_side (snd kp))) (bk_positions (en_book en)))
                        (\<lparr>cr_closed = 0, cr_failed = 0, cr_details = []\<rparr>, en)
      in (cr, save_futures e en1))"

definition is_duplicate :: "trade_record list \<Rightarrow> trade_record \<Rightarrow> bool" where
  "is_duplicate ts ext =
     list_ex (\<lambda>t. tr_symbol t = tr_symbol ext \<and> \<bar>tr_pnl t - tr_pnl ext\<bar> < lit (1/100000000) \<and>
                  \<bar>tr_entry_price t - tr_entry_price ext\<bar> < lit (1/100000000) \<and>
                  \<bar>tr_exit_price t - tr_exit_price ext\<bar> < lit (1/100000000)) ts"

definition import_one :: "'j engine_env \<Rightarrow> trade_record \<Rightarrow> int \<times> book \<Rightarrow> int \<times> book" where
  "import_one e ext st =
     (let (n, b) = st in
      if tr_symbol ext = [] \<or> is_duplicate (bk_trades b) ext then (n, b)
      else (n + 1, b\<lparr>bk_trades := bk_trades b @ [ext], bk_learner := relearn e [ext] (bk_learner b)\<rparr>))"

definition import_trades :: "'j engine_env \<Rightarrow> trade_record list \<Rightarrow> engine \<Rightarrow> int \<times> engine" where
  "import_trades e external en =
     (let (n, b) = fold (import_one e) external (0, en_book en); en1 = en\<lparr>en_book := b\<rparr>
      in (n, if n > 0 then save_futures e (rescore e en1) else en1))"

subsection \<open>Protective orders\<close>

text \<open>\<open>set_sfx_tpsl\<close> (no caller is left in the class): an exception of the client counts as a failed attempt.\<close>

definition tpsl_attempts :: "'j engine_env \<Rightarrow> string \<Rightarrow> nat \<times> bool" where
  "tpsl_attempts e kind = attempts (\<lambda>i. ecatch (ee_tpsl e kind i) False) 3 0"

definition emergency_close :: "'j engine_env \<Rightarrow> signal \<Rightarrow> engine \<Rightarrow> engine" where
  "emergency_close e sig en =
     (let side = get_hold_side sig;
          (n, closed) = attempts (ee_flash e) 3 0;
          en1 = sent (replicate n (FlashClose (sg_symbol sig) side)) en
      in if \<not> closed then
           engine_alert e CRITICAL ''EMERGENCY'' (''UNPROTECTED POSITION '' @ sg_symbol sig @ '' '' @ side @ '' '' @ em_dash @
             '' ALL close attempts failed! Manual intervention required!'') (sg_symbol sig) en1
         else
           save_futures e
             (case find_and_prepare_ws_close (sg_symbol sig) side (en_book en1) of
                (None, b) \<Rightarrow> en1\<lparr>en_book := b\<rparr>
              | (Some (key, p), b) \<Rightarrow>
                  let (pnl, en2) = close_on_book e p (sg_price sig) ''EMERGENCY_CLOSE_NO_SL'' 0 (en1\<lparr>en_book := b\<rparr>)
                  in on_book (alert_trade (ee_utc e) ''critical''
                       (''EMERGENCY CLOSE '' @ sg_symbol sig @ '' PnL='' @ pnl_text pnl) (sg_symbol sig)) en2))"

definition set_sfx_tpsl :: "'j engine_env \<Rightarrow> signal \<Rightarrow> engine \<Rightarrow> engine" where
  "set_sfx_tpsl e sig en =
     (let side = get_hold_side sig;
          (ntp, tp_ok) = (if has_tp1 sig then tpsl_attempts e ''profit_plan'' else (0, True));
          (nsl, sl_ok) = (if has_sl sig then tpsl_attempts e ''loss_plan'' else (0, True));
          en1 = sent (replicate ntp (PlaceTpsl (sg_symbol sig) ''profit_plan'' (sg_tp1 sig) (sg_size sig) side) @
                      replicate nsl (PlaceTpsl (sg_symbol sig) ''loss_plan'' (sg_sl sig) (sg_size sig) side)) en
      in if \<not> sl_ok then emergency_close e sig en1 else en1)"

subsection \<open>Reports\<close>

record engine_stats =
  es_total_trades :: int
  es_wins :: int
  es_losses :: int
  es_win_rate :: double
  es_total_pnl :: double
  es_balance :: double
  es_peak_balance :: double
  es_equity :: double
  es_unrealized_pnl :: double
  es_open_positions :: int
  es_orders_executed :: int
  es_risk_skips :: int
  es_shadow_mode :: bool
  es_last_balance_sync :: int

definition get_stats :: "engine \<Rightarrow> engine_stats" where
  "get_stats en =
     (let b = en_book en; ts = bk_trades b; n = int (length ts); w = wins_of ts in
      \<lparr>es_total_trades = n, es_wins = w, es_losses = n - w, es_win_rate = pct2 w n,
       es_total_pnl = round_to 4 (foldl (+) 0 (map tr_pnl ts)), es_balance = round_to 2 (bk_balance b),
       es_peak_balance = round_to 2 (bk_peak b), es_equity = round_to 2 (en_equity en),
       es_unrealized_pnl = round_to 4 (en_unrealized en), es_open_positions = int (length (bk_positions b)),
       es_orders_executed = en_executed en, es_risk_skips = en_risk_skips en, es_shadow_mode = en_shadow_mode en,
       es_last_balance_sync = en_last_balance_sync en\<rparr>)"

record engine_spot_stats =
  sp_open_positions :: int
  sp_total_trades :: int
  sp_wins :: int
  sp_losses :: int
  sp_win_rate :: double
  sp_total_pnl_krw :: double
  sp_balance_krw :: double
  sp_peak_balance_krw :: double
  sp_unique_symbols :: int

definition get_spot_stats :: "engine \<Rightarrow> engine_spot_stats" where
  "get_spot_stats en =
     (let ts = en_spot_trades en; n = int (length ts); w = wins_of ts in
      \<lparr>sp_open_positions = int (length (en_spot_positions en)), sp_total_trades = n, sp_wins = w, sp_losses = n - w,
       sp_win_rate = pct2 w n, sp_total_pnl_krw = round_to 2 (foldl (+) 0 (map tr_pnl ts)),
       sp_balance_krw = round_to 2 (en_spot_balance en), sp_peak_balance_krw = round_to 2 (en_spot_peak en),
       sp_unique_symbols = int (card (set (map (mp_symbol \<circ> snd) (en_spot_positions en) @ map tr_symbol ts)))\<rparr>)"

definition portfolio_state :: "'j engine_env \<Rightarrow> engine \<Rightarrow> portfolio_state" where
  "portfolio_state e en =
     (let b = en_book en in get_state (ee_risk e) (bk_balance b) (bk_positions b) (bk_peak b) (bk_risk b))"

text \<open>The pipeline's report with the details per timeframe and the state of the switch.\<close>

record pipeline_view =
  pv_report :: readiness_report
  pv_futures_by_tf :: "report_row list"
  pv_spot_by_tf :: "report_row list"
  pv_enabled :: bool
  pv_active :: bool
  pv_shadow_mode :: bool
  pv_eligible :: "string list"

definition get_readiness_json :: "'j engine_env \<Rightarrow> engine \<Rightarrow> exn + pipeline_view" where
  "get_readiness_json e en =
     (let rows = map (row_json (he_writer (ee_shadow e))) in
      ebind (Live_Readiness.get_readiness_json (ee_api e) (ee_readiness e)
               (rows (Shadow_Tracker.get_symbol_report (en_shadow en))) (rows (Spot_Shadow.get_symbol_report (en_spot_shadow en)))
               (en_readiness en)) (\<lambda>rp.
      Inr \<lparr>pv_report = rp, pv_futures_by_tf = Shadow_Tracker.get_symbol_tf_report (en_shadow en),
           pv_spot_by_tf = Spot_Shadow.get_symbol_tf_report (en_spot_shadow en), pv_enabled = tg_auto_live (ee_trading e),
           pv_active = en_auto_live_active en, pv_shadow_mode = en_shadow_mode en, pv_eligible = en_eligible en\<rparr>))"

end
