(* ===== verification/Engine_Desk.thy ===== *)
theory Engine_Desk
  imports Engine_Cycle
begin

text \<open>
  What the handling of a signal may do to the futures desk, its open positions and the requests it
  sends, as an abstract step relation, and the refinement: every run of \<open>process_signal\<close> is one of
  its steps.  The properties of the desk follow by inversion of the steps.
\<close>

subsection \<open>The abstract desk\<close>

record desk =
  dk_positions :: "managed_position smap"
  dk_calls :: "exchange_call list"

definition desk_of :: "engine \<Rightarrow> desk" where
  "desk_of en = \<lparr>dk_positions = bk_positions (en_book en), dk_calls = en_calls en\<rparr>"

text \<open>A futures signal that passed the checks in front of the handlers.\<close>

definition accepted :: "'j engine_env \<Rightarrow> signal \<Rightarrow> bool" where
  "accepted e sig \<longleftrightarrow> is_valid sig \<and> \<not> is_stale (steady_ns (ee_clock e)) sig \<and> sg_market_type sig \<noteq> ''spot'' \<and>
     (tg_allowed_symbols (ee_trading e) = [] \<or> sg_symbol sig \<in> set (tg_allowed_symbols (ee_trading e)))"

definition is_entry :: "signal \<Rightarrow> bool" where
  "is_entry sig \<longleftrightarrow> sg_sig_type sig = Entry \<or> sg_sig_type sig = ReEntry"

definition vacant :: "string \<Rightarrow> managed_position smap \<Rightarrow> bool" where
  "vacant symb ps \<longleftrightarrow> \<not> list_ex (\<lambda>kp. mp_symbol (snd kp) = symb \<and> mp_side (snd kp) \<in> hold_sides) ps"

text \<open>An entry may be booked: accepted, no position of its symbol, room within the limits.\<close>

definition admissible :: "'j engine_env \<Rightarrow> signal \<Rightarrow> bool \<Rightarrow> desk \<Rightarrow> bool" where
  "admissible e sig sh d \<longleftrightarrow> accepted e sig \<and> is_entry sig \<and> vacant (sg_symbol sig) (dk_positions d) \<and>
     room (ee_risk e) sh (get_hold_side sig) (tf_of sig) (dk_positions d)"

definition fits :: "signal \<Rightarrow> bool \<Rightarrow> managed_position \<Rightarrow> bool" where
  "fits sig rl p \<longleftrightarrow> mp_symbol p = sg_symbol sig \<and> mp_side p = get_hold_side sig \<and> mp_timeframe p = tf_of sig \<and> mp_is_real p = rl"

text \<open>An order the engine may send for the signal.\<close>

definition sound_order :: "'j engine_env \<Rightarrow> risk_manager \<Rightarrow> signal \<Rightarrow> exchange_call \<Rightarrow> bool" where
  "sound_order e rm sig c =
     (case c of
        PlaceOrder req tp sl \<Rightarrow>
          or_symbol req = mk_symbol (sg_symbol sig) \<and> or_side req = get_side sig \<and> or_price req = sg_price sig \<and>
          validate req rm \<and> \<not> or_price req * or_quantity req > HARD_MAX_NOTIONAL \<and>
          has_tp1 sig \<and> tp = sg_tp1 sig \<and> sl = preset_sl e sig
      | _ \<Rightarrow> False)"

definition closing_call :: "signal \<Rightarrow> exchange_call \<Rightarrow> bool" where
  "closing_call sig c =
     (case c of
        ClosePartial symb qty side \<Rightarrow> symb = sg_symbol sig \<and> side = signal_side sig \<and> sg_sig_type sig = TP
      | FlashClose symb side \<Rightarrow> symb = sg_symbol sig \<and> side = signal_side sig \<and> sg_sig_type sig = SL
      | _ \<Rightarrow> False)"

text \<open>A position is closed, or its quantity is reduced to a rest that is not zero or less.\<close>

definition shrink :: "string \<Rightarrow> managed_position \<Rightarrow> managed_position smap \<Rightarrow> managed_position smap \<Rightarrow> bool" where
  "shrink k p ps ps' \<longleftrightarrow> ps' = AList.delete k ps \<or> (\<exists>q. \<not> q \<le> 0 \<and> ps' = AList.update k (p\<lparr>mp_quantity := q\<rparr>) ps)"

definition closes :: "signal \<Rightarrow> bool \<Rightarrow> string \<Rightarrow> managed_position \<Rightarrow> desk \<Rightarrow> bool" where
  "closes sig rl k p d \<longleftrightarrow> \<not> is_entry sig \<and> map_of (dk_positions d) k = Some p \<and> mp_is_real p = rl"

inductive desk_step :: "'j engine_env \<Rightarrow> risk_manager \<Rightarrow> signal \<Rightarrow> bool \<Rightarrow> bool \<Rightarrow> desk \<Rightarrow> desk \<Rightarrow> bool"
  for e :: "'j engine_env" and rm :: risk_manager and sig :: signal and sh live :: bool where
  Stay: "desk_step e rm sig sh live d d"
| Paper: "\<not> live \<Longrightarrow> admissible e sig sh d \<Longrightarrow> fits sig False p \<Longrightarrow>
    desk_step e rm sig sh live d (d\<lparr>dk_positions := AList.update k p (dk_positions d)\<rparr>)"
| Unfilled: "live \<Longrightarrow> admissible e sig sh d \<Longrightarrow> sound_order e rm sig c \<Longrightarrow> n \<in> {1, 2} \<Longrightarrow>
    desk_step e rm sig sh live d (d\<lparr>dk_calls := dk_calls d @ replicate n c\<rparr>)"
| Filled: "live \<Longrightarrow> admissible e sig sh d \<Longrightarrow> sound_order e rm sig c \<Longrightarrow> n \<in> {1, 2} \<Longrightarrow> fits sig True p \<Longrightarrow>
    desk_step e rm sig sh live d (d\<lparr>dk_positions := AList.update k p (dk_positions d), dk_calls := dk_calls d @ replicate n c\<rparr>)"
| PaperClose: "accepted e sig \<Longrightarrow> closes sig False k p d \<Longrightarrow> shrink k p (dk_positions d) ps \<Longrightarrow>
    desk_step e rm sig sh live d (d\<lparr>dk_positions := ps\<rparr>)"
| CloseFailed: "accepted e sig \<Longrightarrow> closes sig True k p d \<Longrightarrow> closing_call sig c \<Longrightarrow> n \<in> {1 .. 3} \<Longrightarrow>
    desk_step e rm sig sh live d (d\<lparr>dk_calls := dk_calls d @ replicate n c\<rparr>)"
| RealClose: "accepted e sig \<Longrightarrow> closes sig True k p d \<Longrightarrow> closing_call sig c \<Longrightarrow> n \<in> {1 .. 3} \<Longrightarrow>
    shrink k p (dk_positions d) ps \<Longrightarrow>
    desk_step e rm sig sh live d (d\<lparr>dk_positions := ps, dk_calls := dk_calls d @ replicate n c\<rparr>)"

inductive_cases desk_stepE: "desk_step e rm sig sh live d d'"

subsection \<open>The handlers, seen from the desk\<close>

lemma desk_simps [simp]:
  "desk_of (skip en) = desk_of en" "desk_of (risk_skip en) = desk_of en" "desk_of (reject en) = desk_of en"
  "desk_of (engine_alert e lv cat msg symb en) = desk_of en"
  "desk_of (save_futures e en) = desk_of en" "desk_of (save_spot e en) = desk_of en"
  "desk_of (score_realized symb p side g en) = desk_of en"
  "desk_of (track_shadows e sig en) = desk_of en"
  "desk_of (entry_refused e sig r en) = desk_of en"
  "desk_of (sent cs en) = (desk_of en)\<lparr>dk_calls := dk_calls (desk_of en) @ cs\<rparr>"
  "dk_positions (desk_of en) = bk_positions (en_book en)" "dk_calls (desk_of en) = en_calls en"
  by (simp_all add: desk_of_def skip_def risk_skip_def reject_def engine_alert_def on_book_def save_futures_def
      save_spot_def score_realized_def track_shadows_def entry_refused_def sent_def Let_def split: prod.split refusal.split)

lemma alert_trade_simps [simp]:
  "bk_positions (alert_trade utc level msg symb b) = bk_positions b"
  "bk_risk (alert_trade utc level msg symb b) = bk_risk b"
  by (simp_all add: alert_trade_def Let_def)

lemma record_close_simps [simp]:
  "bk_positions (snd (record_close le p exit reason qty b)) = bk_positions b"
  "bk_risk (snd (record_close le p exit reason qty b)) = bk_risk b"
  by (simp_all add: record_close_def Let_def record_trade_def add_trade_def)

lemma desk_close_on_book [simp]: "desk_of (snd (close_on_book e p exit reason qty en)) = desk_of en"
  by (simp add: close_on_book_def desk_of_def split_beta)

lemma desk_on_book: "desk_of (on_book f en) = (desk_of en)\<lparr>dk_positions := bk_positions (f (en_book en))\<rparr>"
  by (simp add: desk_of_def on_book_def)

lemma desk_entry_position:
  "\<exists>k p. fits sig is_real p \<and> desk_of (entry_position e sig tier lev oid is_real en) =
      (desk_of en)\<lparr>dk_positions := AList.update k p (bk_positions (en_book en))\<rparr>"
  by (intro exI conjI) (auto simp: entry_position_def desk_on_book register_position_def fits_def)

lemma desk_handle_spot [simp]: "desk_of (handle_spot_signal e sig en) = desk_of en"
proof -
  have upd: "desk_of (en\<lparr>en_next_oid := n\<rparr>) = desk_of en" "desk_of (en\<lparr>en_spot_positions := ps\<rparr>) = desk_of en"
    "desk_of (en\<lparr>en_spot_positions := ps, en_spot_balance := x\<rparr>) = desk_of en" for en n ps x
    by (simp_all add: desk_of_def)
  have "desk_of (spot_sale sig p exit qty reason en) = desk_of en" for p exit qty reason en
    by (simp add: spot_sale_def desk_of_def Let_def)
  then show ?thesis
    by (auto simp: handle_spot_signal_def handle_spot_entry_def handle_spot_tp_def handle_spot_sl_def Let_def upd
        split: signal_type.split option.split)
qed

lemma remove_positions [simp]: "bk_positions (snd (remove key b)) = AList.delete key (bk_positions b)"
  by (auto simp: remove_def delete_id map_of_eq_None_iff split: option.split)

lemma shrink_remove: "shrink k p ps (AList.delete k ps)"
  by (simp add: shrink_def)

lemma shrink_reduce: "map_of (bk_positions b) k = Some p \<Longrightarrow> shrink k p (bk_positions b) (bk_positions (reduce_quantity k q b))"
  by (auto simp: shrink_def reduce_quantity_def Let_def)

lemma book_of_close [simp]: "bk_positions (en_book (snd (close_on_book e p exit reason qty en))) = bk_positions (en_book en)"
  using desk_close_on_book [of e p exit reason qty en] by (metis desk_simps(11))

lemma book_of_score [simp]: "en_book (score_realized symb p side g en) = en_book en"
  by (simp add: score_realized_def split: prod.split)

lemma desk_book_tp:
  assumes "map_of (bk_positions (en_book en)) k = Some p"
  shows "\<exists>ps. shrink k p (bk_positions (en_book en)) ps \<and> desk_of (book_tp e sig k p qty rl en) = (desk_of en)\<lparr>dk_positions := ps\<rparr>"
proof -
  let ?exit = "if sg_price sig > 0 then sg_price sig else mp_entry_price p"
  let ?reason = "if closes_all sig then sg_tp_level sig else sg_tp_level sig @ ''_PARTIAL''"
  obtain pnl en1 where c: "close_on_book e p ?exit ?reason qty en = (pnl, en1)" by force
  then have en1: "desk_of en1 = desk_of en" "bk_positions (en_book en1) = bk_positions (en_book en)"
    using desk_close_on_book [of e p ?exit ?reason qty en] book_of_close [of e p ?exit ?reason qty en] by simp_all
  let ?b = "en_book en1"
  show ?thesis
  proof (cases "closes_all sig")
    case True
    then show ?thesis using c en1 by (auto simp: book_tp_def Let_def desk_on_book shrink_remove intro!: exI)
  next
    case False
    then show ?thesis using c en1 shrink_reduce [of ?b k p qty] assms
      by (auto simp: book_tp_def Let_def desk_on_book intro!: exI)
  qed
qed

lemma desk_book_sl:
  "desk_of (book_sl e sig k p rl en) = (desk_of en)\<lparr>dk_positions := AList.delete k (bk_positions (en_book en))\<rparr>"
proof -
  let ?exit = "if sg_price sig > 0 then sg_price sig else mp_sl_price p"
  obtain pnl en1 where c: "close_on_book e p ?exit ''SL'' 0 en = (pnl, en1)" by force
  then have "desk_of en1 = desk_of en" "bk_positions (en_book en1) = bk_positions (en_book en)"
    using desk_close_on_book [of e p ?exit "''SL''" 0 en] book_of_close [of e p ?exit "''SL''" 0 en] by simp_all
  then show ?thesis using c
    by (auto simp: book_sl_def Let_def desk_on_book) (auto simp: save_futures_def on_book_def score_realized_def split: prod.splits)
qed

lemma attempts_bound: "n \<noteq> 0 \<Longrightarrow> attempts ok n i = (k, r) \<Longrightarrow> k \<in> {1 .. n}"
proof (induction n arbitrary: i k)
  case (Suc n)
  then show ?case by (cases n) (fastforce split: if_splits prod.splits)+
qed simp

text \<open>A close signal on a known position: its three outcomes are steps.\<close>

lemma close_step:
  assumes "accepted e sig" "\<not> is_entry sig" "map_of (bk_positions (en_book en)) k = Some p"
    and "\<not> mp_is_real p \<and> d' = (desk_of en)\<lparr>dk_positions := ps\<rparr> \<and> shrink k p (bk_positions (en_book en)) ps \<or>
         mp_is_real p \<and> closing_call sig c \<and> n \<in> {1 .. 3} \<and>
           (d' = (desk_of en)\<lparr>dk_calls := en_calls en @ replicate n c\<rparr> \<or>
            d' = (desk_of en)\<lparr>dk_positions := ps, dk_calls := en_calls en @ replicate n c\<rparr> \<and>
              shrink k p (bk_positions (en_book en)) ps)"
  shows "desk_step e rm sig sh live (desk_of en) d'"
proof -
  have c: "closes sig (mp_is_real p) k p (desk_of en)" using assms(2,3) by (simp add: closes_def)
  note steps = desk_step.PaperClose [OF assms(1), of k p "desk_of en" ps]
    desk_step.CloseFailed [OF assms(1), of k p "desk_of en" c n]
    desk_step.RealClose [OF assms(1), of k p "desk_of en" c n ps]
  show ?thesis using assms(4) c steps by (auto simp del: atLeastAtMost_iff)
qed

lemma sent_positions [simp]: "bk_positions (en_book (sent cs en)) = bk_positions (en_book en)"
  by (simp add: sent_def)

lemma desk_handle_tp:
  assumes "accepted e sig" "sg_sig_type sig = TP"
  shows "desk_step e rm sig sh live (desk_of en) (desk_of (handle_tp e sig en))"
proof -
  obtain key quantity where f: "Position_Manager.find_by_symbol_side (sg_symbol sig) (signal_side sig) (en_book en) = (key, quantity)"
    by force
  let ?qty = "quantity * tp_ratio sig" and ?c = "ClosePartial (sg_symbol sig) (quantity * tp_ratio sig) (signal_side sig)"
  obtain n ok where a: "attempts (\<lambda>i. rs_status (ee_partial e i) = New) 3 0 = (n, ok)" by force
  then have n: "n \<in> {1 .. 3}" using attempts_bound [of 3] by simp
  have call: "closing_call sig ?c" "\<not> is_entry sig" using assms(2) by (simp_all add: closing_call_def is_entry_def)
  let ?en1 = "sent (replicate n ?c) en"
  show ?thesis
  proof (cases "ee_lock e \<and> key \<noteq> [] \<and> map_of (bk_positions (en_book en)) key \<noteq> None")
    case False
    then show ?thesis using f by (auto simp: handle_tp_def Let_def get_def desk_step.Stay)
  next
    case True
    then obtain p where p: "map_of (bk_positions (en_book en)) key = Some p" by auto
    obtain ps where ps: "shrink key p (bk_positions (en_book en)) ps"
        "desk_of (book_tp e sig key p ?qty False en) = (desk_of en)\<lparr>dk_positions := ps\<rparr>"
      using desk_book_tp [OF p] by blast
    obtain ps' where ps': "shrink key p (bk_positions (en_book en)) ps'"
        "desk_of (book_tp e sig key p ?qty True ?en1) = (desk_of ?en1)\<lparr>dk_positions := ps'\<rparr>"
      using desk_book_tp [of ?en1 key p e sig ?qty True] p unfolding sent_positions by blast
    have "desk_of (handle_tp e sig en) =
        (if \<not> mp_is_real p then (desk_of en)\<lparr>dk_positions := ps\<rparr>
         else if ok then (desk_of en)\<lparr>dk_positions := ps', dk_calls := en_calls en @ replicate n ?c\<rparr>
         else (desk_of en)\<lparr>dk_calls := en_calls en @ replicate n ?c\<rparr>)"
      using True f p a ps(2) ps'(2) by (simp add: handle_tp_def Let_def get_def)
    then show ?thesis
      using close_step [OF assms(1) call(2) p, of _ ps ?c n] close_step [OF assms(1) call(2) p, of _ ps' ?c n]
        ps(1) ps'(1) call(1) n by presburger
  qed
qed

lemma desk_handle_sl:
  assumes "accepted e sig" "sg_sig_type sig = SL"
  shows "desk_step e rm sig sh live (desk_of en) (desk_of (handle_sl e sig en))"
proof -
  obtain key quantity where f: "Position_Manager.find_by_symbol_side (sg_symbol sig) (signal_side sig) (en_book en) = (key, quantity)"
    by force
  let ?c = "FlashClose (sg_symbol sig) (signal_side sig)"
  obtain n ok where a: "attempts (ee_flash e) 3 0 = (n, ok)" by force
  then have n: "n \<in> {1 .. 3}" using attempts_bound [of 3] by simp
  have call: "closing_call sig ?c" "\<not> is_entry sig" using assms(2) by (simp_all add: closing_call_def is_entry_def)
  show ?thesis
  proof (cases "ee_lock e \<and> key \<noteq> [] \<and> map_of (bk_positions (en_book en)) key \<noteq> None")
    case False
    then show ?thesis using f by (auto simp: handle_sl_def Let_def get_def desk_step.Stay)
  next
    case True
    then obtain p where p: "map_of (bk_positions (en_book en)) key = Some p" by auto
    let ?ps = "AList.delete key (bk_positions (en_book en))"
    have "desk_of (handle_sl e sig en) =
        (if \<not> mp_is_real p then (desk_of en)\<lparr>dk_positions := ?ps\<rparr>
         else if ok then (desk_of en)\<lparr>dk_positions := ?ps, dk_calls := en_calls en @ replicate n ?c\<rparr>
         else (desk_of en)\<lparr>dk_calls := en_calls en @ replicate n ?c\<rparr>)"
      using True f p a by (simp add: handle_sl_def Let_def get_def desk_book_sl)
    then show ?thesis
      using close_step [OF assms(1) call(2) p, of _ ?ps ?c n] shrink_remove [of key p] call(1) n by presburger
  qed
qed

subsection \<open>Entries\<close>

text \<open>The size is set on a copy of the signal; nothing of the desk's view depends on it.\<close>

lemma resized_valid: "is_valid (sig\<lparr>sg_size := q\<rparr>) = is_valid sig" "is_stale now (sig\<lparr>sg_size := q\<rparr>) = is_stale now sig"
  by (cases "sg_sig_type sig"; simp add: is_valid_def is_stale_def max_age_ms_def)+

lemma resized [simp]:
  "accepted e (sig\<lparr>sg_size := q\<rparr>) = accepted e sig" "is_entry (sig\<lparr>sg_size := q\<rparr>) = is_entry sig"
  "get_hold_side (sig\<lparr>sg_size := q\<rparr>) = get_hold_side sig" "tf_of (sig\<lparr>sg_size := q\<rparr>) = tf_of sig"
  "get_side (sig\<lparr>sg_size := q\<rparr>) = get_side sig" "has_tp1 (sig\<lparr>sg_size := q\<rparr>) = has_tp1 sig"
  "preset_sl e (sig\<lparr>sg_size := q\<rparr>) = preset_sl e sig" "paper_entry (sig\<lparr>sg_size := q\<rparr>) en = paper_entry sig en"
  "signal_side (sig\<lparr>sg_size := q\<rparr>) = signal_side sig"
  by (simp_all add: accepted_def is_entry_def get_hold_side_def tf_of_def get_side_def has_tp1_def preset_sl_def sl_of_def
      has_sl_def paper_entry_def is_eligible_def signal_side_def resized_valid Let_def)

lemma desk_step_resized:
  assumes "desk_step e rm (sig\<lparr>sg_size := q\<rparr>) sh live d d'" shows "desk_step e rm sig sh live d d'"
proof -
  have pre: "admissible e (sig\<lparr>sg_size := q\<rparr>) = admissible e sig" "fits (sig\<lparr>sg_size := q\<rparr>) = fits sig"
    "sound_order e rm (sig\<lparr>sg_size := q\<rparr>) = sound_order e rm sig" "closing_call (sig\<lparr>sg_size := q\<rparr>) = closing_call sig"
    "closes (sig\<lparr>sg_size := q\<rparr>) = closes sig"
    by (simp_all add: fun_eq_iff admissible_def fits_def sound_order_def closing_call_def closes_def split: exchange_call.split)
  show ?thesis using assms by (cases rule: desk_step.cases) (auto simp: pre intro: desk_step.intros)
qed

lemma vacant_if_unheld:
  "\<not> holds_side symb (if side = ''long'' then ''short'' else ''long'') b \<Longrightarrow> \<not> holds_side symb side b \<Longrightarrow>
   side \<in> hold_sides \<Longrightarrow> vacant symb (bk_positions b)"
  by (fastforce simp: vacant_def holds_side_def hold_sides_def list_ex_iff split: if_splits)

lemma get_hold_side_in [simp]: "get_hold_side sig \<in> hold_sides"
  by (simp add: get_hold_side_def hold_sides_def)

lemma order_attempts_bound: "fst (order_attempts e) \<in> {1, 2}"
  by (simp add: order_attempts_def)

lemma desk_place_order:
  assumes "n = fst (order_attempts e)" "c = PlaceOrder req (tp_of sig) (preset_sl e sig)"
  shows "desk_of (place_order e sig tier lev req en) = (desk_of en)\<lparr>dk_calls := en_calls en @ replicate n c\<rparr> \<or>
    (\<exists>k p. fits sig True p \<and> desk_of (place_order e sig tier lev req en) =
       (desk_of en)\<lparr>dk_positions := AList.update k p (bk_positions (en_book en)), dk_calls := en_calls en @ replicate n c\<rparr>)"
proof -
  obtain m resp where a: "order_attempts e = (m, resp)" by force
  have risk: "desk_of (sent cs (en\<lparr>en_risk := r\<rparr>)) = (desk_of en)\<lparr>dk_calls := en_calls en @ cs\<rparr>"
    "desk_of (sent cs (en\<lparr>en_risk := r\<rparr>)\<lparr>en_executed := x, en_risk := r'\<rparr>) = (desk_of en)\<lparr>dk_calls := en_calls en @ cs\<rparr>"
    for cs r x r' by (simp_all add: desk_of_def sent_def)
  show ?thesis
  proof (cases "rs_status resp = New")
    case False
    then show ?thesis using assms a by (simp add: place_order_def Let_def risk)
  next
    case True
    let ?en1 = "sent (replicate m c) (en\<lparr>en_risk := ((on_order_done \<circ> on_order_placed) ^^ m) (en_risk en)\<rparr>)"
    let ?en2 = "?en1\<lparr>en_executed := en_executed ?en1 + 1,
       en_risk := on_position_opened (sg_symbol sig) (sg_size sig) (get_hold_side sig) (en_risk ?en1)\<rparr>"
    from desk_entry_position obtain k p where kp: "fits sig True p"
      "desk_of (entry_position e sig tier lev (or_client_order_id req) True ?en2) =
         (desk_of ?en2)\<lparr>dk_positions := AList.update k p (bk_positions (en_book ?en2))\<rparr>" by blast
    have "desk_of (place_order e sig tier lev req en) =
        (desk_of en)\<lparr>dk_positions := AList.update k p (bk_positions (en_book en)), dk_calls := en_calls en @ replicate n c\<rparr>"
      using True assms a kp(2) by (simp add: place_order_def Let_def risk)
    then show ?thesis using kp(1) by blast
  qed
qed

lemma desk_book_entry:
  assumes "admissible e sig sh (desk_of en)" "\<not> sg_price sig * sg_size sig > HARD_MAX_NOTIONAL"
    and "paper_entry sig en \<or> has_tp1 sig"
  shows "desk_step e (en_risk en) sig sh (\<not> paper_entry sig en) (desk_of en) (desk_of (book_entry e sig tier lev en))"
proof -
  let ?req = "to_order_request (en_next_oid en) sig"
  let ?en2 = "en\<lparr>en_next_oid := en_next_oid en + 1,
     en_shadow := mark_live_equivalent (sg_symbol sig @ '':'' @ tf_of sig @ '':'' @ get_hold_side sig) (en_shadow en)\<rparr>"
  have same: "desk_of (en\<lparr>en_next_oid := i\<rparr>) = desk_of en" "desk_of (en\<lparr>en_next_oid := i, en_shadow := s\<rparr>) = desk_of en"
    "desk_of (en\<lparr>en_next_oid := i, en_shadow := s, en_executed := x\<rparr>) = desk_of en" for i s x by (simp_all add: desk_of_def)
  show ?thesis
  proof (cases "validate ?req (en_risk en)")
    case False
    then show ?thesis by (simp add: book_entry_def Let_def same desk_step.Stay)
  next
    case True
    show ?thesis
    proof (cases "paper_entry sig en")
      case paper: True
      from desk_entry_position [of sig False e tier lev "en_next_oid en" "?en2\<lparr>en_executed := en_executed en + 1\<rparr>"]
      obtain k p where kp: "fits sig False p" "desk_of (book_entry e sig tier lev en) =
          (desk_of en)\<lparr>dk_positions := AList.update k p (bk_positions (en_book en))\<rparr>"
        using True paper by (auto simp: book_entry_def Let_def same)
      then show ?thesis using desk_step.Paper [of False e sig sh "desk_of en" p "en_risk en" k] assms(1) paper by simp
    next
      case live: False
      define n c where "n = fst (order_attempts e)" and "c = PlaceOrder ?req (tp_of sig) (preset_sl e sig)"
      have sound: "sound_order e (en_risk en) sig c" "n \<in> {1, 2}"
        using True assms(2,3) live order_attempts_bound by (simp_all add: n_def c_def sound_order_def to_order_request_def tp_of_def)
      have b: "book_entry e sig tier lev en = place_order e sig tier lev ?req ?en2"
        using True live by (simp add: book_entry_def Let_def)
      show ?thesis unfolding b
        using desk_place_order [OF n_def c_def, of tier lev ?en2] sound assms(1) live
          desk_step.Unfilled [of "\<not> paper_entry sig en" e sig sh "desk_of en" "en_risk en" c n]
          desk_step.Filled [of "\<not> paper_entry sig en" e sig sh "desk_of en" "en_risk en" c n]
        by (auto simp: same simp del: insert_iff)
    qed
  qed
qed

lemma desk_admit_entry:
  assumes "accepted e sig" "is_entry sig" "paper_entry sig en \<or> has_tp1 sig" "sh = shadow_mode (bk_risk (en_book en))"
  shows "desk_step e (en_risk en) sig sh (\<not> paper_entry sig en) (desk_of en) (desk_of (admit_entry e sig tier lev en))"
proof -
  let ?side = "get_hold_side sig" and ?r = "entry_request sig lev en" and ?b = "en_book en"
  let ?held = "holds_side (sg_symbol sig) (if ?side = ''long'' then ''short'' else ''long'') ?b \<or> holds_side (sg_symbol sig) ?side ?b"
  obtain dec rs where c: "check_entry (ee_risk e) (ee_clock e) ?r (bk_positions ?b) (bk_risk ?b) = (dec, rs)" by force
  let ?en1 = "on_book (\<lambda>b. b\<lparr>bk_risk := rs\<rparr>) en"
  have d: "desk_of ?en1 = desk_of en" by (simp add: desk_of_def on_book_def)
  show ?thesis
  proof (cases "?held \<or> \<not> allowed dec")
    case True
    then show ?thesis using c d by (auto simp: admit_entry_def Let_def desk_step.Stay)
  next
    case False
    then have "vacant (sg_symbol sig) (bk_positions ?b)"
      using vacant_if_unheld [of "sg_symbol sig" ?side ?b] by simp
    moreover have al: "allowed (fst (check_entry (ee_risk e) (ee_clock e) ?r (bk_positions ?b) (bk_risk ?b)))"
      using False c by simp
    moreover have "er_side ?r = ?side" "tf_name ?r = tf_of sig" "er_price ?r = sg_price sig" "er_qty ?r = sg_size sig"
      by (simp_all add: entry_request_def tf_name_def tf_of_def)
    moreover have "paper_entry sig ?en1 = paper_entry sig en" by (simp add: paper_entry_def is_eligible_def on_book_def)
    ultimately have "desk_step e (en_risk en) sig sh (\<not> paper_entry sig en) (desk_of ?en1) (desk_of (book_entry e sig tier lev ?en1))"
      using desk_book_entry [of e sig sh ?en1 tier lev] allowed_room [OF al] assms
      by (auto simp: admissible_def on_book_def check_entry_allowed_iff)
    then show ?thesis using False c d by (simp add: admit_entry_def Let_def)
  qed
qed

lemma desk_handle_entry:
  assumes "accepted e sig" "is_entry sig" "sh = shadow_mode (bk_risk (en_book en))"
  shows "desk_step e (en_risk en) sig sh (\<not> paper_entry sig en) (desk_of en) (desk_of (handle_entry e sig en))"
proof (cases "\<not> ee_lock e \<or> entry_refusal e sig en \<noteq> None \<or> entry_size e sig en = None")
  case True
  then show ?thesis by (auto simp: handle_entry_def desk_step.Stay split: option.split)
next
  case False
  then obtain q lev where s: "entry_size e sig en = Some (q, lev)" by auto
  have "paper_entry sig en \<or> has_tp1 sig" using False by (auto simp: entry_refusal_def Let_def split: if_splits)
  then have "desk_step e (en_risk en) (sig\<lparr>sg_size := q\<rparr>) sh (\<not> paper_entry sig en) (desk_of en)
      (desk_of (admit_entry e (sig\<lparr>sg_size := q\<rparr>) (entry_tier sig en) lev en))"
    using desk_admit_entry [of e "sig\<lparr>sg_size := q\<rparr>" en sh "entry_tier sig en" lev] assms by simp
  then show ?thesis using False s by (simp add: handle_entry_def desk_step_resized)
qed

subsection \<open>The modes during a signal\<close>

definition mode_of :: "engine \<Rightarrow> bool \<times> bool \<times> string list \<times> bool" where
  "mode_of en = (en_shadow_mode en, en_auto_live_active en, en_eligible en, shadow_mode (bk_risk (en_book en)))"

lemma paper_by_mode: "mode_of en' = mode_of en \<Longrightarrow> paper_entry sig en' = paper_entry sig en"
  by (simp add: mode_of_def paper_entry_def is_eligible_def)

lemma mode_tracked [simp]: "mode_of (track_shadows e sig en) = mode_of en"
  by (simp add: mode_of_def track_shadows_def on_book_def Let_def)

text \<open>Every run of \<open>process_signal\<close> is a step of the abstract desk.\<close>

lemma process_signal_refines_desk':
  "desk_step e (en_risk en) sig (shadow_mode (bk_risk (en_book en))) (\<not> paper_entry sig en) (desk_of en) (desk_of (process_signal e sig en))"
proof -
  let ?t = "track_shadows e sig en" and ?now = "steady_ns (ee_clock e)"
  let ?m = "evict ?now (en_fingerprints ?t)" and ?fp = "fingerprint (ee_hash_str e) (ee_hash_int e) sig"
  let ?en1 = "?t\<lparr>en_fingerprints := AList.update ?fp ?now ?m\<rparr>"
  have fps: "desk_of (en\<lparr>en_fingerprints := fs\<rparr>) = desk_of en" "mode_of (en\<lparr>en_fingerprints := fs\<rparr>) = mode_of en" for fs en
    by (simp_all add: desk_of_def mode_of_def)
  have mode: "paper_entry sig ?en1 = paper_entry sig en"
    "shadow_mode (bk_risk (en_book ?en1)) = shadow_mode (bk_risk (en_book en))"
    using paper_by_mode [of ?en1 en sig] mode_tracked [of e sig en] by (simp_all add: fps mode_of_def)
  show ?thesis
  proof (cases "is_stale ?now sig \<or> map_of ?m ?fp \<noteq> None \<or> \<not> is_valid sig \<or> sg_market_type sig = ''spot'' \<or>
      tg_allowed_symbols (ee_trading e) \<noteq> [] \<and> sg_symbol sig \<notin> set (tg_allowed_symbols (ee_trading e))")
    case True
    then have "desk_of (process_signal e sig en) = desk_of en"
      by (auto simp: process_signal_def Let_def fps dispatch_def)
    then show ?thesis by (simp add: desk_step.Stay)
  next
    case False
    then have acc: "accepted e sig" and p: "process_signal e sig en = dispatch e sig ?en1" and d: "desk_of ?en1 = desk_of en"
      by (auto simp: accepted_def process_signal_def Let_def fps)
    have "desk_step e (en_risk ?en1) sig (shadow_mode (bk_risk (en_book ?en1))) (\<not> paper_entry sig ?en1) (desk_of ?en1) (desk_of (dispatch e sig ?en1))"
      using False acc desk_handle_entry [of e sig _ ?en1] desk_handle_tp [of e sig _ _ _ ?en1] desk_handle_sl [of e sig _ _ _ ?en1]
      by (cases "sg_sig_type sig") (simp_all add: dispatch_def is_entry_def desk_step.Stay)
    moreover have "en_risk ?en1 = en_risk en" by (simp add: track_shadows_def on_book_def Let_def)
    ultimately show ?thesis unfolding p mode d by simp
  qed
qed


end
