(* ===== verification/Engine_Events.thy ===== *)
theory Engine_Events
  imports Engine_Desk
begin

text \<open>
  The engine under any sequence of events: signals, periodic tasks, updates of the exchange's
  stream, the emergency close and imports.  The facts about the open positions come from the
  abstract desk; those about modes and risk components from what each operation does to the
  control part of the state.
\<close>

subsection \<open>The control part of the state\<close>

definition ctl_of :: "engine \<Rightarrow> (bool \<times> bool \<times> string list) \<times> risk_state \<times> risk_manager" where
  "ctl_of en = ((en_shadow_mode en, en_auto_live_active en, en_eligible en), bk_risk (en_book en), en_risk en)"

lemma mode_of_ctl: "ctl_of en' = ctl_of en \<Longrightarrow> mode_of en' = mode_of en"
  by (simp add: ctl_of_def mode_of_def)

lemma ctl_on_book: "(\<And>b. bk_risk (f b) = bk_risk b) \<Longrightarrow> ctl_of (on_book f en) = ctl_of en"
  by (simp add: ctl_of_def on_book_def)

lemma ctl_simps [simp]:
  "ctl_of (skip en) = ctl_of en" "ctl_of (risk_skip en) = ctl_of en" "ctl_of (reject en) = ctl_of en"
  "ctl_of (sent cs en) = ctl_of en" "ctl_of (engine_alert e lv cat msg symb en) = ctl_of en"
  "ctl_of (save_futures e en) = ctl_of en" "ctl_of (save_spot e en) = ctl_of en"
  "ctl_of (score_realized symb p side g en) = ctl_of en" "ctl_of (track_shadows e sig en) = ctl_of en"
  "ctl_of (entry_refused e sig r en) = ctl_of en"
  "ctl_of (en\<lparr>en_fingerprints := fs\<rparr>) = ctl_of en" "ctl_of (en\<lparr>en_next_oid := i\<rparr>) = ctl_of en"
  "ctl_of (en\<lparr>en_shadow := sh\<rparr>) = ctl_of en" "ctl_of (en\<lparr>en_executed := x\<rparr>) = ctl_of en"
  "ctl_of (en\<lparr>en_spot_positions := ps\<rparr>) = ctl_of en" "ctl_of (en\<lparr>en_spot_balance := y\<rparr>) = ctl_of en"
  "ctl_of (en\<lparr>en_readiness := rn\<rparr>) = ctl_of en" "ctl_of (en\<lparr>en_last_sync_ts := i\<rparr>) = ctl_of en"
  by (simp_all add: ctl_of_def skip_def risk_skip_def reject_def sent_def engine_alert_def on_book_def save_futures_def
      save_spot_def score_realized_def track_shadows_def entry_refused_def Let_def split: prod.split refusal.split)

lemma risk_kept [simp]:
  "bk_risk (snd (remove key b)) = bk_risk b" "bk_risk (reduce_quantity key q b) = bk_risk b"
  "bk_risk (register_position now symb tf side entry qty lev sl tp1 tier oid strategy rl b) = bk_risk b"
  by (auto simp: remove_def reduce_quantity_def register_position_def Let_def split: option.split)

lemma ctl_close [simp]: "ctl_of (snd (close_on_book e p exit reason qty en)) = ctl_of en"
  by (simp add: close_on_book_def ctl_of_def split_beta)

lemma ctl_entry_position [simp]: "ctl_of (entry_position e sig tier lev oid rl en) = ctl_of en"
  by (simp add: entry_position_def ctl_on_book)

lemma ctl_closed: "close_on_book e p exit reason qty en = (pnl, en1) \<Longrightarrow> ctl_of en1 = ctl_of en"
  by (metis ctl_close snd_conv)

lemma ctl_book_tp [simp]: "ctl_of (book_tp e sig key p qty rl en) = ctl_of en"
  by (auto simp: book_tp_def Let_def ctl_on_book dest: ctl_closed split: prod.split)

lemma ctl_book_sl [simp]: "ctl_of (book_sl e sig key p rl en) = ctl_of en"
  by (auto simp: book_sl_def Let_def ctl_on_book dest: ctl_closed split: prod.split)

lemma ctl_handle_tp [simp]: "ctl_of (handle_tp e sig en) = ctl_of en"
  by (auto simp: handle_tp_def Let_def split: prod.split option.split)

lemma ctl_handle_sl [simp]: "ctl_of (handle_sl e sig en) = ctl_of en"
  by (auto simp: handle_sl_def Let_def split: prod.split option.split)

lemma ctl_spot_sale [simp]: "ctl_of (spot_sale sig p exit qty reason en) = ctl_of en"
  by (simp add: spot_sale_def ctl_of_def Let_def)

lemma ctl_handle_spot [simp]: "ctl_of (handle_spot_signal e sig en) = ctl_of en"
  by (auto simp: handle_spot_signal_def handle_spot_entry_def handle_spot_tp_def handle_spot_sl_def Let_def
      split: signal_type.split option.split)

subsection \<open>What the engine calls on its risk components\<close>

text \<open>The calls on the portfolio gate, and those on the risk manager.\<close>

inductive gate_run :: "risk_state \<Rightarrow> risk_state \<Rightarrow> bool" where
  gate_refl: "gate_run s s"
| gate_check: "gate_run s t \<Longrightarrow> gate_run s (snd (check_entry cfg clk r ps t))"
| gate_mode: "gate_run s t \<Longrightarrow> gate_run s (set_shadow_mode b t)"
| gate_balance: "gate_run s t \<Longrightarrow> gate_run s (Portfolio_Risk.update_balance x t)"

inductive order_run :: "risk_manager \<Rightarrow> risk_manager \<Rightarrow> bool" where
  order_refl: "order_run s s"
| order_placed: "order_run s t \<Longrightarrow> order_run s (on_order_placed t)"
| order_done: "order_run s t \<Longrightarrow> order_run s (on_order_done t)"
| order_opened: "order_run s t \<Longrightarrow> order_run s (on_position_opened symb q side t)"
| order_reset: "order_run s t \<Longrightarrow> order_run s (reset_daily now t)"

lemma gate_trans: "gate_run t u \<Longrightarrow> gate_run s t \<Longrightarrow> gate_run s u"
  by (induction rule: gate_run.induct) (auto intro: gate_run.intros)

lemma order_run_trans: "order_run t u \<Longrightarrow> order_run s t \<Longrightarrow> order_run s u"
  by (induction rule: order_run.induct) (auto intro: order_run.intros)

definition risk_trail :: "engine \<Rightarrow> engine \<Rightarrow> bool" where
  "risk_trail en en' \<longleftrightarrow> gate_run (bk_risk (en_book en)) (bk_risk (en_book en')) \<and> order_run (en_risk en) (en_risk en')"

lemma trail_refl [simp]: "risk_trail en en"
  by (simp add: risk_trail_def gate_refl order_refl)

lemma trail_trans: "risk_trail a b \<Longrightarrow> risk_trail b c \<Longrightarrow> risk_trail a c"
  by (auto simp: risk_trail_def intro: gate_trans order_run_trans)

lemma trail_ctl: "ctl_of en' = ctl_of en \<Longrightarrow> risk_trail en en'"
  by (simp add: ctl_of_def risk_trail_def gate_refl order_refl)

lemma trail_ctl_left: "risk_trail a b \<Longrightarrow> ctl_of b' = ctl_of b \<Longrightarrow> risk_trail a b'"
  by (simp add: ctl_of_def risk_trail_def)

text \<open>What an entry does: the modes stay, the risk components see only the calls above.\<close>

definition entry_effect :: "engine \<Rightarrow> engine \<Rightarrow> bool" where
  "entry_effect en en' \<longleftrightarrow> mode_of en' = mode_of en \<and> risk_trail en en'"

lemma effect_ctl: "ctl_of en' = ctl_of en \<Longrightarrow> entry_effect en en'"
  using mode_of_ctl trail_ctl unfolding entry_effect_def by blast

lemma effect_trans: "entry_effect a b \<Longrightarrow> entry_effect b c \<Longrightarrow> entry_effect a c"
  by (auto simp: entry_effect_def intro: trail_trans)

lemma order_placed_done: "order_run s (((on_order_done \<circ> on_order_placed) ^^ n) s)"
proof (induction n)
  case (Suc n)
  from order_done [OF order_placed [OF Suc]] show ?case by simp
qed (simp add: order_refl)

lemma effect_place_order: "entry_effect en (place_order e sig tier lev req en)"
proof -
  obtain n resp where a: "order_attempts e = (n, resp)" by force
  let ?rm = "((on_order_done \<circ> on_order_placed) ^^ n) (en_risk en)"
  let ?en1 = "sent (replicate n (PlaceOrder req (tp_of sig) (preset_sl e sig))) (en\<lparr>en_risk := ?rm\<rparr>)"
  let ?en2 = "?en1\<lparr>en_executed := en_executed ?en1 + 1,
     en_risk := on_position_opened (sg_symbol sig) (sg_size sig) (get_hold_side sig) (en_risk ?en1)\<rparr>"
  have 1: "entry_effect en ?en1"
    by (simp add: entry_effect_def mode_of_def risk_trail_def sent_def gate_refl order_placed_done)
  have "entry_effect ?en1 ?en2"
    by (simp add: entry_effect_def mode_of_def risk_trail_def sent_def gate_refl order_opened [OF order_refl])
  then have "entry_effect en ?en2" by (rule effect_trans [OF 1])
  then have new: ?thesis if "rs_status resp = New"
  proof (rule effect_trans)
    show "entry_effect ?en2 (place_order e sig tier lev req en)"
      using a that by (intro effect_ctl) (simp add: place_order_def Let_def)
  qed
  have rej: "entry_effect en (reject ?en1)" by (rule effect_trans [OF 1 effect_ctl]) simp
  show ?thesis
  proof (cases "rs_status resp = New")
    case False
    then have "place_order e sig tier lev req en = reject ?en1" using a by (simp add: place_order_def Let_def)
    then show ?thesis by (rule ssubst) (rule rej)
  qed (rule new)
qed

lemma effect_handle_entry: "entry_effect en (handle_entry e sig en)"
proof -
  have book: "entry_effect en (book_entry e s tier lev en)" for s tier lev en
  proof -
    let ?en2 = "en\<lparr>en_next_oid := en_next_oid en + 1,
       en_shadow := mark_live_equivalent (sg_symbol s @ '':'' @ tf_of s @ '':'' @ get_hold_side s) (en_shadow en)\<rparr>"
    have "ctl_of ?en2 = ctl_of en" by (simp add: ctl_of_def)
    then have "entry_effect en (place_order e s tier lev req ?en2)" for req
      using effect_trans [OF effect_ctl effect_place_order] by blast
    moreover have "ctl_of (?en2\<lparr>en_executed := x\<rparr>) = ctl_of en" for x by (simp add: ctl_of_def)
    ultimately show ?thesis by (auto simp: book_entry_def Let_def effect_ctl)
  qed
  have "entry_effect en (admit_entry e s tier lev en)" for s tier lev en
  proof -
    obtain dec rs where c: "check_entry (ee_risk e) (ee_clock e) (entry_request s lev en) (bk_positions (en_book en))
        (bk_risk (en_book en)) = (dec, rs)" by force
    then have rs: "rs = snd (check_entry (ee_risk e) (ee_clock e) (entry_request s lev en) (bk_positions (en_book en))
        (bk_risk (en_book en)))" by simp
    have 1: "entry_effect en (on_book (\<lambda>b. b\<lparr>bk_risk := rs\<rparr>) en)"
      by (simp add: entry_effect_def mode_of_def risk_trail_def on_book_def rs check_entry_mode order_refl gate_check [OF gate_refl])
    have "entry_effect en (risk_skip (on_book (\<lambda>b. b\<lparr>bk_risk := rs\<rparr>) en))" by (rule effect_trans [OF 1 effect_ctl]) simp
    moreover note effect_trans [OF 1 book]
    ultimately show ?thesis using c by (simp add: admit_entry_def Let_def effect_ctl)
  qed
  then show ?thesis by (auto simp: handle_entry_def effect_ctl split: option.split)
qed

lemma effect_process: "entry_effect en (process_signal e sig en)"
proof -
  have "entry_effect en (dispatch e sig en)" for en
    by (auto simp: dispatch_def effect_ctl effect_handle_entry split: signal_type.split)
  then have "entry_effect en (dispatch e sig (track_shadows e sig en\<lparr>en_fingerprints := fs\<rparr>))" for fs
    by (rule effect_trans [OF effect_ctl, rotated]) simp
  then show ?thesis by (auto simp: process_signal_def Let_def effect_ctl)
qed

subsection \<open>Events\<close>

datatype 'j engine_event =
  Start "'j engine_env"
| Round "'j engine_env" int "signal option"
| Account "'j engine_env" ws_account
| StreamPosition "'j engine_env" ws_position
| CloseAll "'j engine_env"
| Import "'j engine_env" "trade_record list"
| Stop "'j engine_env"

fun event_exec :: "'j engine_event \<Rightarrow> engine \<Rightarrow> engine" where
  "event_exec (Start e) en = start e en"
| "event_exec (Round e wid s) en = worker_round e wid s en"
| "event_exec (Account e upd) en = on_account e upd en"
| "event_exec (StreamPosition e upd) en = on_position e upd en"
| "event_exec (CloseAll e) en = snd (close_all_positions e en)"
| "event_exec (Import e ts) en = snd (import_trades e ts en)"
| "event_exec (Stop e) en = stop e en"

definition engine_run :: "'j engine_event list \<Rightarrow> engine \<Rightarrow> engine" where
  "engine_run evs en = fold event_exec evs en"

lemma sync_risk [simp]:
  "bk_risk (fst (sync_positions_with_exchange api w dir utc steady now has orders resp (b, disk))) = bk_risk b"
  by (simp add: sync_positions_with_exchange_def Let_def split: sum.split option.split prod.split)

lemma ctl_sync [simp]: "ctl_of (sync e en) = ctl_of en"
  by (simp add: sync_def ctl_of_def split_beta)

lemma fetch_gate: "gate_run (bk_risk b) (bk_risk (snd (fetch_real_balance api resp b)))"
  by (auto simp: fetch_real_balance_def apply_account_def Let_def gate_refl gate_balance [OF gate_refl]
      split: sum.split option.split prod.split)

lemma trail_book: "gate_run (bk_risk (en_book en)) (bk_risk b) \<Longrightarrow> risk_trail en (en\<lparr>en_book := b\<rparr>)"
  by (simp add: risk_trail_def order_refl)

lemma trail_fetch: "risk_trail en (en\<lparr>en_book := snd (fetch_real_balance api resp (en_book en))\<rparr>)"
  by (rule trail_book [OF fetch_gate])

text \<open>\<open>init_leverage\<close> asks for balance and positions; it leaves the modes alone.\<close>

definition same_mode :: "engine \<Rightarrow> engine \<Rightarrow> bool" where
  "same_mode en en' \<longleftrightarrow> fst (ctl_of en') = fst (ctl_of en)"

lemma init_leverage_effect: "risk_trail en (init_leverage e en) \<and> same_mode en (init_leverage e en)"
proof -
  obtain r b where f: "fetch_real_balance (ee_api e) (ee_account e) (en_book en) = (r, b)" by force
  let ?en1 = "en\<lparr>en_book := b\<rparr>"
  let ?en2 = "if br_ok r
     then on_book (\<lambda>b. if br_available r > 0 then b\<lparr>bk_balance := br_available r\<rparr> else b)
       (?en1\<lparr>en_equity := (if br_equity r > 0 then br_equity r else en_equity ?en1), en_unrealized := br_unrealized r\<rparr>)
     else ?en1"
  have "risk_trail en ?en1" using trail_fetch [of en "ee_api e" "ee_account e"] f by simp
  moreover have c: "ctl_of ?en2 = ctl_of ?en1" by (simp add: ctl_of_def on_book_def)
  ultimately have "risk_trail en ?en2" by (rule trail_ctl_left)
  moreover have "ctl_of (init_leverage e en) = ctl_of ?en2" using f by (simp add: init_leverage_def Let_def)
  ultimately show ?thesis using c by (auto simp: same_mode_def ctl_of_def intro: trail_ctl_left)
qed

lemma ctl_rescore [simp]: "ctl_of (rescore e en) = ctl_of en"
  by (simp add: rescore_def ctl_of_def)

lemma trail_start: "risk_trail en (start e en)"
proof -
  have 1: "risk_trail en (restore_futures e en)"
    by (auto simp: restore_futures_def Let_def risk_trail_def on_book_def rescore_def order_refl gate_refl
        gate_balance [OF gate_refl])
  let ?m = "on_book (\<lambda>b. b\<lparr>bk_risk := set_shadow_mode (en_shadow_mode en) (bk_risk b)\<rparr>)
      ((restore_spot e (restore_futures e en))\<lparr>en_running := True\<rparr>)"
  have "ctl_of ((restore_spot e s)\<lparr>en_running := True\<rparr>) = ctl_of s" for s
    by (simp add: restore_spot_def ctl_of_def Let_def)
  then have "risk_trail en ?m"
    using 1 by (auto simp: risk_trail_def on_book_def ctl_of_def intro: gate_mode)
  then show ?thesis using init_leverage_effect [of ?m e] trail_trans by (auto simp: start_def Let_def)
qed

lemma ctl_account: "risk_trail en (on_account e upd en)"
  by (simp add: on_account_def Let_def risk_trail_def on_book_def order_refl gate_refl gate_balance [OF gate_refl])

lemma ws_close_simps [simp]:
  "bk_positions (snd (record_ws_close le p exit x b)) = bk_positions b" "bk_risk (snd (record_ws_close le p exit x b)) = bk_risk b"
  by (simp_all add: record_ws_close_def Let_def record_trade_def add_trade_def)

lemma ws_find_risk: "find_and_prepare_ws_close symb side b = (r, b') \<Longrightarrow> bk_risk b' = bk_risk b"
  by (auto simp: find_and_prepare_ws_close_def split: option.splits)

lemma ctl_position: "ctl_of (on_position e upd en) = ctl_of en"
proof -
  have book: "ctl_of (en\<lparr>en_book := b, en_scorer := s\<rparr>) = ctl_of en" "ctl_of (en\<lparr>en_book := b\<rparr>) = ctl_of en"
    if "bk_risk b = bk_risk (en_book en)" for b s using that by (simp_all add: ctl_of_def)
  obtain r b where f: "find_and_prepare_ws_close (wp_symbol upd) (wp_hold_side upd) (en_book en) = (r, b)" by force
  note risk = ws_find_risk [OF f]
  show ?thesis
  proof (cases r)
    case None
    then show ?thesis using f risk by (simp add: on_position_def book)
  next
    case (Some kp)
    obtain key p where kp: "kp = (key, p)" by force
    let ?exit = "if wp_avg_price upd > 0 then wp_avg_price upd else mp_entry_price p"
    obtain pnl b1 where c: "record_ws_close (learn_of e) p ?exit (wp_realized_pnl upd) b = (pnl, b1)" by force
    then have "bk_risk b1 = bk_risk (en_book en)" using ws_close_simps(2) [of "learn_of e" p ?exit "wp_realized_pnl upd" b] risk by simp
    then show ?thesis using f Some kp c by (simp add: on_position_def Let_def ctl_on_book book)
  qed
qed

lemma ctl_close_all: "ctl_of (snd (close_all_positions e en)) = ctl_of en"
proof -
  have one: "ctl_of (snd (close_one e sd (cr, en))) = ctl_of en" for sd cr en
    by (auto simp: close_one_def Let_def ctl_on_book split: prod.split option.split)
  have "ctl_of (snd (fold (close_one e) sds (cr, en))) = ctl_of en" for sds cr
  proof (induction sds arbitrary: cr en)
    case (Cons sd sds)
    obtain cr' en' where c: "close_one e sd (cr, en) = (cr', en')" by force
    then show ?case using Cons [of cr' en'] one [of sd cr en] by simp
  qed simp
  then show ?thesis by (simp add: close_all_positions_def Let_def split_beta)
qed

lemma ctl_import: "ctl_of (snd (import_trades e ts en)) = ctl_of en"
proof -
  have one: "bk_risk (snd (import_one e t st)) = bk_risk (snd st)" for t st
    by (simp add: import_one_def split: prod.split)
  have "bk_risk (snd (fold (import_one e) ts st)) = bk_risk (snd st)" for st
    by (induction ts arbitrary: st) (simp_all add: one)
  then show ?thesis by (simp add: import_trades_def Let_def split_beta ctl_of_def rescore_def save_futures_def)
qed

lemma trail_check_auto_live: "risk_trail en (check_auto_live e en)"
proof -
  have mode: "risk_trail en (on_book (\<lambda>b. b\<lparr>bk_risk := set_shadow_mode m (bk_risk b)\<rparr>) (en\<lparr>en_auto_live_active := a, en_shadow_mode := m\<rparr>))"
    for en m a by (simp add: risk_trail_def on_book_def order_refl gate_mode [OF gate_refl])
  have live: "risk_trail en (go_live e can en)" for can en
    by (auto simp: go_live_def intro: trail_trans [OF mode init_leverage_effect [THEN conjunct1]])
  have leave: "risk_trail en (leave_live can en)" for can en
    using mode by (simp add: leave_live_def)
  have upd: "risk_trail en (en\<lparr>en_readiness := rn, en_eligible := el\<rparr>)" "risk_trail en (en\<lparr>en_readiness := rn\<rparr>)" for rn el en
    by (simp_all add: risk_trail_def gate_refl order_refl)
  show ?thesis
    using trail_trans [OF upd(1) trail_trans [OF live leave]] upd(2)
    by (simp add: check_auto_live_def Let_def split: prod.split sum.split)
qed

lemma periodic_split:
  "\<exists>en3. ctl_of en3 = ctl_of (daily_reset e en) \<and> periodic_tasks e en =
     (if now_sec e - en_last_sync_ts en3 \<ge> SYNC_INTERVAL_SEC
      then if tg_auto_live (ee_trading e) then check_auto_live e (refresh e (en3\<lparr>en_last_sync_ts := now_sec e\<rparr>))
           else refresh e (en3\<lparr>en_last_sync_ts := now_sec e\<rparr>)
      else en3)"
proof -
  define en1 where "en1 = daily_reset e en"
  define en2 where "en2 = (if needs_rescore (ee_scorer e) (now_of e) (en_scorer en1) \<and> bk_trades (en_book en1) \<noteq> [] then rescore e en1 else en1)"
  have "ctl_of (autosave e en2) = ctl_of en1" by (simp add: autosave_def Let_def en2_def)
  then show ?thesis
    by (intro exI [of _ "autosave e en2"]) (simp add: periodic_tasks_def Let_def en1_def en2_def)
qed

lemma trail_periodic: "risk_trail en (periodic_tasks e en)"
proof -
  have daily: "risk_trail en (daily_reset e en)" for en
    by (simp add: daily_reset_def risk_trail_def gate_refl order_refl order_reset [OF order_refl])
  have refresh: "risk_trail en (refresh e en)" for en
  proof -
    have 1: "risk_trail en (sync e en)" by (rule trail_ctl) simp
    have "risk_trail en ((sync e en)\<lparr>en_book := snd (fetch_real_balance (ee_api e) (ee_account e) (en_book (sync e en)))\<rparr>)"
      by (rule trail_trans [OF 1 trail_fetch])
    then show ?thesis by (simp add: refresh_def Let_def risk_trail_def split_beta)
  qed
  obtain en3 where en3: "ctl_of en3 = ctl_of (daily_reset e en)" "periodic_tasks e en =
      (if now_sec e - en_last_sync_ts en3 \<ge> SYNC_INTERVAL_SEC
       then if tg_auto_live (ee_trading e) then check_auto_live e (refresh e (en3\<lparr>en_last_sync_ts := now_sec e\<rparr>))
            else refresh e (en3\<lparr>en_last_sync_ts := now_sec e\<rparr>)
       else en3)" using periodic_split by blast
  let ?en4 = "refresh e (en3\<lparr>en_last_sync_ts := now_sec e\<rparr>)"
  have 3: "risk_trail en en3" by (rule trail_ctl_left [OF daily en3(1)])
  have 4: "risk_trail en ?en4" by (rule trail_trans [OF trail_ctl_left [OF 3] refresh]) simp
  show ?thesis using 3 4 trail_trans [OF 4 trail_check_auto_live [of ?en4 e]] by (simp add: en3(2))
qed

lemma trail_run: "risk_trail en (engine_run evs en)"
proof (induction evs arbitrary: en)
  case (Cons ev evs)
  have stop: "ctl_of (stop e en) = ctl_of en" for e by (simp add: stop_def) (simp add: ctl_of_def)
  have "risk_trail en (event_exec ev en)"
    using effect_process
    by (cases ev) (auto simp: worker_round_def entry_effect_def trail_start trail_periodic ctl_account stop trail_ctl
        ctl_position ctl_close_all ctl_import split: option.split)
  from trail_trans [OF this Cons.IH] show ?case by (simp add: engine_run_def)
qed (simp add: engine_run_def)

subsection \<open>The breakers are never fed\<close>

definition unfed :: "risk_state \<Rightarrow> bool" where
  "unfed s \<longleftrightarrow> \<not> cb_active s \<and> daily_pnl s = 0 \<and> weekly_pnl s = 0 \<and> recent_losses s = []"

lemma unfed_gate: "gate_run s t \<Longrightarrow> unfed s \<Longrightarrow> unfed t"
proof (induction rule: gate_run.induct)
  case (gate_check s t cfg clk r ps)
  then have "unfed t" by simp
  then show ?case
    by (auto simp: unfed_def check_entry_def Let_def block_def check_daily_reset_def split: option.split)
qed (simp_all add: unfed_def set_shadow_mode_def Portfolio_Risk.update_balance_def)

definition unfed_orders :: "risk_manager \<Rightarrow> bool" where
  "unfed_orders rm \<longleftrightarrow> \<not> rm_circuit_breaker rm \<and> rm_daily_loss rm = 0 \<and> rm_daily_pnl rm = 0"

lemma unfed_orders_run: "order_run s t \<Longrightarrow> unfed_orders s \<Longrightarrow> unfed_orders t"
  by (induction rule: order_run.induct)
    (auto simp: unfed_orders_def on_order_placed_def on_order_done_def on_position_opened_def reset_daily_def Let_def)

text \<open>C35.  The loss breakers of the portfolio gate and of the risk manager never trip: over any sequence of
  engine events, from start to stop, whatever is lost on signals, stream updates or the emergency close,
  both stay off and the daily and weekly results they watch stay zero.  No operation of the engine
  reports a closed trade to either component.\<close>

theorem breakers_never_fed:
  assumes "unfed (bk_risk (en_book en))" "unfed_orders (en_risk en)"
  shows "unfed (bk_risk (en_book (engine_run evs en))) \<and> unfed_orders (en_risk (engine_run evs en))"
  using trail_run [of en evs] assms unfed_gate unfed_orders_run by (auto simp: risk_trail_def)

subsection \<open>One filled order per symbol\<close>

lemma count_opened: "count_for s symb \<le> count_for (on_position_opened t q side s) symb"
  by (simp add: count_for_def on_position_opened_def Let_def map_of_update split: option.split)

lemma order_run_counts: "order_run s t \<Longrightarrow> rm_limits t = rm_limits s \<and> count_for s symb \<le> count_for t symb"
proof (induction rule: order_run.induct)
  case (order_opened s t u q side)
  then show ?case using count_opened [of t symb u q side] by (simp add: on_position_opened_def Let_def)
qed (simp_all add: on_order_placed_def on_order_done_def reset_daily_def count_for_def)

lemma validate_counts:
  assumes "validate req rm" "0 < count_for rm (symb_str (or_symbol req))" "or_trade_side req = OpenTrade"
    "lim_max_position_per_symbol (rm_limits rm) \<le> dint (count_for rm (symb_str (or_symbol req)))"
  shows False
  using assms by (auto simp: validate_def count_for_def Let_def split: if_splits option.splits)

text \<open>The orders among the requests, and those that open a position of a symbol.\<close>

definition is_order :: "exchange_call \<Rightarrow> bool" where
  "is_order c = (case c of PlaceOrder req tp sl \<Rightarrow> True | _ \<Rightarrow> False)"

definition orders :: "desk \<Rightarrow> exchange_call list" where
  "orders d = filter is_order (dk_calls d)"

definition opens :: "string \<Rightarrow> exchange_call \<Rightarrow> bool" where
  "opens symb c =
     (case c of PlaceOrder req tp sl \<Rightarrow> symb_str (or_symbol req) = symb \<and> or_trade_side req = OpenTrade | _ \<Rightarrow> False)"

lemma orders_calls: "en_calls en' = en_calls en \<Longrightarrow> orders (desk_of en') = orders (desk_of en)"
  by (simp add: orders_def)

lemma orders_simps [simp]:
  "orders (desk_of (on_book f en)) = orders (desk_of en)"
  "orders ((desk_of en)\<lparr>dk_calls := en_calls en @ cs\<rparr>) = orders (desk_of en) @ filter is_order cs"
  "orders (d\<lparr>dk_positions := ps\<rparr>) = orders d"
  by (simp_all add: orders_def desk_on_book)

lemma desk_step_orders:
  assumes "desk_step e rm sig sh live d d'"
  shows "\<exists>cs. orders d' = orders d @ cs \<and> (\<forall>c \<in> set cs. live \<and> sound_order e rm sig c)"
proof -
  have closing: "\<not> is_order c" if "closing_call sig c" for c
    using that by (auto simp: closing_call_def is_order_def split: exchange_call.splits)
  have order: "is_order c" if "sound_order e rm sig c" for c
    using that by (auto simp: sound_order_def is_order_def split: exchange_call.splits)
  show ?thesis using assms
  proof cases
    case (Unfilled c n)
    then have "orders d' = orders d @ replicate n c" using order by (simp add: orders_def filter_replicate)
    then show ?thesis using Unfilled by (intro exI [of _ "replicate n c"]) auto
  next
    case (Filled c n p k)
    then have "orders d' = orders d @ replicate n c" using order by (simp add: orders_def filter_replicate)
    then show ?thesis using Filled by (intro exI [of _ "replicate n c"]) auto
  qed (use closing in \<open>auto simp: orders_def filter_replicate\<close>)
qed

lemma process_orders:
  "\<exists>cs. orders (desk_of (process_signal e sig en)) = orders (desk_of en) @ cs \<and>
     (\<forall>c \<in> set cs. \<not> paper_entry sig en \<and> sound_order e (en_risk en) sig c)"
  by (rule desk_step_orders [OF process_signal_refines_desk'])

text \<open>Everything but a signal sends no order.\<close>

lemma orders_sync [simp]: "orders (desk_of (sync e en)) = orders (desk_of en)"
  by (simp add: orders_def sync_def split_beta)

lemma orders_init_leverage [simp]: "orders (desk_of (init_leverage e en)) = orders (desk_of en)"
proof -
  have none: "is_order (SetLeverage s l) = False" for s l by (simp add: is_order_def)
  obtain r b where "fetch_real_balance (ee_api e) (ee_account e) (en_book en) = (r, b)" by force
  then show ?thesis
    by (simp add: init_leverage_def Let_def filter_map o_def none) (simp add: orders_def on_book_def)
qed

lemma orders_start [simp]: "orders (desk_of (start e en)) = orders (desk_of en)"
proof -
  have "orders (desk_of ((restore_spot e (restore_futures e en))\<lparr>en_running := True\<rparr>)) = orders (desk_of en)"
    by (simp add: orders_def restore_spot_def restore_futures_def Let_def on_book_def rescore_def)
  then show ?thesis by (simp add: start_def Let_def)
qed

lemma orders_position [simp]: "orders (desk_of (on_position e upd en)) = orders (desk_of en)"
proof -
  have "orders (desk_of (en\<lparr>en_book := b, en_scorer := s\<rparr>)) = orders (desk_of en)"
    "orders (desk_of (en\<lparr>en_book := b\<rparr>)) = orders (desk_of en)" for b s
    by (simp_all add: orders_def)
  then show ?thesis by (simp add: on_position_def Let_def split: prod.split option.split)
qed

lemma orders_close_all [simp]: "orders (desk_of (snd (close_all_positions e en))) = orders (desk_of en)"
proof -
  have sent: "orders (desk_of (sent [FlashClose s d] en)) = orders (desk_of en)" for s d en by (simp add: is_order_def)
  have one: "orders (desk_of (snd (close_one e sd (cr, en)))) = orders (desk_of en)" for sd cr en
    by (auto simp: close_one_def Let_def sent simp del: desk_simps(10) split: prod.split option.split)
  have "orders (desk_of (snd (fold (close_one e) sds (cr, en)))) = orders (desk_of en)" for sds cr
  proof (induction sds arbitrary: cr en)
    case (Cons sd sds)
    obtain cr' en' where c: "close_one e sd (cr, en) = (cr', en')" by force
    then show ?case using Cons [of cr' en'] one [of sd cr en] by simp
  qed simp
  then show ?thesis by (simp add: close_all_positions_def Let_def split_beta)
qed

lemma orders_periodic [simp]: "orders (desk_of (periodic_tasks e en)) = orders (desk_of en)"
proof -
  have daily: "orders (desk_of (daily_reset e en)) = orders (desk_of en)" for en
    by (simp add: orders_def daily_reset_def)
  have rescore: "orders (desk_of (rescore e en)) = orders (desk_of en)" for en by (simp add: orders_def rescore_def)
  have save: "orders (desk_of (autosave e en)) = orders (desk_of en)" for en by (simp add: autosave_def Let_def)
  have refresh: "orders (desk_of (refresh e en)) = orders (desk_of en)" for en
    using orders_sync [of e en] by (simp add: refresh_def Let_def split_beta orders_def)
  have auto: "orders (desk_of (check_auto_live e en)) = orders (desk_of en)" for en
  proof -
    have "orders (desk_of (go_live e can en)) = orders (desk_of en)" for can en
      by (simp add: go_live_def) (simp add: orders_def)
    moreover have "orders (desk_of (leave_live can en)) = orders (desk_of en)" for can en
      by (simp add: leave_live_def) (simp add: orders_def)
    ultimately show ?thesis
      by (simp add: check_auto_live_def Let_def split: prod.split sum.split) (simp add: orders_def)
  qed
  have ts: "orders (desk_of (en\<lparr>en_last_sync_ts := i\<rparr>)) = orders (desk_of en)" for en i by (simp add: orders_def)
  show ?thesis by (simp add: periodic_tasks_def Let_def daily rescore save refresh auto ts)
qed

lemma opens_order: "opens symb c \<Longrightarrow> is_order c"
  by (simp add: opens_def is_order_def split: exchange_call.splits)

lemma opens_of_orders: "filter (opens symb) (orders d) = filter (opens symb) (dk_calls d)"
  unfolding orders_def filter_filter using opens_order by (intro filter_cong) auto

lemma event_orders:
  "orders (desk_of (event_exec ev en)) = orders (desk_of en) \<or>
   (\<exists>e wid sig. ev = Round e wid (Some sig) \<and> event_exec ev en = process_signal e sig en)"
proof (cases ev)
  case (Round e wid s)
  then show ?thesis by (cases s) (simp_all add: worker_round_def)
next
  case (Account e upd)
  then show ?thesis by (simp add: on_account_def Let_def on_book_def orders_def)
next
  case (Import e ts)
  then show ?thesis by (simp add: import_trades_def Let_def split_beta rescore_def orders_def save_futures_def)
next
  case (Stop e)
  then show ?thesis by (simp add: stop_def) (simp add: orders_def)
qed simp_all


subsection \<open>Paper trading sends no order\<close>

definition no_auto :: "'j engine_event \<Rightarrow> bool" where
  "no_auto ev = (case ev of Round e wid s \<Rightarrow> \<not> tg_auto_live (ee_trading e) | _ \<Rightarrow> True)"

lemma same_mode_trans: "same_mode a b \<Longrightarrow> same_mode b c \<Longrightarrow> same_mode a c"
  by (simp add: same_mode_def)

lemma same_mode_ctl: "ctl_of en' = ctl_of en \<Longrightarrow> same_mode en en'"
  by (simp add: same_mode_def)

lemma same_mode_start: "same_mode en (start e en)"
proof -
  define m where "m = on_book (\<lambda>b. b\<lparr>bk_risk := set_shadow_mode (en_shadow_mode en) (bk_risk b)\<rparr>)
      ((restore_spot e (restore_futures e en))\<lparr>en_running := True\<rparr>)"
  have "same_mode en m"
    by (simp add: m_def same_mode_def ctl_of_def on_book_def restore_spot_def restore_futures_def rescore_def Let_def)
  moreover have "start e en = (if \<not> en_shadow_mode m then init_leverage e m else m)" by (simp add: start_def m_def Let_def)
  ultimately show ?thesis using init_leverage_effect [of m e] same_mode_trans by auto
qed

lemma same_mode_event: assumes "no_auto ev" shows "same_mode en (event_exec ev en)"
proof (cases ev)
  case (Round e wid s)
  have daily: "same_mode en (daily_reset e en)" for en by (simp add: same_mode_def daily_reset_def ctl_of_def)
  have ref: "same_mode en (refresh e en)" for en
    using ctl_sync [of e en] by (simp add: same_mode_def refresh_def Let_def split_beta ctl_of_def)
  obtain en3 where en3: "ctl_of en3 = ctl_of (daily_reset e en)" "periodic_tasks e en =
      (if now_sec e - en_last_sync_ts en3 \<ge> SYNC_INTERVAL_SEC
       then if tg_auto_live (ee_trading e) then check_auto_live e (refresh e (en3\<lparr>en_last_sync_ts := now_sec e\<rparr>))
            else refresh e (en3\<lparr>en_last_sync_ts := now_sec e\<rparr>)
       else en3)" using periodic_split by blast
  have 3: "same_mode en en3" using daily [of en] en3(1) by (simp add: same_mode_def)
  then have "same_mode en (refresh e (en3\<lparr>en_last_sync_ts := i\<rparr>))" for i
    by (rule same_mode_trans [OF same_mode_trans [OF _ same_mode_ctl] ref]) simp
  with 3 have "same_mode en (periodic_tasks e en)"
    using assms Round by (simp add: en3(2) no_auto_def)
  moreover have "same_mode en (process_signal e sig en)" for sig
    using effect_process [of en e sig] by (simp add: entry_effect_def mode_of_def same_mode_def ctl_of_def)
  ultimately show ?thesis using Round by (auto simp: worker_round_def same_mode_def split: option.split)
next
  case (Account e upd)
  then show ?thesis by (simp add: on_account_def Let_def on_book_def same_mode_def ctl_of_def)
next
  case (Stop e)
  then show ?thesis by (simp add: stop_def same_mode_def) (simp add: ctl_of_def)
qed (simp_all add: same_mode_start same_mode_ctl ctl_position ctl_close_all ctl_import)

lemma same_mode_shadow: "same_mode en en' \<Longrightarrow> en_shadow_mode en' = en_shadow_mode en"
  by (simp add: same_mode_def ctl_of_def)


subsection \<open>The book under signals\<close>

text \<open>At most one position per symbol, every side known, the numbers of positions within the limits.\<close>

definition one_per_symbol :: "managed_position smap \<Rightarrow> bool" where
  "one_per_symbol ps \<longleftrightarrow>
     (\<forall>k p k' p'. map_of ps k = Some p \<and> map_of ps k' = Some p' \<and> mp_symbol p = mp_symbol p' \<longrightarrow> k = k') \<and>
     (\<forall>k p. map_of ps k = Some p \<longrightarrow> mp_side p \<in> hold_sides)"

definition book_ok :: "risk_cfg \<Rightarrow> bool \<Rightarrow> managed_position smap \<Rightarrow> bool" where
  "book_ok cfg sh ps \<longleftrightarrow> wf_map ps \<and> one_per_symbol ps \<and> within_counts cfg sh ps"

lemma one_per_symbol_delete: "wf_map ps \<Longrightarrow> one_per_symbol ps \<Longrightarrow> one_per_symbol (AList.delete k ps)"
  unfolding one_per_symbol_def by (auto simp: map_of_delete delete_conv' split: if_splits)

lemma length_delete_le: "length (AList.delete k m) \<le> length m"
  by (induction m) auto

lemma count_delete_le:
  "length (filter (\<lambda>kp. P (snd kp)) (AList.delete k m)) \<le> length (filter (\<lambda>kp. P (snd kp)) m)"
  by (induction m) auto

lemma within_counts_delete: "within_counts cfg sh ps \<Longrightarrow> within_counts cfg sh (AList.delete k ps)"
proof -
  assume w: "within_counts cfg sh ps"
  have le: "same_dir_count side (AList.delete k ps) \<le> same_dir_count side ps" "tf_count tf (AList.delete k ps) \<le> tf_count tf ps"
    for side tf
    using count_delete_le [of "\<lambda>p. is_long_side (mp_side p) = is_long_side side" k ps]
      count_delete_le [of "\<lambda>p. mp_timeframe p = tf" k ps]
    by (simp_all add: same_dir_count_def tf_count_def)
  have "same_dir_count side (AList.delete k ps) \<le> eff_max_same_dir cfg sh" "tf_count tf (AList.delete k ps) \<le> tf_limit cfg tf"
    for side tf using le(1) [of side] le(2) [of tf] w unfolding within_counts_def by (meson order_trans)+
  then show ?thesis using w length_delete_le [of k ps] by (simp add: within_counts_def)
qed

lemma book_ok_delete: "book_ok cfg sh ps \<Longrightarrow> book_ok cfg sh (AList.delete k ps)"
  by (simp add: book_ok_def one_per_symbol_delete within_counts_delete)

lemma filter_update_same:
  "map_of m k = Some v \<Longrightarrow> P v = P w \<Longrightarrow>
   length (filter (\<lambda>kp. P (snd kp)) (AList.update k w m)) = length (filter (\<lambda>kp. P (snd kp)) m)"
  by (induction m) (auto split: if_splits)

lemma book_ok_shrink:
  assumes "book_ok cfg sh ps" "map_of ps k = Some p" "shrink k p ps ps'" shows "book_ok cfg sh ps'"
proof (cases "ps' = AList.delete k ps")
  case True
  then show ?thesis using book_ok_delete [OF assms(1)] by simp
next
  case False
  then obtain q where ps': "ps' = AList.update k (p\<lparr>mp_quantity := q\<rparr>) ps" using assms(3) by (auto simp: shrink_def)
  let ?p' = "p\<lparr>mp_quantity := q\<rparr>"
  have "same_dir_count side ps' = same_dir_count side ps" "tf_count tf ps' = tf_count tf ps" for side tf
    using filter_update_same [of ps k p "\<lambda>p. is_long_side (mp_side p) = is_long_side side" ?p']
      filter_update_same [of ps k p "\<lambda>p. mp_timeframe p = tf" ?p'] assms(2)
    by (simp_all add: ps' same_dir_count_def tf_count_def)
  moreover have "length ps' = length ps"
    using filter_update_same [of ps k p "\<lambda>p. True" ?p'] assms(2) by (simp add: ps')
  moreover have "one_per_symbol ps'"
    using assms(1,2) by (auto simp: book_ok_def one_per_symbol_def ps' map_of_update)
  ultimately show ?thesis using assms(1) by (simp add: book_ok_def within_counts_def ps')
qed

lemma book_ok_open:
  assumes "book_ok cfg sh ps" "vacant (sg_symbol sig) ps" "room cfg sh (get_hold_side sig) (tf_of sig) ps" "fits sig rl p"
  shows "book_ok cfg sh (AList.update k p ps)"
proof -
  have free: "mp_symbol p' \<noteq> sg_symbol sig" if "map_of ps k' = Some p'" for k' p'
  proof -
    have "(k', p') \<in> set ps" "mp_side p' \<in> hold_sides"
      using assms(1) that map_of_SomeD by (auto simp: book_ok_def one_per_symbol_def)
    then show ?thesis using assms(2) by (fastforce simp: vacant_def list_ex_iff)
  qed
  have "one_per_symbol (AList.update k p ps)"
    unfolding one_per_symbol_def
  proof (intro conjI allI impI)
    fix k1 p1 k2 p2
    assume a: "map_of (AList.update k p ps) k1 = Some p1 \<and> map_of (AList.update k p ps) k2 = Some p2 \<and> mp_symbol p1 = mp_symbol p2"
    have old: "map_of ps k1 = Some p1 \<Longrightarrow> map_of ps k2 = Some p2 \<Longrightarrow> k1 = k2"
      using assms(1) a unfolding book_ok_def one_per_symbol_def by blast
    show "k1 = k2" using a old free assms(4) by (auto simp: map_of_update fits_def split: if_splits)
  next
    fix k1 p1 assume "map_of (AList.update k p ps) k1 = Some p1"
    then show "mp_side p1 \<in> hold_sides"
      using assms(1,4) by (auto simp: map_of_update fits_def book_ok_def one_per_symbol_def split: if_splits)
  qed
  moreover have "within_counts cfg sh (AList.update k p ps)"
    using assms(1,4) by (intro room_keeps_counts [OF _ assms(3)]) (auto simp: book_ok_def fits_def)
  ultimately show ?thesis using assms(1) by (simp add: book_ok_def)
qed

lemma book_ok_step:
  assumes "desk_step e rm sig sh live d d'" "book_ok (ee_risk e) sh (dk_positions d)"
  shows "book_ok (ee_risk e) sh (dk_positions d')"
  using assms
  by cases (auto simp: admissible_def closes_def intro: book_ok_open book_ok_shrink)

text \<open>Events that neither restart nor synchronise with the exchange, under one configuration of the limits.\<close>

definition internal :: "risk_cfg \<Rightarrow> 'j engine_event \<Rightarrow> bool" where
  "internal cfg ev =
     (case ev of Start e \<Rightarrow> False
      | Round e wid s \<Rightarrow> (case s of None \<Rightarrow> False | Some sig \<Rightarrow> ee_risk e = cfg)
      | _ \<Rightarrow> True)"

lemma book_ok_ws: "find_and_prepare_ws_close symb side b = (r, b') \<Longrightarrow> book_ok cfg sh (bk_positions b) \<Longrightarrow> book_ok cfg sh (bk_positions b')"
  by (auto simp: find_and_prepare_ws_close_def book_ok_delete split: option.splits)

lemma positions_on_position:
  "\<exists>r b. find_and_prepare_ws_close (wp_symbol upd) (wp_hold_side upd) (en_book en) = (r, b) \<and>
     (bk_positions (en_book (on_position e upd en)) = bk_positions b \<or> on_position e upd en = en)"
proof -
  obtain r b where f: "find_and_prepare_ws_close (wp_symbol upd) (wp_hold_side upd) (en_book en) = (r, b)" by force
  have "bk_positions (en_book (on_position e upd en)) = bk_positions b" if "wp_size upd \<le> 0"
  proof (cases r)
    case (Some kp)
    obtain key p where kp: "kp = (key, p)" by force
    let ?exit = "if wp_avg_price upd > 0 then wp_avg_price upd else mp_entry_price p"
    obtain pnl b1 where c: "record_ws_close (learn_of e) p ?exit (wp_realized_pnl upd) b = (pnl, b1)" by force
    then have "bk_positions b1 = bk_positions b"
      using ws_close_simps(1) [of "learn_of e" p ?exit "wp_realized_pnl upd" b] by simp
    then show ?thesis using that f Some kp c by (simp add: on_position_def Let_def save_futures_def on_book_def)
  qed (use that f in \<open>simp add: on_position_def\<close>)
  then show ?thesis using f by (cases "wp_size upd \<le> 0") (auto simp: on_position_def)
qed

lemma book_ok_close_all:
  assumes "book_ok cfg sh (bk_positions (en_book en))"
  shows "book_ok cfg sh (bk_positions (en_book (snd (close_all_positions e en))))"
proof -
  have one: "book_ok cfg sh (bk_positions (en_book (snd (close_one e sd (cr, en)))))"
    if "book_ok cfg sh (bk_positions (en_book en))" for sd cr en
  proof -
    obtain symb side where sd: "sd = (symb, side)" by force
    let ?en1 = "sent [FlashClose symb side] en"
    have keep: "bk_positions (en_book (on_book (\<lambda>b. b\<lparr>bk_positions := AList.delete k (bk_positions b)\<rparr>) s)) =
        AList.delete k (bk_positions (en_book s))" for k s by (simp add: on_book_def)
    show ?thesis using that by (auto simp: close_one_def sd Let_def keep book_ok_delete split: option.split prod.split)
  qed
  have "book_ok cfg sh (bk_positions (en_book (snd (fold (close_one e) sds (cr, en)))))" for sds cr
    using assms
  proof (induction sds arbitrary: cr en)
    case (Cons sd sds)
    obtain cr' en' where c: "close_one e sd (cr, en) = (cr', en')" by force
    then show ?case using Cons.IH [of en' cr'] one [OF Cons.prems, of sd cr] by simp
  qed simp
  then show ?thesis by (simp add: close_all_positions_def Let_def split_beta save_futures_def)
qed

lemma internal_event:
  assumes "internal cfg ev" "book_ok cfg (shadow_mode (bk_risk (en_book en))) (bk_positions (en_book en))"
  shows "book_ok cfg (shadow_mode (bk_risk (en_book (event_exec ev en)))) (bk_positions (en_book (event_exec ev en)))"
proof (cases ev)
  case (Round e wid s)
  then obtain sig where s: "s = Some sig" "ee_risk e = cfg" using assms(1) by (auto simp: internal_def split: option.splits)
  have "shadow_mode (bk_risk (en_book (process_signal e sig en))) = shadow_mode (bk_risk (en_book en))"
    using effect_process [of en e sig] by (simp add: entry_effect_def mode_of_def)
  then show ?thesis
    using book_ok_step [OF process_signal_refines_desk' [of e en sig]] assms(2) s Round by (simp add: worker_round_def)
next
  case (Account e upd)
  then show ?thesis using assms(2) by (simp add: on_account_def Let_def on_book_def Portfolio_Risk.update_balance_def)
next
  case (StreamPosition e upd)
  have "bk_risk (en_book (on_position e upd en)) = bk_risk (en_book en)" using ctl_position [of e upd en] by (simp add: ctl_of_def)
  then show ?thesis using StreamPosition positions_on_position [of upd en e] book_ok_ws assms(2) by fastforce
next
  case (CloseAll e)
  have "bk_risk (en_book (snd (close_all_positions e en))) = bk_risk (en_book en)" using ctl_close_all [of e en] by (simp add: ctl_of_def)
  then show ?thesis using CloseAll book_ok_close_all assms(2) by simp
next
  case (Import e ts)
  have "bk_positions (snd (fold (import_one e) ts st)) = bk_positions (snd st)" for st
    by (induction ts arbitrary: st) (simp_all add: import_one_def split: prod.split)
  then have "bk_positions (en_book (snd (import_trades e ts en))) = bk_positions (en_book en)"
    by (simp add: import_trades_def Let_def split_beta rescore_def save_futures_def)
  moreover have "bk_risk (en_book (snd (import_trades e ts en))) = bk_risk (en_book en)" using ctl_import [of e ts en] by (simp add: ctl_of_def)
  ultimately show ?thesis using Import assms(2) by simp
next
  case (Stop e)
  then show ?thesis using assms(2) by (simp add: stop_def save_spot_def save_futures_def)
qed (use assms(1) in \<open>simp add: internal_def\<close>)

text \<open>C2.  The futures book keeps its shape under any sequence of signals, stream updates, emergency closes and
  imports: no symbol has two positions, every position is long or short, and the numbers of positions in
  total, per direction and per timeframe stay within the limits of the mode.  (A synchronisation can
  break this: the exchange may hold both sides of a symbol, or more positions than the limits.)\<close>

theorem engine_keeps_book:
  assumes "book_ok cfg (shadow_mode (bk_risk (en_book en))) (bk_positions (en_book en))" "list_all (internal cfg) evs"
  shows "book_ok cfg (shadow_mode (bk_risk (en_book (engine_run evs en)))) (bk_positions (en_book (engine_run evs en)))"
  using assms
proof (induction evs arbitrary: en)
  case (Cons ev evs)
  then show ?case using Cons.IH [OF internal_event [of cfg ev en]] by (simp add: engine_run_def)
qed (simp add: engine_run_def)

subsection \<open>Duplicates\<close>

lemma fps_simps [simp]:
  "en_fingerprints (skip en) = en_fingerprints en" "en_fingerprints (risk_skip en) = en_fingerprints en"
  "en_fingerprints (reject en) = en_fingerprints en" "en_fingerprints (sent cs en) = en_fingerprints en"
  "en_fingerprints (on_book f en) = en_fingerprints en" "en_fingerprints (engine_alert e lv cat msg symb en) = en_fingerprints en"
  "en_fingerprints (save_futures e en) = en_fingerprints en" "en_fingerprints (save_spot e en) = en_fingerprints en"
  "en_fingerprints (score_realized symb p side g en) = en_fingerprints en"
  "en_fingerprints (track_shadows e sig en) = en_fingerprints en"
  "en_fingerprints (entry_refused e sig r en) = en_fingerprints en"
  "en_fingerprints (entry_position e sig tier lev oid rl en) = en_fingerprints en"
  "en_fingerprints (spot_sale sig p exit qty reason en) = en_fingerprints en"
  by (simp_all add: skip_def risk_skip_def reject_def sent_def engine_alert_def on_book_def save_futures_def save_spot_def
      score_realized_def track_shadows_def entry_refused_def entry_position_def spot_sale_def Let_def
      split: prod.split refusal.split)

lemma fps_closed: "close_on_book e p exit reason qty en = (pnl, en1) \<Longrightarrow> en_fingerprints en1 = en_fingerprints en"
  by (auto simp: close_on_book_def split: prod.splits)

lemma fps_dispatch [simp]: "en_fingerprints (dispatch e sig en) = en_fingerprints en"
proof -
  have "en_fingerprints (place_order e s tier lev req en) = en_fingerprints en" for s tier lev req en
    by (simp add: place_order_def Let_def split: prod.split)
  then have "en_fingerprints (handle_entry e sig en) = en_fingerprints en"
    by (auto simp: handle_entry_def admit_entry_def book_entry_def Let_def split: option.split prod.split)
  moreover have "en_fingerprints (book_tp e sig key p qty rl en) = en_fingerprints en"
    "en_fingerprints (book_sl e sig key p rl en) = en_fingerprints en" for key p qty rl en
    by (auto simp: book_tp_def book_sl_def Let_def dest: fps_closed split: prod.split)
  then have "en_fingerprints (handle_tp e sig en) = en_fingerprints en" "en_fingerprints (handle_sl e sig en) = en_fingerprints en"
    by (auto simp: handle_tp_def handle_sl_def Let_def split: prod.split option.split)
  moreover have "en_fingerprints (handle_spot_signal e sig en) = en_fingerprints en"
    by (auto simp: handle_spot_signal_def handle_spot_entry_def handle_spot_tp_def handle_spot_sl_def Let_def
        split: signal_type.split option.split)
  ultimately show ?thesis by (simp add: dispatch_def split: signal_type.split)
qed

lemma evict_length: "length (evict now m) \<le> length m"
  by (auto simp: evict_def Let_def intro: order_trans [OF length_filter_le])

lemma evict_keeps:
  assumes "wf_map m" "map_of m fp = Some t" "now - t \<le> FP_TTL_NS" "length m \<le> 50000"
  shows "map_of (evict now m) fp = Some t"
proof -
  let ?f = "filter (\<lambda>kt. \<not> now - snd kt > FP_TTL_NS) m"
  have "length ?f \<le> 50000" using assms(4) length_filter_le [of _ m] order_trans by blast
  moreover have "map_of ?f fp = Some t"
    using assms(1-3) by (subst wf_map_lookup [OF wf_map_filter, symmetric]) (auto simp: wf_map_lookup)
  ultimately show ?thesis using assms by (simp add: evict_def)
qed

lemma wf_evict: "wf_map m \<Longrightarrow> wf_map (evict now m)"
  by (simp add: evict_def Let_def wf_map_filter)


subsection \<open>Concrete runs\<close>

text \<open>An environment with the default configurations, an exchange that fills every order, and a live engine.\<close>

definition sample_engine_env :: "jv engine_env" where
  "sample_engine_env =
     \<lparr>ee_risk = default_cfg, ee_scorer = default_scorer, ee_fee = default_fees, ee_sizer = default_sizer,
      ee_readiness = default_readiness, ee_trading = TradingConfig\<lparr>tg_auto_live := False\<rparr>, ee_shadow = sample_env,
      ee_api = jv_api [], ee_clock = sample_clock, ee_utc = [], ee_utc_hour = 9, ee_state_dir = ''data'',
      ee_hash_str = (\<lambda>s. of_nat (length s)), ee_hash_int = of_int, ee_lock = True,
      ee_order = (\<lambda>n. \<lparr>rs_client_order_id = 1, rs_exchange_order_id = 2, rs_status = New, rs_filled_price = 0,
        rs_filled_qty = 0, rs_updated_at = 0, rs_error_code = 0, rs_error_msg = []\<rparr>),
      ee_partial = (\<lambda>n. \<lparr>rs_client_order_id = 1, rs_exchange_order_id = 2, rs_status = New, rs_filled_price = 0,
        rs_filled_qty = 0, rs_updated_at = 0, rs_error_code = 0, rs_error_msg = []\<rparr>),
      ee_flash = (\<lambda>n. True), ee_tpsl = (\<lambda>kind n. Inr True), ee_positions = Inr JNull, ee_account = Inr JNull,
      ee_close = (\<lambda>symb side. True)\<rparr>"

definition sample_engine :: engine where
  "sample_engine =
     (ExecutionEngine sample_engine_env (RiskManager RiskLimits 0)
        \<lparr>sco_scores = [(''BTCUSDT'', SymbolScore\<lparr>ss_symbol := ''BTCUSDT'', ss_tier := ''A'', ss_total_trades := 30\<rparr>)],
         sco_context = [], sco_realized = [], sco_last_rescore = 0\<rparr>
        risk_init fresh_learner \<lparr>am_alerts = []\<rparr> (shadow_init fresh_learner Map.empty) (spot_init Map.empty)
        \<lparr>rn_confidence = [], rn_disk = Map.empty\<rparr> (Map.empty, 0) (Map.empty, 0))"

definition sample_entry_signal :: signal where
  "sample_entry_signal = WebhookSignal\<lparr>sg_symbol := ''BTCUSDT'', sg_timeframe := ''15'', sg_sig_type := Entry,
     sg_action := ''buy'', sg_price := lit 100, sg_tp1 := lit 110, sg_sl := lit 95, sg_signal_direction := ''bull''\<rparr>"

text \<open>An entry, a loss on the stream, a second entry and an emergency close.\<close>

definition sample_events :: "jv engine_event list" where
  "sample_events =
     [Round sample_engine_env 1 (Some sample_entry_signal),
      StreamPosition sample_engine_env \<lparr>wp_symbol = ''BTCUSDT'', wp_hold_side = ''long'', wp_size = 0, wp_avg_price = lit 50,
        wp_realized_pnl = lit (- 500)\<rparr>,
      Round sample_engine_env 2 (Some (sample_entry_signal\<lparr>sg_unix_time := 9\<rparr>)), CloseAll sample_engine_env]"

theorem breakers_never_fed_witness:
  "unfed (bk_risk (en_book (engine_run sample_events sample_engine))) \<and> unfed_orders (en_risk (engine_run sample_events sample_engine))"
proof (rule breakers_never_fed)
  show "unfed (bk_risk (en_book sample_engine))"
    by (simp add: unfed_def sample_engine_def ExecutionEngine_def fresh_book_def risk_init_def)
  show "unfed_orders (en_risk sample_engine)"
    by (simp add: unfed_orders_def sample_engine_def ExecutionEngine_def RiskManager_def)
qed

text \<open>The engine after one filled order for the symbol.\<close>

definition traded_engine :: engine where
  "traded_engine = sample_engine\<lparr>en_risk := on_position_opened ''BTCUSDT'' 1 ''long'' (RiskManager RiskLimits 0)\<rparr>"



theorem engine_keeps_book_witness:
  "book_ok default_cfg (shadow_mode (bk_risk (en_book (engine_run sample_events sample_engine))))
     (bk_positions (en_book (engine_run sample_events sample_engine)))"
proof (rule engine_keeps_book)
  show "list_all (internal default_cfg) sample_events"
    by (simp add: sample_events_def internal_def sample_engine_env_def)
  show "book_ok default_cfg (shadow_mode (bk_risk (en_book sample_engine))) (bk_positions (en_book sample_engine))"
    by (simp add: book_ok_def one_per_symbol_def within_counts_def sample_engine_def ExecutionEngine_def fresh_book_def
        risk_init_def default_cfg_def eff_max_concurrent_def eff_max_total_def eff_max_same_dir_def same_dir_count_def
        tf_count_def tf_limit_def)
qed


end
