(* ===== verification/Backtester.thy ===== *)
theory Backtester
  imports Json_Api Core_Types "HOL-Library.List_Lexorder" "HOL-Library.Char_ord"
begin

text \<open>
  \<open>backtest/log_parser.hpp\<close> and \<open>backtest/backtester.hpp\<close>: the parser of recorded signals and the
  replay of a signal sequence.  The replay's members are the record \<open>bt\<close>; \<open>m_positions\<close> is a map
  with one position per symbol.  The order in which \<open>close_all_remaining\<close> visits the map is the
  order of the association list.  Opening the file is outside the model: \<open>load\<close> takes its text.
\<close>

subsection \<open>Recorded signals\<close>

record bt_signal =
  bs_time :: string
  bs_alert :: string
  bs_symbol :: string
  bs_price :: double
  bs_entry_price :: double
  bs_direction :: string
  bs_rating :: int
  bs_timeframe :: string

definition is_entry :: "bt_signal \<Rightarrow> bool" where
  "is_entry s \<longleftrightarrow> bs_alert s = ''buy'' \<or> bs_alert s = ''sell''"

definition is_tp :: "bt_signal \<Rightarrow> bool" where
  "is_tp s \<longleftrightarrow> bs_alert s = ''TP1'' \<or> bs_alert s = ''TP2'' \<or> bs_alert s = ''TP3''"

definition is_sl :: "bt_signal \<Rightarrow> bool" where
  "is_sl s \<longleftrightarrow> bs_alert s = ''sl'' \<or> bs_alert s = ''SL''"

definition is_reentry :: "bt_signal \<Rightarrow> bool" where
  "is_reentry s \<longleftrightarrow> bs_alert s = ''re-entry'' \<or> bs_alert s = ''RE''"

definition tp_level :: "bt_signal \<Rightarrow> int" where
  "tp_level s = (if bs_alert s = ''TP1'' then 1 else if bs_alert s = ''TP2'' then 2 else if bs_alert s = ''TP3'' then 3 else 0)"

record bt_trade =
  bd_timestamp :: string
  bd_symbol :: string
  bd_side :: string
  bd_entry_price :: double
  bd_exit_price :: double
  bd_quantity :: double
  bd_pnl :: double
  bd_pnl_pct :: double
  bd_fee :: double
  bd_duration_min :: double
  bd_exit_reason :: string
  bd_timeframe :: string

record parsed_state =
  pt_signals :: "bt_signal list"
  pt_trades :: "bt_trade list"
  pt_balance :: double
  pt_total_pnl :: double
  pt_total_trades :: int
  pt_wins :: int
  pt_losses :: int

definition signal_from :: "'j json_api \<Rightarrow> 'j \<Rightarrow> exn + bt_signal" where
  "signal_from api s =
     (let str = (\<lambda>k. js_value_string api s k []); dbl = (\<lambda>k. js_value_double api s k 0) in
      ebind (str ''time'') (\<lambda>tm. ebind (str ''alert'') (\<lambda>al. ebind (str ''symbol'') (\<lambda>sy.
      ebind (dbl ''price'') (\<lambda>pr. ebind (dbl ''entry_price'') (\<lambda>ep. ebind (str ''direction'') (\<lambda>dr.
      ebind (js_value_int api s ''rating'' 0) (\<lambda>rt. ebind (str ''timeframe'') (\<lambda>tf.
      Inr \<lparr>bs_time = tm, bs_alert = al, bs_symbol = sy, bs_price = pr, bs_entry_price = ep, bs_direction = dr,
           bs_rating = rt, bs_timeframe = tf\<rparr>)))))))))"

definition trade_from :: "'j json_api \<Rightarrow> 'j \<Rightarrow> exn + bt_trade" where
  "trade_from api t =
     (let str = (\<lambda>k. js_value_string api t k []); dbl = (\<lambda>k. js_value_double api t k 0) in
      ebind (str ''timestamp'') (\<lambda>ts. ebind (str ''symbol'') (\<lambda>sy. ebind (str ''side'') (\<lambda>sd.
      ebind (dbl ''entry_price'') (\<lambda>ep. ebind (dbl ''exit_price'') (\<lambda>xp. ebind (dbl ''quantity'') (\<lambda>qt.
      ebind (dbl ''pnl'') (\<lambda>pn. ebind (dbl ''pnl_pct'') (\<lambda>pp. ebind (dbl ''fee'') (\<lambda>fe.
      ebind (dbl ''duration_min'') (\<lambda>du. ebind (str ''exit_reason'') (\<lambda>er. ebind (str ''timeframe'') (\<lambda>tf.
      Inr \<lparr>bd_timestamp = ts, bd_symbol = sy, bd_side = sd, bd_entry_price = ep, bd_exit_price = xp, bd_quantity = qt,
           bd_pnl = pn, bd_pnl_pct = pp, bd_fee = fe, bd_duration_min = du, bd_exit_reason = er, bd_timeframe = tf\<rparr>)))))))))))))"

text \<open>A section of the file: its elements, none when it is missing or not an array.\<close>

definition section_of :: "'j json_api \<Rightarrow> ('j \<Rightarrow> exn + 'a) \<Rightarrow> 'j \<Rightarrow> string \<Rightarrow> exn + 'a list" where
  "section_of api f j key =
     (if js_contains api j key
      then ebind (js_field api j key) (\<lambda>v. if js_is_array api v then emap f (js_elems api v) else Inr [])
      else Inr [])"

definition load :: "'j json_api \<Rightarrow> string \<Rightarrow> exn + parsed_state" where
  "load api txt =
     ebind (js_parse api txt) (\<lambda>j.
     ebind (js_value_double api j ''balance'' 0) (\<lambda>bal.
     ebind (js_value_double api j ''total_pnl'' 0) (\<lambda>pnl.
     ebind (js_value_int api j ''total_trades'' 0) (\<lambda>n.
     ebind (js_value_int api j ''wins'' 0) (\<lambda>w.
     ebind (js_value_int api j ''losses'' 0) (\<lambda>l.
     ebind (section_of api (signal_from api) j ''signals'') (\<lambda>sigs.
     ebind (section_of api (trade_from api) j ''trades'') (\<lambda>trs.
     Inr \<lparr>pt_signals = sigs, pt_trades = trs, pt_balance = bal, pt_total_pnl = pnl, pt_total_trades = n, pt_wins = w,
          pt_losses = l\<rparr>))))))))"

definition filter_by_symbol :: "bt_signal list \<Rightarrow> string \<Rightarrow> bt_signal list" where
  "filter_by_symbol sigs symb = filter (\<lambda>s. bs_symbol s = symb) sigs"

definition filter_by_timeframe :: "bt_signal list \<Rightarrow> string \<Rightarrow> bt_signal list" where
  "filter_by_timeframe sigs tf = filter (\<lambda>s. bs_timeframe s = tf) sigs"

text \<open>A \<open>std::set\<close> of strings, read out in order.\<close>

definition unique_symbols :: "bt_signal list \<Rightarrow> string list" where
  "unique_symbols sigs = sorted_list_of_set (set (filter (\<lambda>s. s \<noteq> []) (map bs_symbol sigs)))"

definition unique_timeframes :: "bt_signal list \<Rightarrow> string list" where
  "unique_timeframes sigs = sorted_list_of_set (set (filter (\<lambda>s. s \<noteq> []) (map bs_timeframe sigs)))"

subsection \<open>Replay\<close>

record bt_params =
  bp_trade_amount_usdt :: double
  bp_leverage :: int
  bp_fee_rate :: double
  bp_tp1_ratio :: double
  bp_tp2_ratio :: double
  bp_initial_balance :: double

definition BtParams :: bt_params where
  "BtParams = \<lparr>bp_trade_amount_usdt = lit 10, bp_leverage = 10, bp_fee_rate = lit (6/10000), bp_tp1_ratio = lit (33/100),
     bp_tp2_ratio = lit (33/100), bp_initial_balance = lit 1000\<rparr>"

record bt_position =
  bq_symbol :: string
  bq_side :: string
  bq_entry_price :: double
  bq_quantity :: double
  bq_initial_qty :: double
  bq_leverage :: int
  bq_tp1 :: double
  bq_tp2 :: double
  bq_tp3 :: double
  bq_sl :: double

record bt_result =
  br_symbol :: string
  br_side :: string
  br_entry_price :: double
  br_exit_price :: double
  br_quantity :: double
  br_pnl :: double
  br_pnl_pct :: double
  br_exit_reason :: string

record bt_metrics =
  bm_total_pnl :: double
  bm_total_return_pct :: double
  bm_total_trades :: int
  bm_wins :: int
  bm_losses :: int
  bm_win_rate :: double
  bm_avg_pnl :: double
  bm_max_drawdown_pct :: double
  bm_sharpe_ratio :: double
  bm_profit_factor :: double
  bm_final_balance :: double
  bm_avg_win :: double
  bm_avg_loss :: double
  bm_param_amount :: double
  bm_param_leverage :: int

record bt =
  bt_balance :: double
  bt_peak_balance :: double
  bt_max_dd :: double
  bt_positions :: "bt_position smap"
  bt_results :: "bt_result list"
  bt_equity_curve :: "double list"

definition reset :: "bt_params \<Rightarrow> bt" where
  "reset p = \<lparr>bt_balance = bp_initial_balance p, bt_peak_balance = bp_initial_balance p, bt_max_dd = 0, bt_positions = [],
     bt_results = [], bt_equity_curve = [bp_initial_balance p]\<rparr>"

definition calc_pnl :: "string \<Rightarrow> double \<Rightarrow> double \<Rightarrow> double \<Rightarrow> double" where
  "calc_pnl side entry exit qty = (if side = ''long'' then (exit - entry) * qty else (entry - exit) * qty)"

definition record_trade :: "bt_position \<Rightarrow> double \<Rightarrow> double \<Rightarrow> double \<Rightarrow> string \<Rightarrow> bt \<Rightarrow> bt" where
  "record_trade pos exit qty pnl reason b =
     b\<lparr>bt_results := bt_results b @
        [\<lparr>br_symbol = bq_symbol pos, br_side = bq_side pos, br_entry_price = bq_entry_price pos, br_exit_price = exit,
          br_quantity = qty, br_pnl = pnl,
          br_pnl_pct = (if bq_entry_price pos > 0 then pnl / (qty * bq_entry_price pos) * lit 100 else 0),
          br_exit_reason = reason\<rparr>]\<rparr>"

definition update_equity :: "bt \<Rightarrow> bt" where
  "update_equity b =
     (let peak = (if bt_balance b > bt_peak_balance b then bt_balance b else bt_peak_balance b);
          dd = (if peak > 0 then (peak - bt_balance b) / peak * lit 100 else 0)
      in b\<lparr>bt_equity_curve := bt_equity_curve b @ [bt_balance b], bt_peak_balance := peak,
           bt_max_dd := stdmax (bt_max_dd b) dd\<rparr>)"

definition close_position :: "bt_params \<Rightarrow> string \<Rightarrow> double \<Rightarrow> string \<Rightarrow> bt \<Rightarrow> bt" where
  "close_position p symb exit reason b =
     (case map_of (bt_positions b) symb of
        None \<Rightarrow> b
      | Some pos \<Rightarrow>
          let pnl = calc_pnl (bq_side pos) (bq_entry_price pos) exit (bq_quantity pos) - bq_quantity pos * exit * bp_fee_rate p;
              b1 = record_trade pos exit (bq_quantity pos) pnl reason (b\<lparr>bt_balance := bt_balance b + pnl\<rparr>)
          in update_equity (b1\<lparr>bt_positions := AList.delete symb (bt_positions b1)\<rparr>))"

definition open_position :: "bt_params \<Rightarrow> bt_signal \<Rightarrow> bt \<Rightarrow> bt" where
  "open_position p sig b =
     (let size = bp_trade_amount_usdt p / bs_price sig; margin = bp_trade_amount_usdt p / dint (bp_leverage p) in
      if margin > bt_balance b * lit (95/100) then b
      else b\<lparr>bt_balance := bt_balance b - size * bs_price sig * bp_fee_rate p,
             bt_positions := AList.update (bs_symbol sig)
               \<lparr>bq_symbol = bs_symbol sig, bq_side = (if bs_alert sig = ''buy'' then ''long'' else ''short''),
                bq_entry_price = bs_price sig, bq_quantity = size, bq_initial_qty = size, bq_leverage = bp_leverage p,
                bq_tp1 = 0, bq_tp2 = 0, bq_tp3 = 0, bq_sl = 0\<rparr>
               (bt_positions b)\<rparr>)"

definition handle_entry :: "bt_params \<Rightarrow> bt_signal \<Rightarrow> bt \<Rightarrow> bt" where
  "handle_entry p sig b =
     (case map_of (bt_positions b) (bs_symbol sig) of
        None \<Rightarrow> open_position p sig b
      | Some pos \<Rightarrow>
          if bq_side pos \<noteq> (if bs_alert sig = ''buy'' then ''long'' else ''short'')
          then open_position p sig (close_position p (bs_symbol sig) (bs_price sig) ''REVERSE'' b)
          else b)"

definition take_profit :: "bt_params \<Rightarrow> bt_signal \<Rightarrow> bt_position \<Rightarrow> double \<Rightarrow> bt \<Rightarrow> bt" where
  "take_profit p sig pos qty b =
     (let pnl = calc_pnl (bq_side pos) (bq_entry_price pos) (bs_price sig) qty - qty * bs_price sig * bp_fee_rate p;
          pos' = pos\<lparr>bq_quantity := bq_quantity pos - qty\<rparr>;
          b1 = record_trade pos' (bs_price sig) qty pnl (bs_alert sig) (b\<lparr>bt_balance := bt_balance b + pnl\<rparr>)
      in update_equity (b1\<lparr>bt_positions :=
           (if bq_quantity pos' \<le> lit (1 / 10 ^ 12) then AList.delete (bs_symbol sig) (bt_positions b1)
            else AList.update (bs_symbol sig) pos' (bt_positions b1))\<rparr>))"

definition tp_quantity :: "bt_params \<Rightarrow> int \<Rightarrow> bt_position \<Rightarrow> double" where
  "tp_quantity p level pos =
     (let ratio = (if level = 1 then bp_tp1_ratio p else if level = 2 then bp_tp2_ratio p else if level = 3 then 1 else 0)
      in if level = 3 then bq_quantity pos else stdmin (bq_initial_qty pos * ratio) (bq_quantity pos))"

definition handle_tp :: "bt_params \<Rightarrow> bt_signal \<Rightarrow> bt \<Rightarrow> bt" where
  "handle_tp p sig b =
     (case map_of (bt_positions b) (bs_symbol sig) of
        None \<Rightarrow> b
      | Some pos \<Rightarrow>
          let qty = tp_quantity p (tp_level sig) pos in if qty \<le> 0 then b else take_profit p sig pos qty b)"

definition handle_sl :: "bt_params \<Rightarrow> bt_signal \<Rightarrow> bt \<Rightarrow> bt" where
  "handle_sl p sig b = close_position p (bs_symbol sig) (bs_price sig) ''SL'' b"

definition handle_reentry :: "bt_params \<Rightarrow> bt_signal \<Rightarrow> bt \<Rightarrow> bt" where
  "handle_reentry p sig b =
     (if map_of (bt_positions b) (bs_symbol sig) \<noteq> None then b
      else handle_entry p (sig\<lparr>bs_alert := (if bs_direction sig = ''bull'' then ''buy'' else ''sell'')\<rparr>) b)"

definition process_signal :: "bt_params \<Rightarrow> bt_signal \<Rightarrow> bt \<Rightarrow> bt" where
  "process_signal p sig b =
     (if is_entry sig then handle_entry p sig b
      else if is_tp sig then handle_tp p sig b
      else if is_sl sig then handle_sl p sig b
      else if is_reentry sig then handle_reentry p sig b
      else b)"

text \<open>What is still open is closed at its entry price.\<close>

definition expire :: "bt_params \<Rightarrow> string \<Rightarrow> bt \<Rightarrow> bt" where
  "expire p symb b =
     (case map_of (bt_positions b) symb of
        None \<Rightarrow> b
      | Some pos \<Rightarrow> close_position p symb (bq_entry_price pos) ''EXPIRE'' b)"

definition close_all_remaining :: "bt_params \<Rightarrow> bt \<Rightarrow> bt" where
  "close_all_remaining p b = fold (expire p) (map fst (bt_positions b)) b"

definition sum_of :: "double list \<Rightarrow> double" where
  "sum_of xs = foldl (+) 0 xs"

definition sharpe :: "double list \<Rightarrow> double" where
  "sharpe returns =
     (let n = int (length returns) in
      if n > 1 then
        let mean = sum_of returns / dint n;
            stdev = dsqrt (sum_of (map (\<lambda>r. (r - mean) * (r - mean)) returns) / dint (n - 1))
        in if stdev > lit (1 / 10 ^ 10) then mean / stdev * dsqrt (lit 252) else 0
      else 0)"

definition compute_metrics :: "bt_params \<Rightarrow> bt \<Rightarrow> bt_metrics" where
  "compute_metrics p b =
     (let pnls = map br_pnl (bt_results b); wins = filter (\<lambda>x. x > 0) pnls; losses = filter (\<lambda>x. x < 0) pnls;
          n = int (length pnls); w = int (length wins); l = int (length losses);
          sum_wins = sum_of wins; sum_losses = sum_of (map (\<lambda>x. \<bar>x\<bar>) losses);
          total = bt_balance b - bp_initial_balance p
      in \<lparr>bm_total_pnl = total,
          bm_total_return_pct = (if bp_initial_balance p > 0 then total / bp_initial_balance p * lit 100 else 0),
          bm_total_trades = n, bm_wins = w, bm_losses = l,
          bm_win_rate = (if n > 0 then dint w / dint n else 0), bm_avg_pnl = (if n > 0 then total / dint n else 0),
          bm_max_drawdown_pct = bt_max_dd b, bm_sharpe_ratio = sharpe pnls,
          bm_profit_factor = (if sum_losses > 0 then sum_wins / sum_losses else lit 999),
          bm_final_balance = bt_balance b, bm_avg_win = (if w > 0 then sum_wins / dint w else 0),
          bm_avg_loss = (if l > 0 then sum_losses / dint l else 0), bm_param_amount = 0, bm_param_leverage = 0\<rparr>)"

definition replay :: "bt_params \<Rightarrow> bt_signal list \<Rightarrow> bt" where
  "replay p sigs = close_all_remaining p (fold (process_signal p) sigs (reset p))"

definition run :: "bt_params \<Rightarrow> bt_signal list \<Rightarrow> bt_metrics" where
  "run p sigs = compute_metrics p (replay p sigs)"

definition run_with_params :: "bt_params \<Rightarrow> bt_signal list \<Rightarrow> double \<Rightarrow> int \<Rightarrow> bt_metrics" where
  "run_with_params p sigs amount lev =
     (run (p\<lparr>bp_trade_amount_usdt := amount, bp_leverage := lev\<rparr>) sigs)\<lparr>bm_param_amount := amount, bm_param_leverage := lev\<rparr>"

subsection \<open>What every replay keeps\<close>

text \<open>
  A replay changes its state in three ways: it opens a position on a symbol that has none, closes a
  position in full, or takes a partial profit.  The locale states what an invariant needs, and its
  lemma carries it through a whole run, the forced closing at the end included.
\<close>

lemma update_equity_positions [simp]: "bt_positions (update_equity b) = bt_positions b"
  by (simp add: update_equity_def Let_def)

lemma record_trade_positions [simp]: "bt_positions (record_trade pos x q pnl r b) = bt_positions b"
  by (simp add: record_trade_def)

lemma close_position_positions [simp]: "bt_positions (close_position p y x r b) = AList.delete y (bt_positions b)"
  by (simp add: close_position_def Let_def delete_absent split: option.split)

lemma take_profit_positions:
  "bt_positions (take_profit p s pos qty b) =
     (if bq_quantity pos - qty \<le> lit (1 / 10 ^ 12) then AList.delete (bs_symbol s) (bt_positions b)
      else AList.update (bs_symbol s) (pos\<lparr>bq_quantity := bq_quantity pos - qty\<rparr>) (bt_positions b))"
  by (simp add: take_profit_def Let_def)

lemma close_position_flat: "map_of (bt_positions (close_position p y x r b)) y = None"
  by (simp add: map_of_delete)

lemma close_position_other:
  "k \<noteq> y \<Longrightarrow> map_of (bt_positions (close_position p y x r b)) k = map_of (bt_positions b) k"
  by (simp add: map_of_delete)

locale bt_steps =
  fixes p :: bt_params
    and Inv :: "bt \<Rightarrow> bool"
  assumes opened: "Inv b \<Longrightarrow> map_of (bt_positions b) (bs_symbol s) = None \<Longrightarrow> Inv (open_position p s b)"
    and closed: "Inv b \<Longrightarrow> Inv (close_position p y x r b)"
    and partial: "Inv b \<Longrightarrow> map_of (bt_positions b) (bs_symbol s) = Some pos \<Longrightarrow> Inv (take_profit p s pos qty b)"
begin

lemma entry_keeps: "Inv b \<Longrightarrow> Inv (handle_entry p s b)"
  by (auto simp: handle_entry_def close_position_flat map_of_delete intro!: opened closed split: option.split)

lemma tp_keeps: "Inv b \<Longrightarrow> Inv (handle_tp p s b)"
  by (auto simp: handle_tp_def Let_def intro: partial split: option.split)

lemma reentry_keeps: "Inv b \<Longrightarrow> Inv (handle_reentry p s b)"
  by (auto simp: handle_reentry_def intro: entry_keeps)

lemma process_keeps: "Inv b \<Longrightarrow> Inv (process_signal p s b)"
  by (auto simp: process_signal_def handle_sl_def intro: entry_keeps reentry_keeps closed tp_keeps)

lemma fold_keeps: "Inv b \<Longrightarrow> Inv (fold (process_signal p) sigs b)"
  by (induction sigs arbitrary: b) (auto intro: process_keeps)

lemma expire_keeps: "Inv b \<Longrightarrow> Inv (fold (expire p) ks b)"
  by (induction ks arbitrary: b) (auto simp: expire_def intro!: closed split: option.split)

lemma close_all_keeps: "Inv b \<Longrightarrow> Inv (close_all_remaining p b)"
  by (simp add: close_all_remaining_def expire_keeps)

end

locale bt_contract = bt_steps +
  assumes start: "Inv (reset p)"
begin

lemma replay_keeps: "Inv (replay p sigs)"
  by (simp add: replay_def close_all_keeps fold_keeps start)

end

text \<open>The book: one position per symbol, filed under its symbol, on a known side.\<close>

definition bt_book :: "bt \<Rightarrow> bool" where
  "bt_book b \<longleftrightarrow> wf_map (bt_positions b) \<and>
     (\<forall>k pos. map_of (bt_positions b) k = Some pos \<longrightarrow> bq_symbol pos = k \<and> (bq_side pos = ''long'' \<or> bq_side pos = ''short''))"

interpretation book: bt_contract p bt_book
proof
  show "bt_book (reset p)" by (simp add: bt_book_def reset_def)
next
  fix b s assume "bt_book b"
  then show "bt_book (open_position p s b)"
    by (auto simp: bt_book_def open_position_def Let_def map_of_update)
next
  fix b y x r assume "bt_book b"
  then show "bt_book (close_position p y x r b)" by (simp add: bt_book_def map_of_delete)
next
  fix b pos qty and s :: bt_signal assume "bt_book b" "map_of (bt_positions b) (bs_symbol s) = Some pos"
  then show "bt_book (take_profit p s pos qty b)"
    by (simp add: bt_book_def take_profit_positions map_of_delete map_of_update)
qed

lemma expire_flat: "map_of (bt_positions (expire p y b)) y = None"
  by (simp add: expire_def map_of_delete split: option.split)

lemma expire_keeps_flat: "map_of (bt_positions b) k = None \<Longrightarrow> map_of (bt_positions (expire p y b)) k = None"
  by (cases "k = y") (auto simp: expire_def map_of_delete split: option.split)

lemma fold_expire_flat:
  "k \<in> set ks \<or> map_of (bt_positions b) k = None \<Longrightarrow> map_of (bt_positions (fold (expire p) ks b)) k = None"
  by (induction ks arbitrary: b) (auto simp: expire_flat expire_keeps_flat)

lemma close_all_flat: "bt_positions (close_all_remaining p b) = []"
proof -
  have "map_of (bt_positions (close_all_remaining p b)) k = None" for k
    unfolding close_all_remaining_def by (rule fold_expire_flat) (simp add: map_of_eq_None_iff)
  then have "map_of (bt_positions (close_all_remaining p b)) = Map.empty" by (simp add: fun_eq_iff)
  then show ?thesis by simp
qed

text \<open>The curve: one point per recorded trade after the first, and the peak its true maximum.\<close>

definition bt_curve :: "bt_params \<Rightarrow> bt \<Rightarrow> bool" where
  "bt_curve p b \<longleftrightarrow>
     length (bt_equity_curve b) = length (bt_results b) + 1 \<and> hd (bt_equity_curve b) = bp_initial_balance p \<and>
     bt_peak_balance b \<in> set (bt_equity_curve b) \<and> 0 \<le> bt_max_dd b \<and>
     (\<forall>e \<in> set (bt_equity_curve b). \<not> bt_peak_balance b < e)"

lemma stdmax_keeps_nonneg: "0 \<le> a \<Longrightarrow> 0 \<le> stdmax a b"
  by (rule d_trans [OF _ stdmax_ge1]) (auto dest: d_not_NaN)

lemma bt_curve_upd:
  assumes "bt_curve p b" "bt_equity_curve b' = bt_equity_curve b" "bt_peak_balance b' = bt_peak_balance b"
    "bt_max_dd b' = bt_max_dd b" "length (bt_results b') = length (bt_results b) + 1"
  shows "bt_curve p (update_equity b')"
proof -
  let ?P = "if bt_balance b' > bt_peak_balance b then bt_balance b' else bt_peak_balance b"
  have ne: "bt_equity_curve b \<noteq> []" using assms(1) by (auto simp: bt_curve_def)
  have P: "bt_peak_balance (update_equity b') = ?P" "bt_equity_curve (update_equity b') = bt_equity_curve b @ [bt_balance b']"
    "bt_results (update_equity b') = bt_results b'" "0 \<le> bt_max_dd (update_equity b')"
    using assms by (simp_all add: update_equity_def Let_def bt_curve_def stdmax_keeps_nonneg)
  have top: "\<forall>e \<in> set (bt_equity_curve b @ [bt_balance b']). \<not> ?P < e"
    using assms(1) by (auto simp: bt_curve_def dest: d_less_trans)
  show ?thesis using assms(1,5) ne top by (auto simp: bt_curve_def P simp del: update_equity_positions)
qed

interpretation curve: bt_contract p "bt_curve p"
proof
  show "bt_curve p (reset p)" by (auto simp: bt_curve_def reset_def)
next
  fix b s assume "bt_curve p b"
  then show "bt_curve p (open_position p s b)" by (simp add: bt_curve_def open_position_def Let_def)
next
  fix b y x r assume c: "bt_curve p b"
  then show "bt_curve p (close_position p y x r b)"
    by (auto simp: close_position_def record_trade_def Let_def split: option.split intro: bt_curve_upd [OF c])
next
  fix b s pos qty assume c: "bt_curve p b"
  then show "bt_curve p (take_profit p s pos qty b)"
    by (auto simp: take_profit_def record_trade_def Let_def intro: bt_curve_upd [OF c])
qed

text \<open>C37.  C0.  Every backtest ends with an empty book, whatever the signals were, and its equity curve is
  sound: one point for the start and one per recorded trade, beginning at the initial balance; the peak is a
  point of the curve that no other point exceeds, the drawdown is never negative, and the number
  of wins and losses never exceeds the number of trades.
\<close>

theorem backtest_ends_flat:
  "let b = replay p sigs; m = run p sigs in
     bt_positions b = [] \<and> length (bt_equity_curve b) = length (bt_results b) + 1 \<and>
     hd (bt_equity_curve b) = bp_initial_balance p \<and> bt_peak_balance b \<in> set (bt_equity_curve b) \<and>
     (\<nexists>e. e \<in> set (bt_equity_curve b) \<and> bt_peak_balance b < e) \<and> 0 \<le> bm_max_drawdown_pct m \<and>
     bm_final_balance m = bt_balance b \<and> bm_wins m + bm_losses m \<le> bm_total_trades m"
proof -
  let ?b = "replay p sigs" and ?pn = "map br_pnl (bt_results (replay p sigs))"
  have c: "bt_curve p ?b" by (rule curve.replay_keeps)
  have "length (filter (\<lambda>x. x > 0) xs) + length (filter (\<lambda>x. x < 0) xs) \<le> length xs" for xs :: "double list"
    by (induction xs) (auto dest: d_less_trans)
  from this [of ?pn] show ?thesis
    using c by (auto simp: Let_def bt_curve_def run_def compute_metrics_def replay_def close_all_flat)
qed

lemma NaN_arith [simp]: "NaN + x = NaN" "NaN - x = NaN" "x + NaN = NaN" "x - NaN = NaN"
  by (cases x; simp add: double_defs)+

interpretation spoilt: bt_steps p "\<lambda>b. bt_balance b = NaN"
  by unfold_locales
    (simp_all add: open_position_def close_position_def take_profit_def record_trade_def update_equity_def Let_def
      split: option.split)

lemma free_quantity: "0 < a \<Longrightarrow> a / 0 * 0 * f = (NaN :: double)"
  by (cases a; cases f) (simp_all add: double_defs inf_sign_def)

lemma free_entry:
  assumes "is_entry s" "bs_price s = 0" "0 < bp_trade_amount_usdt p" "map_of (bt_positions b) (bs_symbol s) = None"
    and "\<not> bt_balance b * lit (95/100) < bp_trade_amount_usdt p / dint (bp_leverage p)"
  shows "bt_balance (process_signal p s b) = NaN"
  using assms by (simp add: process_signal_def handle_entry_def open_position_def Let_def free_quantity)

text \<open>A replay has no guard on prices: an entry signal whose price is zero (the value a record without
  the field gets) that finds its symbol free and the margin sufficient makes the balance NaN,
  and whatever signals follow, the result reported for the run is NaN.
\<close>

theorem priceless_entry_ruins_run:
  assumes "is_entry s" "bs_price s = 0" "0 < bp_trade_amount_usdt p"
    and "map_of (bt_positions (fold (process_signal p) before (reset p))) (bs_symbol s) = None"
    and "\<not> bt_balance (fold (process_signal p) before (reset p)) * lit (95/100) < bp_trade_amount_usdt p / dint (bp_leverage p)"
  shows "bm_total_pnl (run p (before @ s # after)) = NaN \<and> bm_final_balance (run p (before @ s # after)) = NaN"
proof -
  have "bt_balance (fold (process_signal p) after (process_signal p s (fold (process_signal p) before (reset p)))) = NaN"
    by (intro spoilt.fold_keeps free_entry assms)
  then have "bt_balance (replay p (before @ s # after)) = NaN" by (simp add: replay_def spoilt.close_all_keeps)
  then show ?thesis by (simp add: run_def compute_metrics_def Let_def)
qed

definition demo_bt_signal :: "string \<Rightarrow> double \<Rightarrow> bt_signal" where
  "demo_bt_signal al px =
     \<lparr>bs_time = [], bs_alert = al, bs_symbol = ''BTCUSDT'', bs_price = px, bs_entry_price = 0, bs_direction = ''bull'',
      bs_rating = 1, bs_timeframe = ''15''\<rparr>"

theorem priceless_entry_ruins_run_witness:
  "bm_total_pnl (run BtParams ([] @ demo_bt_signal ''buy'' 0 # [demo_bt_signal ''SL'' (dint 90)])) = NaN \<and>
   bm_final_balance (run BtParams ([] @ demo_bt_signal ''buy'' 0 # [demo_bt_signal ''SL'' (dint 90)])) = NaN"
proof (rule priceless_entry_ruins_run)
  show "\<not> bt_balance (fold (process_signal BtParams) [] (reset BtParams)) * lit (95/100)
      < bp_trade_amount_usdt BtParams / dint (bp_leverage BtParams)"
    by code_simp
  show "0 < bp_trade_amount_usdt BtParams" by code_simp
qed (simp_all add: demo_bt_signal_def is_entry_def reset_def)

end
