(* ===== verification/Wf_Optimizer.thy ===== *)
theory Wf_Optimizer
  imports Backtester Text_Conv
begin

text \<open>
  \<open>backtest/wf_optimizer.hpp\<close>: the walk-forward search.  The signals are cut into windows, the
  parameter grid is searched on the first part of each window and the winner is replayed on the
  second.  The window loop advances by \<open>step\<close>, which the configuration can make zero, so the model
  of the loop is a partial function: \<open>None\<close> is a loop that never ends.  Window bounds are unbounded
  integers, which agrees with the code's \<open>int\<close> below \<open>2 ^ 30\<close> signals.  The grids are non-empty lists
  (the code reads element 0 of each).  The order in which the frequency table is visited
  is the order of the association list.
\<close>

datatype objective = Sharpe | PnL | ProfitFactor | ReturnOverDD

record wf_config =
  wc_is_ratio :: double
  wc_min_is_signals :: int
  wc_min_oos_signals :: int
  wc_step_size :: int
  wc_amount_grid :: "double list"
  wc_leverage_grid :: "int list"
  wc_fee_rate :: double
  wc_initial_balance :: double
  wc_objective :: objective

definition WFConfig :: wf_config where
  "WFConfig = \<lparr>wc_is_ratio = lit (7/10), wc_min_is_signals = 50, wc_min_oos_signals = 20, wc_step_size = 0,
     wc_amount_grid = map dint [5, 10, 15, 20, 30, 50, 75, 100], wc_leverage_grid = [3, 5, 7, 10, 15, 20, 25],
     wc_fee_rate = lit (6/10000), wc_initial_balance = dint 1000, wc_objective = Sharpe\<rparr>"

record wf_window =
  ww_window_id :: int
  ww_is_start :: int
  ww_is_end :: int
  ww_oos_start :: int
  ww_oos_end :: int
  ww_best_amount :: double
  ww_best_leverage :: int
  ww_is_sharpe :: double
  ww_is_pnl :: double
  ww_oos_metrics :: bt_metrics

record wf_result =
  wr_windows :: "wf_window list"
  wr_total_oos_pnl :: double
  wr_total_oos_return_pct :: double
  wr_avg_oos_sharpe :: double
  wr_max_oos_drawdown :: double
  wr_total_oos_trades :: int
  wr_oos_win_rate :: double
  wr_recommended_amount :: double
  wr_recommended_leverage :: int

definition no_result :: wf_result where
  "no_result = \<lparr>wr_windows = [], wr_total_oos_pnl = 0, wr_total_oos_return_pct = 0, wr_avg_oos_sharpe = 0,
     wr_max_oos_drawdown = 0, wr_total_oos_trades = 0, wr_oos_win_rate = 0, wr_recommended_amount = 0,
     wr_recommended_leverage = 0\<rparr>"

record grid_result =
  gr_amount :: double
  gr_leverage :: int
  gr_score :: double
  gr_pnl :: double

definition make_params :: "wf_config \<Rightarrow> double \<Rightarrow> int \<Rightarrow> bt_params" where
  "make_params c amount lev =
     BtParams\<lparr>bp_trade_amount_usdt := amount, bp_leverage := lev, bp_fee_rate := wc_fee_rate c,
       bp_initial_balance := wc_initial_balance c\<rparr>"

definition evaluate :: "wf_config \<Rightarrow> bt_metrics \<Rightarrow> double" where
  "evaluate c m =
     (case wc_objective c of
        Sharpe \<Rightarrow> bm_sharpe_ratio m - stdmax 0 (bm_max_drawdown_pct m - lit 10) * lit (1/10)
      | PnL \<Rightarrow> bm_total_pnl m
      | ProfitFactor \<Rightarrow> bm_profit_factor m
      | ReturnOverDD \<Rightarrow> if bm_max_drawdown_pct m > lit (1/10) then bm_total_return_pct m / bm_max_drawdown_pct m
                        else bm_total_return_pct m)"

definition grid_step :: "wf_config \<Rightarrow> bt_signal list \<Rightarrow> double \<times> int \<Rightarrow> grid_result \<Rightarrow> grid_result" where
  "grid_step c sigs cell best =
     (let m = run (make_params c (fst cell) (snd cell)) sigs; score = evaluate c m
      in if score > gr_score best
         then \<lparr>gr_amount = fst cell, gr_leverage = snd cell, gr_score = score, gr_pnl = bm_total_pnl m\<rparr> else best)"

definition grid_search :: "wf_config \<Rightarrow> bt_signal list \<Rightarrow> grid_result" where
  "grid_search c sigs =
     fold (grid_step c sigs) (List.product (wc_amount_grid c) (wc_leverage_grid c))
       \<lparr>gr_amount = hd (wc_amount_grid c), gr_leverage = hd (wc_leverage_grid c), gr_score = lit (- 1000000000), gr_pnl = 0\<rparr>"

definition slice :: "int \<Rightarrow> int \<Rightarrow> 'a list \<Rightarrow> 'a list" where
  "slice a b xs = take (nat (b - a)) (drop (nat a) xs)"

definition one_window :: "wf_config \<Rightarrow> bt_signal list \<Rightarrow> int \<Rightarrow> int \<Rightarrow> int \<Rightarrow> int \<Rightarrow> wf_window" where
  "one_window c sigs is_size oos_size wid start =
     (let is_end = start + is_size; oos_end = min (is_end + oos_size) (int (length sigs));
          g = grid_search c (slice start is_end sigs);
          m = run (make_params c (gr_amount g) (gr_leverage g)) (slice is_end oos_end sigs)
      in \<lparr>ww_window_id = wid, ww_is_start = start, ww_is_end = is_end, ww_oos_start = is_end, ww_oos_end = oos_end,
          ww_best_amount = gr_amount g, ww_best_leverage = gr_leverage g, ww_is_sharpe = gr_score g, ww_is_pnl = gr_pnl g,
          ww_oos_metrics = m\<lparr>bm_param_amount := gr_amount g, bm_param_leverage := gr_leverage g\<rparr>\<rparr>)"

partial_function (option) windows_from ::
    "wf_config \<Rightarrow> bt_signal list \<Rightarrow> int \<Rightarrow> int \<Rightarrow> int \<Rightarrow> int \<Rightarrow> int \<Rightarrow> wf_window list option" where
  "windows_from c sigs is_size oos_size step wid start =
     (if start + is_size + oos_size \<le> int (length sigs)
      then Option.bind (windows_from c sigs is_size oos_size step (wid + 1) (start + step))
             (\<lambda>ws. Some (one_window c sigs is_size oos_size wid start # ws))
      else Some [])"

definition param_key :: "wf_window \<Rightarrow> string" where
  "param_key w = show_int (dtrunc (ww_best_amount w)) @ ''_'' @ show_int (ww_best_leverage w)"

definition count_key :: "string \<Rightarrow> int smap \<Rightarrow> int smap" where
  "count_key k freq = AList.update k ((case map_of freq k of Some n \<Rightarrow> n | None \<Rightarrow> 0) + 1) freq"

definition params_of_key :: "string \<Rightarrow> exn + double \<times> int" where
  "params_of_key key =
     ebind (stod (takeWhile (\<lambda>ch. ch \<noteq> CHR ''_'') key)) (\<lambda>a.
     ebind (stoi (tl (dropWhile (\<lambda>ch. ch \<noteq> CHR ''_'') key))) (\<lambda>l. Inr (a, l)))"

fun recommend :: "int smap \<Rightarrow> int \<Rightarrow> double \<times> int \<Rightarrow> exn + double \<times> int" where
  "recommend [] max_freq best = Inr best"
| "recommend ((key, freq) # rest) max_freq best =
     (if freq > max_freq then ebind (params_of_key key) (recommend rest freq) else recommend rest max_freq best)"

definition compute_final_results :: "wf_config \<Rightarrow> wf_window list \<Rightarrow> exn + wf_result" where
  "compute_final_results c ws =
     (let r0 = no_result\<lparr>wr_windows := ws\<rparr>; ms = map ww_oos_metrics ws;
          pnl = sum_of (map bm_total_pnl ms); shrp = sum_of (map bm_sharpe_ratio ms);
          trades = sum_list (map bm_total_trades ms); wins = sum_list (map bm_wins ms)
      in if ws = [] then Inr r0
         else ebind (recommend (fold (\<lambda>w. count_key (param_key w)) ws []) 0 (0, 0)) (\<lambda>(a, l).
           Inr (r0\<lparr>wr_total_oos_pnl := pnl,
             wr_total_oos_return_pct := (if wc_initial_balance c > 0 then pnl / wc_initial_balance c * lit 100 else 0),
             wr_avg_oos_sharpe := shrp / dint (int (length ws)),
             wr_max_oos_drawdown := fold (\<lambda>m d. stdmax d (bm_max_drawdown_pct m)) ms 0,
             wr_total_oos_trades := trades,
             wr_oos_win_rate := (if trades > 0 then dint wins / dint trades else 0),
             wr_recommended_amount := a, wr_recommended_leverage := l\<rparr>)))"

definition single_pass_optimize :: "wf_config \<Rightarrow> bt_signal list \<Rightarrow> wf_result" where
  "single_pass_optimize c sigs =
     (let g = grid_search c sigs; n = int (length sigs); m = run (make_params c (gr_amount g) (gr_leverage g)) sigs
      in \<lparr>wr_windows = [\<lparr>ww_window_id = 0, ww_is_start = 0, ww_is_end = n, ww_oos_start = 0, ww_oos_end = n,
             ww_best_amount = gr_amount g, ww_best_leverage = gr_leverage g, ww_is_sharpe = gr_score g, ww_is_pnl = gr_pnl g,
             ww_oos_metrics = m\<rparr>],
          wr_total_oos_pnl = bm_total_pnl m, wr_total_oos_return_pct = bm_total_return_pct m,
          wr_avg_oos_sharpe = bm_sharpe_ratio m, wr_max_oos_drawdown = bm_max_drawdown_pct m,
          wr_total_oos_trades = bm_total_trades m, wr_oos_win_rate = bm_win_rate m,
          wr_recommended_amount = gr_amount g, wr_recommended_leverage = gr_leverage g\<rparr>)"

text \<open>The sizes of the two parts of a window and the step, from the number of signals.\<close>

definition window_sizes :: "wf_config \<Rightarrow> int \<Rightarrow> int \<times> int \<times> int" where
  "window_sizes c n =
     (let total = max (wc_min_is_signals c + wc_min_oos_signals c) (dtrunc (dint n * lit (1/2)));
          is0 = dtrunc (dint total * wc_is_ratio c);
          is_size = max is0 (wc_min_is_signals c); oos_size = max (total - is0) (wc_min_oos_signals c)
      in (is_size, oos_size, if wc_step_size c > 0 then wc_step_size c else oos_size))"

definition optimize :: "wf_config \<Rightarrow> bt_signal list \<Rightarrow> (exn + wf_result) option" where
  "optimize c sigs =
     (if int (length sigs) < wc_min_is_signals c + wc_min_oos_signals c then Some (Inr (single_pass_optimize c sigs))
      else case window_sizes c (int (length sigs)) of
        (is_size, oos_size, step) \<Rightarrow>
          map_option (compute_final_results c) (windows_from c sigs is_size oos_size step 0 0))"

subsection \<open>Grid search\<close>

definition cell_score :: "wf_config \<Rightarrow> bt_signal list \<Rightarrow> double \<times> int \<Rightarrow> double" where
  "cell_score c sigs cell = evaluate c (run (make_params c (fst cell) (snd cell)) sigs)"

definition cell_result :: "wf_config \<Rightarrow> bt_signal list \<Rightarrow> double \<times> int \<Rightarrow> grid_result" where
  "cell_result c sigs cell =
     \<lparr>gr_amount = fst cell, gr_leverage = snd cell, gr_score = cell_score c sigs cell,
      gr_pnl = bm_total_pnl (run (make_params c (fst cell) (snd cell)) sigs)\<rparr>"

lemma grid_step_alt:
  "grid_step c sigs cell g = (if gr_score g < cell_score c sigs cell then cell_result c sigs cell else g)"
  by (simp add: grid_step_def cell_result_def cell_score_def Let_def)

lemma fold_grid:
  "let r = fold (grid_step c sigs) cells g in
     (\<forall>cell \<in> set cells. \<not> gr_score r < cell_score c sigs cell) \<and>
     (r = g \<or> gr_score g < gr_score r \<and> (\<exists>cell \<in> set cells. r = cell_result c sigs cell))"
proof (induction cells arbitrary: g)
  case (Cons cell cells)
  have sc: "gr_score (cell_result c sigs cell) = cell_score c sigs cell" by (simp add: cell_result_def)
  show ?case
    using Cons.IH [of "cell_result c sigs cell"] Cons.IH [of g]
    by (cases "gr_score g < cell_score c sigs cell") (auto simp: Let_def grid_step_alt sc dest: d_less_trans)
qed simp

text \<open>The grid search returns a cell of the grid, and no cell of the grid scores higher on the
  signals it was given: the score it reports is that cell's own, or the floor of minus one
  billion when no cell beats the floor.
\<close>

theorem grid_search_best:
  assumes "wc_amount_grid c \<noteq> []" "wc_leverage_grid c \<noteq> []"
  shows "let g = grid_search c sigs in
     gr_amount g \<in> set (wc_amount_grid c) \<and> gr_leverage g \<in> set (wc_leverage_grid c) \<and>
     \<not> (\<exists>a l. a \<in> set (wc_amount_grid c) \<and> l \<in> set (wc_leverage_grid c) \<and>
          gr_score g < evaluate c (run (make_params c a l) sigs)) \<and>
     (gr_score g = evaluate c (run (make_params c (gr_amount g) (gr_leverage g)) sigs) \<or> gr_score g = lit (- 1000000000))"
proof -
  let ?g0 = "\<lparr>gr_amount = hd (wc_amount_grid c), gr_leverage = hd (wc_leverage_grid c), gr_score = lit (- 1000000000), gr_pnl = 0\<rparr>"
  show ?thesis
    using fold_grid [of c sigs "List.product (wc_amount_grid c) (wc_leverage_grid c)" ?g0] assms
    by (auto simp: Let_def grid_search_def cell_result_def cell_score_def)
qed

theorem grid_search_best_witness:
  "let g = grid_search WFConfig [] in
     gr_amount g \<in> set (wc_amount_grid WFConfig) \<and> gr_leverage g \<in> set (wc_leverage_grid WFConfig) \<and>
     \<not> (\<exists>a l. a \<in> set (wc_amount_grid WFConfig) \<and> l \<in> set (wc_leverage_grid WFConfig) \<and>
          gr_score g < evaluate WFConfig (run (make_params WFConfig a l) [])) \<and>
     (gr_score g = evaluate WFConfig (run (make_params WFConfig (gr_amount g) (gr_leverage g)) []) \<or>
      gr_score g = lit (- 1000000000))"
  by (rule grid_search_best) (simp_all add: WFConfig_def)

subsection \<open>Windows\<close>

declare windows_from.simps [code]

lemma div_step:
  fixes r s :: int
  assumes "0 < s" "0 \<le> r"
  shows "nat (r div s + 1) = Suc (nat ((r - s) div s + 1))"
proof -
  have "(r - s) div s = r div s - 1" using assms div_mult_self1 [of s "r - s" 1] by simp
  moreover have "0 \<le> r div s" using assms by (simp add: pos_imp_zdiv_nonneg_iff)
  ultimately show ?thesis by simp
qed

lemma windows_closed:
  assumes "0 < step"
  shows "windows_from c sigs is_size oos_size step wid start =
     Some (map (\<lambda>k. one_window c sigs is_size oos_size (wid + int k) (start + int k * step))
       [0..<nat ((int (length sigs) - start - is_size - oos_size) div step + 1)])"
    (is "_ = Some (map _ [0..<?N start])")
proof (induction "?N start" arbitrary: wid start)
  case 0
  let ?r = "int (length sigs) - start - is_size - oos_size"
  have "?r < 0"
  proof (rule ccontr)
    assume "\<not> ?r < 0"
    then have "0 \<le> ?r div step" using assms by (simp add: pos_imp_zdiv_nonneg_iff)
    with 0 show False by linarith
  qed
  then show ?case using 0 by (subst windows_from.simps) simp
next
  case (Suc m)
  let ?r = "int (length sigs) - start - is_size - oos_size"
  have r: "0 \<le> ?r"
  proof (rule ccontr)
    assume "\<not> 0 \<le> ?r"
    then have "?r div step < 0" using assms by (simp add: pos_imp_zdiv_neg_iff)
    with Suc.hyps(2) show False by linarith
  qed
  have N: "?N start = Suc (?N (start + step))"
    using div_step [OF assms r] by (simp add: algebra_simps)
  then have m: "m = ?N (start + step)" using Suc.hyps(2) by simp
  have "windows_from c sigs is_size oos_size step wid start =
      Some (one_window c sigs is_size oos_size wid start #
        map (\<lambda>k. one_window c sigs is_size oos_size (wid + 1 + int k) (start + step + int k * step)) [0..<m])"
    using r Suc.hyps(1) [OF m, of "wid + 1"] m by (subst windows_from.simps) simp
  also have "\<dots> = Some (map (\<lambda>k. one_window c sigs is_size oos_size (wid + int k) (start + int k * step)) [0..<Suc m])"
    by (simp add: map_upt_Suc algebra_simps del: upt_Suc)
  finally show ?case using N m by simp
qed

lemma windows_defined:
  "windows_from c sigs is_size oos_size step wid start = Some ws \<Longrightarrow>
     \<not> (step = 0 \<and> start + is_size + oos_size \<le> int (length sigs))"
  by (rule windows_from.raw_induct [where P = "\<lambda>c sigs is_size oos_size step wid start ws.
        \<not> (step = 0 \<and> start + is_size + oos_size \<le> int (length sigs))"])
    (fastforce simp: bind_eq_Some_conv split: if_splits)+

lemma windows_stuck:
  "start + is_size + oos_size \<le> int (length sigs) \<Longrightarrow> windows_from c sigs is_size oos_size 0 wid start = None"
  using windows_defined by (cases "windows_from c sigs is_size oos_size 0 wid start") blast+

lemma window_sizes_bounds:
  assumes "window_sizes c n = (is_size, oos_size, step)"
  shows "wc_min_is_signals c \<le> is_size" "wc_min_oos_signals c \<le> oos_size"
    "step = (if wc_step_size c > 0 then wc_step_size c else oos_size)"
  using assms by (auto simp: window_sizes_def Let_def)

text \<open>C38.  C0.  The search ends except in one case: with an out-of-sample part of size zero and no step of
  its own, the window loop does not move and never returns (once there are enough signals for a window).
\<close>

theorem optimize_diverges_iff:
  assumes "0 \<le> wc_min_oos_signals c" "window_sizes c (int (length sigs)) = (is_size, oos_size, step)"
  shows "optimize c sigs = None \<longleftrightarrow>
     wc_min_is_signals c + wc_min_oos_signals c \<le> int (length sigs) \<and> oos_size = 0 \<and> wc_step_size c \<le> 0 \<and>
     is_size \<le> int (length sigs)"
proof -
  have st: "step = (if wc_step_size c > 0 then wc_step_size c else oos_size)" and oos: "0 \<le> oos_size"
    using window_sizes_bounds [OF assms(2)] assms(1) by auto
  show ?thesis
  proof (cases "0 < step")
    case True
    then show ?thesis using st oos assms(2) by (auto simp: optimize_def windows_closed)
  next
    case False
    with st oos have z: "step = 0" "oos_size = 0" "wc_step_size c \<le> 0" by (auto split: if_splits)
    have "windows_from c sigs is_size 0 0 0 0 = None \<longleftrightarrow> is_size \<le> int (length sigs)"
      using windows_stuck [of 0 is_size 0 sigs c 0] windows_from.simps [of c sigs is_size 0 0 0 0]
      by (cases "is_size \<le> int (length sigs)") simp_all
    with z assms(2) show ?thesis by (auto simp: optimize_def)
  qed
qed

theorem optimize_diverges_iff_witness:
  "optimize (WFConfig\<lparr>wc_min_oos_signals := 0, wc_is_ratio := 1\<rparr>) (replicate 50 (demo_bt_signal ''buy'' (dint 100))) = None \<longleftrightarrow>
     wc_min_is_signals (WFConfig\<lparr>wc_min_oos_signals := 0, wc_is_ratio := 1\<rparr>) +
       wc_min_oos_signals (WFConfig\<lparr>wc_min_oos_signals := 0, wc_is_ratio := 1\<rparr>) \<le>
       int (length (replicate 50 (demo_bt_signal ''buy'' (dint 100)))) \<and> (0::int) = 0 \<and>
     wc_step_size (WFConfig\<lparr>wc_min_oos_signals := 0, wc_is_ratio := 1\<rparr>) \<le> 0 \<and>
     50 \<le> int (length (replicate 50 (demo_bt_signal ''buy'' (dint 100))))"
proof (rule optimize_diverges_iff)
  have "window_sizes (WFConfig\<lparr>wc_min_oos_signals := 0, wc_is_ratio := 1\<rparr>) 50 = (50, 0, 0)" by code_simp
  then show "window_sizes (WFConfig\<lparr>wc_min_oos_signals := 0, wc_is_ratio := 1\<rparr>)
      (int (length (replicate 50 (demo_bt_signal ''buy'' (dint 100))))) = (50, 0, 0)" by simp
qed (simp add: WFConfig_def)


definition small_config :: wf_config where
  "small_config = WFConfig\<lparr>wc_min_is_signals := 2, wc_min_oos_signals := 1\<rparr>"

definition four_signals :: "bt_signal list" where
  "four_signals = replicate 4 (demo_bt_signal ''buy'' (dint 100))"


lemma seventy_signals_result:
  assumes "length sigs = 70"
  shows "\<exists>r. optimize (WFConfig\<lparr>wc_initial_balance := bal\<rparr>) sigs = Some (Inr r) \<and> wr_windows r = [] \<and> wr_recommended_amount r = 0 \<and>
     wr_recommended_leverage r = 0"
proof -
  have "window_sizes WFConfig 70 = (50, 21, 21)" by code_simp
  moreover have "window_sizes (WFConfig\<lparr>wc_initial_balance := bal\<rparr>) 70 = window_sizes WFConfig 70"
    by (simp add: window_sizes_def Let_def cong: if_cong)
  ultimately have sz: "window_sizes (WFConfig\<lparr>wc_initial_balance := bal\<rparr>) 70 = (50, 21, 21)" by simp
  have "windows_from c sigs 50 21 21 0 0 = Some []" for c
    using assms by (subst windows_from.simps) simp
  with assms sz show ?thesis
    by (simp add: optimize_def compute_final_results_def no_result_def WFConfig_def)
qed

text \<open>
  C0.  The guard on the number of signals does not imply that a window fits: with the default
  configuration, exactly seventy signals pass the guard, the two parts of a window are rounded up
  to seventy-one, and the search returns a result with no window that recommends an order size of
  zero and a leverage of zero.
\<close>

theorem seventy_signals_recommend_nothing:
  assumes "length sigs = 70"
  shows "\<exists>r. optimize (WFConfig\<lparr>wc_initial_balance := bal\<rparr>) sigs = Some (Inr r) \<and> wr_windows r = [] \<and> wr_recommended_amount r = 0 \<and>
     wr_recommended_leverage r = 0"
  using assms by (rule seventy_signals_result)

theorem seventy_signals_recommend_nothing_witness:
  "\<exists>r. optimize (WFConfig\<lparr>wc_initial_balance := dint 500\<rparr>) (replicate 70 (demo_bt_signal ''buy'' (dint 100))) = Some (Inr r) \<and>
     wr_windows r = [] \<and> wr_recommended_amount r = 0 \<and> wr_recommended_leverage r = 0"
  by (rule seventy_signals_recommend_nothing) simp

end
