(* ===== verification/Backtest_Main.thy ===== *)
theory Backtest_Main
  imports Wf_Optimizer
begin

text \<open>
  \<open>src/backtest_main.cpp\<close>: the command-line program around the backtester.  Its modes print
  reports; the model returns what is printed.  Files are a map from paths to texts; whether the
  temporary file opens and the rename succeeds is an argument (\<open>file_io\<close>).
\<close>

record cli_args =
  ca_state_path :: string
  ca_symbol :: string
  ca_timeframe :: string
  ca_mode :: string
  ca_config_path :: string
  ca_balance :: double
  ca_amount :: double
  ca_leverage :: int
  ca_apply :: bool

definition CliArgs :: cli_args where
  "CliArgs = \<lparr>ca_state_path = [], ca_symbol = [], ca_timeframe = [], ca_mode = ''wf'', ca_config_path = [],
     ca_balance = dint 1000, ca_amount = dint 10, ca_leverage = 10, ca_apply = False\<rparr>"

text \<open>The options after the path; an option without a value, and anything unknown, is skipped.\<close>

fun parse_opts :: "string list \<Rightarrow> cli_args \<Rightarrow> exn + cli_args" where
  "parse_opts [] a = Inr a"
| "parse_opts [x] a = Inr a"
| "parse_opts (x # y # rest) a =
     (if x = ''--symbol'' then parse_opts rest (a\<lparr>ca_symbol := y\<rparr>)
      else if x = ''--timeframe'' then parse_opts rest (a\<lparr>ca_timeframe := y\<rparr>)
      else if x = ''--mode'' then parse_opts rest (a\<lparr>ca_mode := y\<rparr>)
      else if x = ''--balance'' then ebind (stod y) (\<lambda>v. parse_opts rest (a\<lparr>ca_balance := v\<rparr>))
      else if x = ''--amount'' then ebind (stod y) (\<lambda>v. parse_opts rest (a\<lparr>ca_amount := v\<rparr>))
      else if x = ''--leverage'' then ebind (stoi y) (\<lambda>v. parse_opts rest (a\<lparr>ca_leverage := v\<rparr>))
      else if x = ''--apply'' then parse_opts rest (a\<lparr>ca_apply := True, ca_config_path := y\<rparr>)
      else parse_opts (y # rest) a)"

text \<open>The arguments after the program's name; \<open>None\<close> is the usage text and \<open>exit(1)\<close>.\<close>

definition parse_args :: "string list \<Rightarrow> (exn + cli_args) option" where
  "parse_args argv =
     (case argv of [] \<Rightarrow> None | path # opts \<Rightarrow> Some (parse_opts opts (CliArgs\<lparr>ca_state_path := path\<rparr>)))"

subsection \<open>Writing the configuration\<close>

type_synonym files = "string \<Rightarrow> string option"

record file_io =
  fi_tmp_opens :: bool
  fi_renames :: bool

text \<open>\<open>j[k] = v\<close>: an object is updated, a null becomes an object, everything else throws.\<close>

definition assign_key :: "'j json_api \<Rightarrow> 'j json_writer \<Rightarrow> 'j \<Rightarrow> string \<Rightarrow> 'j \<Rightarrow> exn + 'j" where
  "assign_key api w j k v =
     (if js_is_object api j then Inr (jw_obj w (AList.update k v (js_items api j)))
      else if js_is_null api j then Inr (jw_obj w [(k, v)])
      else Inl JsonTypeError)"

definition updated_config :: "'j json_api \<Rightarrow> 'j json_writer \<Rightarrow> string \<Rightarrow> double \<Rightarrow> int \<Rightarrow> exn + 'j" where
  "updated_config api w txt amount lev =
     ebind (js_parse api txt) (\<lambda>j0.
     ebind (if js_contains api j0 ''trading'' then Inr j0 else assign_key api w j0 ''trading'' (jw_obj w [])) (\<lambda>j.
     ebind (js_field api j ''trading'') (\<lambda>t0.
     ebind (js_value_double api t0 ''trade_amount_usdt'' 0) (\<lambda>_.
     ebind (js_value_int api t0 ''default_leverage'' 0) (\<lambda>_.
     ebind (assign_key api w t0 ''trade_amount_usdt'' (jw_dbl w amount)) (\<lambda>t1.
     ebind (assign_key api w t1 ''default_leverage'' (jw_int w lev)) (\<lambda>t2.
     assign_key api w j ''trading'' t2)))))))"

definition apply_to_config ::
    "'j json_api \<Rightarrow> 'j json_writer \<Rightarrow> file_io \<Rightarrow> string \<Rightarrow> double \<Rightarrow> int \<Rightarrow> files \<Rightarrow> exn option \<times> files" where
  "apply_to_config api w io path amount lev fs =
     (case fs path of
        None \<Rightarrow> (None, fs)
      | Some txt \<Rightarrow>
          (case updated_config api w txt amount lev of
             Inl e \<Rightarrow> (Some e, fs)
           | Inr j \<Rightarrow>
               let tmp = path @ ''.tmp''; text = jw_dump w j @ [CHR 0x0A] in
               if \<not> fi_tmp_opens io then (None, fs)
               else if \<not> fi_renames io then (Some (RuntimeError ''rename''), fs(tmp \<mapsto> text))
               else (None, (fs(tmp := None))(path \<mapsto> text))))"

subsection \<open>The modes\<close>

definition cell_params :: "cli_args \<Rightarrow> double \<Rightarrow> int \<Rightarrow> bt_params" where
  "cell_params args amount lev =
     BtParams\<lparr>bp_trade_amount_usdt := amount, bp_leverage := lev, bp_initial_balance := ca_balance args\<rparr>"

definition run_single :: "bt_signal list \<Rightarrow> cli_args \<Rightarrow> bt_metrics" where
  "run_single sigs args =
     (run (cell_params args (ca_amount args) (ca_leverage args)) sigs)
       \<lparr>bm_param_amount := ca_amount args, bm_param_leverage := ca_leverage args\<rparr>"

definition BtMetrics :: bt_metrics where
  "BtMetrics = \<lparr>bm_total_pnl = 0, bm_total_return_pct = 0, bm_total_trades = 0, bm_wins = 0, bm_losses = 0, bm_win_rate = 0,
     bm_avg_pnl = 0, bm_max_drawdown_pct = 0, bm_sharpe_ratio = 0, bm_profit_factor = 0, bm_final_balance = 0,
     bm_avg_win = 0, bm_avg_loss = 0, bm_param_amount = 0, bm_param_leverage = 0\<rparr>"

definition penalised :: "bt_metrics \<Rightarrow> double" where
  "penalised m = bm_sharpe_ratio m - stdmax 0 (bm_max_drawdown_pct m - lit 10) * lit (1/10)"

text \<open>The nested loops over a grid: best score so far, its metrics and its cell.\<close>

definition try_cell ::
    "cli_args \<Rightarrow> bt_signal list \<Rightarrow> double \<times> int \<Rightarrow> double \<times> bt_metrics \<times> double \<times> int \<Rightarrow> double \<times> bt_metrics \<times> double \<times> int" where
  "try_cell args sigs cell best =
     (let m = run (cell_params args (fst cell) (snd cell)) sigs; score = penalised m
      in if score > fst best then (score, m, fst cell, snd cell) else best)"

definition run_grid :: "bt_signal list \<Rightarrow> cli_args \<Rightarrow> bt_metrics" where
  "run_grid sigs args =
     (case fold (\<lambda>cell best. let m = run (cell_params args (fst cell) (snd cell)) sigs; score = penalised m
              in if score > fst best
                 then (score, m\<lparr>bm_param_amount := fst cell, bm_param_leverage := snd cell\<rparr>) else best)
            (List.product (map dint [5, 10, 15, 20, 30, 50, 75, 100]) [3, 5, 7, 10, 15, 20, 25])
            (lit (- 1000000000), BtMetrics) of (_, m) \<Rightarrow> m)"

record tf_result =
  tr_tf :: string
  tr_signal_count :: nat
  tr_trade_count :: int
  tr_pnl :: double
  tr_win_rate :: double
  tr_sharpe :: double
  tr_max_dd :: double
  tr_profit_factor :: double
  tr_best_amount :: double
  tr_best_leverage :: int

definition compare_one :: "cli_args \<Rightarrow> bt_signal list \<Rightarrow> string \<Rightarrow> tf_result" where
  "compare_one args sigs tf =
     (case fold (try_cell args sigs) (List.product (map dint [5, 10, 15, 20, 30]) [3, 5, 7, 10, 15])
             (lit (- 1000000000), BtMetrics, dint 10, 5) of
        (_, m, amt, lev) \<Rightarrow>
          \<lparr>tr_tf = tf, tr_signal_count = length sigs, tr_trade_count = bm_total_trades m, tr_pnl = bm_total_pnl m,
           tr_win_rate = bm_win_rate m * dint 100, tr_sharpe = bm_sharpe_ratio m, tr_max_dd = bm_max_drawdown_pct m,
           tr_profit_factor = bm_profit_factor m, tr_best_amount = amt, tr_best_leverage = lev\<rparr>)"

text \<open>\<open>std::max_element\<close>: the first element that no later one exceeds.\<close>

definition max_by :: "('a \<Rightarrow> double) \<Rightarrow> 'a list \<Rightarrow> 'a option" where
  "max_by f xs = (case xs of [] \<Rightarrow> None | x # rest \<Rightarrow> Some (fold (\<lambda>y m. if f m < f y then y else m) rest x))"

definition run_compare :: "bt_signal list \<Rightarrow> cli_args \<Rightarrow> tf_result list \<times> tf_result option" where
  "run_compare sigs args =
     (let rs = map (\<lambda>tf. compare_one args (filter_by_timeframe sigs tf) tf)
                 (filter (\<lambda>tf. 5 \<le> length (filter_by_timeframe sigs tf)) (unique_timeframes sigs))
      in (rs, max_by tr_sharpe rs))"

record wf_report =
  rp_result :: wf_result
  rp_full :: bt_metrics

definition run_wf ::
    "'j json_api \<Rightarrow> 'j json_writer \<Rightarrow> file_io \<Rightarrow> bt_signal list \<Rightarrow> cli_args \<Rightarrow> files \<Rightarrow> ((exn + wf_report \<times> exn option) \<times> files) option" where
  "run_wf api w io sigs args fs =
     map_option (\<lambda>res. case res of
         Inl e \<Rightarrow> (Inl e, fs)
       | Inr r \<Rightarrow>
           let m = (run (cell_params args (wr_recommended_amount r) (wr_recommended_leverage r)) sigs)
                     \<lparr>bm_param_amount := wr_recommended_amount r, bm_param_leverage := wr_recommended_leverage r\<rparr>;
               (err, fs') = (if ca_apply args \<and> ca_config_path args \<noteq> []
                 then apply_to_config api w io (ca_config_path args) (wr_recommended_amount r) (wr_recommended_leverage r) fs
                 else (None, fs))
           in (Inr (\<lparr>rp_result = r, rp_full = m\<rparr>, err), fs'))
       (optimize (WFConfig\<lparr>wc_initial_balance := ca_balance args\<rparr>) sigs)"

subsection \<open>The program\<close>

text \<open>
  How a run ends.  The arguments are parsed outside the \<open>try\<close>, so a malformed number terminates the
  process; every other exception becomes exit code 1.
\<close>

datatype bt_outcome =
    Usage
  | Terminated exn
  | ExitError exn
  | NoSignals
  | Endless
  | SingleDone bt_metrics
  | GridDone bt_metrics
  | CompareDone "tf_result list" "tf_result option"
  | WfDone wf_report

definition selected :: "cli_args \<Rightarrow> bt_signal list \<Rightarrow> bt_signal list" where
  "selected args sigs =
     (let s1 = (if ca_symbol args \<noteq> [] then filter_by_symbol sigs (ca_symbol args) else sigs)
      in if ca_timeframe args \<noteq> [] \<and> ca_mode args \<noteq> ''compare'' then filter_by_timeframe s1 (ca_timeframe args) else s1)"

definition load_file :: "'j json_api \<Rightarrow> files \<Rightarrow> string \<Rightarrow> exn + parsed_state" where
  "load_file api fs path =
     (case fs path of None \<Rightarrow> Inl (RuntimeError (''Cannot open: '' @ path)) | Some txt \<Rightarrow> load api txt)"

definition dispatch ::
    "'j json_api \<Rightarrow> 'j json_writer \<Rightarrow> file_io \<Rightarrow> bt_signal list \<Rightarrow> cli_args \<Rightarrow> files \<Rightarrow> bt_outcome \<times> files" where
  "dispatch api w io sigs args fs =
     (if ca_mode args = ''compare'' then (case run_compare sigs args of (rs, best) \<Rightarrow> (CompareDone rs best, fs))
      else if ca_mode args = ''single'' then (SingleDone (run_single sigs args), fs)
      else if ca_mode args = ''grid'' then (GridDone (run_grid sigs args), fs)
      else case run_wf api w io sigs args fs of
        None \<Rightarrow> (Endless, fs)
      | Some (Inl e, fs') \<Rightarrow> (ExitError e, fs')
      | Some (Inr (rpt, err), fs') \<Rightarrow> (case err of Some e \<Rightarrow> (ExitError e, fs') | None \<Rightarrow> (WfDone rpt, fs')))"

definition main_program ::
    "'j json_api \<Rightarrow> 'j json_writer \<Rightarrow> file_io \<Rightarrow> string list \<Rightarrow> files \<Rightarrow> bt_outcome \<times> files" where
  "main_program api w io argv fs =
     (case parse_args argv of
        None \<Rightarrow> (Usage, fs)
      | Some (Inl e) \<Rightarrow> (Terminated e, fs)
      | Some (Inr args) \<Rightarrow>
          (case load_file api fs (ca_state_path args) of
             Inl e \<Rightarrow> (ExitError e, fs)
           | Inr st \<Rightarrow>
               let sigs = selected args (pt_signals st)
               in if sigs = [] then (NoSignals, fs) else dispatch api w io sigs args fs))"

lemma apply_to_config_frame:
  assumes "apply_to_config api w io path amount lev fs = (err, fs')"
  shows "\<exists>t c. fs' = fs(path @ ''.tmp'' := t, path := c) \<and>
     (c = fs path \<or> (\<exists>txt j. fs path = Some txt \<and> updated_config api w txt amount lev = Inr j \<and> c = Some (jw_dump w j @ [CHR 0x0A])))"
proof -
  have same: "\<exists>t c. fs(path @ ''.tmp'' := x) = fs(path @ ''.tmp'' := t, path := c) \<and> c = fs path" for x
    by (intro exI [of _ x] exI [of _ "fs path"]) (auto simp: fun_eq_iff)
  have none: "\<exists>t c. fs = fs(path @ ''.tmp'' := t, path := c) \<and> c = fs path"
    by (intro exI [of _ "fs (path @ ''.tmp'')"] exI [of _ "fs path"]) (auto simp: fun_eq_iff)
  show ?thesis
  proof (cases "fs path")
    case None
    with assms none show ?thesis by (auto simp: apply_to_config_def)
  next
    case (Some tx)
    show ?thesis
    proof (cases "updated_config api w tx amount lev")
      case (Inl e)
      with assms Some none show ?thesis by (auto simp: apply_to_config_def)
    next
      case (Inr j)
      with assms Some none same show ?thesis
        by (fastforce simp: apply_to_config_def Let_def split: if_splits)
    qed
  qed
qed

lemma run_wf_files:
  assumes "run_wf api w io sigs args fs = Some (res, fs')"
  shows "fs' = fs \<or> ca_apply args \<and> (\<exists>amount lev err. apply_to_config api w io (ca_config_path args) amount lev fs = (err, fs'))"
proof -
  obtain z where z: "optimize (WFConfig\<lparr>wc_initial_balance := ca_balance args\<rparr>) sigs = Some z"
    using assms by (auto simp: run_wf_def)
  show ?thesis
  proof (cases z)
    case (Inr r)
    obtain err fs2 where ap: "apply_to_config api w io (ca_config_path args) (wr_recommended_amount r) (wr_recommended_leverage r) fs = (err, fs2)"
      by fastforce
    show ?thesis
      using assms z Inr ap by (cases "ca_apply args \<and> ca_config_path args \<noteq> []") (auto simp: run_wf_def Let_def)
  qed (use assms z in \<open>auto simp: run_wf_def\<close>)
qed


definition demo_config :: jv where
  "demo_config = JObj [(''trading'', JObj [(''default_leverage'', JInt 10), (''trade_amount_usdt'', JDbl (dint 10))])]"


text \<open>Whatever the arguments, the files and the library do, the program changes at most two files,
  the configuration named on the command line and its temporary copy; the configuration is
  either left as it was or replaced by the complete text of its parsed content with the two
  trading values set.  Without the apply option no file changes.
\<close>

theorem backtest_touches_only_config:
  "let fs' = snd (main_program api w io argv fs) in
     fs' = fs \<or>
     (\<exists>args t c. parse_args argv = Some (Inr args) \<and> ca_apply args \<and>
        fs' = fs(ca_config_path args @ ''.tmp'' := t, ca_config_path args := c) \<and>
        (c = fs (ca_config_path args) \<or>
         (\<exists>txt amount lev j. fs (ca_config_path args) = Some txt \<and> updated_config api w txt amount lev = Inr j \<and>
            c = Some (jw_dump w j @ [CHR 0x0A]))))"
proof (cases "snd (main_program api w io argv fs) = fs")
  case False
  obtain fs' where fs': "snd (main_program api w io argv fs) = fs'" by blast
  with False obtain args sigs res where a: "parse_args argv = Some (Inr args)" and r: "run_wf api w io sigs args fs = Some (res, fs')"
    by (auto simp: main_program_def dispatch_def Let_def split: option.splits sum.splits prod.splits if_splits)
  obtain amount lev err where ap: "ca_apply args" "apply_to_config api w io (ca_config_path args) amount lev fs = (err, fs')"
    using run_wf_files [OF r] False fs' by blast
  show ?thesis using a ap(1) apply_to_config_frame [OF ap(2)] by (auto simp: Let_def fs') blast
qed (simp add: Let_def)

end
