(* ===== verification/Tf_Analytics.thy ===== *)
theory Tf_Analytics
  imports Trade_Recorder
begin

text \<open>
  \<open>dashboard/tf_analytics.hpp\<close>: statistics of the closed trades per timeframe.  The JSON rows are
  records here; the tables are sorted with \<open>sort_desc\<close>, which keeps the order of equal keys where
  \<open>std::sort\<close> leaves it open.
\<close>

subsection \<open>Statistics of a list of trades\<close>

record tf_stats =
  ts_timeframe :: string
  ts_total_trades :: int
  ts_wins :: int
  ts_losses :: int
  ts_total_pnl :: double
  ts_total_fee :: double
  ts_max_win :: double
  ts_max_loss :: double
  ts_avg_pnl :: double
  ts_win_rate :: double
  ts_profit_factor :: double
  ts_avg_win :: double
  ts_avg_loss :: double
  ts_max_consecutive_wins :: int
  ts_max_consecutive_losses :: int
  ts_ema_pnl :: double

definition TfStats :: tf_stats where
  "TfStats = \<lparr>ts_timeframe = [], ts_total_trades = 0, ts_wins = 0, ts_losses = 0, ts_total_pnl = 0, ts_total_fee = 0,
     ts_max_win = 0, ts_max_loss = 0, ts_avg_pnl = 0, ts_win_rate = 0, ts_profit_factor = 0, ts_avg_win = 0, ts_avg_loss = 0,
     ts_max_consecutive_wins = 0, ts_max_consecutive_losses = 0, ts_ema_pnl = 0\<rparr>"

text \<open>The loop's locals beside the statistics.\<close>

record tf_loop =
  tl_stats :: tf_stats
  tl_gross_wins :: double
  tl_gross_losses :: double
  tl_cur_wins :: int
  tl_cur_losses :: int

definition tf_win :: "double \<Rightarrow> tf_loop \<Rightarrow> tf_loop" where
  "tf_win pnl l =
     (let s = tl_stats l; cw = tl_cur_wins l + 1 in
      l\<lparr>tl_stats := s\<lparr>ts_wins := ts_wins s + 1, ts_max_win := stdmax (ts_max_win s) pnl,
          ts_max_consecutive_wins := max (ts_max_consecutive_wins s) cw\<rparr>,
        tl_gross_wins := tl_gross_wins l + pnl, tl_cur_wins := cw, tl_cur_losses := 0\<rparr>)"

definition tf_loss :: "double \<Rightarrow> tf_loop \<Rightarrow> tf_loop" where
  "tf_loss pnl l =
     (let s = tl_stats l; cl = tl_cur_losses l + 1 in
      l\<lparr>tl_stats := s\<lparr>ts_losses := ts_losses s + 1, ts_max_loss := stdmin (ts_max_loss s) pnl,
          ts_max_consecutive_losses := max (ts_max_consecutive_losses s) cl\<rparr>,
        tl_gross_losses := tl_gross_losses l + \<bar>pnl\<bar>, tl_cur_losses := cl, tl_cur_wins := 0\<rparr>)"

definition tf_step :: "trade_record \<Rightarrow> tf_loop \<Rightarrow> tf_loop" where
  "tf_step t l0 =
     (let s0 = tl_stats l0;
          l1 = l0\<lparr>tl_stats := s0\<lparr>ts_total_pnl := ts_total_pnl s0 + tr_pnl t, ts_total_fee := ts_total_fee s0 + tr_fee t\<rparr>\<rparr>;
          l2 = (if tr_pnl t > 0 then tf_win (tr_pnl t) l1 else if tr_pnl t < 0 then tf_loss (tr_pnl t) l1 else l1);
          s2 = tl_stats l2
      in l2\<lparr>tl_stats := s2\<lparr>ts_ema_pnl := lit (15/100) * tr_pnl t + (1 - lit (15/100)) * ts_ema_pnl s2\<rparr>\<rparr>)"

definition calc_stats :: "trade_record list \<Rightarrow> string \<Rightarrow> tf_stats" where
  "calc_stats trades tf =
     (let s = TfStats\<lparr>ts_timeframe := tf, ts_total_trades := int (length trades)\<rparr> in
      if trades = [] then s
      else let l = fold tf_step trades \<lparr>tl_stats = s, tl_gross_wins = 0, tl_gross_losses = 0, tl_cur_wins = 0, tl_cur_losses = 0\<rparr>;
               r = tl_stats l; n = ts_total_trades r
           in r\<lparr>ts_win_rate := (if n > 0 then dint (ts_wins r) / dint n else 0),
                ts_avg_pnl := (if n > 0 then ts_total_pnl r / dint n else 0),
                ts_avg_win := (if ts_wins r > 0 then tl_gross_wins l / dint (ts_wins r) else 0),
                ts_avg_loss := (if ts_losses r > 0 then tl_gross_losses l / dint (ts_losses r) else 0),
                ts_profit_factor := (if tl_gross_losses l > 0 then tl_gross_wins l / tl_gross_losses l
                                     else if tl_gross_wins l > 0 then lit 999 else 0)\<rparr>)"

subsection \<open>The report\<close>

text \<open>The row \<open>to_json\<close> writes: the statistics rounded, and the difference of result and fee.\<close>

record tf_row = tf_stats +
  ts_net_pnl :: double

definition to_row :: "tf_stats \<Rightarrow> tf_row" where
  "to_row s =
     \<lparr>ts_timeframe = ts_timeframe s, ts_total_trades = ts_total_trades s, ts_wins = ts_wins s, ts_losses = ts_losses s,
      ts_total_pnl = round_to 4 (ts_total_pnl s), ts_total_fee = round_to 4 (ts_total_fee s),
      ts_max_win = round_to 4 (ts_max_win s), ts_max_loss = round_to 4 (ts_max_loss s), ts_avg_pnl = round_to 4 (ts_avg_pnl s),
      ts_win_rate = dround (ts_win_rate s * lit 1000) / lit 10, ts_profit_factor = round_to 2 (ts_profit_factor s),
      ts_avg_win = round_to 4 (ts_avg_win s), ts_avg_loss = round_to 4 (ts_avg_loss s),
      ts_max_consecutive_wins = ts_max_consecutive_wins s, ts_max_consecutive_losses = ts_max_consecutive_losses s,
      ts_ema_pnl = round_to 4 (ts_ema_pnl s), ts_net_pnl = round_to 4 (ts_total_pnl s - ts_total_fee s)\<rparr>"

definition grade_of :: "tf_stats \<Rightarrow> string" where
  "grade_of s =
     (if ts_profit_factor s \<ge> lit 2 \<and> ts_win_rate s \<ge> lit (1/2) then ''S''
      else if ts_profit_factor s \<ge> lit (3/2) \<and> ts_win_rate s \<ge> lit (45/100) then ''A''
      else if ts_profit_factor s \<ge> lit (12/10) \<and> ts_win_rate s \<ge> lit (4/10) then ''B''
      else if ts_profit_factor s \<ge> 1 then ''C''
      else ''D'')"

definition tf_label :: "trade_record \<Rightarrow> string" where
  "tf_label t = (if tr_timeframe t = [] then ''unknown'' else tr_timeframe t)"

definition by_count :: "trade_record list \<Rightarrow> (string \<times> trade_record list) list" where
  "by_count trades = sort_desc (\<lambda>kv. dint (int (length (snd kv)))) (group_by tf_label trades)"

record tf_report =
  tp_overall :: tf_row
  tp_by_timeframe :: "tf_row list"
  tp_ranking :: "(nat \<times> string \<times> tf_row) list"

definition analyze :: "trade_record list \<Rightarrow> tf_report" where
  "analyze trades =
     (let groups = by_count trades;
          ranked = sort_desc ts_profit_factor
            (map (\<lambda>kv. calc_stats (snd kv) (fst kv)) (filter (\<lambda>kv. 5 \<le> length (snd kv)) groups))
      in \<lparr>tp_overall = to_row (calc_stats trades ''all''),
          tp_by_timeframe = map (\<lambda>kv. to_row (calc_stats (snd kv) (fst kv))) groups,
          tp_ranking = map (\<lambda>(i, s). (i, grade_of s, to_row s)) (zip [1..<length ranked + 1] ranked)\<rparr>)"

subsection \<open>The rows and the trades\<close>

text \<open>What the loop keeps: counts, and streaks that never exceed the counts.\<close>

definition tf_loop_ok :: "trade_record list \<Rightarrow> string \<Rightarrow> int \<Rightarrow> tf_loop \<Rightarrow> bool" where
  "tf_loop_ok ts tf n l \<longleftrightarrow>
     (let s = tl_stats l in
        ts_timeframe s = tf \<and> ts_total_trades s = n \<and>
        ts_wins s = int (length (filter (\<lambda>t. tr_pnl t > 0) ts)) \<and> ts_losses s = int (length (filter (\<lambda>t. tr_pnl t < 0) ts)) \<and>
        0 \<le> tl_cur_wins l \<and> tl_cur_wins l \<le> ts_wins s \<and> 0 \<le> tl_cur_losses l \<and> tl_cur_losses l \<le> ts_losses s \<and>
        ts_max_consecutive_wins s \<le> ts_wins s \<and> ts_max_consecutive_losses s \<le> ts_losses s)"

lemma tf_step_ok: "tf_loop_ok ts tf n l \<Longrightarrow> tf_loop_ok (ts @ [t]) tf n (tf_step t l)"
  by (auto simp: tf_loop_ok_def tf_step_def tf_win_def tf_loss_def Let_def dest: d_less_trans)

lemma fold_tf_step_ok: "tf_loop_ok us tf n l \<Longrightarrow> tf_loop_ok (us @ ts) tf n (fold tf_step ts l)"
proof (induction ts arbitrary: us l)
  case (Cons t ts)
  from Cons.IH [OF tf_step_ok [OF Cons.prems]] show ?case by simp
qed simp

lemma calc_stats_counts:
  "let s = calc_stats ts tf in
     ts_timeframe s = tf \<and> ts_total_trades s = int (length ts) \<and> ts_wins s = int (length (filter (\<lambda>t. tr_pnl t > 0) ts)) \<and>
     ts_losses s = int (length (filter (\<lambda>t. tr_pnl t < 0) ts)) \<and>
     ts_max_consecutive_wins s \<le> ts_wins s \<and> ts_max_consecutive_losses s \<le> ts_losses s"
proof -
  let ?l = "\<lparr>tl_stats = TfStats\<lparr>ts_timeframe := tf, ts_total_trades := int (length ts)\<rparr>, tl_gross_wins = 0,
    tl_gross_losses = 0, tl_cur_wins = 0, tl_cur_losses = 0\<rparr>"
  have "tf_loop_ok [] tf (int (length ts)) ?l" by (simp add: tf_loop_ok_def TfStats_def)
  from fold_tf_step_ok [OF this, of ts] show ?thesis
    by (auto simp: calc_stats_def tf_loop_ok_def Let_def TfStats_def)
qed

lemma to_row_counts [simp]:
  "ts_timeframe (to_row s) = ts_timeframe s" "ts_total_trades (to_row s) = ts_total_trades s"
  "ts_wins (to_row s) = ts_wins s" "ts_losses (to_row s) = ts_losses s"
  by (simp_all add: to_row_def)

text \<open>C40.  C0.  The timeframe report partitions the trades: one row per timeframe that occurs, each computed
  from exactly the trades of that timeframe in their order; the rows' trades, wins and losses
  add up to those of the overall row, and the ranking has exactly the timeframes with at least five trades.
\<close>

theorem tf_report_partitions:
  "let rep = analyze trades; rows = tp_by_timeframe rep in
     distinct (map ts_timeframe rows) \<and>
     set rows = (\<lambda>tf. to_row (calc_stats (filter (\<lambda>t. tf_label t = tf) trades) tf)) ` tf_label ` set trades \<and>
     sum_list (map ts_total_trades rows) = ts_total_trades (tp_overall rep) \<and>
     sum_list (map ts_wins rows) = ts_wins (tp_overall rep) \<and> sum_list (map ts_losses rows) = ts_losses (tp_overall rep) \<and>
     set (map (ts_timeframe \<circ> snd \<circ> snd) (tp_ranking rep)) =
       {tf \<in> tf_label ` set trades. 5 \<le> length (filter (\<lambda>t. tf_label t = tf) trades)}"
proof -
  let ?g = "by_count trades"
  let ?row = "\<lambda>kv. to_row (calc_stats (snd kv) (fst kv))"
  have cnt: "ts_timeframe (calc_stats ts tf) = tf" "ts_total_trades (calc_stats ts tf) = int (length ts)"
    "ts_wins (calc_stats ts tf) = int (length (filter (\<lambda>t. tr_pnl t > 0) ts))"
    "ts_losses (calc_stats ts tf) = int (length (filter (\<lambda>t. tr_pnl t < 0) ts))" for ts tf
    using calc_stats_counts [of ts tf] by (simp_all add: Let_def)
  have sum: "sum_list (map (\<lambda>kv. int (length (filter P (snd kv)))) ?g) = int (length (filter P trades))" for P
    unfolding by_count_def sum_list_sort_desc by (rule sum_group_by) simp_all
  have dist: "distinct (map fst ?g)"
    using wf_group_by [of tf_label trades] by (simp add: by_count_def wf_map_def)
  have sets: "set ?g = (\<lambda>k. (k, filter (\<lambda>t. tf_label t = k) trades)) ` tf_label ` set trades"
    by (simp add: by_count_def set_group_by)
  have ranks: "set (map (ts_timeframe \<circ> snd \<circ> snd) (tp_ranking (analyze trades))) =
      fst ` {kv \<in> set ?g. 5 \<le> length (snd kv)}"
  proof -
    let ?r = "sort_desc ts_profit_factor (map (\<lambda>kv. calc_stats (snd kv) (fst kv)) (filter (\<lambda>kv. 5 \<le> length (snd kv)) ?g))"
    have "map (ts_timeframe \<circ> snd \<circ> snd) (tp_ranking (analyze trades)) = map (ts_timeframe \<circ> snd) (zip [1..<length ?r + 1] ?r)"
      by (simp add: analyze_def Let_def comp_def case_prod_beta)
    also have "\<dots> = map ts_timeframe ?r" by (simp add: not_less_eq_eq flip: map_map)
    finally show ?thesis by (force simp: cnt)
  qed
  have rows: "tp_by_timeframe (analyze trades) = map ?row ?g" and all: "tp_overall (analyze trades) = to_row (calc_stats trades ''all'')"
    by (simp_all add: analyze_def Let_def)
  have eq: "set (map ?row ?g) = (\<lambda>tf. to_row (calc_stats (filter (\<lambda>t. tf_label t = tf) trades) tf)) ` tf_label ` set trades"
    by (simp add: sets image_image)
  have big: "fst ` {kv \<in> set ?g. 5 \<le> length (snd kv)} = {tf \<in> tf_label ` set trades. 5 \<le> length (filter (\<lambda>t. tf_label t = tf) trades)}"
    unfolding sets by force
  show ?thesis
    using dist sum [of "\<lambda>_. True"] sum [of "\<lambda>t. tr_pnl t > 0"] sum [of "\<lambda>t. tr_pnl t < 0"]
    unfolding Let_def rows all ranks big eq by (simp add: comp_def cnt)
qed

end
