(* ===== verification/Bitget_Rest.thy ===== *)
theory Bitget_Rest
  imports Json_Api Core_Types Text_Conv
begin

text \<open>
  \<open>exchange/bitget_auth.hpp\<close> and \<open>exchange/bitget_rest.hpp\<close>: signing, the persistent connection with
  its one retry, the order requests and the interpretation of the answers.  OpenSSL's HMAC with
  Base64 is a parameter, and so is the network: what happens to attempt 0 and to attempt 1 of a call.
  Every request that reached the exchange is kept in \<open>rc_delivered\<close>, answered or not.
\<close>

subsection \<open>Signing\<close>

record bitget_auth =
  ba_key :: string
  ba_secret :: string
  ba_pass :: string

type_synonym hmac_fn = "string \<Rightarrow> string \<Rightarrow> string"

definition sign :: "hmac_fn \<Rightarrow> bitget_auth \<Rightarrow> string \<Rightarrow> string \<Rightarrow> string \<Rightarrow> string \<Rightarrow> string" where
  "sign hmac a ts meth path body = hmac (ba_secret a) (ts @ meth @ path @ body)"

definition headers :: "hmac_fn \<Rightarrow> bitget_auth \<Rightarrow> int \<Rightarrow> string \<Rightarrow> string \<Rightarrow> string \<Rightarrow> string smap" where
  "headers hmac a now_ms meth path body =
     (let ts = show_int now_ms in
      [(''ACCESS-KEY'', ba_key a), (''ACCESS-PASSPHRASE'', ba_pass a), (''ACCESS-SIGN'', sign hmac a ts meth path body),
       (''ACCESS-TIMESTAMP'', ts), (''Content-Type'', ''application/json''), (''locale'', ''en-US'')])"

subsection \<open>The connection\<close>

text \<open>
  What the network does to one attempt: no connection or the write fails, the request goes out and the
  answer is lost (a reset or a timeout on the read), or an answer arrives with its status, its body and
  whether it asks to close the connection.
\<close>

datatype attempt = Unsent | Unanswered | Answered int string bool

record http_request =
  hr_method :: string
  hr_path :: string
  hr_headers :: "string smap"
  hr_body :: string

record contract_info =
  ci_size_multiplier :: double
  ci_min_trade_num :: double
  ci_price_place :: int
  ci_price_end_step :: double

record rest =
  rc_contracts :: "contract_info smap"
  rc_connected :: bool
  rc_delivered :: "http_request list"

record rest_env =
  re_hmac :: hmac_fn
  re_auth :: bitget_auth
  re_host :: string
  re_now_ms :: "nat \<Rightarrow> int"
  re_now_ns :: int
  re_net :: "nat \<Rightarrow> attempt"

definition BitgetRestClient :: rest where
  "BitgetRestClient = \<lparr>rc_contracts = [], rc_connected = False, rc_delivered = []\<rparr>"

definition close_connection :: "rest \<Rightarrow> rest" where
  "close_connection st = st\<lparr>rc_connected := False\<rparr>"

definition make_request :: "rest_env \<Rightarrow> nat \<Rightarrow> string \<Rightarrow> string \<Rightarrow> string \<Rightarrow> http_request" where
  "make_request e att meth path body =
     \<lparr>hr_method = meth, hr_path = path,
      hr_headers = (''Host'', re_host e) # (''Connection'', ''keep-alive'') # headers (re_hmac e) (re_auth e) (re_now_ms e att) meth path body,
      hr_body = body\<rparr>"

text \<open>One pass through the \<open>try\<close> block: \<open>None\<close> when something throws.\<close>

definition try_request :: "rest_env \<Rightarrow> nat \<Rightarrow> string \<Rightarrow> string \<Rightarrow> string \<Rightarrow> rest \<Rightarrow> (int \<times> string) option \<times> rest" where
  "try_request e att meth path body st =
     (case re_net e att of
        Unsent \<Rightarrow> (None, st)
      | Unanswered \<Rightarrow> (None, st\<lparr>rc_connected := True, rc_delivered := rc_delivered st @ [make_request e att meth path body]\<rparr>)
      | Answered code txt closes \<Rightarrow>
          let st1 = st\<lparr>rc_connected := True, rc_delivered := rc_delivered st @ [make_request e att meth path body]\<rparr>
          in (Some (code, txt), if closes then close_connection st1 else st1))"

definition error_text :: "string \<Rightarrow> string" where
  "error_text msg =
     (let q = [CHR 0x22] in ''{'' @ q @ ''code'' @ q @ '':'' @ q @ ''99999'' @ q @ '','' @ q @ ''msg'' @ q @ '':'' @ q @ msg @ q @ ''}'')"

definition retryable :: "int \<Rightarrow> bool" where
  "retryable code \<longleftrightarrow> code = 502 \<or> code = 503 \<or> code = 429"

function request_loop :: "rest_env \<Rightarrow> nat \<Rightarrow> string \<Rightarrow> string \<Rightarrow> string \<Rightarrow> rest \<Rightarrow> string \<times> rest" where
  "request_loop e att meth path body st =
     (if att < 2 then
        (case try_request e att meth path body st of
           (None, st1) \<Rightarrow>
             if att = 0 then request_loop e (att + 1) meth path body (close_connection st1)
             else (error_text ''connection_error'', close_connection st1)
         | (Some (code, txt), st1) \<Rightarrow>
             if retryable code \<and> att = 0 then request_loop e (att + 1) meth path body (close_connection st1)
             else (txt, st1))
      else (error_text ''unreachable'', st))"
  by pat_completeness auto
termination by (relation "measure (\<lambda>(e, att, _). 2 - att)") auto

declare request_loop.simps [simp del]

definition do_request :: "rest_env \<Rightarrow> string \<Rightarrow> string \<Rightarrow> string \<Rightarrow> rest \<Rightarrow> string \<times> rest" where
  "do_request e meth path body st = request_loop e 0 meth path body st"

subsection \<open>Contract data\<close>

definition get_contract_field :: "(contract_info \<Rightarrow> 'a) \<Rightarrow> 'a \<Rightarrow> string \<Rightarrow> rest \<Rightarrow> 'a" where
  "get_contract_field f dflt symb st = (case map_of (rc_contracts st) symb of Some c \<Rightarrow> f c | None \<Rightarrow> dflt)"

definition round_qty :: "string \<Rightarrow> double \<Rightarrow> rest \<Rightarrow> double" where
  "round_qty symb qty st =
     (let step0 = get_contract_field ci_size_multiplier (lit (1/1000)) symb st;
          step = (if step0 \<le> 0 then lit (1/1000) else step0)
      in dfloor (qty / step) * step)"

definition get_min_qty :: "string \<Rightarrow> rest \<Rightarrow> double" where
  "get_min_qty symb st = get_contract_field ci_min_trade_num (lit (1/1000)) symb st"

text \<open>How often \<open>s\<close> is multiplied by ten until it reaches one, at most \<open>k\<close> times.\<close>

fun decimals_of :: "nat \<Rightarrow> double \<Rightarrow> nat" where
  "decimals_of 0 s = 0"
| "decimals_of (Suc k) s = (if s < 1 then Suc (decimals_of k (s * lit 10)) else 0)"

definition order_qty :: "string \<Rightarrow> double \<Rightarrow> rest \<Rightarrow> double" where
  "order_qty symb qty st =
     (let r = round_qty symb qty st in if r < get_min_qty symb st then get_min_qty symb st else r)"

definition qty_text :: "string \<Rightarrow> double \<Rightarrow> rest \<Rightarrow> string" where
  "qty_text symb qty st =
     fmt_buf (decimals_of 10 (get_contract_field ci_size_multiplier (lit (1/1000)) symb st)) (order_qty symb qty st)"

subsection \<open>Reading answers\<close>

text \<open>\<open>std::stoull\<close>: the longest decimal prefix; a minus negates modulo \<open>2 ^ 64\<close>.\<close>

definition stoull :: "string \<Rightarrow> exn + int" where
  "stoull s =
     (let (neg, body) = take_sign (skip_space s); ds = takeWhile is_digit body in
      if ds = [] then Inl InvalidArgument
      else if dec_val ds < 2 ^ 64 then Inr (if neg then (- dec_val ds) mod 2 ^ 64 else dec_val ds)
      else Inl StdOutOfRange)"

definition fresh_response :: "int \<Rightarrow> int \<Rightarrow> order_response" where
  "fresh_response oid now =
     \<lparr>rs_client_order_id = oid, rs_exchange_order_id = 0, rs_status = New, rs_filled_price = 0, rs_filled_qty = 0,
      rs_updated_at = now, rs_error_code = 0, rs_error_msg = []\<rparr>"

text \<open>The \<open>try\<close> block: the response filled so far, and whether an exception ended it.\<close>

definition read_accepted :: "'j json_api \<Rightarrow> 'j \<Rightarrow> order_response \<Rightarrow> exn + order_response" where
  "read_accepted api j r =
     ebind (js_field api j ''data'') (\<lambda>data.
       if js_contains api data ''orderId''
       then ebind (js_field api data ''orderId'') (\<lambda>v. ebind (js_get_string api v) (\<lambda>s. ebind (stoull s) (\<lambda>n.
              Inr (r\<lparr>rs_status := New, rs_exchange_order_id := n\<rparr>))))
       else Inr (r\<lparr>rs_status := New\<rparr>))"

definition read_rejected :: "'j json_api \<Rightarrow> 'j \<Rightarrow> string \<Rightarrow> order_response \<Rightarrow> exn + order_response" where
  "read_rejected api j code r =
     ebind (stoi code) (\<lambda>n. ebind (js_value_string api j ''msg'' ''unknown'') (\<lambda>msg.
       Inr (r\<lparr>rs_status := Rejected, rs_error_code := n, rs_error_msg := take 127 msg\<rparr>)))"

definition parse_order_response :: "'j json_api \<Rightarrow> int \<Rightarrow> string \<Rightarrow> int \<Rightarrow> order_response" where
  "parse_order_response api now body oid =
     (let r = fresh_response oid now in
      case ebind (js_parse api body) (\<lambda>j. ebind (js_value_string api j ''code'' ''99999'') (\<lambda>code.
             if code = ''00000'' then read_accepted api j r else read_rejected api j code r)) of
        Inr r' \<Rightarrow> r'
      | Inl _ \<Rightarrow> r\<lparr>rs_status := Rejected, rs_error_code := 99999\<rparr>)"

text \<open>The answers that are only a yes or a no: the accepted codes, everything else is a no.\<close>

definition code_in :: "'j json_api \<Rightarrow> string list \<Rightarrow> string \<Rightarrow> bool" where
  "code_in api codes resp =
     ecatch (ebind (js_parse api resp) (\<lambda>j. ebind (js_value_string api j ''code'' ''99999'') (\<lambda>code.
       if code \<in> set codes then Inr True else ebind (js_value_string api j ''msg'' ''unknown'') (\<lambda>_. Inr False)))) False"

subsection \<open>The calls\<close>

definition futures_order_body :: "'j json_writer \<Rightarrow> order_request \<Rightarrow> double \<Rightarrow> double \<Rightarrow> rest \<Rightarrow> 'j" where
  "futures_order_body w req tp sl st =
     (let symb = symb_str (or_symbol req) in
      jw_obj w (
        [(''symbol'', jw_str w symb), (''productType'', jw_str w ''USDT-FUTURES''), (''marginMode'', jw_str w ''crossed''),
         (''marginCoin'', jw_str w ''USDT''), (''side'', jw_str w (if or_side req = Buy then ''buy'' else ''sell'')),
         (''tradeSide'', jw_str w (if or_trade_side req = OpenTrade then ''open'' else ''close'')),
         (''orderType'', jw_str w (if or_order_type req = Market then ''market'' else ''limit'')),
         (''size'', jw_str w (qty_text symb (or_quantity req) st)),
         (''clientOid'', jw_str w (show_int (or_client_order_id req)))] @
        (if or_order_type req = Limit then [(''price'', jw_str w (show_double (or_price req))), (''force'', jw_str w ''gtc'')]
         else [(''force'', jw_str w ''ioc'')]) @
        (if tp > 0 then [(''presetStopSurplusPrice'', jw_str w (show_double tp))] else []) @
        (if sl > 0 then [(''presetStopLossPrice'', jw_str w (show_double sl))] else [])))"

text \<open>\<open>%.*f\<close> with a precision read from the contract; a negative precision means six places.\<close>

definition price_text :: "int \<Rightarrow> double \<Rightarrow> string" where
  "price_text pp x = fmt_buf (if pp < 0 then 6 else nat pp) x"

definition ORDER_PATH :: string where "ORDER_PATH = ''/api/v2/mix/order/place-order''"

definition place_futures_order ::
    "rest_env \<Rightarrow> 'j json_api \<Rightarrow> 'j json_writer \<Rightarrow> order_request \<Rightarrow> double \<Rightarrow> double \<Rightarrow> rest \<Rightarrow> order_response \<times> rest" where
  "place_futures_order e api w req tp sl st =
     (case do_request e ''POST'' ORDER_PATH (jw_dump w (futures_order_body w req tp sl st)) st of
        (resp, st') \<Rightarrow> (parse_order_response api (re_now_ns e) resp (or_client_order_id req), st'))"

definition place_tpsl ::
    "rest_env \<Rightarrow> 'j json_api \<Rightarrow> 'j json_writer \<Rightarrow> string \<Rightarrow> string \<Rightarrow> double \<Rightarrow> double \<Rightarrow> string \<Rightarrow> rest \<Rightarrow> bool \<times> rest" where
  "place_tpsl e api w symb plan trigger qty hold st =
     (let pp = get_contract_field ci_price_place 4 symb st;
          body = jw_obj w [(''symbol'', jw_str w symb), (''productType'', jw_str w ''USDT-FUTURES''), (''marginMode'', jw_str w ''crossed''),
            (''marginCoin'', jw_str w ''USDT''), (''planType'', jw_str w plan), (''triggerPrice'', jw_str w (price_text pp trigger)),
            (''triggerType'', jw_str w ''mark_price''), (''size'', jw_str w (show_double qty)), (''holdSide'', jw_str w hold)]
      in case do_request e ''POST'' ''/api/v2/mix/order/place-tpsl-order'' (jw_dump w body) st of
           (resp, st') \<Rightarrow> (code_in api [''00000''] resp, st'))"

definition flash_close_position ::
    "rest_env \<Rightarrow> 'j json_api \<Rightarrow> 'j json_writer \<Rightarrow> string \<Rightarrow> string \<Rightarrow> rest \<Rightarrow> bool \<times> rest" where
  "flash_close_position e api w symb hold st =
     (let body = jw_obj w [(''symbol'', jw_str w symb), (''productType'', jw_str w ''USDT-FUTURES''), (''holdSide'', jw_str w hold)]
      in case do_request e ''POST'' ''/api/v2/mix/order/close-positions'' (jw_dump w body) st of
           (resp, st') \<Rightarrow> (code_in api [''00000'', ''22002''] resp, st'))"

definition close_partial ::
    "rest_env \<Rightarrow> 'j json_api \<Rightarrow> 'j json_writer \<Rightarrow> string \<Rightarrow> double \<Rightarrow> string \<Rightarrow> rest \<Rightarrow> order_response \<times> rest" where
  "close_partial e api w symb qty hold st =
     (let body = jw_obj w [(''symbol'', jw_str w symb), (''productType'', jw_str w ''USDT-FUTURES''), (''marginMode'', jw_str w ''crossed''),
            (''marginCoin'', jw_str w ''USDT''), (''side'', jw_str w (if hold = ''long'' then ''sell'' else ''buy'')),
            (''tradeSide'', jw_str w ''close''), (''orderType'', jw_str w ''market''),
            (''size'', jw_str w (qty_text symb qty st)), (''force'', jw_str w ''ioc'')]
      in case do_request e ''POST'' ORDER_PATH (jw_dump w body) st of
           (resp, st') \<Rightarrow> (parse_order_response api (re_now_ns e) resp 0, st'))"

definition set_leverage ::
    "rest_env \<Rightarrow> 'j json_api \<Rightarrow> 'j json_writer \<Rightarrow> string \<Rightarrow> int \<Rightarrow> string \<Rightarrow> rest \<Rightarrow> bool \<times> rest" where
  "set_leverage e api w symb lev hold st =
     (let body = jw_obj w ([(''symbol'', jw_str w symb), (''productType'', jw_str w ''USDT-FUTURES''),
            (''marginCoin'', jw_str w ''USDT''), (''leverage'', jw_str w (show_int lev))] @
            (if hold \<noteq> [] then [(''holdSide'', jw_str w hold)] else []))
      in case do_request e ''POST'' ''/api/v2/mix/account/set-leverage'' (jw_dump w body) st of
           (resp, st') \<Rightarrow> (code_in api [''00000''] resp, st'))"

definition get_positions :: "rest_env \<Rightarrow> 'j json_api \<Rightarrow> 'j json_writer \<Rightarrow> string \<Rightarrow> rest \<Rightarrow> 'j \<times> rest" where
  "get_positions e api w symb st =
     (let path = ''/api/v2/mix/position/all-position?productType=USDT-FUTURES'' @ (if symb \<noteq> [] then ''&symbol='' @ symb else [])
      in case do_request e ''GET'' path [] st of (resp, st') \<Rightarrow> (ecatch (js_parse api resp) (jw_null w), st'))"

definition get_account :: "rest_env \<Rightarrow> 'j json_api \<Rightarrow> 'j json_writer \<Rightarrow> rest \<Rightarrow> 'j \<times> rest" where
  "get_account e api w st =
     (case do_request e ''GET'' ''/api/v2/mix/account/account?symbol=BTCUSDT&productType=USDT-FUTURES&marginCoin=USDT'' [] st of
        (resp, st') \<Rightarrow> (ecatch (js_parse api resp) (jw_null w), st'))"

definition set_contracts :: "contract_info smap \<Rightarrow> rest \<Rightarrow> rest" where
  "set_contracts cs st = st\<lparr>rc_contracts := cs\<rparr>"

definition contract_from :: "'j json_api \<Rightarrow> 'j \<Rightarrow> exn + (string \<times> contract_info) option" where
  "contract_from api c =
     ebind (js_value_string api c ''symbol'' []) (\<lambda>symb.
       if symb = [] then Inr None
       else
         ebind (ebind (js_value_string api c ''sizeMultiplier'' ''0.001'') stod) (\<lambda>sm.
         ebind (ebind (js_value_string api c ''minTradeNum'' ''0.001'') stod) (\<lambda>mn.
         ebind (ebind (js_value_string api c ''pricePlace'' ''4'') stoi) (\<lambda>pp.
         ebind (ebind (js_value_string api c ''priceEndStep'' ''1'') stod) (\<lambda>ps.
         Inr (Some (symb, \<lparr>ci_size_multiplier = sm, ci_min_trade_num = mn, ci_price_place = pp, ci_price_end_step = ps\<rparr>)))))))"

definition contracts_from :: "'j json_api \<Rightarrow> string \<Rightarrow> exn + contract_info smap option" where
  "contracts_from api resp =
     ebind (js_parse api resp) (\<lambda>j.
     ebind (js_value_string api j ''code'' []) (\<lambda>code.
       if code \<noteq> ''00000'' then ebind (js_value_string api j ''msg'' ''unknown'') (\<lambda>_. Inr None)
       else ebind (js_field api j ''data'') (\<lambda>data. ebind (emap (contract_from api) (js_elems api data)) (\<lambda>cs.
         Inr (Some (fold (\<lambda>oc m. case oc of None \<Rightarrow> m | Some (k, c) \<Rightarrow> AList.update k c m) cs []))))))"

definition fetch_contracts :: "rest_env \<Rightarrow> 'j json_api \<Rightarrow> rest \<Rightarrow> rest" where
  "fetch_contracts e api st =
     (case do_request e ''GET'' ''/api/v2/mix/market/contracts?productType=USDT-FUTURES'' [] st of
        (resp, st') \<Rightarrow> (case contracts_from api resp of Inr (Some cs) \<Rightarrow> st'\<lparr>rc_contracts := cs\<rparr> | _ \<Rightarrow> st'))"

definition disconnect :: "rest \<Rightarrow> rest" where
  "disconnect st = close_connection st"

subsection \<open>One call, at most two signed requests\<close>

lemma request_loop_1:
  "request_loop e (Suc 0) meth path body st =
     (case try_request e 1 meth path body st of
        (None, st1) \<Rightarrow> (error_text ''connection_error'', close_connection st1)
      | (Some (code, txt), st1) \<Rightarrow> (txt, st1))"
  by (subst request_loop.simps) (simp split: prod.split option.split)

lemma do_request_alt:
  "do_request e meth path body st =
     (case try_request e 0 meth path body st of
        (None, st1) \<Rightarrow> request_loop e (Suc 0) meth path body (close_connection st1)
      | (Some (code, txt), st1) \<Rightarrow>
          if retryable code then request_loop e (Suc 0) meth path body (close_connection st1) else (txt, st1))"
  unfolding do_request_def by (subst request_loop.simps) (simp split: prod.split option.split)

definition is_request_for :: "rest_env \<Rightarrow> string \<Rightarrow> string \<Rightarrow> string \<Rightarrow> http_request \<Rightarrow> bool" where
  "is_request_for e meth path body r \<longleftrightarrow>
     hr_method r = meth \<and> hr_path r = path \<and> hr_body r = body \<and>
     (\<exists>ts. map_of (hr_headers r) ''ACCESS-TIMESTAMP'' = Some ts \<and>
        map_of (hr_headers r) ''ACCESS-SIGN'' = Some (re_hmac e (ba_secret (re_auth e)) (ts @ meth @ path @ body)))"

lemma make_request_for: "is_request_for e meth path body (make_request e att meth path body)"
  by (simp add: is_request_for_def make_request_def headers_def sign_def Let_def)

definition asks_again :: "attempt \<Rightarrow> bool" where
  "asks_again a = (case a of Unsent \<Rightarrow> True | Unanswered \<Rightarrow> True | Answered code txt closes \<Rightarrow> retryable code)"

lemma request_loop_1_delivers:
  "rc_contracts (snd (request_loop e (Suc 0) meth path body st)) = rc_contracts st"
  "rc_delivered (snd (request_loop e (Suc 0) meth path body st)) =
     rc_delivered st @ (if re_net e 1 = Unsent then [] else [make_request e 1 meth path body])"
  by (simp_all add: request_loop_1 try_request_def Let_def close_connection_def split: attempt.split)

lemma do_request_delivers:
  "let st' = snd (do_request e meth path body st) in
     rc_contracts st' = rc_contracts st \<and>
     rc_delivered st' = rc_delivered st @ (if re_net e 0 = Unsent then [] else [make_request e 0 meth path body]) @
       (if asks_again (re_net e 0) \<and> re_net e 1 \<noteq> Unsent then [make_request e 1 meth path body] else [])"
proof (cases "re_net e 0")
  case Unsent
  then show ?thesis
    by (simp add: do_request_alt try_request_def Let_def asks_again_def request_loop_1_delivers close_connection_def)
next
  case Unanswered
  then show ?thesis
    by (simp add: do_request_alt try_request_def Let_def asks_again_def request_loop_1_delivers close_connection_def)
next
  case (Answered code tx closes)
  then show ?thesis
    by (cases "retryable code")
      (simp_all add: do_request_alt try_request_def Let_def asks_again_def request_loop_1_delivers close_connection_def)
qed

text \<open>C6.  C0.  A call of the exchange never throws and sends its request at most twice: each copy carries the
  call's method, path and body with a signature over exactly its own timestamp and these three; the
  second goes out only when the first was lost or answered with 502, 503 or 429, and the contract
  data is not touched.
\<close>

theorem call_sends_at_most_twice:
  "\<exists>ds. rc_delivered (snd (do_request e meth path body st)) = rc_delivered st @ ds \<and> length ds \<le> 2 \<and>
     list_all (is_request_for e meth path body) ds \<and> (length ds \<le> 1 \<or> asks_again (re_net e 0)) \<and>
     rc_contracts (snd (do_request e meth path body st)) = rc_contracts st"
  using do_request_delivers [of e meth path body st] make_request_for [of e meth path body] by (auto simp: Let_def)

subsection \<open>The contract of a retrying client\<close>

text \<open>
  What both exchange clients promise of one call: deliveries are only added, at most two, all for the
  call's path and body.  \<open>'c\<close> is what a call depends on besides (credentials, clock, network).
\<close>

locale retrying_client =
  fixes request :: "'c \<Rightarrow> string \<Rightarrow> string \<Rightarrow> string \<Rightarrow> 's \<Rightarrow> string \<times> 's"
    and delivered :: "'s \<Rightarrow> http_request list"
  assumes sends: "\<exists>ds. delivered (snd (request c meth path body st)) = delivered st @ ds \<and> length ds \<le> 2 \<and>
      list_all (\<lambda>r. hr_path r = path \<and> hr_body r = body) ds"
begin

fun session :: "('c \<times> string \<times> string \<times> string) list \<Rightarrow> 's \<Rightarrow> 's" where
  "session [] st = st"
| "session ((c, meth, path, body) # calls) st = session calls (snd (request c meth path body st))"

text \<open>The requests of a call that were delivered, over a whole session: at most two copies of each call in a row.\<close>

lemma session_sends:
  "\<exists>dss. delivered (session calls st) = delivered st @ concat dss \<and>
     list_all2 (\<lambda>(c, meth, path, body) ds. length ds \<le> 2 \<and> list_all (\<lambda>r. hr_path r = path \<and> hr_body r = body) ds) calls dss"
proof (induction calls arbitrary: st)
  case Nil
  show ?case by simp
next
  case (Cons call calls)
  obtain c meth path body where call: "call = (c, meth, path, body)" by (cases call) auto
  obtain ds where ds: "delivered (snd (request c meth path body st)) = delivered st @ ds" "length ds \<le> 2"
      "list_all (\<lambda>r. hr_path r = path \<and> hr_body r = body) ds"
    using sends by blast
  obtain dss where dss: "delivered (session calls (snd (request c meth path body st))) = delivered (snd (request c meth path body st)) @ concat dss"
      "list_all2 (\<lambda>(c, meth, path, body) ds. length ds \<le> 2 \<and> list_all (\<lambda>r. hr_path r = path \<and> hr_body r = body) ds) calls dss"
    using Cons.IH by blast
  show ?case by (rule exI [of _ "ds # dss"]) (simp add: call ds dss)
qed

lemma session_bound: "length (delivered (session calls st)) \<le> length (delivered st) + 2 * length calls"
proof -
  obtain dss where dss: "delivered (session calls st) = delivered st @ concat dss"
      "list_all2 (\<lambda>(c, meth, path, body) ds. length ds \<le> 2 \<and> list_all (\<lambda>r. hr_path r = path \<and> hr_body r = body) ds) calls dss"
    using session_sends by blast
  from dss(2) have "length (concat dss) \<le> 2 * length calls"
    by (induction rule: list_all2_induct) auto
  with dss(1) show ?thesis by simp
qed

end

interpretation bitget: retrying_client do_request rc_delivered
proof
  fix c meth path body st
  show "\<exists>ds. rc_delivered (snd (do_request c meth path body st)) = rc_delivered st @ ds \<and> length ds \<le> 2 \<and>
      list_all (\<lambda>r. hr_path r = path \<and> hr_body r = body) ds"
    using do_request_delivers [of c meth path body st]
    by (auto simp: Let_def make_request_def split: if_splits)
qed

subsection \<open>Lost answers\<close>

lemma parse_failed_order:
  assumes "js_parse api txt = Inr j" "js_value_string api j ''code'' ''99999'' = Inr ''99999''"
  shows "rs_status (parse_order_response api now txt oid) = Rejected \<and> rs_error_code (parse_order_response api now txt oid) = 99999"
proof -
  have n: "stoi ''99999'' = Inr 99999" by code_simp
  have "''99999'' \<noteq> (''00000'' :: string)" by simp
  then have p: "parse_order_response api now txt oid =
      (case read_rejected api j ''99999'' (fresh_response oid now) of Inr r' \<Rightarrow> r'
       | Inl _ \<Rightarrow> (fresh_response oid now)\<lparr>rs_status := Rejected, rs_error_code := 99999\<rparr>)"
    by (simp only: parse_order_response_def Let_def ebind_def assms sum.case if_False)
  show ?thesis
    by (cases "js_value_string api j ''msg'' ''unknown''") (simp_all add: p read_rejected_def ebind_def n)
qed

lemma lost_twice:
  assumes "re_net e 0 = Unanswered" "re_net e 1 = Unanswered"
  shows "fst (do_request e meth path body st) = error_text ''connection_error''"
  using assms by (simp add: do_request_alt request_loop_1 try_request_def)

text \<open>C24.  C0.  An order whose answers are lost is reported as rejected although the exchange has it: when both
  copies reach the exchange and neither answer comes back, the caller gets status Rejected with error
  99999, and two identical orders have been delivered.
\<close>

theorem lost_order_reported_rejected:
  assumes "re_net e 0 = Unanswered" "re_net e 1 = Unanswered"
    and "js_parse api (error_text ''connection_error'') = Inr j" "js_value_string api j ''code'' ''99999'' = Inr ''99999''"
  shows "\<exists>r st' d1 d2. place_futures_order e api w req tp sl st = (r, st') \<and> rs_status r = Rejected \<and> rs_error_code r = 99999 \<and>
     rc_delivered st' = rc_delivered st @ [d1, d2] \<and> hr_path d1 = ORDER_PATH \<and> hr_path d2 = ORDER_PATH \<and>
     hr_body d1 = jw_dump w (futures_order_body w req tp sl st) \<and> hr_body d2 = hr_body d1"
proof -
  let ?body = "jw_dump w (futures_order_body w req tp sl st)"
  have d: "rc_delivered (snd (do_request e ''POST'' ORDER_PATH ?body st)) =
      rc_delivered st @ [make_request e 0 ''POST'' ORDER_PATH ?body, make_request e 1 ''POST'' ORDER_PATH ?body]"
    using do_request_delivers [of e "''POST''" ORDER_PATH ?body st] assms(1,2) by (simp add: Let_def asks_again_def)
  show ?thesis
    using d lost_twice [OF assms(1,2), of "''POST''" ORDER_PATH ?body st] parse_failed_order [OF assms(3,4)]
    by (simp add: place_futures_order_def split_beta make_request_def)
qed

definition sample_rest_env :: "(nat \<Rightarrow> attempt) \<Rightarrow> rest_env" where
  "sample_rest_env net = \<lparr>re_hmac = (\<lambda>k d. k @ d), re_auth = \<lparr>ba_key = ''k'', ba_secret = ''s'', ba_pass = ''p''\<rparr>,
     re_host = ''api.bitget.com'', re_now_ms = (\<lambda>_. 1), re_now_ns = 1, re_net = net\<rparr>"

definition error_doc :: jv where
  "error_doc = JObj [(''code'', JStr ''99999''), (''msg'', JStr ''connection_error'')]"

definition sample_order :: order_request where
  "sample_order = \<lparr>or_symbol = mk_symbol ''BTCUSDT'', or_side = Buy, or_trade_side = OpenTrade, or_order_type = Market, or_tif = IOC,
     or_price = 0, or_quantity = lit (1/10), or_client_order_id = 7, or_created_at = 0, or_leverage = 10, or_take_profit = 0,
     or_stop_loss = 0, or_product_type = ''USDT-FUTURES'', or_margin_coin = ''USDT'', or_comment = []\<rparr>"

theorem lost_order_reported_rejected_witness:
  "\<exists>r st' d1 d2. place_futures_order (sample_rest_env (\<lambda>_. Unanswered)) (jv_api [(error_text ''connection_error'', error_doc)])
       (jv_writer (\<lambda>_. ''order'')) sample_order 0 0 BitgetRestClient = (r, st') \<and> rs_status r = Rejected \<and> rs_error_code r = 99999 \<and>
     rc_delivered st' = rc_delivered BitgetRestClient @ [d1, d2] \<and> hr_path d1 = ORDER_PATH \<and> hr_path d2 = ORDER_PATH \<and>
     hr_body d1 = jw_dump (jv_writer (\<lambda>_. ''order'')) (futures_order_body (jv_writer (\<lambda>_. ''order'')) sample_order 0 0 BitgetRestClient) \<and>
     hr_body d2 = hr_body d1"
  by (rule lost_order_reported_rejected [where j = error_doc]) (simp_all add: sample_rest_env_def jv_api_def error_doc_def)

end
