(* ===== verification/Bitget_Ws.thy ===== *)
theory Bitget_Ws
  imports Bitget_Rest Engine_Cycle
begin

text \<open>
  \<open>exchange/bitget_ws.hpp\<close>: the client of the private stream - login, subscription, the receive loop
  with its ping and pong supervision, the translation of messages into updates and the reconnect
  loop.  The socket is a parameter: what each read returns and when.  Times are nanoseconds.
  An exception that leaves the receive loop ends the session (\<open>Drops\<close>); what was delivered before
  it stays delivered.
\<close>

subsection \<open>Updates\<close>

record ws_account_full = ws_account +
  wa_margin_coin :: string

record ws_position_full = ws_position +
  wp_unrealized_pnl :: double
  wp_leverage :: double
  wp_margin :: double

record ws_order =
  wo_symbol :: string
  wo_order_id :: string
  wo_client_oid :: string
  wo_side :: string
  wo_trade_side :: string
  wo_status :: string
  wo_price :: double
  wo_size :: double
  wo_filled_size :: double
  wo_filled_amount :: double
  wo_fee :: double

datatype ws_update = AccountUpdate ws_account_full | PositionUpdate ws_position_full | OrderUpdate ws_order

definition safe_stod :: "'j json_api \<Rightarrow> 'j \<Rightarrow> exn + double" where
  "safe_stod api v =
     (if js_is_number api v then js_get_double api v
      else if js_is_string api v
        then ebind (js_get_string api v) (\<lambda>s. Inr (if s = [] then 0 else ecatch (stod s) 0))
      else Inr 0)"

text \<open>\<open>if (item.contains(k)) x = safe_stod(item[k])\<close>\<close>

definition stod_of :: "'j json_api \<Rightarrow> 'j \<Rightarrow> string \<Rightarrow> exn + double" where
  "stod_of api item k = (if js_contains api item k then ebind (js_field api item k) (safe_stod api) else Inr 0)"

definition account_update :: "'j json_api \<Rightarrow> 'j \<Rightarrow> exn + ws_update" where
  "account_update api it =
     ebind (js_value_string api it ''marginCoin'' ''USDT'') (\<lambda>coin.
     ebind (stod_of api it ''available'') (\<lambda>av. ebind (stod_of api it ''accountEquity'') (\<lambda>eq.
     ebind (stod_of api it ''unrealizedPL'') (\<lambda>u.
     Inr (AccountUpdate \<lparr>wa_available = av, wa_equity = eq, wa_unrealized_pnl = u, wa_margin_coin = coin\<rparr>)))))"

definition position_update :: "'j json_api \<Rightarrow> 'j \<Rightarrow> exn + ws_update" where
  "position_update api it =
     ebind (js_value_string api it ''instId'' []) (\<lambda>symb. ebind (js_value_string api it ''holdSide'' []) (\<lambda>hold.
     ebind (stod_of api it ''total'') (\<lambda>sz. ebind (stod_of api it ''averageOpenPrice'') (\<lambda>avg.
     ebind (stod_of api it ''unrealizedPL'') (\<lambda>u. ebind (stod_of api it ''leverage'') (\<lambda>lev.
     ebind (stod_of api it ''margin'') (\<lambda>mg. ebind (stod_of api it ''achievedProfits'') (\<lambda>rp.
     Inr (PositionUpdate \<lparr>wp_symbol = symb, wp_hold_side = hold, wp_size = sz, wp_avg_price = avg, wp_realized_pnl = rp,
            wp_unrealized_pnl = u, wp_leverage = lev, wp_margin = mg\<rparr>)))))))))"

definition order_update :: "'j json_api \<Rightarrow> 'j \<Rightarrow> exn + ws_update" where
  "order_update api it =
     (let str = (\<lambda>k. js_value_string api it k []) in
      ebind (str ''instId'') (\<lambda>symb. ebind (str ''orderId'') (\<lambda>oid. ebind (str ''clientOid'') (\<lambda>cid.
      ebind (str ''side'') (\<lambda>sd. ebind (str ''tradeSide'') (\<lambda>ts. ebind (str ''status'') (\<lambda>stt.
      ebind (stod_of api it ''price'') (\<lambda>px. ebind (stod_of api it ''size'') (\<lambda>sz. ebind (stod_of api it ''baseVolume'') (\<lambda>bv.
      ebind (stod_of api it ''quoteVolume'') (\<lambda>qv. ebind (stod_of api it ''fee'') (\<lambda>fe.
      Inr (OrderUpdate \<lparr>wo_symbol = symb, wo_order_id = oid, wo_client_oid = cid, wo_side = sd, wo_trade_side = ts,
        wo_status = stt, wo_price = px, wo_size = sz, wo_filled_size = bv, wo_filled_amount = qv, wo_fee = fe\<rparr>)))))))))))))"

text \<open>The updates of a list of items, up to the first one that throws.\<close>

fun deliver :: "('j \<Rightarrow> exn + ws_update) \<Rightarrow> 'j list \<Rightarrow> ws_update list \<times> exn option" where
  "deliver f [] = ([], None)"
| "deliver f (it # its) =
     (case f it of
        Inl e \<Rightarrow> ([], Some e)
      | Inr u \<Rightarrow> (case deliver f its of (us, err) \<Rightarrow> (u # us, err)))"

definition handle_message :: "'j json_api \<Rightarrow> 'j \<Rightarrow> ws_update list \<times> exn option" where
  "handle_message api j =
     (if \<not> js_contains api j ''arg'' \<or> \<not> js_contains api j ''data'' then ([], None)
      else case ebind (js_field api j ''arg'') (\<lambda>a. ebind (js_value_string api a ''channel'' []) (\<lambda>ch.
                  ebind (js_field api j ''data'') (\<lambda>d. Inr (ch, js_elems api d)))) of
        Inl e \<Rightarrow> ([], Some e)
      | Inr (ch, items) \<Rightarrow>
          if ch = ''account'' then deliver (account_update api) items
          else if ch = ''positions'' then deliver (position_update api) items
          else if ch = ''orders'' then deliver (order_update api) items
          else ([], None))"

subsection \<open>The receive loop\<close>

definition PING_INTERVAL_SEC :: int where "PING_INTERVAL_SEC = 25"
definition PONG_TIMEOUT_SEC :: int where "PONG_TIMEOUT_SEC = 10"
definition BACKOFF_INITIAL_SEC :: int where "BACKOFF_INITIAL_SEC = 1"
definition BACKOFF_MAX_SEC :: int where "BACKOFF_MAX_SEC = 60"

record ws_watch =
  wt_last_ping :: int
  wt_pong_pending :: bool

text \<open>What a read returns; a ping that cannot be written ends the session as a failed read does.\<close>

datatype ws_read = ReadTimeout | ReadError | Message string

datatype ws_result = Goes ws_watch "ws_update list" | Drops "ws_update list"

definition elapsed_sec :: "int \<Rightarrow> int \<Rightarrow> int" where
  "elapsed_sec now since = (now - since) div 1000000000"

definition ping_check :: "int \<Rightarrow> ws_watch \<Rightarrow> ws_watch" where
  "ping_check now t =
     (if elapsed_sec now (wt_last_ping t) \<ge> PING_INTERVAL_SEC then \<lparr>wt_last_ping = now, wt_pong_pending = True\<rparr> else t)"

definition ws_iteration :: "'j json_api \<Rightarrow> int \<Rightarrow> ws_read \<Rightarrow> ws_watch \<Rightarrow> ws_result" where
  "ws_iteration api now rd t0 =
     (let t = ping_check now t0 in
      if wt_pong_pending t \<and> elapsed_sec now (wt_last_ping t) \<ge> PONG_TIMEOUT_SEC then Drops []
      else case rd of
        ReadTimeout \<Rightarrow> Goes t []
      | ReadError \<Rightarrow> Drops []
      | Message msg \<Rightarrow>
          if msg = ''pong'' then Goes (t\<lparr>wt_pong_pending := False\<rparr>) []
          else (case js_parse api msg of
                  Inl _ \<Rightarrow> Goes t []
                | Inr j \<Rightarrow> (case handle_message api j of (us, None) \<Rightarrow> Goes t us | (us, Some _) \<Rightarrow> Drops us)))"

fun ws_loop :: "'j json_api \<Rightarrow> (int \<times> ws_read) list \<Rightarrow> ws_watch \<Rightarrow> ws_result" where
  "ws_loop api [] t = Goes t []"
| "ws_loop api ((now, rd) # evs) t =
     (case ws_iteration api now rd t of
        Drops us \<Rightarrow> Drops us
      | Goes t' us \<Rightarrow> (case ws_loop api evs t' of Goes t'' us' \<Rightarrow> Goes t'' (us @ us') | Drops us' \<Rightarrow> Drops (us @ us')))"

subsection \<open>A session\<close>

definition login_message :: "hmac_fn \<Rightarrow> bitget_auth \<Rightarrow> int \<Rightarrow> 'j json_writer \<Rightarrow> 'j" where
  "login_message hmac a now_ms w =
     (let ts = show_int (now_ms div 1000) in
      jw_obj w [(''op'', jw_str w ''login''),
        (''args'', jw_arr w [jw_obj w [(''apiKey'', jw_str w (ba_key a)), (''passphrase'', jw_str w (ba_pass a)),
           (''timestamp'', jw_str w ts), (''sign'', jw_str w (sign hmac a ts ''GET'' ''/user/verify'' []))]])])"

definition subscribe_message :: "'j json_writer \<Rightarrow> 'j" where
  "subscribe_message w =
     (let ch = (\<lambda>name key. jw_obj w [(''instType'', jw_str w ''USDT-FUTURES''), (''channel'', jw_str w name), (key, jw_str w ''default'')]) in
      jw_obj w [(''op'', jw_str w ''subscribe''),
        (''args'', jw_arr w [ch ''account'' ''coin'', ch ''positions'' ''instId'', ch ''orders'' ''instId''])])"

text \<open>The answer to the login must name the event and carry the code zero.\<close>

definition login_accepted :: "'j json_api \<Rightarrow> string \<Rightarrow> exn + bool" where
  "login_accepted api txt =
     ebind (js_parse api txt) (\<lambda>j. ebind (js_value_string api j ''event'' []) (\<lambda>ev.
       if ev \<noteq> ''login'' then Inr False else ebind (js_value_int api j ''code'' 1) (\<lambda>c. Inr (c = 0))))"

definition subscription_read :: "'j json_api \<Rightarrow> string \<Rightarrow> exn + string" where
  "subscription_read api txt = ebind (js_parse api txt) (\<lambda>j. js_value_string api j ''event'' ''unknown'')"

text \<open>
  What the network gives a session: the answers to login and subscription (\<open>None\<close> when the
  connection or a read fails), the time at which the loop starts and its reads; a list that ends
  without a drop is a session ended by \<open>stop\<close>.
\<close>

record ws_script =
  wx_login :: "string option"
  wx_subscribed :: "string option"
  wx_start :: int
  wx_reads :: "(int \<times> ws_read) list"

text \<open>How a session ended: normally or with an exception, whether it had been connected, and its updates.\<close>

record ws_session =
  wz_normal :: bool
  wz_connected :: bool
  wz_updates :: "ws_update list"

definition broken_early :: ws_session where
  "broken_early = \<lparr>wz_normal = False, wz_connected = False, wz_updates = []\<rparr>"

definition connect_and_run :: "'j json_api \<Rightarrow> ws_script \<Rightarrow> ws_session" where
  "connect_and_run api x =
     (case wx_login x of
        None \<Rightarrow> broken_early
      | Some ltxt \<Rightarrow>
          if login_accepted api ltxt \<noteq> Inr True then broken_early
          else (case wx_subscribed x of
                  None \<Rightarrow> broken_early
                | Some stxt \<Rightarrow>
                    (case subscription_read api stxt of
                       Inl _ \<Rightarrow> broken_early
                     | Inr _ \<Rightarrow>
                         (case ws_loop api (wx_reads x) \<lparr>wt_last_ping = wx_start x, wt_pong_pending = False\<rparr> of
                            Goes _ us \<Rightarrow> \<lparr>wz_normal = True, wz_connected = True, wz_updates = us\<rparr>
                          | Drops us \<Rightarrow> \<lparr>wz_normal = False, wz_connected = True, wz_updates = us\<rparr>))))"

text \<open>The reconnect loop: the waits before the next session, one per broken session.\<close>

definition next_wait :: "ws_session \<Rightarrow> int \<Rightarrow> int option \<times> int" where
  "next_wait z backoff =
     (if wz_normal z then (None, BACKOFF_INITIAL_SEC)
      else let b = (if wz_connected z then BACKOFF_INITIAL_SEC else backoff)
           in (Some b, min (b * 2) BACKOFF_MAX_SEC))"

fun waits :: "ws_session list \<Rightarrow> int \<Rightarrow> int list" where
  "waits [] backoff = []"
| "waits (z # zs) backoff =
     (case next_wait z backoff of (w, b) \<Rightarrow> (case w of Some s \<Rightarrow> [s] | None \<Rightarrow> []) @ waits zs b)"

definition run_loop :: "'j json_api \<Rightarrow> ws_script list \<Rightarrow> ws_session list \<times> int list" where
  "run_loop api xs = (let zs = map (connect_and_run api) xs in (zs, waits zs BACKOFF_INITIAL_SEC))"

subsection \<open>A silent peer\<close>

text \<open>Reads follow each other within ten seconds (the read timeout is five), and none brings a pong.\<close>

fun paced :: "int \<Rightarrow> (int \<times> ws_read) list \<Rightarrow> bool" where
  "paced prev [] = True"
| "paced prev ((now, rd) # evs) = (prev \<le> now \<and> now \<le> prev + 10 * 1000000000 \<and> paced now evs)"

definition no_pong :: "(int \<times> ws_read) list \<Rightarrow> bool" where
  "no_pong evs = list_all (\<lambda>ev. snd ev \<noteq> Message ''pong'') evs"

text \<open>Where a silent session can be while it has not been dropped.\<close>

definition silent_at :: "int \<Rightarrow> int \<Rightarrow> ws_watch \<Rightarrow> bool" where
  "silent_at began now t \<longleftrightarrow>
     (if wt_pong_pending t
      then wt_last_ping t < began + 35 * 1000000000 \<and> now < wt_last_ping t + 10 * 1000000000 \<and> wt_last_ping t \<le> now
      else wt_last_ping t = began \<and> began \<le> now \<and> now < began + 25 * 1000000000)"

lemma elapsed_ge: "k \<le> elapsed_sec now since \<longleftrightarrow> since + k * 1000000000 \<le> now"
proof -
  have "k \<le> d div 1000000000 \<longleftrightarrow> k * 1000000000 \<le> d" for d :: int
  proof
    assume "k \<le> d div 1000000000"
    then have "k * 1000000000 \<le> d div 1000000000 * 1000000000" by (rule mult_right_mono) simp
    also have "\<dots> \<le> d" by (simp add: minus_mod_eq_div_mult [symmetric])
    finally show "k * 1000000000 \<le> d" .
  next
    assume "k * 1000000000 \<le> d"
    then show "k \<le> d div 1000000000" using zdiv_mono1 [of "k * 1000000000" d 1000000000] by simp
  qed
  from this [of "now - since"] show ?thesis by (simp add: elapsed_sec_def algebra_simps)
qed

lemma silent_iteration:
  assumes "silent_at began prev t" and "prev \<le> now" and "now \<le> prev + 10 * 1000000000" and "rd \<noteq> Message ''pong''"
    and go: "ws_iteration api now rd t = Goes t' us"
  shows "silent_at began now t'"
proof -
  have t': "t' = ping_check now t" and alive: "\<not> (wt_pong_pending t' \<and> elapsed_sec now (wt_last_ping t') \<ge> PONG_TIMEOUT_SEC)"
    using go assms(4) by (auto simp: ws_iteration_def Let_def split: if_splits ws_read.splits sum.splits option.splits prod.splits)
  show ?thesis
    using assms(1-3) alive unfolding t'
    by (auto simp: silent_at_def ping_check_def elapsed_ge PING_INTERVAL_SEC_def PONG_TIMEOUT_SEC_def split: if_splits)
qed

lemma silent_loop:
  assumes "silent_at began prev t" and "paced prev evs" and "no_pong evs" and "ws_loop api evs t = Goes t' us"
  shows "silent_at began (last (prev # map fst evs)) t'"
  using assms
proof (induction evs arbitrary: prev t us)
  case Nil
  then show ?case by simp
next
  case (Cons ev evs)
  obtain now rd where ev: "ev = (now, rd)" by (cases ev)
  from Cons.prems(4) obtain t1 us1 us2
    where it: "ws_iteration api now rd t = Goes t1 us1" and rest: "ws_loop api evs t1 = Goes t' us2"
    by (auto simp: ev split: ws_result.splits)
  have "silent_at began now t1"
    using Cons.prems by (intro silent_iteration [OF _ _ _ _ it]) (auto simp: ev no_pong_def)
  from Cons.IH [OF this _ _ rest] Cons.prems show ?case by (simp add: ev no_pong_def)
qed



subsection \<open>Reconnecting\<close>

text \<open>Every wait is between one second and one minute, and a session that had connected is followed by one second.\<close>

lemma waits_bounded:
  assumes "1 \<le> backoff" and "backoff \<le> BACKOFF_MAX_SEC" and "s \<in> set (waits zs backoff)"
  shows "1 \<le> s \<and> s \<le> BACKOFF_MAX_SEC"
  using assms
proof (induction zs arbitrary: backoff)
  case (Cons z zs)
  show ?case
  proof (cases "s \<in> set (waits zs (snd (next_wait z backoff)))")
    case True
    have "1 \<le> snd (next_wait z backoff)" and "snd (next_wait z backoff) \<le> BACKOFF_MAX_SEC"
      using Cons.prems by (auto simp: next_wait_def Let_def BACKOFF_INITIAL_SEC_def BACKOFF_MAX_SEC_def)
    from Cons.IH [OF this True] show ?thesis .
  next
    case False
    then show ?thesis
      using Cons.prems by (auto simp: next_wait_def Let_def BACKOFF_INITIAL_SEC_def BACKOFF_MAX_SEC_def split: if_splits)
  qed
qed simp

lemma connected_waits_one:
  "\<not> wz_normal z \<Longrightarrow> wz_connected z \<Longrightarrow> fst (next_wait z backoff) = Some 1"
  by (simp add: next_wait_def BACKOFF_INITIAL_SEC_def)

end
