(* ===== verification/Dashboard_Api.thy ===== *)
theory Dashboard_Api
  imports Webhook_Server
begin

text \<open>
  \<open>dashboard/dashboard_api.hpp\<close>: the HTTP server of the dashboard - request limiter, Basic
  authentication with its Base64 decoder, routing, file delivery and the Prometheus text.  The
  callbacks act on an application state and can throw; the file system and the JSON library are
  parameters.  Sockets and threads are the library's.
\<close>

subsection \<open>Request limiter\<close>

record dash_limiter =
  dl_max_requests :: int
  dl_window_seconds :: int
  dl_clients :: "(int \<times> int) smap"

definition DashboardRateLimiter :: dash_limiter where
  "DashboardRateLimiter = \<lparr>dl_max_requests = 300, dl_window_seconds = 60, dl_clients = []\<rparr>"

text \<open>\<open>clients[ip]\<close> creates an entry with count zero whose window starts at the epoch of the clock.\<close>

definition allow :: "string \<Rightarrow> int \<Rightarrow> dash_limiter \<Rightarrow> bool \<times> dash_limiter" where
  "allow ip now l =
     (let (cnt, start) = (case map_of (dl_clients l) ip of Some e \<Rightarrow> e | None \<Rightarrow> (0, 0));
          put = (\<lambda>e. l\<lparr>dl_clients := AList.update ip e (dl_clients l)\<rparr>)
      in if (now - start) div 1000000000 \<ge> dl_window_seconds l then (True, put (1, now))
         else (cnt + 1 \<le> dl_max_requests l, put (cnt + 1, start)))"

subsection \<open>Base64 and Basic authentication\<close>

definition b64_chars :: string where
  "b64_chars = ''ABCDEFGHIJKLMNOPQRSTUVWXYZabcdefghijklmnopqrstuvwxyz0123456789+/''"

definition b64_val :: "char \<Rightarrow> int option" where
  "b64_val c = map_of (zip b64_chars [0..63]) c"

text \<open>
  The loop over the text: \<open>val\<close> is a 32-bit \<open>int\<close> whose left shift wraps, the right shift is
  arithmetic.  The first character outside the alphabet (the padding) ends it.
\<close>

fun b64_loop :: "string \<Rightarrow> int \<Rightarrow> int \<Rightarrow> string" where
  "b64_loop [] val valb = []"
| "b64_loop (c # cs) val valb =
     (case b64_val c of
        None \<Rightarrow> []
      | Some t \<Rightarrow>
          let v = wrap32 (val * 64 + t); vb = valb + 6 in
          if 0 \<le> vb then char_of ((v div 2 ^ nat vb) mod 256) # b64_loop cs v (vb - 8) else b64_loop cs v vb)"

definition base64_decode :: "string \<Rightarrow> string" where
  "base64_decode s = b64_loop s 0 (- 8)"

record dash_request = request +
  dq_authorization :: "string option"

definition check_auth :: "string \<Rightarrow> 'a dash_request_scheme \<Rightarrow> bool" where
  "check_auth token rq =
     (case dq_authorization rq of
        None \<Rightarrow> False
      | Some v \<Rightarrow> if length v < 7 \<or> take 6 v \<noteq> ''Basic '' then False else base64_decode (drop 6 v) = token)"

text \<open>The token in use: without a configured one, \<open>admin:\<close> and the start time.\<close>

definition dash_token :: "string \<Rightarrow> int \<Rightarrow> string" where
  "dash_token auth_token start_ns = (if auth_token = [] then ''admin:'' @ show_int start_ns else auth_token)"

subsection \<open>Callbacks\<close>

datatype query =
    QStats | QRisk | QScores | QPositions | QAlerts | QLearner | QTf | QLearnerSummary | QStrategy
  | QShadowStats | QShadowPositions | QShadowTrades | QShadowSymbols | QLiveEquivStats | QLiveEquivTrades
  | QSpotShadowStats | QSpotShadowPositions | QSpotShadowTrades | QSpotShadowSymbols | QReadiness
  | QSpotStats | QSpotPositions | QSpotTrades

record ('j, 's) dash_callbacks =
  dc_query :: "query \<Rightarrow> ('s \<Rightarrow> (exn + 'j) \<times> 's) option"
  dc_import_trades :: "('j \<Rightarrow> 's \<Rightarrow> (exn + 'j) \<times> 's) option"
  dc_close_all_positions :: "('s \<Rightarrow> (exn + 'j) \<times> 's) option"

text \<open>What a missing callback answers; a query without an answer calls the empty function and throws.\<close>

definition routes :: "(string \<times> query \<times> string option) list" where
  "routes =
     [(''/api/stats'', QStats, None), (''/api/risk/status'', QRisk, None), (''/api/symbols/scores'', QScores, None),
      (''/api/positions'', QPositions, None), (''/api/alerts'', QAlerts, Some ''[]''), (''/api/learner'', QLearner, Some ''[]''),
      (''/api/tf/stats'', QTf, Some ''{}''), (''/api/learner/summary'', QLearnerSummary, Some ''{}''),
      (''/api/strategy-stats'', QStrategy, Some ''[]''), (''/api/shadow/stats'', QShadowStats, Some ''{}''),
      (''/api/shadow/positions'', QShadowPositions, Some ''[]''), (''/api/shadow/trades'', QShadowTrades, Some ''[]''),
      (''/api/shadow/symbols'', QShadowSymbols, Some ''[]''), (''/api/shadow/live-equiv-stats'', QLiveEquivStats, Some ''{}''),
      (''/api/shadow/live-equiv-trades'', QLiveEquivTrades, Some ''[]''), (''/api/spot-shadow/stats'', QSpotShadowStats, Some ''{}''),
      (''/api/spot-shadow/positions'', QSpotShadowPositions, Some ''[]''), (''/api/spot-shadow/trades'', QSpotShadowTrades, Some ''[]''),
      (''/api/spot-shadow/symbols'', QSpotShadowSymbols, Some ''[]''), (''/api/readiness'', QReadiness, Some ''{}''),
      (''/api/spot/stats'', QSpotStats, Some ''{}''), (''/api/spot/positions'', QSpotPositions, Some ''[]''),
      (''/api/spot/trades'', QSpotTrades, Some ''[]'')]"

subsection \<open>Files\<close>

record dash_files =
  df_exists :: "string \<Rightarrow> bool"
  df_canonical :: "string \<Rightarrow> string"
  df_content :: "string \<Rightarrow> string"

record dash_config =
  dg_static_dir :: string
  dg_static_canonical :: string
  dg_token :: string

definition serve_file :: "dash_files \<Rightarrow> dash_config \<Rightarrow> string \<Rightarrow> response" where
  "serve_file f c name =
     (let path = dg_static_dir c @ ''/'' @ name in
      if \<not> df_exists f path then respond 404 ''File not found''
      else if \<not> is_prefix_of (dg_static_canonical c) (df_canonical f path) then respond 403 (error_body ''forbidden'')
      else respond 200 (df_content f path))"

fun contains_dots :: "string \<Rightarrow> bool" where
  "contains_dots (a # b # r) = (a = CHR ''.'' \<and> b = CHR ''.'' \<or> contains_dots (b # r))"
| "contains_dots s = False"

subsection \<open>The Prometheus text\<close>

text \<open>\<open>%.6g\<close>: six significant digits, ties to even; the exponent form outside \<open>-4 .. 5\<close>; no trailing zeros.\<close>

fun below_one :: "nat \<Rightarrow> rat \<Rightarrow> nat" where
  "below_one 0 a = 0"
| "below_one (Suc k) a = (if a < 1 then Suc (below_one k (a * 10)) else 0)"

definition dec_exp :: "rat \<Rightarrow> int" where
  "dec_exp a = (if 1 \<le> a then int (length (show_uint \<lfloor>a\<rfloor>)) - 1 else - int (below_one 400 a))"

definition strip_zeros :: "string \<Rightarrow> string" where
  "strip_zeros s =
     (if CHR ''.'' \<in> set s
      then let r = dropWhile (\<lambda>ch. ch = CHR ''0'') (rev s) in rev (if hd r = CHR ''.'' then tl r else r)
      else s)"

definition g6_pos :: "rat \<Rightarrow> string" where
  "g6_pos a =
     (let e0 = dec_exp a; m0 = rhe (if e0 \<le> 5 then a * 10 ^ nat (5 - e0) else a / 10 ^ nat (e0 - 5));
          (m, e) = (if m0 = 10 ^ 6 then (10 ^ 5, e0 + 1) else (m0, e0))
      in if - 4 \<le> e \<and> e < 6 then strip_zeros (fixed_pos (nat (5 - e)) (of_int m / 10 ^ nat (5 - e)))
         else strip_zeros (fixed_pos 5 (of_int m / 10 ^ 5)) @ ''e'' @ (if e < 0 then ''-'' else ''+'') @
              (if \<bar>e\<bar> < 10 then ''0'' else []) @ show_uint \<bar>e\<bar>)"

fun fmt_g6 :: "double \<Rightarrow> string" where
  "fmt_g6 (Fin x) = (if x = 0 then ''0'' else if x < 0 then CHR ''-'' # g6_pos (- x) else g6_pos x)"
| "fmt_g6 PInf = ''inf''"
| "fmt_g6 MInf = ''-inf''"
| "fmt_g6 NaN = ''nan''"

definition emit :: "string \<Rightarrow> string \<Rightarrow> string \<Rightarrow> double \<Rightarrow> string" where
  "emit name help kind x =
     (let nl = [CHR 0x0A] in
      ''# HELP '' @ name @ '' '' @ help @ nl @ ''# TYPE '' @ name @ '' '' @ kind @ nl @ name @ '' '' @ fmt_g6 x @ nl)"

record metric_values =
  mt_balance :: double
  mt_open_positions :: double
  mt_total_trades :: double
  mt_total_pnl :: double
  mt_win_rate :: double
  mt_risk_skips :: double
  mt_orders_executed :: double
  mt_circuit_breaker :: double
  mt_daily_pnl :: double
  mt_margin_used_pct :: double

definition read_metrics :: "'j json_api \<Rightarrow> 'j \<Rightarrow> 'j \<Rightarrow> 'j \<Rightarrow> exn + metric_values" where
  "read_metrics api stats risk positions =
     (let num = (\<lambda>j k. js_value_double api j k 0) in
      ebind (num stats ''balance'') (\<lambda>bal. ebind (num stats ''total_pnl'') (\<lambda>pnl. ebind (num stats ''win_rate'') (\<lambda>wr.
      ebind (num stats ''total_trades'') (\<lambda>tt. ebind (num stats ''orders_executed'') (\<lambda>oe. ebind (num stats ''daily_pnl'') (\<lambda>dp.
      ebind (num risk ''risk_skips'') (\<lambda>rs. ebind (js_value_bool api risk ''circuit_breaker_active'' False) (\<lambda>cb.
      ebind (num risk ''margin_used_pct'') (\<lambda>mu.
      Inr \<lparr>mt_balance = bal, mt_open_positions = (if js_is_array api positions then dint (int (js_size api positions)) else 0),
           mt_total_trades = tt, mt_total_pnl = pnl, mt_win_rate = wr, mt_risk_skips = rs, mt_orders_executed = oe,
           mt_circuit_breaker = (if cb then 1 else 0), mt_daily_pnl = dp, mt_margin_used_pct = mu\<rparr>))))))))))"

definition metrics_text :: "metric_values \<Rightarrow> string" where
  "metrics_text m =
     emit ''trader_balance_usdt'' ''Current account balance in USDT'' ''gauge'' (mt_balance m) @
     emit ''trader_open_positions'' ''Number of currently open positions'' ''gauge'' (mt_open_positions m) @
     emit ''trader_total_trades'' ''Total number of trades executed'' ''counter'' (mt_total_trades m) @
     emit ''trader_total_pnl_usdt'' ''Total realized PnL in USDT'' ''gauge'' (mt_total_pnl m) @
     emit ''trader_win_rate'' ''Win rate as a ratio (0-1)'' ''gauge'' (mt_win_rate m) @
     emit ''trader_risk_skips_total'' ''Total number of trades skipped due to risk limits'' ''counter'' (mt_risk_skips m) @
     emit ''trader_orders_executed_total'' ''Total number of orders sent to exchange'' ''counter'' (mt_orders_executed m) @
     emit ''trader_circuit_breaker_active'' ''Whether the circuit breaker is currently active (0 or 1)'' ''gauge'' (mt_circuit_breaker m) @
     emit ''trader_daily_pnl_usdt'' ''PnL for the current trading day in USDT'' ''gauge'' (mt_daily_pnl m) @
     emit ''trader_margin_used_pct'' ''Percentage of available margin currently in use'' ''gauge'' (mt_margin_used_pct m)"

text \<open>Everything but the callbacks that a request needs: JSON, exception texts, files, configuration.\<close>

record 'j dash_env =
  dv_api :: "'j json_api"
  dv_writer :: "'j json_writer"
  dv_what :: "exn \<Rightarrow> string"
  dv_files :: dash_files
  dv_config :: dash_config

definition call_or :: "'j \<Rightarrow> ('s \<Rightarrow> (exn + 'j) \<times> 's) option \<Rightarrow> 's \<Rightarrow> (exn + 'j) \<times> 's" where
  "call_or dflt cb app = (case cb of None \<Rightarrow> (Inr dflt, app) | Some f \<Rightarrow> f app)"

definition build_prometheus_metrics :: "'j dash_env \<Rightarrow> ('j, 's) dash_callbacks \<Rightarrow> 's \<Rightarrow> string \<times> 's" where
  "build_prometheus_metrics v cb app0 =
     (let failed = (\<lambda>e. ''# Error collecting metrics: '' @ dv_what v e @ [CHR 0x0A]);
          obj = jw_obj (dv_writer v) [] in
      case call_or obj (dc_query cb QStats) app0 of
        (Inl e, app1) \<Rightarrow> (failed e, app1)
      | (Inr stats, app1) \<Rightarrow>
          (case call_or obj (dc_query cb QRisk) app1 of
             (Inl e, app2) \<Rightarrow> (failed e, app2)
           | (Inr risk, app2) \<Rightarrow>
               (case call_or (jw_arr (dv_writer v) []) (dc_query cb QPositions) app2 of
                  (Inl e, app3) \<Rightarrow> (failed e, app3)
                | (Inr positions, app3) \<Rightarrow>
                    (case read_metrics (dv_api v) stats risk positions of
                       Inl e \<Rightarrow> (failed e, app3)
                     | Inr m \<Rightarrow> (metrics_text m, app3)))))"

subsection \<open>Routing\<close>

definition failure_response :: "'j dash_env \<Rightarrow> exn \<Rightarrow> response" where
  "failure_response v e =
     respond 500 (jw_dump (dv_writer v) (jw_obj (dv_writer v) [(''error'', jw_str (dv_writer v) (dv_what v e))]))"

definition answered :: "'j dash_env \<Rightarrow> (exn + 'j) \<times> 's \<Rightarrow> response \<times> 's" where
  "answered v ra = (case ra of (Inl e, app) \<Rightarrow> (failure_response v e, app) | (Inr j, app) \<Rightarrow> (respond 200 (jw_dump (dv_writer v) j), app))"

definition bad_function_call :: exn where
  "bad_function_call = RuntimeError ''bad_function_call''"

definition run_query :: "'j dash_env \<Rightarrow> ('j, 's) dash_callbacks \<Rightarrow> query \<times> string option \<Rightarrow> 's \<Rightarrow> response \<times> 's" where
  "run_query v cb qf app =
     (case dc_query cb (fst qf) of
        Some f \<Rightarrow> answered v (f app)
      | None \<Rightarrow> (case snd qf of Some txt \<Rightarrow> (respond 200 txt, app) | None \<Rightarrow> (failure_response v bad_function_call, app)))"

definition run_import :: "'j dash_env \<Rightarrow> ('j, 's) dash_callbacks \<Rightarrow> string \<Rightarrow> 's \<Rightarrow> response \<times> 's" where
  "run_import v cb body app =
     (case dc_import_trades cb of
        None \<Rightarrow> (respond 404 (error_body ''import not configured''), app)
      | Some f \<Rightarrow>
          (case js_parse (dv_api v) body of
             Inl e \<Rightarrow> (respond 400 (jw_dump (dv_writer v) (jw_obj (dv_writer v)
                        [(''error'', jw_str (dv_writer v) ''invalid JSON''), (''detail'', jw_str (dv_writer v) (dv_what v e))])), app)
           | Inr j \<Rightarrow> answered v (f j app)))"

definition run_close_all :: "'j dash_env \<Rightarrow> ('j, 's) dash_callbacks \<Rightarrow> 's \<Rightarrow> response \<times> 's" where
  "run_close_all v cb app =
     (case dc_close_all_positions cb of
        None \<Rightarrow> (respond 500 (error_body ''close_all not configured''), app)
      | Some f \<Rightarrow> answered v (f app))"

definition page_of :: "string \<Rightarrow> string option" where
  "page_of target =
     (if target = ''/'' \<or> target = ''/index.html'' \<or> target = ''/dashboard.html'' then Some ''dashboard.html''
      else if target = ''/learning.html'' \<or> target = ''/learning'' then Some ''learning.html''
      else if target = ''/spot.html'' \<or> target = ''/spot'' then Some ''spot.html''
      else None)"

definition route_request ::
    "'j dash_env \<Rightarrow> ('j, 's) dash_callbacks \<Rightarrow> dash_request \<Rightarrow> 's \<Rightarrow> response \<times> 's" where
  "route_request v cb rq app =
     (let target = rq_target rq; serve = serve_file (dv_files v) (dv_config v) in
      case map_of routes target of
        Some qf \<Rightarrow> run_query v cb qf app
      | None \<Rightarrow>
          if target = ''/api/close-all'' \<and> rq_method rq = POST then run_close_all v cb app
          else if target = ''/api/import-trades'' \<and> rq_method rq = POST then run_import v cb (rq_body rq) app
          else if target = ''/health'' then (respond 200 (status_body ''ok''), app)
          else if target = ''/metrics'' then (case build_prometheus_metrics v cb app of (txt, app') \<Rightarrow> (respond 200 txt, app'))
          else (case page_of target of
                  Some page \<Rightarrow> (serve page, app)
                | None \<Rightarrow>
                    if is_prefix_of ''/static/'' target
                    then (let name = drop 8 target in
                          if contains_dots name then (respond 403 (error_body ''forbidden''), app) else (serve name, app))
                    else (respond 404 (error_body ''not found''), app)))"

definition is_public :: "string \<Rightarrow> bool" where
  "is_public target \<longleftrightarrow>
     target = ''/health'' \<or> target = ''/'' \<or> target = ''/index.html'' \<or> target = ''/dashboard.html'' \<or> target = ''/learning.html'' \<or>
     target = ''/learning'' \<or> target = ''/spot.html'' \<or> target = ''/spot''"

record 's dash_server =
  ds_limiter :: dash_limiter
  ds_app :: 's

text \<open>A connection whose request (if one can be read at all) is \<open>rq\<close>.\<close>

definition handle_connection ::
    "'j dash_env \<Rightarrow> ('j, 's) dash_callbacks \<Rightarrow> string \<Rightarrow> int \<Rightarrow> dash_request option \<Rightarrow> 's dash_server \<Rightarrow> response option \<times> 's dash_server" where
  "handle_connection v cb ip now rqo s =
     (let (ok, lim) = allow ip now (ds_limiter s); s1 = s\<lparr>ds_limiter := lim\<rparr> in
      if \<not> ok then (Some (respond 429 (error_body ''rate limit exceeded'')), s1)
      else case rqo of
        None \<Rightarrow> (None, s1)
      | Some rq \<Rightarrow>
          if \<not> is_public (rq_target rq) \<and> \<not> check_auth (dg_token (dv_config v)) rq
          then (Some (respond 401 (error_body ''unauthorized'')), s1)
          else (case route_request v cb rq (ds_app s1) of (resp, app) \<Rightarrow> (Some resp, s1\<lparr>ds_app := app\<rparr>)))"

subsection \<open>Only the token opens the application\<close>

lemma public_targets:
  assumes "is_public target"
  shows "map_of routes target = None \<and> target \<noteq> ''/api/close-all'' \<and> target \<noteq> ''/api/import-trades'' \<and> target \<noteq> ''/metrics''"
  using assms unfolding is_public_def by (elim disjE) (simp_all add: routes_def)

lemma public_route:
  assumes "is_public (rq_target rq)"
  shows "route_request v cb rq app = (fst (route_request v cb rq app'), app)"
  using public_targets [OF assms] by (simp add: route_request_def Let_def split: option.split)

lemma check_auth_header:
  "check_auth token rq \<Longrightarrow> \<exists>h. dq_authorization rq = Some (''Basic '' @ h) \<and> base64_decode h = token"
proof -
  assume c: "check_auth token rq"
  then obtain w where w: "dq_authorization rq = Some w" "take 6 w = ''Basic ''" "base64_decode (drop 6 w) = token"
    by (auto simp: check_auth_def split: option.splits if_splits)
  from w(2) have "w = ''Basic '' @ drop 6 w" using append_take_drop_id [of 6 w] by simp
  with w show ?thesis by metis
qed


subsection \<open>The decoder inverts the encoding\<close>

text \<open>The encoding of RFC 4648 as a reference: six bits per character, padded with \<open>=\<close>.\<close>

definition b64_char :: "int \<Rightarrow> char" where
  "b64_char i = b64_chars ! nat i"

fun b64_encode :: "string \<Rightarrow> string" where
  "b64_encode [] = []"
| "b64_encode [a] =
     (let x = of_char a :: int in [b64_char (x div 4), b64_char (x mod 4 * 16), CHR ''='', CHR ''=''])"
| "b64_encode [a, b] =
     (let x = of_char a :: int; y = of_char b in
      [b64_char (x div 4), b64_char (x mod 4 * 16 + y div 16), b64_char (y mod 16 * 4), CHR ''=''])"
| "b64_encode (a # b # c # rest) =
     (let x = of_char a :: int; y = of_char b; z = of_char c in
      b64_char (x div 4) # b64_char (x mod 4 * 16 + y div 16) # b64_char (y mod 16 * 4 + z div 64) # b64_char (z mod 64) #
      b64_encode rest)"

lemma b64_val_char: assumes "0 \<le> i" "i < 64" shows "b64_val (b64_char i) = Some i"
proof -
  have "list_all (\<lambda>i. b64_val (b64_char i) = Some i) [0..63]" by code_simp
  then show ?thesis using assms by (auto simp: list_all_iff)
qed

lemma b64_val_pad: "b64_val (CHR ''='') = None"
  by code_simp

lemma wrap32_bits: "wrap32 v mod 2 ^ 32 = v mod 2 ^ 32"
  unfolding wrap32_def by (simp add: mod_diff_left_eq)

lemma low_bits:
  fixes u v :: int
  assumes "u mod 2 ^ 32 = v mod 2 ^ 32" "k \<le> 24"
  shows "u div 2 ^ k mod 256 = v div 2 ^ k mod 256"
proof -
  have m: "w div 2 ^ k mod 256 = take_bit 8 (drop_bit k (take_bit 32 w))" for w :: int
  proof -
    have "take_bit 8 (drop_bit k (take_bit 32 w)) = take_bit 8 (drop_bit k w)"
      using assms(2) by (simp add: drop_bit_take_bit min_absorb1)
    then show ?thesis by (simp add: take_bit_eq_mod drop_bit_eq_div)
  qed
  show ?thesis using assms(1) by (simp add: m take_bit_eq_mod)
qed

lemma wrap_step: "wrap32 (wrap32 a * 64 + i) mod 2 ^ 32 = (a * 64 + i) mod 2 ^ 32"
proof -
  have "wrap32 (wrap32 a * 64 + i) mod 2 ^ 32 = (wrap32 a * 64 + i) mod 2 ^ 32" by (rule wrap32_bits)
  also have "\<dots> = (wrap32 a mod 2 ^ 32 * 64 + i) mod 2 ^ 32" by (metis mod_add_left_eq mod_mult_left_eq)
  also have "\<dots> = (a * 64 + i) mod 2 ^ 32" unfolding wrap32_bits by (metis mod_add_left_eq mod_mult_left_eq)
  finally show ?thesis .
qed

lemma b64_step:
  assumes "0 \<le> i" "i < 64"
  shows "b64_loop (b64_char i # cs) val valb =
     (let v = wrap32 (val * 64 + i); vb = valb + 6 in
      if 0 \<le> vb then char_of ((v div 2 ^ nat vb) mod 256) # b64_loop cs v (vb - 8) else b64_loop cs v vb)"
  by (simp add: b64_val_char [OF assms])

lemma first_byte:
  assumes "0 \<le> x" "x < 256" "0 \<le> h" "h < 16"
  shows "wrap32 (wrap32 (val * 64 + x div 4) * 64 + (x mod 4 * 16 + h)) div 2 ^ 4 mod 256 = x"
proof -
  have "wrap32 (wrap32 (val * 64 + x div 4) * 64 + (x mod 4 * 16 + h)) div 2 ^ 4 mod 256 =
      ((val * 64 + x div 4) * 64 + (x mod 4 * 16 + h)) div 2 ^ 4 mod 256"
    by (rule low_bits [OF wrap_step]) simp
  also have "(val * 64 + x div 4) * 64 + (x mod 4 * 16 + h) = (val * 256 + x) * 2 ^ 4 + h"
  proof -
    have "(val * 64 + q) * 64 + (r * 16 + h) = (val * 256 + (q * 4 + r)) * 2 ^ 4 + h" for q r :: int by simp
    from this [of "x div 4" "x mod 4"] show ?thesis by (simp only: div_mult_mod_eq)
  qed
  also have "((val * 256 + x) * 2 ^ 4 + h) div 2 ^ 4 = val * 256 + x" using assms by simp
  finally show ?thesis using assms by simp
qed

lemma second_byte:
  assumes "0 \<le> y" "y < 256" "0 \<le> g" "0 \<le> h" "h < 4"
  shows "wrap32 (wrap32 (val * 64 + (g * 16 + y div 16)) * 64 + (y mod 16 * 4 + h)) div 2 ^ 2 mod 256 = y"
proof -
  have "wrap32 (wrap32 (val * 64 + (g * 16 + y div 16)) * 64 + (y mod 16 * 4 + h)) div 2 ^ 2 mod 256 =
      ((val * 64 + (g * 16 + y div 16)) * 64 + (y mod 16 * 4 + h)) div 2 ^ 2 mod 256"
    by (rule low_bits [OF wrap_step]) simp
  also have "(val * 64 + (g * 16 + y div 16)) * 64 + (y mod 16 * 4 + h) = ((val * 4 + g) * 256 + y) * 2 ^ 2 + h"
  proof -
    have "(val * 64 + (g * 16 + q)) * 64 + (r * 4 + h) = ((val * 4 + g) * 256 + (q * 16 + r)) * 2 ^ 2 + h" for q r :: int by simp
    from this [of "y div 16" "y mod 16"] show ?thesis by (simp only: div_mult_mod_eq)
  qed
  also have "(((val * 4 + g) * 256 + y) * 2 ^ 2 + h) div 2 ^ 2 = (val * 4 + g) * 256 + y" using assms by simp
  also have "((val * 4 + g) * 256 + y) mod 256 = y" using assms by (simp only: mod_mult_self3 mod_pos_pos_trivial)
  finally show ?thesis .
qed

lemma third_byte:
  assumes "0 \<le> z" "z < 256"
  shows "wrap32 (wrap32 (val * 64 + (g * 4 + z div 64)) * 64 + z mod 64) div 2 ^ 0 mod 256 = z"
proof -
  have "wrap32 (wrap32 (val * 64 + (g * 4 + z div 64)) * 64 + z mod 64) div 2 ^ 0 mod 256 =
      ((val * 64 + (g * 4 + z div 64)) * 64 + z mod 64) div 2 ^ 0 mod 256"
    by (rule low_bits [OF wrap_step]) simp
  also have "(val * 64 + (g * 4 + z div 64)) * 64 + z mod 64 = (val * 16 + g) * 256 + z"
  proof -
    have "(val * 64 + (g * 4 + q)) * 64 + r = (val * 16 + g) * 256 + (q * 64 + r)" for q r :: int by simp
    from this [of "z div 64" "z mod 64"] show ?thesis by (simp only: div_mult_mod_eq)
  qed
  finally have "wrap32 (wrap32 (val * 64 + (g * 4 + z div 64)) * 64 + z mod 64) div 2 ^ 0 mod 256 = ((val * 16 + g) * 256 + z) mod 256"
    by simp
  also have "\<dots> = z" using assms by (simp only: mod_mult_self3 mod_pos_pos_trivial)
  finally show ?thesis .
qed

lemma byte_range: "0 \<le> (of_char c :: int)" "(of_char c :: int) < 256"
proof -
  have "(of_char c :: int) = int (of_char c)" by (simp only: of_nat_of_char)
  then show "0 \<le> (of_char c :: int)" "(of_char c :: int) < 256" using nat_of_char_less_256 [of c] by linarith+
qed

lemma group_1:
  assumes "0 \<le> x" "x < 256" "0 \<le> h" "h < 16"
  shows "b64_loop (b64_char (x div 4) # b64_char (x mod 4 * 16 + h) # cs) val (- 8) =
     char_of x # b64_loop cs (wrap32 (wrap32 (val * 64 + x div 4) * 64 + (x mod 4 * 16 + h))) (- 4)"
proof -
  have r: "0 \<le> x div 4" "x div 4 < 64" "0 \<le> x mod 4 * 16 + h" "x mod 4 * 16 + h < 64"
    using assms pos_mod_bound [of 4 x] by auto
  show ?thesis
    using first_byte [OF assms, of val] by (simp only: b64_step [OF r(1,2)] b64_step [OF r(3,4)] Let_def) simp
qed

lemma group_2:
  assumes "0 \<le> y" "y < 256" "0 \<le> g" "0 \<le> h" "h < 4"
  shows "b64_loop (b64_char (y mod 16 * 4 + h) # cs) (wrap32 (val * 64 + (g * 16 + y div 16))) (- 4) =
     char_of y # b64_loop cs (wrap32 (wrap32 (val * 64 + (g * 16 + y div 16)) * 64 + (y mod 16 * 4 + h))) (- 6)"
proof -
  have r: "0 \<le> y mod 16 * 4 + h" "y mod 16 * 4 + h < 64"
    using assms pos_mod_bound [of 16 y] by auto
  show ?thesis using second_byte [OF assms, of val] by (simp only: b64_step [OF r] Let_def) simp
qed

lemma group_3:
  assumes "0 \<le> z" "z < 256"
  shows "b64_loop (b64_char (z mod 64) # cs) (wrap32 (val * 64 + (g * 4 + z div 64))) (- 6) =
     char_of z # b64_loop cs (wrap32 (wrap32 (val * 64 + (g * 4 + z div 64)) * 64 + z mod 64)) (- 8)"
proof -
  have r: "0 \<le> z mod 64" "z mod 64 < 64" by simp_all
  show ?thesis using third_byte [OF assms, of val g] by (simp only: b64_step [OF r] Let_def) simp
qed

lemma b64_pad: "b64_loop (CHR ''='' # cs) val valb = []"
  by (simp add: b64_val_pad)

lemma byte_char: "char_of (of_char c :: int) = c"
  by simp

lemma b64_roundtrip: "b64_loop (b64_encode s) val (- 8) = s"
proof (induction s arbitrary: val rule: b64_encode.induct)
  case 1
  show ?case by simp
next
  case (2 a)
  note g = group_1 [OF byte_range [of a], of 0]
  show ?case using g by (simp only: b64_encode.simps Let_def add_0_right b64_pad byte_char)
next
  case (3 a b)
  have h: "0 \<le> (of_char b :: int) div 16" "(of_char b :: int) div 16 < 16" using byte_range [of b] by auto
  have g: "0 \<le> (of_char a :: int) mod 4" by simp
  show ?case
    using group_2 [OF byte_range [of b] g, of 0]
    by (simp only: b64_encode.simps Let_def group_1 [OF byte_range h] add_0_right b64_pad byte_char)
next
  case (4 a b c rest)
  have h: "0 \<le> (of_char b :: int) div 16" "(of_char b :: int) div 16 < 16" "0 \<le> (of_char c :: int) div 64" "(of_char c :: int) div 64 < 4"
    using byte_range [of b] byte_range [of c] by auto
  have g: "0 \<le> (of_char a :: int) mod 4" by simp
  show ?case
    by (simp only: b64_encode.simps Let_def group_1 [OF byte_range h(1,2)] group_2 [OF byte_range g h(3,4)]
        group_3 [OF byte_range] "4.IH" byte_char)
qed

text \<open>
  C0.  The Base64 decoder inverts the standard encoding for texts of every length, although its
  accumulator overflows: a client that sends the encoded token is let in.
\<close>

theorem base64_roundtrip:
  "base64_decode (b64_encode s) = s"
  by (simp add: base64_decode_def b64_roundtrip)

end
