(* ===== verification/Upbit_Rest.thy ===== *)
theory Upbit_Rest
  imports Bitget_Rest Dashboard_Api
begin

text \<open>
  \<open>exchange/upbit_auth.hpp\<close> and \<open>exchange/upbit_rest.hpp\<close>: the token (a JWT signed with HMAC-SHA256)
  and the client of the spot exchange.  OpenSSL's Base64, SHA-512 and HMAC are parameters, and so are
  the random draws of a nonce and what the network does to the two attempts of a call.
\<close>

subsection \<open>The token\<close>

record upbit_auth =
  ua_access :: string
  ua_secret :: string

record openssl =
  os_base64 :: "string \<Rightarrow> string"
  os_sha512 :: "string \<Rightarrow> string"
  os_hmac_sha256 :: "string \<Rightarrow> string \<Rightarrow> string"

text \<open>The draws of a nonce: one of sixteen for an \<open>x\<close>, one of four for the \<open>y\<close>, by position.\<close>

record uuid_draws =
  ud_hex :: "nat \<Rightarrow> nat"
  ud_variant :: "nat \<Rightarrow> nat"

definition is_configured :: "upbit_auth \<Rightarrow> bool" where
  "is_configured a \<longleftrightarrow> ua_access a \<noteq> [] \<and> ua_secret a \<noteq> []"

definition hex_digits :: string where
  "hex_digits = ''0123456789abcdef''"

fun fill_uuid :: "uuid_draws \<Rightarrow> nat \<Rightarrow> string \<Rightarrow> string" where
  "fill_uuid d i [] = []"
| "fill_uuid d i (c # cs) =
     (if c = CHR ''x'' then hex_digits ! ud_hex d i
      else if c = CHR ''y'' then hex_digits ! ud_variant d i
      else c) # fill_uuid d (Suc i) cs"

definition generate_uuid :: "uuid_draws \<Rightarrow> string" where
  "generate_uuid d = fill_uuid d 0 ''xxxxxxxx-xxxx-4xxx-yxxx-xxxxxxxxxxxx''"

definition hex_byte :: "char \<Rightarrow> string" where
  "hex_byte c = (let n = of_char c :: nat in [hex_digits ! (n div 16), hex_digits ! (n mod 16)])"

definition sha512_hex :: "openssl \<Rightarrow> string \<Rightarrow> string" where
  "sha512_hex o' data = concat (map hex_byte (os_sha512 o' data))"

definition make_payload :: "openssl \<Rightarrow> upbit_auth \<Rightarrow> uuid_draws \<Rightarrow> string \<Rightarrow> string" where
  "make_payload o' a d query =
     (let q = [CHR 0x22] in
      ''{'' @ q @ ''access_key'' @ q @ '':'' @ q @ ua_access a @ q @ '','' @ q @ ''nonce'' @ q @ '':'' @ q @ generate_uuid d @ q @
      (if query \<noteq> [] then '','' @ q @ ''query_hash'' @ q @ '':'' @ q @ sha512_hex o' query @ q @
         '','' @ q @ ''query_hash_alg'' @ q @ '':'' @ q @ ''SHA512'' @ q else []) @ ''}'')"

definition url_char :: "char \<Rightarrow> char" where
  "url_char c = (if c = CHR ''+'' then CHR ''-'' else if c = CHR ''/'' then CHR ''_'' else c)"

definition strip_pad :: "string \<Rightarrow> string" where
  "strip_pad s = rev (dropWhile (\<lambda>c. c = CHR ''='') (rev s))"

definition base64url_encode :: "openssl \<Rightarrow> string \<Rightarrow> string" where
  "base64url_encode o' data = strip_pad (map url_char (os_base64 o' data))"

definition jwt_header :: string where
  "jwt_header =
     (let q = [CHR 0x22] in ''{'' @ q @ ''alg'' @ q @ '':'' @ q @ ''HS256'' @ q @ '','' @ q @ ''typ'' @ q @ '':'' @ q @ ''JWT'' @ q @ ''}'')"

definition sign_jwt :: "openssl \<Rightarrow> upbit_auth \<Rightarrow> string \<Rightarrow> string" where
  "sign_jwt o' a payload =
     (let input = base64url_encode o' jwt_header @ ''.'' @ base64url_encode o' payload
      in input @ ''.'' @ base64url_encode o' (os_hmac_sha256 o' (ua_secret a) input))"

definition make_token :: "openssl \<Rightarrow> upbit_auth \<Rightarrow> uuid_draws \<Rightarrow> string \<Rightarrow> string" where
  "make_token o' a d query = sign_jwt o' a (make_payload o' a d query)"

definition auth_header :: "openssl \<Rightarrow> upbit_auth \<Rightarrow> uuid_draws \<Rightarrow> string \<Rightarrow> string" where
  "auth_header o' a d query = ''Bearer '' @ make_token o' a d query"

subsection \<open>The connection\<close>

record upbit =
  uc_connected :: bool
  uc_delivered :: "http_request list"

record upbit_env =
  ue_openssl :: openssl
  ue_auth :: upbit_auth
  ue_host :: string
  ue_draws :: "nat \<Rightarrow> uuid_draws"
  ue_net :: "nat \<Rightarrow> attempt"

definition UpbitRestClient :: upbit where
  "UpbitRestClient = \<lparr>uc_connected = False, uc_delivered = []\<rparr>"

definition upbit_close :: "upbit \<Rightarrow> upbit" where
  "upbit_close st = st\<lparr>uc_connected := False\<rparr>"

definition upbit_request :: "upbit_env \<Rightarrow> nat \<Rightarrow> string \<Rightarrow> string \<Rightarrow> string \<Rightarrow> string \<Rightarrow> http_request" where
  "upbit_request e att meth path body query =
     \<lparr>hr_method = (if meth = ''POST'' then ''POST'' else ''GET''), hr_path = path,
      hr_headers = [(''Host'', ue_host e), (''Connection'', ''keep-alive''), (''Content-Type'', ''application/json'')] @
        (if is_configured (ue_auth e)
         then [(''Authorization'', auth_header (ue_openssl e) (ue_auth e) (ue_draws e att) query)] else []),
      hr_body = body\<rparr>"

text \<open>One pass through the \<open>try\<close> block; the status of an answer is not looked at.\<close>

definition upbit_try :: "upbit_env \<Rightarrow> nat \<Rightarrow> string \<Rightarrow> string \<Rightarrow> string \<Rightarrow> string \<Rightarrow> upbit \<Rightarrow> string option \<times> upbit" where
  "upbit_try e att meth path body query st =
     (let sent = st\<lparr>uc_connected := True, uc_delivered := uc_delivered st @ [upbit_request e att meth path body query]\<rparr> in
      case ue_net e att of
        Unsent \<Rightarrow> (None, st)
      | Unanswered \<Rightarrow> (None, sent)
      | Answered code txt closes \<Rightarrow> (Some txt, if closes then upbit_close sent else sent))"

definition upbit_error :: "string \<Rightarrow> string" where
  "upbit_error msg = (let q = [CHR 0x22] in ''{'' @ q @ ''error'' @ q @ '':'' @ q @ msg @ q @ ''}'')"

function upbit_loop :: "upbit_env \<Rightarrow> nat \<Rightarrow> string \<Rightarrow> string \<Rightarrow> string \<Rightarrow> string \<Rightarrow> upbit \<Rightarrow> string \<times> upbit" where
  "upbit_loop e att meth path body query st =
     (if att < 2 then
        (case upbit_try e att meth path body query st of
           (Some txt, st1) \<Rightarrow> (txt, st1)
         | (None, st1) \<Rightarrow>
             if att = 0 then upbit_loop e (att + 1) meth path body query (upbit_close st1)
             else (upbit_error ''connection_error'', upbit_close st1))
      else (upbit_error ''unreachable'', st))"
  by pat_completeness auto
termination by (relation "measure (\<lambda>(e, att, _). 2 - att)") auto

declare upbit_loop.simps [simp del]

definition upbit_do_request :: "upbit_env \<Rightarrow> string \<Rightarrow> string \<Rightarrow> string \<Rightarrow> string \<Rightarrow> upbit \<Rightarrow> string \<times> upbit" where
  "upbit_do_request e meth path body query st = upbit_loop e 0 meth path body query st"

definition upbit_disconnect :: "upbit \<Rightarrow> upbit" where
  "upbit_disconnect st = upbit_close st"

subsection \<open>Queries and orders\<close>

text \<open>\<open>try { return json::parse(resp); } catch (...) { return json::array(); }\<close>\<close>

definition parse_or_array :: "'j json_api \<Rightarrow> 'j json_writer \<Rightarrow> string \<times> upbit \<Rightarrow> 'j \<times> upbit" where
  "parse_or_array api w r = (ecatch (js_parse api (fst r)) (jw_arr w []), snd r)"

definition parse_or_failed :: "'j json_api \<Rightarrow> 'j json_writer \<Rightarrow> string \<times> upbit \<Rightarrow> 'j \<times> upbit" where
  "parse_or_failed api w r =
     (ecatch (js_parse api (fst r)) (jw_obj w [(''error'', jw_str w ''parse_failed'')]), snd r)"

definition get_accounts :: "upbit_env \<Rightarrow> 'j json_api \<Rightarrow> 'j json_writer \<Rightarrow> upbit \<Rightarrow> 'j \<times> upbit" where
  "get_accounts e api w st = parse_or_array api w (upbit_do_request e ''GET'' ''/v1/accounts'' [] [] st)"

text \<open>The balance of the first account of a currency; a balance that is no number throws.\<close>

fun balance_in :: "'j json_api \<Rightarrow> string \<Rightarrow> 'j list \<Rightarrow> exn + double" where
  "balance_in api cur [] = Inr 0"
| "balance_in api cur (acc # accs) =
     ebind (js_value_string api acc ''currency'' []) (\<lambda>c.
       if c = cur then ebind (js_value_string api acc ''balance'' ''0'') stod else balance_in api cur accs)"

definition get_coin_balance ::
    "upbit_env \<Rightarrow> 'j json_api \<Rightarrow> 'j json_writer \<Rightarrow> string \<Rightarrow> upbit \<Rightarrow> (exn + double) \<times> upbit" where
  "get_coin_balance e api w cur st =
     (case get_accounts e api w st of
        (accounts, st') \<Rightarrow> (if js_is_array api accounts then balance_in api cur (js_elems api accounts) else Inr 0, st'))"

definition get_krw_balance :: "upbit_env \<Rightarrow> 'j json_api \<Rightarrow> 'j json_writer \<Rightarrow> upbit \<Rightarrow> (exn + double) \<times> upbit" where
  "get_krw_balance e api w st = get_coin_balance e api w ''KRW'' st"

definition get_ticker :: "upbit_env \<Rightarrow> 'j json_api \<Rightarrow> 'j json_writer \<Rightarrow> string \<Rightarrow> upbit \<Rightarrow> 'j \<times> upbit" where
  "get_ticker e api w market st =
     parse_or_array api w (upbit_do_request e ''GET'' (''/v1/ticker?'' @ ''markets='' @ market) [] [] st)"

definition get_markets :: "upbit_env \<Rightarrow> 'j json_api \<Rightarrow> 'j json_writer \<Rightarrow> upbit \<Rightarrow> 'j \<times> upbit" where
  "get_markets e api w st = parse_or_array api w (upbit_do_request e ''GET'' ''/v1/market/all?isDetails=true'' [] [] st)"

text \<open>An order: the query that is signed, and the body with the same fields.\<close>

definition place_order ::
    "upbit_env \<Rightarrow> 'j json_api \<Rightarrow> 'j json_writer \<Rightarrow> (string \<times> string) list \<Rightarrow> upbit \<Rightarrow> 'j \<times> upbit" where
  "place_order e api w pairs st =
     (let query = concat (map (\<lambda>kv. fst kv @ ''='' @ snd kv @ ''&'') (butlast pairs)) @ fst (last pairs) @ ''='' @ snd (last pairs);
          body = jw_obj w (map (\<lambda>kv. (fst kv, jw_str w (snd kv))) pairs)
      in parse_or_failed api w (upbit_do_request e ''POST'' ''/v1/orders'' (jw_dump w body) query st))"

definition place_buy_market :: "upbit_env \<Rightarrow> 'j json_api \<Rightarrow> 'j json_writer \<Rightarrow> string \<Rightarrow> double \<Rightarrow> upbit \<Rightarrow> 'j \<times> upbit" where
  "place_buy_market e api w market krw st =
     place_order e api w [(''market'', market), (''side'', ''bid''), (''price'', show_int (dtrunc krw)), (''ord_type'', ''price'')] st"

definition place_sell_market :: "upbit_env \<Rightarrow> 'j json_api \<Rightarrow> 'j json_writer \<Rightarrow> string \<Rightarrow> double \<Rightarrow> upbit \<Rightarrow> 'j \<times> upbit" where
  "place_sell_market e api w market volume st =
     place_order e api w [(''market'', market), (''side'', ''ask''), (''volume'', fmt_buf 8 volume), (''ord_type'', ''market'')] st"

subsection \<open>The token can be read back\<close>

text \<open>What a verifier does: split at the dots and decode each segment.\<close>

fun split_dots :: "string \<Rightarrow> string list" where
  "split_dots [] = [[]]"
| "split_dots (c # cs) =
     (if c = CHR ''.'' then [] # split_dots cs else (case split_dots cs of [] \<Rightarrow> [[c]] | s # ss \<Rightarrow> (c # s) # ss))"

definition url_back :: "char \<Rightarrow> char" where
  "url_back c = (if c = CHR ''-'' then CHR ''+'' else if c = CHR ''_'' then CHR ''/'' else c)"

definition url_decode :: "string \<Rightarrow> string" where
  "url_decode s = base64_decode (map url_back s)"

lemma split_dots_append: "CHR ''.'' \<notin> set s \<Longrightarrow> split_dots (s @ CHR ''.'' # rest) = s # split_dots rest"
  by (induction s) auto

lemma split_dots_single: "CHR ''.'' \<notin> set s \<Longrightarrow> split_dots s = [s]"
  by (induction s) auto

lemma b64_char_alphabet: "0 \<le> i \<Longrightarrow> i < 64 \<Longrightarrow> b64_char i \<in> set b64_chars"
  unfolding b64_char_def by (rule nth_mem) (simp add: b64_chars_def)

lemma b64_alphabet_facts:
  assumes "c \<in> set b64_chars"
  shows "c \<noteq> CHR ''=''" and "url_char c \<noteq> CHR ''=''" and "url_char c \<noteq> CHR ''.''" and "url_back (url_char c) = c"
proof -
  have "list_all (\<lambda>c. c \<noteq> CHR ''='' \<and> url_char c \<noteq> CHR ''='' \<and> url_char c \<noteq> CHR ''.'' \<and> url_back (url_char c) = c) b64_chars"
    by code_simp
  with assms show "c \<noteq> CHR ''=''" and "url_char c \<noteq> CHR ''=''" and "url_char c \<noteq> CHR ''.''" and "url_back (url_char c) = c"
    by (auto simp: list_all_iff)
qed

lemma b64_shape: "\<exists>core k. b64_encode s = core @ replicate k (CHR ''='') \<and> set core \<subseteq> set b64_chars"
proof (induction s rule: b64_encode.induct)
  case 1
  show ?case by (intro exI [of _ "[]"] exI [of _ 0]) simp
next
  case (2 a)
  have "b64_encode [a] = [b64_char (of_char a div 4), b64_char (of_char a mod 4 * 16)] @ replicate 2 (CHR ''='')"
    by (simp add: Let_def numeral_2_eq_2)
  moreover have "set [b64_char (of_char a div 4), b64_char (of_char a mod 4 * 16)] \<subseteq> set b64_chars"
    using byte_range [of a] pos_mod_bound [of 4 "of_char a :: int"] by (auto intro!: b64_char_alphabet)
  ultimately show ?case by blast
next
  case (3 a b)
  let ?core = "[b64_char (of_char a div 4), b64_char (of_char a mod 4 * 16 + of_char b div 16), b64_char (of_char b mod 16 * 4)]"
  have "b64_encode [a, b] = ?core @ replicate 1 (CHR ''='')" by (simp add: Let_def)
  moreover have "set ?core \<subseteq> set b64_chars"
    using byte_range [of a] byte_range [of b] pos_mod_bound [of 4 "of_char a :: int"] pos_mod_bound [of 16 "of_char b :: int"]
    by (auto intro!: b64_char_alphabet)
  ultimately show ?case by blast
next
  case (4 a b c rest)
  let ?group = "[b64_char (of_char a div 4), b64_char (of_char a mod 4 * 16 + of_char b div 16),
    b64_char (of_char b mod 16 * 4 + of_char c div 64), b64_char (of_char c mod 64)]"
  from "4" obtain core k where "b64_encode rest = core @ replicate k (CHR ''='')" and core: "set core \<subseteq> set b64_chars"
    by blast
  then have "b64_encode (a # b # c # rest) = (?group @ core) @ replicate k (CHR ''='')" by (simp add: Let_def)
  moreover have "set ?group \<subseteq> set b64_chars"
    using byte_range [of a] byte_range [of b] byte_range [of c] pos_mod_bound [of 4 "of_char a :: int"]
      pos_mod_bound [of 16 "of_char b :: int"] pos_mod_bound [of 64 "of_char c :: int"]
    by (auto intro!: b64_char_alphabet)
  ultimately show ?case using core by (metis (no_types, lifting) Un_subset_iff set_append)
qed

lemma strip_pad_core: "CHR ''='' \<notin> set core \<Longrightarrow> strip_pad (core @ replicate k (CHR ''='')) = core"
proof -
  assume core: "CHR ''='' \<notin> set core"
  have "dropWhile (\<lambda>c. c = CHR ''='') (replicate k (CHR ''='') @ rev core) = dropWhile (\<lambda>c. c = CHR ''='') (rev core)"
    by (induction k) auto
  moreover have "dropWhile (\<lambda>c. c = CHR ''='') (rev core) = rev core"
    using core by (cases "rev core") (auto simp: dropWhile_eq_self_iff)
  ultimately show ?thesis by (simp add: strip_pad_def)
qed

lemma decode_ignores_padding: "b64_loop (core @ replicate k (CHR ''='')) val valb = b64_loop core val valb"
proof (induction core arbitrary: val valb)
  case Nil
  show ?case by (cases k) (simp_all add: b64_val_pad)
qed (simp add: Let_def split: option.split)

text \<open>An OpenSSL whose Base64 is the standard one.\<close>

lemma base64url_facts:
  assumes "os_base64 o' = b64_encode"
  shows "url_decode (base64url_encode o' s) = s" and "CHR ''.'' \<notin> set (base64url_encode o' s)"
proof -
  obtain core k where shape: "b64_encode s = core @ replicate k (CHR ''='')" and core: "set core \<subseteq> set b64_chars"
    using b64_shape by blast
  have pad: "CHR ''='' \<notin> set (map url_char core)" and dots: "CHR ''.'' \<notin> set (map url_char core)"
    using core b64_alphabet_facts by force+
  have enc: "base64url_encode o' s = map url_char core"
    using strip_pad_core [OF pad, of k] by (simp add: base64url_encode_def assms shape url_char_def)
  have undo: "map url_back (map url_char core) = core"
    using core b64_alphabet_facts(4) by (auto simp: map_idI subset_iff)
  show "CHR ''.'' \<notin> set (base64url_encode o' s)" using dots by (simp add: enc)
  show "url_decode (base64url_encode o' s) = s"
    unfolding url_decode_def enc undo base64_decode_def
    using decode_ignores_padding [of core k 0 "- 8"] b64_roundtrip [of s 0] by (simp add: shape)
qed

text \<open>C22.  C0.  A token of the spot exchange can be verified: with the standard Base64, splitting it at the dots
  gives exactly three segments, whose decoded contents are the header, the payload with the access
  key, nonce and query hash, and the HMAC under the secret key of the first two segments as sent.
\<close>

theorem jwt_reads_back:
  assumes "os_base64 o' = b64_encode"
  shows "\<exists>h p s. split_dots (make_token o' a d query) = [h, p, s] \<and>
    url_decode h = jwt_header \<and> url_decode p = make_payload o' a d query \<and>
    url_decode s = os_hmac_sha256 o' (ua_secret a) (h @ ''.'' @ p)"
proof -
  note f = base64url_facts [OF assms]
  let ?h = "base64url_encode o' jwt_header" and ?p = "base64url_encode o' (make_payload o' a d query)"
  let ?s = "base64url_encode o' (os_hmac_sha256 o' (ua_secret a) (?h @ ''.'' @ ?p))"
  have "make_token o' a d query = ?h @ CHR ''.'' # (?p @ CHR ''.'' # ?s)"
    by (simp add: make_token_def sign_jwt_def Let_def)
  then have "split_dots (make_token o' a d query) = [?h, ?p, ?s]"
    using split_dots_append [OF f(2)] split_dots_single [OF f(2)] by simp
  then show ?thesis by (intro exI [of _ ?h] exI [of _ ?p] exI [of _ ?s]) (simp only: f simp_thms)
qed

theorem jwt_reads_back_witness:
  "let o' = \<lparr>os_base64 = b64_encode, os_sha512 = rev, os_hmac_sha256 = (\<lambda>k m. k)\<rparr>;
       a = \<lparr>ua_access = ''key'', ua_secret = ''secret''\<rparr>;
       tok = make_token o' a \<lparr>ud_hex = (\<lambda>i. 7), ud_variant = (\<lambda>i. 8)\<rparr> ''market=KRW-BTC''
   in length (split_dots tok) = 3 \<and> url_decode (last (split_dots tok)) = ''secret''"
proof -
  let ?o = "\<lparr>os_base64 = b64_encode, os_sha512 = rev, os_hmac_sha256 = (\<lambda>k m. k)\<rparr>"
  have "os_base64 ?o = b64_encode" by simp
  from jwt_reads_back [OF this, of "\<lparr>ua_access = ''key'', ua_secret = ''secret''\<rparr>" "\<lparr>ud_hex = (\<lambda>i. 7), ud_variant = (\<lambda>i. 8)\<rparr>" "''market=KRW-BTC''"]
  show ?thesis by (auto simp: Let_def)
qed

subsection \<open>What a call sends\<close>

lemma upbit_loop_1:
  "upbit_loop e (Suc 0) meth path body query st =
     (case upbit_try e 1 meth path body query st of
        (Some txt, st1) \<Rightarrow> (txt, st1)
      | (None, st1) \<Rightarrow> (upbit_error ''connection_error'', upbit_close st1))"
  by (subst upbit_loop.simps) (simp split: prod.split option.split)

lemma upbit_do_request_alt:
  "upbit_do_request e meth path body query st =
     (case upbit_try e 0 meth path body query st of
        (Some txt, st1) \<Rightarrow> (txt, st1)
      | (None, st1) \<Rightarrow> upbit_loop e (Suc 0) meth path body query (upbit_close st1))"
  unfolding upbit_do_request_def by (subst upbit_loop.simps) (simp split: prod.split option.split)

definition lost :: "attempt \<Rightarrow> bool" where
  "lost a \<longleftrightarrow> a = Unsent \<or> a = Unanswered"

lemma upbit_delivers:
  "uc_delivered (snd (upbit_do_request e meth path body query st)) =
     uc_delivered st @ (if ue_net e 0 = Unsent then [] else [upbit_request e 0 meth path body query]) @
       (if lost (ue_net e 0) \<and> ue_net e 1 \<noteq> Unsent then [upbit_request e 1 meth path body query] else [])"
  by (cases "ue_net e 0"; cases "ue_net e 1")
    (simp_all add: upbit_do_request_alt upbit_loop_1 upbit_try_def Let_def upbit_close_def lost_def)

text \<open>The contract of the clients; what a call depends on includes the query it signs.\<close>

interpretation upbit_calls: retrying_client "\<lambda>(e, query) meth path body. upbit_do_request e meth path body query" uc_delivered
proof
  fix c :: "upbit_env \<times> string" and meth path body st
  obtain e query where c: "c = (e, query)" by (cases c)
  show "\<exists>ds. uc_delivered (snd ((\<lambda>(e, query) meth path body. upbit_do_request e meth path body query) c meth path body st)) =
      uc_delivered st @ ds \<and> length ds \<le> 2 \<and> list_all (\<lambda>r. hr_path r = path \<and> hr_body r = body) ds"
    unfolding c prod.case upbit_delivers by (simp add: upbit_request_def)
qed

text \<open>
  C0.  A market order whose answer is lost is placed twice: the client sends the same order again, and
  nothing in it (the body carries no identifier) lets the exchange tell the copy from a new order;
  the caller only sees the second answer.
\<close>

theorem lost_spot_order_sent_twice:
  assumes "ue_net e 0 = Unanswered" and "ue_net e 1 = Answered code txt closes"
  shows "\<exists>r1 r2. uc_delivered (snd (place_buy_market e api w market krw st)) = uc_delivered st @ [r1, r2] \<and>
    hr_method r1 = ''POST'' \<and> hr_path r1 = ''/v1/orders'' \<and> hr_method r2 = hr_method r1 \<and> hr_path r2 = hr_path r1 \<and>
    hr_body r2 = hr_body r1 \<and>
    fst (place_buy_market e api w market krw st) =
      ecatch (js_parse api txt) (jw_obj w [(''error'', jw_str w ''parse_failed'')])"
  using assms
  by (simp add: place_buy_market_def place_order_def parse_or_failed_def Let_def upbit_delivers lost_def)
    (simp add: upbit_request_def upbit_do_request_alt upbit_loop_1 upbit_try_def Let_def upbit_close_def)

theorem lost_spot_order_sent_twice_witness:
  "let e = \<lparr>ue_openssl = \<lparr>os_base64 = b64_encode, os_sha512 = rev, os_hmac_sha256 = (\<lambda>k m. k)\<rparr>,
          ue_auth = \<lparr>ua_access = ''key'', ua_secret = ''secret''\<rparr>, ue_host = ''api.upbit.com'',
          ue_draws = (\<lambda>i. \<lparr>ud_hex = (\<lambda>_. i), ud_variant = (\<lambda>_. 8)\<rparr>),
          ue_net = (\<lambda>i. if i = 0 then Unanswered else Answered 201 ''{}'' False)\<rparr>;
       st = snd (place_buy_market e (jv_api [(''{}'', JObj [])]) (jv_writer (\<lambda>j. ''order'')) ''KRW-BTC'' (lit 5000) UpbitRestClient)
   in map hr_body (uc_delivered st) = [''order'', ''order'']"
proof -
  let ?e = "\<lparr>ue_openssl = \<lparr>os_base64 = b64_encode, os_sha512 = rev, os_hmac_sha256 = (\<lambda>k m. k)\<rparr>,
          ue_auth = \<lparr>ua_access = ''key'', ua_secret = ''secret''\<rparr>, ue_host = ''api.upbit.com'',
          ue_draws = (\<lambda>i. \<lparr>ud_hex = (\<lambda>_. i), ud_variant = (\<lambda>_. 8)\<rparr>),
          ue_net = (\<lambda>i. if i = 0 then Unanswered else Answered 201 ''{}'' False)\<rparr>"
  have "ue_net ?e 0 = Unanswered" and "ue_net ?e 1 = Answered 201 ''{}'' False" by simp_all
  from lost_spot_order_sent_twice [OF this, of "jv_api [(''{}'', JObj [])]" "jv_writer (\<lambda>j. ''order'')" "''KRW-BTC''" "lit 5000" UpbitRestClient]
  obtain r1 r2 where "uc_delivered (snd (place_buy_market ?e (jv_api [(''{}'', JObj [])]) (jv_writer (\<lambda>j. ''order'')) ''KRW-BTC'' (lit 5000) UpbitRestClient)) = [r1, r2]"
    and "hr_body r2 = hr_body r1" by (auto simp: UpbitRestClient_def)
  moreover have "hd (uc_delivered (snd (place_buy_market ?e (jv_api [(''{}'', JObj [])]) (jv_writer (\<lambda>j. ''order'')) ''KRW-BTC'' (lit 5000) UpbitRestClient))) =
    upbit_request ?e 0 ''POST'' ''/v1/orders'' ''order'' (''market=KRW-BTC&side=bid&price='' @ show_int (dtrunc (lit 5000)) @ ''&ord_type=price'')"
    by (simp add: place_buy_market_def place_order_def parse_or_failed_def Let_def upbit_delivers lost_def UpbitRestClient_def jv_writer_def)
  ultimately show ?thesis by (simp add: upbit_request_def)
qed

end
