(* ===== verification/Main_Program.thy ===== *)
theory Main_Program
  imports Engine_Events Upbit_Rest Bitget_Ws Webhook_Server Signal_Queue
begin

text \<open>
  \<open>src/main.cpp\<close>: how the program puts its parts together - the configuration it reads, the order of
  the startup, what it passes to the receiver of signals and to the dashboard.  Threads, signals of the
  operating system and the log are left out; files are a parameter.
\<close>

subsection \<open>Configuration\<close>

text \<open>A loop over items whose body assigns and may throw.\<close>

fun efold :: "('a \<Rightarrow> 's \<Rightarrow> exn + 's) \<Rightarrow> 'a list \<Rightarrow> 's \<Rightarrow> exn + 's" where
  "efold f [] s = Inr s"
| "efold f (x # xs) s = ebind (f x s) (efold f xs)"

definition allow_symbol :: "'j json_api \<Rightarrow> 'j \<Rightarrow> trading_config \<Rightarrow> exn + trading_config" where
  "allow_symbol api s tc =
     ebind (js_get_string api s) (\<lambda>symb. Inr (tc\<lparr>tg_allowed_symbols := List.insert symb (tg_allowed_symbols tc)\<rparr>))"

definition configure_symbol :: "'j json_api \<Rightarrow> string \<times> 'j \<Rightarrow> trading_config \<Rightarrow> exn + trading_config" where
  "configure_symbol api item tc0 =
     (let (symb, cfg) = item in
      ebind (if js_contains api cfg ''size''
             then ebind (js_field api cfg ''size'') (\<lambda>v. ebind (js_get_double api v) (\<lambda>x.
                    Inr (tc0\<lparr>tg_symbol_sizes := AList.update symb x (tg_symbol_sizes tc0)\<rparr>)))
             else Inr tc0) (\<lambda>tc.
      if js_contains api cfg ''leverage''
      then ebind (js_field api cfg ''leverage'') (\<lambda>v. ebind (js_get_int api v) (\<lambda>n.
             Inr (tc\<lparr>tg_symbol_leverages := AList.update symb n (tg_symbol_leverages tc)\<rparr>)))
      else Inr tc))"

definition configure_tf :: "'j json_api \<Rightarrow> string \<times> 'j \<Rightarrow> trading_config \<Rightarrow> exn + trading_config" where
  "configure_tf api item tc =
     (let (tf, filt) = item in
      ebind (js_value_double api filt ''size_multiplier'' 1) (\<lambda>sm. ebind (js_value_string api filt ''min_tier'' ''C'') (\<lambda>mt.
      ebind (js_value_double api filt ''min_tp_to_cost_ratio'' (lit (15/10))) (\<lambda>mr.
      ebind (js_value_bool api filt ''block_reverse'' True) (\<lambda>br.
      Inr (tc\<lparr>tg_tf_filters := AList.update tf \<lparr>fl_size_multiplier = sm, fl_min_tier = mt, fl_min_tp_to_cost_ratio = mr,
             fl_block_reverse = br\<rparr> (tg_tf_filters tc)\<rparr>))))))"

definition trading_numbers :: "'j json_api \<Rightarrow> 'j \<Rightarrow> trading_config \<Rightarrow> exn + trading_config" where
  "trading_numbers api t tc =
     ebind (js_value_double api t ''default_size'' (lit (1/100))) (\<lambda>ds. ebind (js_value_double api t ''trade_amount_usdt'' (lit 10)) (\<lambda>ta.
     ebind (js_value_int api t ''default_leverage'' 10) (\<lambda>dl. ebind (js_value_int api t ''num_workers'' 4) (\<lambda>nw.
     ebind (js_value_double api t ''order_rate_limit'' (lit 9)) (\<lambda>orl. ebind (js_value_double api t ''tpsl_rate_limit'' (lit 9)) (\<lambda>trl.
     ebind (js_value_bool api t ''shadow_mode'' False) (\<lambda>sm. ebind (js_value_bool api t ''auto_live'' True) (\<lambda>al.
     ebind (js_value_double api t ''backup_sl_pct'' (lit (3/100))) (\<lambda>bs.
     Inr (tc\<lparr>tg_default_size := ds, tg_trade_amount_usdt := ta, tg_default_leverage := dl, tg_num_workers := nw,
            tg_order_rate_limit := orl, tg_tpsl_rate_limit := trl, tg_shadow_mode := sm, tg_auto_live := al,
            tg_backup_sl_pct := bs\<rparr>))))))))))"

text \<open>\<open>if (j.contains(k)) for (auto& x : j[k]) ...\<close>, over elements or over items.\<close>

definition over :: "'j json_api \<Rightarrow> ('j \<Rightarrow> 'a list) \<Rightarrow> ('a \<Rightarrow> 's \<Rightarrow> exn + 's) \<Rightarrow> 'j \<Rightarrow> string \<Rightarrow> 's \<Rightarrow> exn + 's" where
  "over api parts f j k s = (if js_contains api j k then ebind (js_field api j k) (\<lambda>a. efold f (parts a) s) else Inr s)"

definition parse_trading_config :: "'j json_api \<Rightarrow> 'j \<Rightarrow> 'j \<Rightarrow> exn + trading_config" where
  "parse_trading_config api config risk_config =
     ebind (if js_contains api config ''trading''
            then ebind (js_field api config ''trading'') (\<lambda>t. ebind (trading_numbers api t TradingConfig) (\<lambda>tc1.
                   ebind (over api (js_elems api) (allow_symbol api) t ''symbols'' tc1) (\<lambda>tc2.
                   over api (js_items api) (configure_symbol api) t ''symbol_config'' tc2)))
            else Inr TradingConfig) (\<lambda>tc. over api (js_items api) (configure_tf api) risk_config ''tf_filters'' tc)"

definition parse_risk_limits :: "'j json_api \<Rightarrow> 'j \<Rightarrow> exn + risk_limits" where
  "parse_risk_limits api config =
     (if js_contains api config ''risk''
      then ebind (js_field api config ''risk'') (\<lambda>rc.
        ebind (js_value_double api rc ''max_position_per_symbol'' 1) (\<lambda>mp. ebind (js_value_double api rc ''max_daily_loss'' (lit 500)) (\<lambda>ml.
        ebind (js_value_double api rc ''max_order_size'' (lit (5/10))) (\<lambda>ms. ebind (js_value_int api rc ''max_open_orders'' 10) (\<lambda>mo.
        ebind (js_value_double api rc ''circuit_breaker_loss'' (lit 1000)) (\<lambda>cb. ebind (js_value_double api rc ''max_drawdown_pct'' (lit 5)) (\<lambda>dd.
        Inr \<lparr>lim_max_position_per_symbol = mp, lim_max_daily_loss = ml, lim_max_order_size = ms, lim_max_open_orders = mo,
             lim_circuit_breaker_loss = cb, lim_max_drawdown_pct = dd\<rparr>)))))))
      else Inr RiskLimits)"

record bitget_rest_config =
  br_host :: string
  br_port :: string
  br_timeout_sec :: int

definition parse_rest_config :: "'j json_api \<Rightarrow> 'j \<Rightarrow> exn + bitget_rest_config" where
  "parse_rest_config api config =
     (if js_contains api config ''exchange''
      then ebind (js_field api config ''exchange'') (\<lambda>ex. ebind (js_value_string api ex ''host'' ''api.bitget.com'') (\<lambda>h.
        ebind (js_value_string api ex ''port'' ''443'') (\<lambda>p. ebind (js_value_int api ex ''timeout_sec'' 10) (\<lambda>t.
        Inr \<lparr>br_host = h, br_port = p, br_timeout_sec = t\<rparr>))))
      else Inr \<lparr>br_host = ''api.bitget.com'', br_port = ''443'', br_timeout_sec = 10\<rparr>)"

record webhook_setup = webhook_config +
  wu_bind_address :: string
  wu_port :: int
  wu_ssl_cert :: string
  wu_ssl_key :: string

definition WebhookConfig :: webhook_setup where
  "WebhookConfig = \<lparr>wc_auth_token = [], wc_allowed_ips = [], wc_max_body_size = 4096, wu_bind_address = ''0.0.0.0'', wu_port = 8443,
     wu_ssl_cert = [], wu_ssl_key = []\<rparr>"

definition allow_ip :: "'j json_api \<Rightarrow> 'j \<Rightarrow> webhook_setup \<Rightarrow> exn + webhook_setup" where
  "allow_ip api ip u = ebind (js_get_string api ip) (\<lambda>s. Inr (u\<lparr>wc_allowed_ips := List.insert s (wc_allowed_ips u)\<rparr>))"

definition parse_webhook_config :: "'j json_api \<Rightarrow> 'j \<Rightarrow> exn + webhook_setup" where
  "parse_webhook_config api config =
     (if js_contains api config ''webhook''
      then ebind (js_field api config ''webhook'') (\<lambda>wc. ebind (js_value_string api wc ''bind_address'' ''0.0.0.0'') (\<lambda>b.
        ebind (js_value_int api wc ''port'' 8443) (\<lambda>p. ebind (js_value_string api wc ''ssl_cert'' []) (\<lambda>ce.
        ebind (js_value_string api wc ''ssl_key'' []) (\<lambda>ke. ebind (js_value_string api wc ''auth_token'' []) (\<lambda>tok.
        over api (js_elems api) (allow_ip api) wc ''allowed_ips''
          (WebhookConfig\<lparr>wc_auth_token := tok, wu_bind_address := b, wu_port := p mod 65536, wu_ssl_cert := ce, wu_ssl_key := ke\<rparr>)))))))
      else Inr WebhookConfig)"

text \<open>The receiver is not started without a token, unless the configuration asks for paper trading.\<close>

definition token_missing :: "webhook_setup \<Rightarrow> bool" where
  "token_missing u \<longleftrightarrow> wc_auth_token u = [] \<or> wc_auth_token u = ''CHANGE_ME''"

subsection \<open>Startup\<close>

text \<open>The files by name, \<open>None\<close> for a file that cannot be opened.\<close>

definition load_config :: "'j json_api \<Rightarrow> (string \<Rightarrow> string option) \<Rightarrow> string \<Rightarrow> exn + 'j" where
  "load_config api files path =
     (case files path of None \<Rightarrow> Inl (RuntimeError (''Cannot open config: '' @ path)) | Some txt \<Rightarrow> js_parse api txt)"

definition key_of :: "'j json_api \<Rightarrow> 'j \<Rightarrow> string \<Rightarrow> exn + string" where
  "key_of api keys k = ebind (js_field api keys k) (js_get_string api)"

definition load_bitget_auth :: "'j json_api \<Rightarrow> 'j \<Rightarrow> exn + bitget_auth" where
  "load_bitget_auth api keys =
     ebind (key_of api keys ''api_key'') (\<lambda>k. ebind (key_of api keys ''api_secret'') (\<lambda>s. ebind (key_of api keys ''passphrase'') (\<lambda>p.
     Inr \<lparr>ba_key = k, ba_secret = s, ba_pass = p\<rparr>)))"

definition load_upbit_auth :: "'j json_api \<Rightarrow> 'j \<Rightarrow> exn + upbit_auth" where
  "load_upbit_auth api keys =
     (if js_contains api keys ''upbit_access_key'' \<and> js_contains api keys ''upbit_secret_key''
      then ebind (key_of api keys ''upbit_access_key'') (\<lambda>a. ebind (key_of api keys ''upbit_secret_key'') (\<lambda>s.
             Inr \<lparr>ua_access = a, ua_secret = s\<rparr>))
      else Inr \<lparr>ua_access = [], ua_secret = []\<rparr>)"

text \<open>The modules of the risk engine, in the order of their construction; the log lines between them read the configuration too.\<close>

record risk_modules =
  ro_scorer :: scorer_cfg
  ro_fee :: fee_cfg
  ro_sizer :: sizer_cfg
  ro_portfolio :: "risk_cfg \<times> risk_state"

definition log_modules :: "'j json_api \<Rightarrow> 'j \<Rightarrow> exn + unit" where
  "log_modules api rc =
     ebind (js_value_json api rc ''symbol_scoring'' (js_object api)) (\<lambda>sc. ebind (js_value_int api sc ''min_trades'' 20) (\<lambda>_.
     ebind (js_value_json api rc ''fee_analysis'' (js_object api)) (\<lambda>fa. ebind (js_value_double api fa ''taker_fee_pct'' (lit (6/100))) (\<lambda>_.
     ebind (js_value_double api fa ''maker_fee_pct'' (lit (2/100))) (\<lambda>_.
     ebind (js_value_json api rc ''portfolio_risk'' (js_object api)) (\<lambda>pr. ebind (js_value_int api pr ''max_concurrent_positions'' 15) (\<lambda>_.
     ebind (js_value_int api pr ''max_same_direction'' 10) (\<lambda>_. ebind (js_value_int api pr ''max_positions_total'' 50) (\<lambda>_. Inr ())))))))))"

definition build_modules :: "'j json_api \<Rightarrow> 'j \<Rightarrow> exn + risk_modules" where
  "build_modules api rc =
     ebind (scorer_config api rc) (\<lambda>sco. ebind (FeeAnalyzer api rc) (\<lambda>fee. ebind (PositionSizer api rc) (\<lambda>siz.
     ebind (PortfolioRiskManager api rc) (\<lambda>pr. ebind (log_modules api rc) (\<lambda>_.
     Inr \<lparr>ro_scorer = sco, ro_fee = fee, ro_sizer = siz, ro_portfolio = pr\<rparr>)))))"

definition base_manager :: "trading_config \<Rightarrow> risk_limits \<Rightarrow> int \<Rightarrow> risk_manager" where
  "base_manager tc lmts now =
     (let rm = RiskManager lmts now in
      if tg_allowed_symbols tc \<noteq> [] then set_allowed_symbols (tg_allowed_symbols tc) rm else rm)"

text \<open>What the engine is built from.\<close>

record engine_parts =
  ep_auth :: bitget_auth
  ep_upbit :: upbit_auth
  ep_rest :: bitget_rest_config
  ep_manager :: risk_manager
  ep_modules :: risk_modules
  ep_trading :: trading_config
  ep_learner :: learner_cfg
  ep_readiness :: "readiness_cfg \<times> readiness"

record dashboard_setup =
  du_port :: int
  du_static_dir :: string
  du_token :: string
  du_cors_origin :: string

record program =
  pm_parts :: engine_parts
  pm_dashboard :: dashboard_setup
  pm_webhook :: webhook_setup
  pm_threads :: int

text \<open>
  How \<open>main\<close> ends its startup: with an exception before or after the engine runs, with the refusal to
  serve without a token (the engine and the dashboard run by then), or serving.
\<close>

datatype startup = Fatal exn bool | Refused | Serving program

definition load_risk_config :: "'j json_api \<Rightarrow> 'j json_writer \<Rightarrow> (string \<Rightarrow> string option) \<Rightarrow> string \<Rightarrow> exn + 'j" where
  "load_risk_config api w files path =
     (if \<not> Option.is_none (files path) then load_config api files path else Inr (jw_null w))"

definition build_engine_parts ::
    "'j json_api \<Rightarrow> 'j json_writer \<Rightarrow> (string \<Rightarrow> string option) \<Rightarrow> fs \<Rightarrow> int \<Rightarrow> 'j \<Rightarrow> string \<Rightarrow> exn + engine_parts" where
  "build_engine_parts api w files disk now config risk_path =
     ebind (ebind (key_of api config ''api_keys_path'') (load_config api files)) (\<lambda>keys.
     ebind (load_risk_config api w files risk_path) (\<lambda>rc.
     ebind (js_value_string api config ''log_level'' ''info'') (\<lambda>_.
     ebind (load_bitget_auth api keys) (\<lambda>auth. ebind (load_upbit_auth api keys) (\<lambda>upbit.
     ebind (parse_rest_config api config) (\<lambda>rest. ebind (parse_risk_limits api config) (\<lambda>lmts.
     ebind (build_modules api rc) (\<lambda>mods.
     ebind (parse_trading_config api config rc) (\<lambda>tc.
     ebind (learner_config api rc) (\<lambda>lrn.
     ebind (LiveReadinessEngine api ''data'' rc disk) (\<lambda>rn.
     Inr \<lparr>ep_auth = auth, ep_upbit = upbit, ep_rest = rest, ep_manager = base_manager tc lmts now, ep_modules = mods,
          ep_trading = tc, ep_learner = lrn, ep_readiness = rn\<rparr>)))))))))))"

text \<open>The part after \<open>exec_engine.start()\<close>: dashboard, receiver, token, threads.\<close>

definition parse_dashboard :: "'j json_api \<Rightarrow> 'j \<Rightarrow> exn + dashboard_setup" where
  "parse_dashboard api config =
     ebind (js_value_int api config ''dashboard_port'' 5000) (\<lambda>p. ebind (js_value_string api config ''static_dir'' ''static'') (\<lambda>d.
     ebind (js_value_string api config ''dashboard_token'' []) (\<lambda>t. ebind (js_value_string api config ''dashboard_cors_origin'' []) (\<lambda>c.
     Inr \<lparr>du_port = p mod 65536, du_static_dir = d, du_token = t, du_cors_origin = c\<rparr>))))"

definition serve :: "'j json_api \<Rightarrow> 'j \<Rightarrow> engine_parts \<Rightarrow> startup" where
  "serve api config parts =
     (case ebind (parse_dashboard api config) (\<lambda>d. ebind (parse_webhook_config api config) (\<lambda>u. Inr (d, u))) of
        Inl ex \<Rightarrow> Fatal ex True
      | Inr (d, u) \<Rightarrow>
          if token_missing u \<and> \<not> tg_shadow_mode (ep_trading parts) then Refused
          else (case js_value_int api config ''server_threads'' 8 of
                  Inl ex \<Rightarrow> Fatal ex True
                | Inr n \<Rightarrow> Serving \<lparr>pm_parts = parts, pm_dashboard = d, pm_webhook = u, pm_threads = n\<rparr>))"

definition main_startup ::
    "'j json_api \<Rightarrow> 'j json_writer \<Rightarrow> (string \<Rightarrow> string option) \<Rightarrow> fs \<Rightarrow> int \<Rightarrow> string list \<Rightarrow> startup" where
  "main_startup api w files disk now args =
     (let config_path = (if length args > 0 then args ! 0 else ''config/config.json'');
          risk_path = (if length args > 1 then args ! 1 else ''config/risk_config.json'')
      in case load_config api files config_path of
           Inl ex \<Rightarrow> Fatal ex False
         | Inr config \<Rightarrow>
             (case build_engine_parts api w files disk now config risk_path of
                Inl ex \<Rightarrow> Fatal ex False
              | Inr parts \<Rightarrow> serve api config parts))"

subsection \<open>The receiver's callback\<close>

text \<open>\<open>on_signal\<close> returns normally also when the queue is full: the signal is dropped with a line in the log.\<close>

definition on_signal :: "signal \<Rightarrow> signal mpsc_queue \<Rightarrow> bool \<times> signal mpsc_queue" where
  "on_signal sig q = (True, snd (try_push sig q))"

text \<open>C21.  C0.  The path of a signal from the receiver to the engine: when a request is answered \<open>accepted\<close>, its
  body was a valid signal with the right token and the signal has joined the end of the queue if
  there was room; without room it is gone although it was accepted.  Every request answered
  otherwise leaves the queue as it was.
\<close>

theorem webhook_to_queue:
  "let (r, s') = handle_request api memcmp cfg on_signal ip steady now_ns rq s; q = sv_app s
   in if r = Inr (respond 200 (status_body ''accepted''))
      then \<exists>sig. from_json api now_ns (rq_body rq) = Inr (Some sig) \<and> is_valid sig \<and>
        (wc_auth_token cfg = [] \<or> constant_time_eq memcmp (sg_token sig) (wc_auth_token cfg)) \<and>
        q_items (sv_app s') = q_items q @ (if length (q_items q) < q_max_cap q then [sig] else [])
      else sv_app s' = q"
proof -
  have "respond 200 (status_body ''ok'') \<noteq> respond 200 (status_body ''accepted'')"
    by (simp add: respond_def status_body_def Let_def)
  then show ?thesis
    by (auto simp: handle_request_def Let_def split_beta on_signal_def try_push_def respond_def split: sum.split option.split)
qed

lemma serving_token:
  "main_startup api w files disk now args = Serving pm \<Longrightarrow> \<not> tg_shadow_mode (ep_trading (pm_parts pm)) \<Longrightarrow>
     \<not> token_missing (pm_webhook pm)"
  by (auto simp: main_startup_def serve_def Let_def split: sum.splits if_splits)


subsection \<open>A missing risk configuration\<close>

lemma ebind_fails: "(\<And>x. \<exists>ex. f x = Inl ex) \<Longrightarrow> \<exists>ex. ebind m f = Inl ex"
  by (cases m) auto

lemma ebind_fails_left: "\<exists>ex. m = Inl ex \<Longrightarrow> \<exists>ex. ebind m f = Inl ex"
  by auto

text \<open>C25.  C0.  The risk configuration is announced as optional (without the file the program logs that it uses
  defaults), but without it the program never starts: the modules are built from the JSON null,
  whose \<open>value\<close> throws, so the startup ends with a fatal exception before the engine runs.
\<close>

theorem missing_risk_config_fatal:
  assumes "files (if length args > 1 then args ! 1 else ''config/risk_config.json'') = None"
    and "\<forall>k d. js_value_json api (jw_null w) k d = Inl JsonTypeError"
  shows "\<exists>ex. main_startup api w files disk now args = Fatal ex False"
proof -
  let ?risk = "if length args > 1 then args ! 1 else ''config/risk_config.json''"
  have rc: "load_risk_config api w files ?risk = Inr (jw_null w)"
    using assms(1) by (simp add: load_risk_config_def)
  have mods: "build_modules api (jw_null w) = Inl JsonTypeError"
    using assms(2) by (simp add: build_modules_def scorer_config_def)
  have parts: "\<exists>ex. build_engine_parts api w files disk now config ?risk = Inl ex" for config
    unfolding build_engine_parts_def rc ebind_simps mods by (intro ebind_fails) auto
  show ?thesis
  proof (cases "load_config api files (if length args > 0 then args ! 0 else ''config/config.json'')")
    case (Inl ex)
    then show ?thesis unfolding main_startup_def Let_def by (simp only: sum.case) blast
  next
    case (Inr config)
    from parts obtain ex where "build_engine_parts api w files disk now config ?risk = Inl ex" by blast
    with Inr show ?thesis unfolding main_startup_def Let_def by (simp only: sum.case) blast
  qed
qed

definition sample_texts :: "(string \<times> jv) list" where
  "sample_texts =
     [(''CONFIG'', JObj [(''api_keys_path'', JStr ''keys.json''), (''webhook'', JObj [(''auth_token'', JStr ''secret'')])]),
      (''KEYS'', JObj [(''api_key'', JStr ''k''), (''api_secret'', JStr ''s''), (''passphrase'', JStr ''p'')]),
      (''RISK'', JObj []),
      (''SIGNAL'', JObj [(''action'', JStr ''buy''), (''symbol'', JStr ''BTCUSDT''), (''price'', JInt 100), (''token'', JStr ''secret'')])]"

definition sample_files :: "string \<Rightarrow> string option" where
  "sample_files = map_of [(''config/config.json'', ''CONFIG''), (''keys.json'', ''KEYS''), (''risk.json'', ''RISK'')]"

theorem missing_risk_config_fatal_witness:
  "\<exists>ex. main_startup (jv_api sample_texts) (jv_writer (\<lambda>j. [])) sample_files (\<lambda>_. None) 0 [] = Fatal ex False"
proof (rule missing_risk_config_fatal)
  show "sample_files (if length ([] :: string list) > 1 then [] ! 1 else ''config/risk_config.json'') = None" by code_simp
  show "\<forall>k d. js_value_json (jv_api sample_texts) (jw_null (jv_writer (\<lambda>j. []))) k d = Inl JsonTypeError"
    by (simp add: jv_api_def jv_writer_def)
qed

lemma sample_serving:
  "\<exists>pm. main_startup (jv_api sample_texts) (jv_writer (\<lambda>j. [])) sample_files (\<lambda>_. None) 0 [''config/config.json'', ''risk.json''] = Serving pm \<and>
     \<not> tg_shadow_mode (ep_trading (pm_parts pm)) \<and> wc_auth_token (pm_webhook pm) = ''secret'' \<and>
     wc_allowed_ips (pm_webhook pm) = [] \<and> wc_max_body_size (pm_webhook pm) = 4096"
  (is "\<exists>pm. ?r = Serving pm \<and> ?P pm")
proof -
  have "case ?r of Serving pm \<Rightarrow> ?P pm | _ \<Rightarrow> False" by code_simp
  then show ?thesis by (cases ?r) auto
qed


subsection \<open>What the dashboard reads\<close>

definition int_map :: "'j json_writer \<Rightarrow> int smap \<Rightarrow> 'j" where
  "int_map w m = jw_obj w (map (\<lambda>kv. (fst kv, jw_int w (snd kv))) m)"

definition dbl_map :: "'j json_writer \<Rightarrow> double smap \<Rightarrow> 'j" where
  "dbl_map w m = jw_obj w (map (\<lambda>kv. (fst kv, jw_dbl w (snd kv))) m)"

definition portfolio_json :: "'j json_writer \<Rightarrow> portfolio_state \<Rightarrow> 'j" where
  "portfolio_json w s =
     jw_obj w [(''total_positions'', jw_int w (total_positions s)), (''total_notional'', jw_dbl w (total_notional s)),
       (''total_margin_used'', jw_dbl w (total_margin_used s)), (''margin_used_pct'', jw_dbl w (margin_used_pct s)),
       (''positions_by_tf'', int_map w (positions_by_tf s)), (''exposure_by_tf'', dbl_map w (exposure_by_tf s)),
       (''correlated_risk'', jw_dbl w (correlated_risk s)), (''correlated_risk_pct'', jw_dbl w (correlated_risk_pct s)),
       (''daily_pnl'', jw_dbl w (ps_daily_pnl s)), (''weekly_pnl'', jw_dbl w (ps_weekly_pnl s)),
       (''current_drawdown_pct'', jw_dbl w (current_drawdown_pct s)),
       (''circuit_breaker_active'', jw_bool w (circuit_breaker_active s))]"

definition check_stats_json :: "'j json_writer \<Rightarrow> check_stats \<Rightarrow> 'j" where
  "check_stats_json w c =
     jw_obj w [(''total_checks'', jw_int w (cs_total c)), (''passed'', jw_int w (cs_passed c)), (''blocked'', jw_int w (cs_blocked c)),
       (''pass_rate'', jw_dbl w (cs_pass_rate c)), (''block_reasons'', int_map w (cs_block_reasons c))]"

definition count_tier :: "symbol_score \<Rightarrow> int smap \<Rightarrow> int smap" where
  "count_tier s m = AList.update (ss_tier s) ((case map_of m (ss_tier s) of Some n \<Rightarrow> n | None \<Rightarrow> 0) + 1) m"

definition is_live_ready :: "string \<Rightarrow> symbol_score \<Rightarrow> bool" where
  "is_live_ready min_tier s \<longleftrightarrow>
     ss_data_sufficient s \<and>
     (let t = ss_tier s in
      if min_tier = ''S'' \<and> t = ''S'' then True
      else if min_tier = ''A'' \<and> (t = ''S'' \<or> t = ''A'') then True
      else if min_tier = ''B'' \<and> (t = ''S'' \<or> t = ''A'' \<or> t = ''B'') then True
      else min_tier = ''C'' \<and> t \<noteq> ''D'' \<and> t \<noteq> ''X'')"

definition learning_json :: "'j json_writer \<Rightarrow> bool \<Rightarrow> string \<Rightarrow> symbol_score list \<Rightarrow> 'j" where
  "learning_json w shadow min_tier scores =
     jw_obj w [(''total_scored'', jw_int w (int (length scores))),
       (''data_sufficient'', jw_int w (int (length (filter ss_data_sufficient scores)))),
       (''tier_distribution'', int_map w (fold count_tier scores [])), (''shadow_mode'', jw_bool w shadow),
       (''live_min_tier'', jw_str w min_tier),
       (''live_ready_symbols'', jw_int w (int (length (filter (is_live_ready min_tier) scores))))]"

definition risk_status :: "'j engine_env \<Rightarrow> 'j json_writer \<Rightarrow> engine \<Rightarrow> 'j" where
  "risk_status e w en =
     (let rs = bk_risk (en_book en) in
      jw_obj w [(''portfolio'', portfolio_json w (portfolio_state e en)), (''check_stats'', check_stats_json w (get_check_stats rs)),
        (''risk_skips'', jw_int w (en_risk_skips en)),
        (''learning'', learning_json w (shadow_mode rs) (live_min_tier (ee_risk e)) (map snd (sco_scores (en_scorer en))))])"

definition stats_json :: "'j json_writer \<Rightarrow> bool \<Rightarrow> engine_stats \<Rightarrow> 'j" where
  "stats_json w ws_connected st =
     jw_obj w [(''total_trades'', jw_int w (es_total_trades st)), (''wins'', jw_int w (es_wins st)), (''losses'', jw_int w (es_losses st)),
       (''win_rate'', jw_dbl w (es_win_rate st)), (''total_pnl'', jw_dbl w (es_total_pnl st)), (''balance'', jw_dbl w (es_balance st)),
       (''peak_balance'', jw_dbl w (es_peak_balance st)), (''equity'', jw_dbl w (es_equity st)),
       (''unrealized_pnl'', jw_dbl w (es_unrealized_pnl st)), (''open_positions'', jw_int w (es_open_positions st)),
       (''orders_executed'', jw_int w (es_orders_executed st)), (''risk_skips'', jw_int w (es_risk_skips st)),
       (''shadow_mode'', jw_bool w (es_shadow_mode st)), (''last_balance_sync'', jw_int w (es_last_balance_sync st)),
       (''ws_connected'', jw_bool w ws_connected)]"

definition position_row :: "'j json_writer \<Rightarrow> string \<times> managed_position \<Rightarrow> 'j" where
  "position_row w kp =
     (let (key, p) = kp in
      jw_obj w [(''key'', jw_str w key), (''symbol'', jw_str w (mp_symbol p)), (''timeframe'', jw_str w (mp_timeframe p)),
        (''side'', jw_str w (mp_side p)), (''entry_price'', jw_dbl w (mp_entry_price p)), (''quantity'', jw_dbl w (mp_quantity p)),
        (''leverage'', jw_int w (mp_leverage p)), (''tier'', jw_str w (mp_tier p)), (''strategy'', jw_str w (mp_strategy p)),
        (''exchange'', jw_str w (mp_exchange p)), (''market_type'', jw_str w (mp_market_type p))])"

definition position_rows :: "'j json_writer \<Rightarrow> engine \<Rightarrow> 'j" where
  "position_rows w en =
     jw_arr w (map (position_row w) (filter (\<lambda>kp. mp_market_type (snd kp) \<noteq> ''spot'') (bk_positions (en_book en))))"

definition spot_position_rows :: "'j json_writer \<Rightarrow> engine \<Rightarrow> 'j" where
  "spot_position_rows w en = jw_arr w (map (position_row w) (en_spot_positions en))"

definition spot_trade_rows :: "'j json_writer \<Rightarrow> engine \<Rightarrow> 'j" where
  "spot_trade_rows w en =
     jw_arr w (map (\<lambda>t. jw_obj w [(''symbol'', jw_str w (tr_symbol t)), (''timeframe'', jw_str w (tr_timeframe t)),
        (''exit_reason'', jw_str w (tr_exit_reason t)), (''entry_price'', jw_dbl w (tr_entry_price t)),
        (''exit_price'', jw_dbl w (tr_exit_price t)), (''quantity'', jw_dbl w (tr_quantity t)), (''pnl'', jw_dbl w (tr_pnl t)),
        (''fee'', jw_dbl w (tr_fee t)), (''strategy'', jw_str w (tr_strategy t)), (''exchange'', jw_str w (tr_exchange t)),
        (''market_type'', jw_str w (tr_market_type t))]) (en_spot_trades en))"

definition imported_record :: "'j json_api \<Rightarrow> 'j \<Rightarrow> exn + trade_record" where
  "imported_record api t =
     (let str = js_value_string api t; dbl = (\<lambda>k. js_value_double api t k 0) in
      ebind (str ''symbol'' []) (\<lambda>symb. ebind (str ''timeframe'' []) (\<lambda>tf. ebind (str ''exit_reason'' []) (\<lambda>er.
      ebind (dbl ''pnl'') (\<lambda>pnl. ebind (dbl ''fee'') (\<lambda>fee. ebind (dbl ''entry_price'') (\<lambda>ep. ebind (dbl ''exit_price'') (\<lambda>xp.
      ebind (dbl ''quantity'') (\<lambda>qty. ebind (str ''strategy'' ''imported'') (\<lambda>strat.
      Inr (TradeRecord\<lparr>tr_symbol := symb, tr_timeframe := tf, tr_exit_reason := er, tr_pnl := pnl, tr_fee := fee,
             tr_entry_price := ep, tr_exit_price := xp, tr_quantity := qty, tr_strategy := strat\<rparr>)))))))))))"

definition import_callback :: "'j engine_env \<Rightarrow> 'j json_writer \<Rightarrow> 'j \<Rightarrow> engine \<Rightarrow> (exn + 'j) \<times> engine" where
  "import_callback e w body en =
     (let api = ee_api e in
      if \<not> js_contains api body ''trades'' then
        (Inr (jw_obj w [(''error'', jw_str w ''missing 'trades' array''), (''imported'', jw_int w 0)]), en)
      else case js_field api body ''trades'' of
        Inl ex \<Rightarrow> (Inl ex, en)
      | Inr ts \<Rightarrow>
          if \<not> js_is_array api ts then
            (Inr (jw_obj w [(''error'', jw_str w ''missing 'trades' array''), (''imported'', jw_int w 0)]), en)
          else (case emap (imported_record api) (js_elems api ts) of
                  Inl ex \<Rightarrow> (Inl ex, en)
                | Inr records \<Rightarrow>
                    let (n, en') = import_trades e records en
                    in (Inr (jw_obj w [(''imported'', jw_int w n), (''total_submitted'', jw_int w (int (length records))),
                              (''status'', jw_str w ''ok'')]), en')))"

definition close_result_json :: "'j json_writer \<Rightarrow> close_result \<Rightarrow> 'j" where
  "close_result_json w cr =
     jw_obj w [(''closed'', jw_int w (cr_closed cr)), (''failed'', jw_int w (cr_failed cr)),
       (''total'', jw_int w (int (length (cr_details cr)))),
       (''details'', jw_arr w (map (\<lambda>(symb, side, st). jw_obj w [(''symbol'', jw_str w symb), (''side'', jw_str w side),
          (''status'', jw_str w st)]) (cr_details cr)))]"

text \<open>The callbacks of the dashboard; the reports of the other modules, which only read, are an argument.\<close>

definition main_callbacks ::
    "'j engine_env \<Rightarrow> 'j json_writer \<Rightarrow> bool \<Rightarrow> (query \<Rightarrow> engine \<Rightarrow> exn + 'j) \<Rightarrow> ('j, engine) dash_callbacks" where
  "main_callbacks e w ws reports =
     \<lparr>dc_query = (\<lambda>q. Some (\<lambda>en. (case q of
          QStats \<Rightarrow> Inr (stats_json w ws (get_stats en))
        | QRisk \<Rightarrow> Inr (risk_status e w en)
        | QPositions \<Rightarrow> Inr (position_rows w en)
        | QSpotPositions \<Rightarrow> Inr (spot_position_rows w en)
        | QSpotTrades \<Rightarrow> Inr (spot_trade_rows w en)
        | _ \<Rightarrow> reports q en, en))),
      dc_import_trades = Some (import_callback e w),
      dc_close_all_positions = Some (\<lambda>en. case close_all_positions e en of (cr, en') \<Rightarrow> (Inr (close_result_json w cr), en'))\<rparr>"

text \<open>Further documented facts about reading: a missing boolean, an integer read as a number, arrays.\<close>

definition reading_laws :: "'j json_api \<Rightarrow> 'j json_writer \<Rightarrow> bool" where
  "reading_laws api w \<longleftrightarrow>
     (\<forall>kvs k b. map_of kvs k = None \<longrightarrow> js_value_bool api (jw_obj w kvs) k b = Inr b) \<and>
     (\<forall>kvs k i d. map_of kvs k = Some (jw_int w i) \<longrightarrow> js_value_double api (jw_obj w kvs) k d = Inr (dint i)) \<and>
     (\<forall>xs. js_is_array api (jw_arr w xs) \<and> js_size api (jw_arr w xs) = length xs)"

lemma jv_reading_laws: "reading_laws (jv_api texts) (jv_writer dump)"
  by (auto simp: reading_laws_def jv_api_def jv_writer_def)

text \<open>C23.  C0.  What the program's Prometheus text says of an engine: balance, profit, win rate, trades, orders
  and skips are the engine's, the open positions are its futures positions - and the gauges of the
  circuit breaker, of today's profit and of the margin are constantly zero, whatever the engine does, since
  they are looked up under keys that neither of the two documents has.
\<close>

theorem metrics_of_engine:
  assumes "json_laws (dv_api v) (dv_writer v)" and "reading_laws (dv_api v) (dv_writer v)" and "w = dv_writer v"
  shows "build_prometheus_metrics v (main_callbacks e w ws reports) en =
    (metrics_text
       \<lparr>mt_balance = es_balance (get_stats en),
        mt_open_positions = dint (int (length (filter (\<lambda>kp. mp_market_type (snd kp) \<noteq> ''spot'') (bk_positions (en_book en))))),
        mt_total_trades = dint (es_total_trades (get_stats en)), mt_total_pnl = es_total_pnl (get_stats en),
        mt_win_rate = es_win_rate (get_stats en), mt_risk_skips = dint (en_risk_skips en),
        mt_orders_executed = dint (en_executed en), mt_circuit_breaker = 0, mt_daily_pnl = 0, mt_margin_used_pct = 0\<rparr>, en)"
proof -
  have "read_metrics (dv_api v) (stats_json w ws (get_stats en)) (risk_status e w en) (position_rows w en) = Inr
       \<lparr>mt_balance = es_balance (get_stats en),
        mt_open_positions = dint (int (length (filter (\<lambda>kp. mp_market_type (snd kp) \<noteq> ''spot'') (bk_positions (en_book en))))),
        mt_total_trades = dint (es_total_trades (get_stats en)), mt_total_pnl = es_total_pnl (get_stats en),
        mt_win_rate = es_win_rate (get_stats en), mt_risk_skips = dint (en_risk_skips en),
        mt_orders_executed = dint (en_executed en), mt_circuit_breaker = 0, mt_daily_pnl = 0, mt_margin_used_pct = 0\<rparr>"
    using assms(1,2) unfolding assms(3) json_laws_def reading_laws_def
    by (simp add: read_metrics_def stats_json_def risk_status_def position_rows_def Let_def get_stats_def)
  then show ?thesis by (simp add: build_prometheus_metrics_def main_callbacks_def call_or_def)
qed

definition sample_dash_env :: "jv dash_env" where
  "sample_dash_env = \<lparr>dv_api = jv_api [], dv_writer = jv_writer (\<lambda>j. ''{}''), dv_what = (\<lambda>ex. ''error''),
     dv_files = \<lparr>df_exists = (\<lambda>f. False), df_canonical = id, df_content = id\<rparr>,
     dv_config = \<lparr>dg_static_dir = ''static'', dg_static_canonical = ''static'', dg_token = ''admin:x''\<rparr>\<rparr>"

definition tripped_engine :: engine where
  "tripped_engine = on_book (\<lambda>b. b\<lparr>bk_risk := risk_init\<lparr>cb_active := True\<rparr>\<rparr>) sample_engine"

theorem metrics_of_engine_witness:
  "circuit_breaker_active (portfolio_state sample_engine_env tripped_engine) \<and>
   (\<exists>m. build_prometheus_metrics sample_dash_env
          (main_callbacks sample_engine_env (dv_writer sample_dash_env) False (\<lambda>q en. Inr JNull)) tripped_engine =
        (metrics_text m, tripped_engine) \<and> mt_circuit_breaker m = 0)"
proof
  show "circuit_breaker_active (portfolio_state sample_engine_env tripped_engine)"
    by (simp add: portfolio_state_def get_state_def Let_def tripped_engine_def on_book_def)
  have "json_laws (dv_api sample_dash_env) (dv_writer sample_dash_env)" "reading_laws (dv_api sample_dash_env) (dv_writer sample_dash_env)"
    by (simp_all add: sample_dash_env_def jv_laws jv_reading_laws)
  from metrics_of_engine [OF this refl, of sample_engine_env False "\<lambda>q en. Inr JNull" tripped_engine]
  show "\<exists>m. build_prometheus_metrics sample_dash_env
          (main_callbacks sample_engine_env (dv_writer sample_dash_env) False (\<lambda>q en. Inr JNull)) tripped_engine =
        (metrics_text m, tripped_engine) \<and> mt_circuit_breaker m = 0"
    by (metis metric_values.select_convs(8))
qed

end
