(* ===== verification/Spec2Isabelle.thy ===== *)
theory Spec2Isabelle
  imports Portfolio_Risk Symbol_Scorer Position_Sizer Fee_Analyzer Risk_Manager Symbol_Learner
    Alerts Signal_Queue Rate_Limiter State_Persistence Trade_Recorder Position_Manager
    Webhook_Signal Webhook_Server Shadow_Tracker Spot_Shadow Live_Readiness Execution_Engine
    Engine_Cycle Engine_Desk Engine_Events Backtester Wf_Optimizer Backtest_Main Tf_Analytics
    Bitget_Rest Bitget_Ws Upbit_Rest Dashboard_Api Main_Program
begin

text \<open>
  A verification library of the webhook trader: a C++ program that receives trading signals over HTTP,
  filters them through several risk modules, trades futures on Bitget (or only pretends to, in
  shadow mode), follows every signal virtually to learn which symbols earn real orders, and can replay
  its records.  File names below are relative to \<open>src/include/\<close>, or to \<open>src/src/\<close> for the programs.

  \<^bold>\<open>The parts and how they interact.\<close>  The receiver (\<open>webhook/http_server.hpp\<close>) checks address, rate and
  token, parses the body (\<open>webhook/signal_types.hpp\<close>) and pushes the signal on a bounded queue
  (\<open>core/spsc_queue.hpp\<close>).  The workers of the engine (\<open>execution/execution_engine.hpp\<close>) pop it, drop
  duplicates by fingerprint, feed the shadow trackers (\<open>execution/shadow_tracker.hpp\<close>,
  \<open>execution/spot_shadow_tracker.hpp\<close>), and for an entry ask in turn the learner
  (\<open>risk/symbol_learner.hpp\<close>), the scorer, the fee analyzer, the sizer, the portfolio gate and the risk
  manager (\<open>risk/\<close>) before an order goes to the exchange (\<open>exchange/\<close>).  Closed positions pass the
  trade recorder and the position manager (\<open>execution/\<close>), which share balance, positions and trades
  with the engine, and are written by \<open>core/state_persistence.hpp\<close>.  The readiness engine
  (\<open>execution/live_readiness.hpp\<close>) reads the shadow trackers' reports and decides whether the engine
  leaves shadow mode.  The dashboard (\<open>dashboard/\<close>) reads all of them and can import trades and close
  everything.  \<open>main.cpp\<close> wires them; \<open>backtest_main.cpp\<close> replays records through \<open>backtest/\<close>.

  \<^bold>\<open>Foundations.\<close>
  \<^item> \<open>Prelude\<close>: exceptions as values, string-keyed maps, the locale \<open>capped_log\<close> of bounded histories
    (interpreted by \<open>Alerts\<close> and \<open>Trade_Recorder\<close>).
  \<^item> \<open>Doubles\<close>: the type \<open>double\<close> with correctly rounded operations, infinities and \<open>NaN\<close>.  \<open>lit\<close> is a
    literal of the source, \<open>dint\<close> the conversion from an integer, \<open>dround\<close> is \<open>std::round\<close>.
  \<^item> \<open>Text_Conv\<close>: \<open>snprintf\<close> formats, \<open>std::to_string\<close>, \<open>std::stoi\<close>, \<open>std::stod\<close>.
  \<^item> \<open>Json_Api\<close>: the JSON library as a record of accessors, an argument of every reader; \<open>json_laws\<close> are
    the documented facts that some properties name as a hypothesis; \<open>jv_api\<close> is an instance for witnesses.

  \<^bold>\<open>Components\<close> (theory: source; state; what the lemmas show).
  \<^item> \<open>Core_Types\<close>: \<open>core/types.hpp\<close>.
  \<^item> \<open>Portfolio_Risk\<close>: \<open>risk/portfolio_risk.hpp\<close>; \<open>risk_state\<close>.  \<open>check_entry\<close> in the order of its checks;
    the breaker holds until its cooldown, an allowed entry leaves room under every limit, the
    counters balance.
  \<^item> \<open>Risk_Manager\<close>: \<open>risk/risk_manager.hpp\<close>; \<open>risk_manager\<close>.  The breaker latches, counts match the calls.
  \<^item> \<open>Symbol_Scorer\<close>, \<open>Symbol_Learner\<close>, \<open>Position_Sizer\<close>, \<open>Fee_Analyzer\<close>: the files of \<open>risk/\<close> with these
    names.  Scores and learner entries reflect the trades fed to them; decisions and sizes are bounded.
  \<^item> \<open>Signal_Queue\<close>: \<open>core/spsc_queue.hpp\<close>.  The locale \<open>fifo_queue\<close> is what the engine relies on; the
    queue interprets it: nothing lost, doubled or reordered in any interleaving.
  \<^item> \<open>Rate_Limiter\<close>: \<open>core/rate_limiter.hpp\<close>.  Token bucket, and the lock manager as a transition system
    over threads with mutual exclusion per symbol.
  \<^item> \<open>Alerts\<close>, \<open>State_Persistence\<close>: the files of \<open>core/\<close>.  A save is a step relation on the file system
    (\<open>fs\<close>): a crash at any step leaves the old or the new state loadable; saving and loading round-trip.
  \<^item> \<open>Webhook_Signal\<close>, \<open>Webhook_Server\<close>: \<open>webhook/\<close>.  What parsed signals satisfy, what the repairs of a
    malformed body may change, the request limit refines a sliding window, and only authentic
    signals reach the callback.
  \<^item> \<open>Shadow_Tracker\<close>, \<open>Spot_Shadow\<close>, \<open>Live_Readiness\<close>, \<open>Trade_Recorder\<close>, \<open>Position_Manager\<close>: the files of
    \<open>execution/\<close> with these names.  Books balance over every sequence of operations, a refresh makes
    exactly the live-grade symbols eligible, a synchronisation agrees with the exchange.
  \<^item> \<open>Execution_Engine\<close> (signals), \<open>Engine_Cycle\<close> (everything else): \<open>execution/execution_engine.hpp\<close>; the
    record \<open>engine\<close> holds the components' states.  \<open>Engine_Desk\<close> is an abstract specification of what a
    signal may do to positions and requests, and the proof that \<open>process_signal\<close> refines it.
    \<open>Engine_Events\<close> runs any sequence of events (signals, periodic tasks, stream updates, emergency
    close, imports) and shows the invariants of the book and of the modes.
  \<^item> \<open>Bitget_Rest\<close>: \<open>exchange/bitget_auth.hpp\<close>, \<open>exchange/bitget_rest.hpp\<close>; \<open>rest\<close> with every delivered
    request.  The locale \<open>retrying_client\<close> is the contract of both exchange clients (at most two
    deliveries per call, deliveries of a session in the order of its calls).
  \<^item> \<open>Upbit_Rest\<close>: \<open>exchange/upbit_auth.hpp\<close>, \<open>exchange/upbit_rest.hpp\<close>; tokens can be read back.
  \<^item> \<open>Bitget_Ws\<close>: \<open>exchange/bitget_ws.hpp\<close>; a session is a function of what its reads return and when.
    A silent peer is dropped, reconnect waits are bounded.
  \<^item> \<open>Dashboard_Api\<close>, \<open>Tf_Analytics\<close>: \<open>dashboard/\<close>.  No access without the token, the Base64 decoder is
    right although its accumulator wraps, the report per timeframe partitions the trades.
  \<^item> \<open>Main_Program\<close>: \<open>main.cpp\<close>.  \<open>main_startup\<close> is the startup up to serving; \<open>on_signal\<close> joins receiver
    and queue, \<open>main_callbacks\<close> joins engine and dashboard.  The properties here span these parts.
  \<^item> \<open>Backtester\<close> (\<open>backtest/log_parser.hpp\<close>, \<open>backtest/backtester.hpp\<close>; locale \<open>bt_contract\<close> for what a step of the
    replay keeps), \<open>Wf_Optimizer\<close> (\<open>backtest/wf_optimizer.hpp\<close>), \<open>Backtest_Main\<close> (\<open>backtest_main.cpp\<close>).

  \<^bold>\<open>Conventions.\<close>  A class is a record and a method a function that returns the new state; a method
  that holds its mutex throughout is one step.  Clocks, the local time, hash functions, random draws,
  cryptography, the JSON library, files and the answers of the network are arguments.  An exception is the left
  summand.  The iteration order of an unordered map is the order of an association list, which every
  property leaves arbitrary.  \<open>int\<close> values stay \<open>int\<close> where the code cannot reach their bounds; words and
  explicit wrap-around stand where it can (fingerprints, Base64, the counter of the limiter).

  \<^bold>\<open>Bounds and fuel.\<close>  The window loop of the optimizer is a \<open>partial_function\<close> in the option monad,
  since for some parameters it does not end, and the property says for which.  The blocking \<open>acquire\<close> is a function of
  the instants at which it looks.  The retry loops of the clients end by a measure after two
  attempts, the repair of texts by the distance to the end of the text.  \<open>decimals_of\<close> carries the
  bound 10 of the code; \<open>below_one\<close> has fuel 400, more than the decimal exponent of any double.

  \<^bold>\<open>Not modelled.\<close>  Sockets, TLS, threads and their scheduling inside a step (calls into Boost and the
  standard library); log lines; heartbeats and the watchdog, which only write the log; printing of
  the backtest's report, whose figures are the model's values; HTTP headers of the dashboard's answers;
  fused floating-point operations and the sign of zero.  The tests, scripts and
  web pages are not part of the program's logic.  Races between workers on different symbols are
  outside the sequential model of the engine: between its check of the portfolio gate and the
  booking of the position another worker may pass the same check.
\<close>

end
